(* ===== verification/Wasm_Prelude.thy ===== *)
theory Wasm_Prelude
  imports Main "HOL-Library.Word" "HOL-Library.Monad_Syntax"
begin

text \<open>
  Shared vocabulary of the development: the byte and integer types, the result codes of
  the C code, and the objects of C memory. An object (a linear memory, a pool buffer) is
  the list of its bytes; a pointer into it is an \<open>int\<close> offset from its first byte, so
  that a pointer before or behind the object can be formed, as C allows, and a read or
  write through it is \<open>None\<close>: undefined behaviour. All functions that can run into
  undefined behaviour return an option, and the do-notation threads it.
\<close>

section \<open>Types and result codes\<close>

type_synonym byte = "8 word"
type_synonym bytes = "byte list"
type_synonym i32 = "32 word"
type_synonym u64 = "64 word"

text \<open>\<open>int32_t\<close> and \<open>uint32_t\<close> share \<open>i32\<close>; \<open>sint\<close> and \<open>unat\<close> say which one is meant.\<close>

definition ascii :: "string \<Rightarrow> bytes" where
  "ascii s = map of_char s"

abbreviation (input) NGX_OK :: int where "NGX_OK \<equiv> 0"
abbreviation (input) NGX_ERROR :: int where "NGX_ERROR \<equiv> -1"
abbreviation (input) NGX_DECLINED :: int where "NGX_DECLINED \<equiv> -5"

datatype proxy_result =
    PROXY_RESULT_OK
  | PROXY_RESULT_NOT_FOUND
  | PROXY_RESULT_BAD_ARGUMENT
  | PROXY_RESULT_SERIALIZATIONF_AILURE
  | PROXY_RESULT_PARSE_FAILURE
  | PROXY_RESULT_BAD_EXPRESSION
  | PROXY_RESULT_INVALID_MEMORY_ACCESS
  | PROXY_RESULT_EMPTY
  | PROXY_RESULT_CAS_MISMATCH
  | PROXY_RESULT_RESULT_MISMATCH
  | PROXY_RESULT_INTERNAL_FAILURE
  | PROXY_RESULT_BROKEN_CONNECTION
  | PROXY_RESULT_UNIMPLEMENTED

text \<open>A C conversion of \<open>int32_t\<close> to \<open>size_t\<close> sign-extends to 64 bits.\<close>

definition size_of_i32 :: "i32 \<Rightarrow> nat" where
  "size_of_i32 n = unat (scast n :: u64)"

named_theorems mem_simps \<open>reads and writes of C objects\<close>

section \<open>Objects of C memory\<close>

definition in_obj :: "bytes \<Rightarrow> int \<Rightarrow> nat \<Rightarrow> bool" where
  "in_obj m p n \<longleftrightarrow> 0 \<le> p \<and> p + int n \<le> int (length m)"

definition rd :: "bytes \<Rightarrow> int \<Rightarrow> nat \<Rightarrow> bytes option" where
  "rd m p n = (if in_obj m p n then Some (take n (drop (nat p) m)) else None)"

definition wr :: "bytes \<Rightarrow> int \<Rightarrow> bytes \<Rightarrow> bytes option" where
  "wr m p bs =
     (if in_obj m p (length bs)
      then Some (take (nat p) m @ bs @ drop (nat p + length bs) m) else None)"

text \<open>Little-endian 32-bit integers, the layout of every host nginx and a Wasm VM run on.\<close>

definition le32 :: "i32 \<Rightarrow> bytes" where
  "le32 w = [ucast w, ucast (drop_bit 8 w), ucast (drop_bit 16 w), ucast (drop_bit 24 w)]"

fun un_le32 :: "bytes \<Rightarrow> i32" where
  "un_le32 [a, b, c, d] =
     or (ucast a) (or (push_bit 8 (ucast b)) (or (push_bit 16 (ucast c)) (push_bit 24 (ucast d))))"
| "un_le32 _ = 0"

definition rd32 :: "bytes \<Rightarrow> int \<Rightarrow> i32 option" where
  "rd32 m p = map_option un_le32 (rd m p 4)"

definition wr32 :: "bytes \<Rightarrow> int \<Rightarrow> i32 \<Rightarrow> bytes option" where
  "wr32 m p w = wr m p (le32 w)"

subsection \<open>Lemmas\<close>

lemma length_le32 [simp]: "length (le32 w) = 4"
  by (simp add: le32_def)

lemma un_le32_le32 [simp]: "un_le32 (le32 w) = w"
  unfolding le32_def un_le32.simps
  by (rule bit_word_eqI) (auto simp: bit_simps not_less; (rule ccontr, simp))

lemma length_ascii [simp]: "length (ascii s) = length s"
  by (simp add: ascii_def)

lemma in_obj_length: "length m' = length m \<Longrightarrow> in_obj m' p n = in_obj m p n"
  by (simp add: in_obj_def)

lemma in_obj_sub: "in_obj m p n \<Longrightarrow> p \<le> q \<Longrightarrow> q + int k \<le> p + int n \<Longrightarrow> in_obj m q k"
  by (simp add: in_obj_def)

lemma rd_None_iff [mem_simps]: "rd m p n = None \<longleftrightarrow> \<not> in_obj m p n"
  by (simp add: rd_def)

lemma wr_None_iff [mem_simps]: "wr m p bs = None \<longleftrightarrow> \<not> in_obj m p (length bs)"
  by (simp add: wr_def)

lemma rd_SomeD: "rd m p n = Some bs \<Longrightarrow> length bs = n \<and> in_obj m p n"
  by (auto simp: rd_def in_obj_def split: if_splits)

lemma wr_SomeD: "wr m p bs = Some m' \<Longrightarrow> length m' = length m \<and> in_obj m p (length bs)"
  by (auto simp: wr_def in_obj_def split: if_splits)

lemma wr_length: "wr m p bs = Some m' \<Longrightarrow> length m' = length m"
  by (auto dest: wr_SomeD)

lemma rd_in_obj: "in_obj m p n \<Longrightarrow> \<exists>bs. rd m p n = Some bs \<and> length bs = n"
  by (auto simp: rd_def in_obj_def)

lemma wr_in_obj: "in_obj m p (length bs) \<Longrightarrow> \<exists>m'. wr m p bs = Some m' \<and> length m' = length m"
  by (auto simp: wr_def in_obj_def)

lemma rd_zero [simp]: "rd m 0 (length m) = Some m"
  by (simp add: rd_def in_obj_def)

lemma rd_wr_same:
  assumes "wr m p bs = Some m'"
  shows "rd m' p (length bs) = Some bs"
proof -
  from assms have p: "0 \<le> p" and l: "nat p + length bs \<le> length m"
    and m': "m' = take (nat p) m @ bs @ drop (nat p + length bs) m"
    by (auto simp: wr_def in_obj_def split: if_splits)
  have "in_obj m' p (length bs)"
    using assms by (auto dest: wr_SomeD simp: in_obj_def)
  moreover have "take (length bs) (drop (nat p) m') = bs"
    using l by (simp add: m')
  ultimately show ?thesis by (simp add: rd_def)
qed

lemma rd_wr_other:
  assumes w: "wr m p bs = Some m'" and d: "q + int n \<le> p \<or> p + int (length bs) \<le> q"
  shows "rd m' q n = rd m q n"
proof (cases "in_obj m q n")
  case False
  with w show ?thesis by (auto simp: rd_def in_obj_def dest: wr_length)
next
  case True
  from w have p: "0 \<le> p" and l: "nat p + length bs \<le> length m"
    and m': "m' = take (nat p) m @ bs @ drop (nat p + length bs) m"
    by (auto simp: wr_def in_obj_def split: if_splits)
  from True have q: "0 \<le> q" "nat q + n \<le> length m"
    by (auto simp: in_obj_def)
  have "take n (drop (nat q) m') = take n (drop (nat q) m)"
  proof (rule nth_equalityI)
    show len: "length (take n (drop (nat q) m')) = length (take n (drop (nat q) m))"
      using wr_length[OF w] by simp
    fix i assume "i < length (take n (drop (nat q) m'))"
    then have i: "i < n" by simp
    have "m' ! (nat q + i) = m ! (nat q + i)"
      using d i p q l unfolding m' by (auto simp: nth_append)
    then show "take n (drop (nat q) m') ! i = take n (drop (nat q) m) ! i"
      using i q wr_length[OF w] by simp
  qed
  with True w show ?thesis by (auto simp: rd_def in_obj_def dest: wr_length)
qed

lemma rd_split:
  "rd m p (a + b) = do { x \<leftarrow> rd m p a; y \<leftarrow> rd m (p + int a) b; Some (x @ y) }"
  by (auto simp: rd_def in_obj_def take_add nat_add_distrib add.commute)

lemma rd_join:
  "rd m p a = Some x \<Longrightarrow> rd m (p + int a) b = Some y \<Longrightarrow> rd m p (a + b) = Some (x @ y)"
  by (simp add: rd_split)

lemma rd_prefix:
  assumes "rd m p n = Some bs" and "k \<le> n"
  shows "rd m p k = Some (take k bs)"
  using assms by (auto simp: rd_def in_obj_def min_def split: if_splits)

lemma rd32_wr32_same: "wr32 m p w = Some m' \<Longrightarrow> rd32 m' p = Some w"
  using rd_wr_same[of m p "le32 w" m'] by (simp add: rd32_def wr32_def)

lemma rd32_None_iff [mem_simps]: "rd32 m p = None \<longleftrightarrow> \<not> in_obj m p 4"
  by (simp add: rd32_def rd_None_iff)

lemma wr32_None_iff [mem_simps]: "wr32 m p w = None \<longleftrightarrow> \<not> in_obj m p 4"
  by (simp add: wr32_def wr_None_iff)

lemma size_of_i32_eq: "size_of_i32 n = nat (sint n mod 2 ^ 64)"
  unfolding size_of_i32_def scast_eq unat_eq_nat_uint uint_word_of_int by simp

lemma sint_i32_bounds: "- (2 ^ 31) \<le> sint (n :: i32)" "sint (n :: i32) < 2 ^ 31"
  using sint_ge [of n] sint_lt [of n] by simp_all

lemma size_of_i32_nonneg: "0 \<le> sint n \<Longrightarrow> size_of_i32 n = nat (sint n)"
  using sint_i32_bounds [of n] by (simp add: size_of_i32_eq)

lemma size_of_i32_neg:
  assumes "sint n < 0"
  shows "size_of_i32 n = nat (sint n + 2 ^ 64)"
proof -
  have "sint n mod 2 ^ 64 = (sint n + 2 ^ 64) mod 2 ^ 64" by simp
  also have "\<dots> = sint n + 2 ^ 64"
    using assms sint_i32_bounds [of n] by (intro mod_pos_pos_trivial) simp_all
  finally show ?thesis by (simp add: size_of_i32_eq)
qed

lemma sint_add_eq_mod: "sint (a + b :: i32) = (sint a + sint b + 2 ^ 31) mod 2 ^ 32 - 2 ^ 31"
proof -
  have "sint (a + b) = signed_take_bit 31 (sint a + sint b)"
    by (simp add: sint_word_ariths)
  then show ?thesis
    by (simp add: signed_take_bit_eq_take_bit_shift take_bit_eq_mod)
qed

lemma sint_add_i32:
  assumes "- (2 ^ 31) \<le> sint a + sint b" "sint a + sint b < 2 ^ 31"
  shows "sint (a + b :: i32) = sint a + sint b"
  using assms by (simp add: sint_add_eq_mod mod_pos_pos_trivial)

lemma sint_add_i32_over:
  assumes "2 ^ 31 \<le> sint a + sint b"
  shows "sint (a + b :: i32) = sint a + sint b - 2 ^ 32"
proof -
  have "(sint a + sint b + 2 ^ 31) mod 2 ^ 32 = (sint a + sint b + 2 ^ 31 - 2 ^ 32) mod 2 ^ 32"
    by (metis minus_mod_self2)
  also have "\<dots> = sint a + sint b + 2 ^ 31 - 2 ^ 32"
    using assms sint_i32_bounds [of a] sint_i32_bounds [of b] by (intro mod_pos_pos_trivial) simp_all
  finally show ?thesis by (simp add: sint_add_eq_mod)
qed
lemma sint_of_nat_i32:
  assumes "n < 2 ^ 31"
  shows "sint (of_nat n :: i32) = int n"
proof -
  have "sint (of_nat n :: i32) = signed_take_bit 31 (int n)"
    by transfer simp
  also have "\<dots> = int n"
    using assms by (intro signed_take_bit_int_eq_self) simp_all
  finally show ?thesis .
qed

lemma of_nat_i32_inj: "a < 2 ^ 31 \<Longrightarrow> b < 2 ^ 31 \<Longrightarrow> (of_nat a :: i32) = of_nat b \<longleftrightarrow> a = b"
  by (metis of_nat_eq_iff sint_of_nat_i32)

end
