(* ===== verification/Host_State.thy ===== *)
theory Host_State
  imports Wasm_Prelude
begin

text \<open>
  The state the module's C code reads and writes, and the code outside the repository it
  relies on. \<open>host\<close> holds the process-wide data that the functions exported to a plugin
  can reach: the linear memories, the main configuration, the requests, the state records
  of \<^verbatim>\<open>ngx_http_wasm_state.c\<close> and the static variables. \<open>env\<close> is the parameter of the
  model: the guest code of the plugins, the Wasm runtimes, nginx and the FFI functions of
  lua-nginx-module, each as a function of what it is called with.
\<close>

section \<open>Data\<close>

text \<open>
  \<^verbatim>\<open>ngx_str_t\<close>: a length and a pointer, which is NULL or the bytes of the object from the
  pointer on. The length is not tied to the object: reading past it is undefined.
\<close>

record ngx_str =
  str_len :: u64
  str_data :: "bytes option"

definition str_of :: "bytes \<Rightarrow> ngx_str" where
  "str_of bs = \<lparr>str_len = of_nat (length bs), str_data = Some bs\<rparr>"

definition str_null :: ngx_str where
  "str_null = \<lparr>str_len = 0, str_data = None\<rparr>"

text \<open>\<^verbatim>\<open>ngx_table_elt_t\<close>, and \<^verbatim>\<open>ngx_list_t\<close> as its parts in order.\<close>

record table_elt =
  te_hash :: nat
  te_key :: bytes
  te_value :: bytes

type_synonym header_list = "table_elt list list"

text \<open>\<^verbatim>\<open>proxy_wasm_callout_t\<close> of ngx_http_wasm_call.c.\<close>

record proxy_wasm_callout =
  co_timeout_ms :: i32
  co_up :: bytes
  co_map_data :: "bytes option"
  co_body :: "bytes option"

text \<open>
  \<^verbatim>\<open>ngx_http_wasm_ctx_t\<close>, the module's context of a request. Its \<^verbatim>\<open>http_ctxs\<close> array is read
  and written by ngx_http_wasm_module.c only; it is kept in that component's state, under the
  address \<open>wc_addr\<close> of the context.
\<close>

record wasm_ctx =
  wc_addr :: nat
  wc_callout :: "proxy_wasm_callout option"
  wc_callout_id :: i32
  wc_call_resp_headers :: "(bytes \<times> bytes) list"
  wc_call_resp_n_header :: nat
  wc_call_resp_body :: "bytes option"

definition wasm_ctx_zero :: wasm_ctx where
  "wasm_ctx_zero = \<lparr>wc_addr = 0, wc_callout = None, wc_callout_id = 0, wc_call_resp_headers = [],
     wc_call_resp_n_header = 0, wc_call_resp_body = None\<rparr>"

text \<open>The fields of \<^verbatim>\<open>ngx_http_request_t\<close> the module uses.\<close>

record request =
  rq_uri :: bytes
  rq_unparsed_uri :: bytes
  rq_method_name :: bytes
  rq_exten :: bytes
  rq_internal :: bool
  rq_valid_unparsed_uri :: bool
  rq_valid_location :: bool
  rq_uri_changed :: bool
  rq_ssl :: bool
  rq_err_status :: nat
  rq_headers_in :: header_list
  rq_host :: "bytes option"
  rq_status :: nat
  rq_headers_out :: header_list
  rq_content_type :: bytes
  rq_content_length_set :: bool
  rq_content_length_n :: int
  rq_keepalive :: bool
  rq_chunked :: bool
  rq_ctx :: "wasm_ctx option"

text \<open>
  \<^verbatim>\<open>ngx_http_wasm_state_t\<close>. Its body is \<open>None\<close> while the field is uninitialised memory,
  its request and plugin name are pointers that may be NULL.
\<close>

record wasm_state =
  ws_conf :: ngx_str
  ws_body :: "ngx_str option"
  ws_r :: "nat option"
  ws_plugin_name :: "bytes option"

text \<open>
  The host. \<open>h_body\<close> is the body of the local response in the main configuration. Its bytes are
  allocated from the pool of a request, \<open>h_body_pool\<close> (\<open>None\<close> while the pointer is NULL), and
  are freed with it, while the pointer stays in the configuration.
\<close>

record host =
  h_cur_plugin :: "nat option"
  h_mem :: "nat \<Rightarrow> bytes"
  h_code :: i32
  h_body :: ngx_str
  h_body_pool :: "nat option"
  h_requests :: "nat \<Rightarrow> request option"
  h_states :: "nat \<Rightarrow> wasm_state option"
  h_cur_state :: "nat option"
  h_cur_callout_id :: i32
  h_log :: "(nat \<times> bytes) list"
  h_allocs :: nat

section \<open>Code outside the repository\<close>

datatype vm_kind = Wasmtime | Wasmedge

datatype extern_kind = ExternFunc | ExternGlobal | ExternTable | ExternMemory

datatype wasm_val = I32 i32 | I64 u64 | F32 i32 | F64 u64

datatype invoke_result = InvokeError | InvokeOk wasm_val

datatype variable_value = VarNull | VarNotFound | VarValue bytes

text \<open>
  \<open>e_invoke\<close> runs the guest code of an exported function on the given parameters; it may
  change the host state in any way, since guest code may call every host function. The
  functions of nginx and lua-nginx-module read and change the request they are given.
  \<open>e_oom n size\<close> says whether the \<open>n\<close>-th allocation, of \<open>size\<close> bytes, fails.
  \<open>e_strncasecmp\<close>, \<open>e_tolower\<close>, \<open>e_hash_strlow\<close>, \<open>e_atoi\<close>, \<open>e_fmt_uint\<close> (\<^verbatim>\<open>%ui\<close>),
  \<open>e_fmt_off\<close> (\<^verbatim>\<open>%O\<close>), \<open>e_set_exten\<close>, \<open>e_get_variable\<close> and \<open>e_parse_url\<close> are functions of
  nginx; \<open>e_get_phase\<close> to \<open>e_set_variable\<close> are the symbols of lua-nginx-module that
  \<^verbatim>\<open>ngx_http_wasm_resolve_symbol\<close> looks up. \<open>e_we_pointer\<close> is
  \<^verbatim>\<open>WasmEdge_MemoryInstanceGetPointer\<close>, \<open>e_we_get_i32\<close> is \<^verbatim>\<open>WasmEdge_ValueGetI32\<close>.
\<close>

record env =
  e_vm :: vm_kind
  e_export :: "nat \<Rightarrow> string \<Rightarrow> extern_kind option"
  e_invoke :: "nat \<Rightarrow> string \<Rightarrow> i32 list \<Rightarrow> bool \<Rightarrow> host \<Rightarrow> invoke_result \<times> host"
  e_we_pointer :: "bytes \<Rightarrow> i32 \<Rightarrow> i32 \<Rightarrow> int option"
  e_we_get_i32 :: "wasm_val \<Rightarrow> i32"
  e_oom :: "nat \<Rightarrow> nat \<Rightarrow> bool"
  e_strncasecmp :: "bytes \<Rightarrow> bytes \<Rightarrow> nat \<Rightarrow> int"
  e_tolower :: "byte \<Rightarrow> byte"
  e_hash_strlow :: "bytes \<Rightarrow> nat"
  e_atoi :: "bytes \<Rightarrow> int"
  e_fmt_uint :: "nat \<Rightarrow> bytes"
  e_fmt_off :: "int \<Rightarrow> bytes"
  e_set_exten :: "request \<Rightarrow> request"
  e_get_variable :: "bytes \<Rightarrow> nat \<Rightarrow> request \<Rightarrow> variable_value \<times> request"
  e_parse_url :: "bytes \<Rightarrow> int"
  e_get_phase :: "request \<Rightarrow> int"
  e_set_resp_header :: "bytes \<Rightarrow> bool \<Rightarrow> bytes option \<Rightarrow> bool \<Rightarrow> request \<Rightarrow> int \<times> request"
  e_set_resp_status :: "int \<Rightarrow> request \<Rightarrow> int \<times> request"
  e_get_resp_header :: "bytes \<Rightarrow> request \<Rightarrow> int \<times> bytes"
  e_req_headers_count :: "request \<Rightarrow> int"
  e_req_headers :: "int \<Rightarrow> request \<Rightarrow> int \<times> (bytes \<times> bytes) list"
  e_set_req_header :: "bytes \<Rightarrow> bytes option \<Rightarrow> bool \<Rightarrow> request \<Rightarrow> int \<times> request"
  e_set_variable :: "bytes \<Rightarrow> bytes option \<Rightarrow> i32 \<Rightarrow> request \<Rightarrow> int \<times> bytes \<times> request"

text \<open>
  \<^verbatim>\<open>ngx_strlow\<close> lowercases byte by byte. \<^verbatim>\<open>ngx_strncasecmp\<close> of a string with a constant of
  the same length is 0 exactly when they are equal up to case: what the code relies on.
\<close>

definition strlow :: "env \<Rightarrow> bytes \<Rightarrow> bytes" where
  "strlow E bs = map (e_tolower E) bs"

definition strncasecmp_documented :: "env \<Rightarrow> bool" where
  "strncasecmp_documented E \<longleftrightarrow>
     (\<forall>a b. length a = length b \<longrightarrow> 0 \<notin> set b \<longrightarrow>
        (e_strncasecmp E a b (length b) = 0 \<longleftrightarrow> strlow E a = strlow E b))"

text \<open>\<^verbatim>\<open>ngx_palloc\<close>, \<^verbatim>\<open>ngx_calloc\<close> and their kin: whether the allocation succeeds.\<close>

definition try_alloc :: "env \<Rightarrow> nat \<Rightarrow> host \<Rightarrow> bool \<times> host" where
  "try_alloc E sz w = (\<not> e_oom E (h_allocs w) sz, w\<lparr>h_allocs := Suc (h_allocs w)\<rparr>)"

text \<open>The bytes of the local response's body are freed memory: their request is gone.\<close>

definition local_body_dangles :: "host \<Rightarrow> bool" where
  "local_body_dangles w \<longleftrightarrow>
     (case h_body_pool w of None \<Rightarrow> False | Some r \<Rightarrow> h_requests w r = None)"

text \<open>The request a pointer leads to; a pointer to a request that is gone is undefined.\<close>

definition upd_request :: "nat \<Rightarrow> (request \<Rightarrow> request) \<Rightarrow> host \<Rightarrow> host option" where
  "upd_request r f w =
     do { rq \<leftarrow> h_requests w r; Some (w\<lparr>h_requests := (h_requests w)(r \<mapsto> f rq)\<rparr>) }"

section \<open>The linear memory of the current plugin\<close>

definition guest_rd :: "host \<Rightarrow> int \<Rightarrow> nat \<Rightarrow> bytes option" where
  "guest_rd w p n = do { pl \<leftarrow> h_cur_plugin w; rd (h_mem w pl) p n }"

definition guest_mem :: "host \<Rightarrow> bytes option" where
  "guest_mem w = map_option (h_mem w) (h_cur_plugin w)"

definition set_guest_mem :: "bytes \<Rightarrow> host \<Rightarrow> host option" where
  "set_guest_mem m w =
     do { pl \<leftarrow> h_cur_plugin w; Some (w\<lparr>h_mem := (h_mem w)(pl := m)\<rparr>) }"

definition guest_wr :: "host \<Rightarrow> int \<Rightarrow> bytes \<Rightarrow> host option" where
  "guest_wr w p bs =
     do { m \<leftarrow> guest_mem w; m' \<leftarrow> wr m p bs; set_guest_mem m' w }"

lemma guest_wr_Some:
  "guest_wr w p bs = Some w' \<longleftrightarrow>
     (\<exists>pl m'. h_cur_plugin w = Some pl \<and> wr (h_mem w pl) p bs = Some m' \<and>
        w' = w\<lparr>h_mem := (h_mem w)(pl := m')\<rparr>)"
  by (auto simp: guest_wr_def guest_mem_def set_guest_mem_def bind_eq_Some_conv)

lemma guest_wr_frame:
  assumes "guest_wr w p bs = Some w'"
  shows "h_cur_plugin w' = h_cur_plugin w" "h_code w' = h_code w" "h_body w' = h_body w"
    "h_requests w' = h_requests w" "h_states w' = h_states w" "h_cur_state w' = h_cur_state w"
    "h_cur_callout_id w' = h_cur_callout_id w" "h_log w' = h_log w" "h_allocs w' = h_allocs w"
    "h_body_pool w' = h_body_pool w"
  using assms by (auto simp: guest_wr_Some)

lemma guest_rd_wr_same: "guest_wr w p bs = Some w' \<Longrightarrow> guest_rd w' p (length bs) = Some bs"
  by (auto simp: guest_wr_Some guest_rd_def dest: rd_wr_same)

lemma guest_rd_wr_other:
  "guest_wr w p bs = Some w' \<Longrightarrow> q + int n \<le> p \<or> p + int (length bs) \<le> q \<Longrightarrow>
     guest_rd w' q n = guest_rd w q n"
  by (auto simp: guest_wr_Some guest_rd_def dest: rd_wr_other)

lemma guest_wr_None:
  "guest_wr w p bs = None \<longleftrightarrow>
     (\<forall>pl. h_cur_plugin w = Some pl \<longrightarrow> \<not> in_obj (h_mem w pl) p (length bs))"
  by (cases "h_cur_plugin w")
    (auto simp: guest_wr_def guest_mem_def set_guest_mem_def wr_None_iff bind_eq_None_conv)

end
