(* ===== verification/Sample_Env.thy ===== *)
theory Sample_Env
  imports Host_State
begin

text \<open>
  A concrete environment, with which the properties are shown to apply: every allocation
  succeeds, every plugin exports the hooks and its memory, its guest code returns 1 and
  changes nothing, and the functions of nginx and lua-nginx-module are simple total ones.
\<close>

definition sample_request :: request where
  "sample_request = \<lparr>rq_uri = ascii ''/u'', rq_unparsed_uri = ascii ''/u?a=1'',
     rq_method_name = ascii ''GET'', rq_exten = [], rq_internal = False,
     rq_valid_unparsed_uri = True, rq_valid_location = True, rq_uri_changed = False,
     rq_ssl = False, rq_err_status = 0,
     rq_headers_in = [[\<lparr>te_hash = 1, te_key = ascii ''Host'', te_value = ascii ''h''\<rparr>]],
     rq_host = Some (ascii ''h''), rq_status = 200, rq_headers_out = [[]],
     rq_content_type = [], rq_content_length_set = False, rq_content_length_n = -1,
     rq_keepalive = True, rq_chunked = False, rq_ctx = Some wasm_ctx_zero\<rparr>"

definition sample_tolower :: "byte \<Rightarrow> byte" where
  "sample_tolower b = (if 65 \<le> b \<and> b \<le> 90 then b + 32 else b)"

definition sample_env :: env where
  "sample_env = \<lparr>e_vm = Wasmtime,
     e_export = (\<lambda>pl name. if name = ''memory'' then Some ExternMemory else Some ExternFunc),
     e_invoke = (\<lambda>pl name args hr w. (InvokeOk (I32 1), w)),
     e_we_pointer = (\<lambda>m addr sz. if length m < unat addr + unat sz then None else Some (uint addr)),
     e_we_get_i32 = (\<lambda>v. case v of I32 x \<Rightarrow> x | _ \<Rightarrow> 0),
     e_oom = (\<lambda>n sz. False),
     e_strncasecmp = (\<lambda>a b n. if map sample_tolower (take n a) = map sample_tolower (take n b) then 0 else 1),
     e_tolower = sample_tolower,
     e_hash_strlow = length,
     e_atoi = (\<lambda>b. int (length b)),
     e_fmt_uint = (\<lambda>n. [of_nat n]),
     e_fmt_off = (\<lambda>n. [of_int n]),
     e_set_exten = (\<lambda>rq. rq),
     e_get_variable = (\<lambda>name h rq. (VarNotFound, rq)),
     e_parse_url = (\<lambda>u. 0),
     e_get_phase = (\<lambda>rq. 0),
     e_set_resp_header = (\<lambda>k nul v ov rq. (0, rq)),
     e_set_resp_status = (\<lambda>st rq. (0, rq\<lparr>rq_status := nat st\<rparr>)),
     e_get_resp_header = (\<lambda>k rq. (0, [])),
     e_req_headers_count = (\<lambda>rq. int (length (concat (rq_headers_in rq)))),
     e_req_headers = (\<lambda>n rq. (0, take (nat n) (map (\<lambda>h. (te_key h, te_value h)) (concat (rq_headers_in rq))))),
     e_set_req_header = (\<lambda>k v ov rq. (0, rq)),
     e_set_variable = (\<lambda>k v len rq. (0, [], rq))\<rparr>"

definition sample_host :: host where
  "sample_host = \<lparr>h_cur_plugin = None, h_mem = (\<lambda>_. []), h_code = 0, h_body = str_null, h_body_pool = None,
     h_requests = [7 \<mapsto> sample_request], h_states = (\<lambda>_. None), h_cur_state = None,
     h_cur_callout_id = 0, h_log = [], h_allocs = 0\<rparr>"

definition sample_state :: wasm_state where
  "sample_state = \<lparr>ws_conf = str_of [1], ws_body = Some str_null, ws_r = Some 7,
     ws_plugin_name = Some (ascii ''p'')\<rparr>"

text \<open>The same host while plugin 0 runs, with a linear memory of 64 bytes.\<close>

definition running_host :: host where
  "running_host = sample_host\<lparr>h_cur_plugin := Some 0, h_mem := \<lambda>_. replicate 64 0\<rparr>"

lemma running_host_simps:
  "h_cur_plugin running_host = Some 0" "h_mem running_host pl = replicate 64 0"
  by (simp_all add: running_host_def)

end
