(* ===== verification/VM.thy ===== *)
theory VM
  imports Sample_Env
begin

text \<open>
  src/vm: the interface \<^verbatim>\<open>ngx_wasm_vm_t\<close> and its two implementations, as far as they run
  guest code and give access to its memory, and src/proxy_wasm/proxy_wasm_memory.c. The
  locale \<open>vm_memory\<close> is the contract of \<^verbatim>\<open>get_memory\<close> that vm.h states.
\<close>

section \<open>Selecting the runtime (vm.c)\<close>

text \<open>
  The pointer \<^verbatim>\<open>ngx_wasm_vm\<close> before and after \<^verbatim>\<open>ngx_wasm_vm_init\<close>; \<open>have_wasmedge\<close> is the
  build option \<^verbatim>\<open>NGX_WASM_HAVE_WASMEDGE\<close>. The two \<^verbatim>\<open>init\<close> and \<^verbatim>\<open>cleanup\<close> operations only log.
\<close>

definition ngx_wasm_wasmtime_init :: int where
  "ngx_wasm_wasmtime_init = NGX_OK"

definition ngx_wasm_wasmedge_init :: int where
  "ngx_wasm_wasmedge_init = NGX_OK"

definition ngx_wasm_vm_init :: "bool \<Rightarrow> bytes \<Rightarrow> vm_kind option \<Rightarrow> int \<times> vm_kind option" where
  "ngx_wasm_vm_init have_wasmedge name vm =
     (let vm = (if name = ascii ''wasmtime'' then Some Wasmtime
                else if have_wasmedge \<and> name = ascii ''wasmedge'' then Some Wasmedge
                else vm)
      in case vm of
           None \<Rightarrow> (NGX_ERROR, None)
         | Some Wasmtime \<Rightarrow> (ngx_wasm_wasmtime_init, vm)
         | Some Wasmedge \<Rightarrow> (ngx_wasm_wasmedge_init, vm))"

section \<open>get_memory\<close>

text \<open>
  \<^verbatim>\<open>addr + size\<close> is an \<^verbatim>\<open>int32_t\<close> sum (it wraps), converted to \<^verbatim>\<open>size_t\<close> for the comparison;
  the result is the base of the linear memory plus the signed \<^verbatim>\<open>addr\<close>.
\<close>

definition wasmtime_pointer :: "bytes \<Rightarrow> i32 \<Rightarrow> i32 \<Rightarrow> int option" where
  "wasmtime_pointer m addr sz =
     (let bound = length m in
      if bound < size_of_i32 (addr + sz) then None else Some (sint addr))"

definition ngx_wasm_wasmtime_get_memory :: "i32 \<Rightarrow> i32 \<Rightarrow> host \<Rightarrow> int option option" where
  "ngx_wasm_wasmtime_get_memory addr sz w =
     do { cur \<leftarrow> h_cur_plugin w; Some (wasmtime_pointer (h_mem w cur) addr sz) }"

definition ngx_wasm_wasmedge_get_memory :: "env \<Rightarrow> i32 \<Rightarrow> i32 \<Rightarrow> host \<Rightarrow> int option option" where
  "ngx_wasm_wasmedge_get_memory E addr sz w =
     do { cur \<leftarrow> h_cur_plugin w; Some (e_we_pointer E (h_mem w cur) addr sz) }"

definition vm_get_memory :: "env \<Rightarrow> i32 \<Rightarrow> i32 \<Rightarrow> host \<Rightarrow> int option option" where
  "vm_get_memory E addr sz w =
     (case e_vm E of
        Wasmtime \<Rightarrow> ngx_wasm_wasmtime_get_memory addr sz w
      | Wasmedge \<Rightarrow> ngx_wasm_wasmedge_get_memory E addr sz w)"

section \<open>call and has\<close>

text \<open>\<^verbatim>\<open>NGX_WASM_PARAM_VOID\<close> to \<^verbatim>\<open>NGX_WASM_PARAM_I32_I32_I32_I32_I32\<close> are 1 to 6.\<close>

definition param_num :: "nat \<Rightarrow> nat option" where
  "param_num param_type = (if 1 \<le> param_type \<and> param_type \<le> 6 then Some (param_type - 1) else None)"

abbreviation (input) NGX_WASM_PARAM_VOID :: nat where "NGX_WASM_PARAM_VOID \<equiv> 1"
abbreviation (input) NGX_WASM_PARAM_I32 :: nat where "NGX_WASM_PARAM_I32 \<equiv> 2"
abbreviation (input) NGX_WASM_PARAM_I32_I32 :: nat where "NGX_WASM_PARAM_I32_I32 \<equiv> 3"
abbreviation (input) NGX_WASM_PARAM_I32_I32_I32 :: nat where "NGX_WASM_PARAM_I32_I32_I32 \<equiv> 4"
abbreviation (input) NGX_WASM_PARAM_I32_I32_I32_I32 :: nat where
  "NGX_WASM_PARAM_I32_I32_I32_I32 \<equiv> 5"
abbreviation (input) NGX_WASM_PARAM_I32_I32_I32_I32_I32 :: nat where
  "NGX_WASM_PARAM_I32_I32_I32_I32_I32 \<equiv> 6"

definition ngx_wasm_wasmtime_has :: "env \<Rightarrow> nat \<Rightarrow> string \<Rightarrow> bool" where
  "ngx_wasm_wasmtime_has E plugin name = (e_export E plugin name \<noteq> None)"

definition ngx_wasm_wasmedge_has :: "env \<Rightarrow> nat \<Rightarrow> string \<Rightarrow> bool" where
  "ngx_wasm_wasmedge_has E plugin name = (e_export E plugin name = Some ExternFunc)"

definition vm_has :: "env \<Rightarrow> nat \<Rightarrow> string \<Rightarrow> bool" where
  "vm_has E plugin name =
     (case e_vm E of
        Wasmtime \<Rightarrow> ngx_wasm_wasmtime_has E plugin name
      | Wasmedge \<Rightarrow> ngx_wasm_wasmedge_has E plugin name)"

text \<open>
  The static \<^verbatim>\<open>cur_plugin\<close> is the default for a NULL plugin and is set by a plugin that is
  given. wasmtime's lookup finds an export of any kind and the code reads the union as a
  function without looking at the kind, which is undefined for another kind of export.
\<close>

definition select_plugin :: "nat option \<Rightarrow> host \<Rightarrow> nat option \<times> host" where
  "select_plugin data w =
     (case data of
        None \<Rightarrow> (h_cur_plugin w, w)
      | Some plugin \<Rightarrow> (Some plugin, w\<lparr>h_cur_plugin := Some plugin\<rparr>))"

definition ngx_wasm_wasmtime_call ::
  "env \<Rightarrow> nat option \<Rightarrow> string \<Rightarrow> bool \<Rightarrow> nat \<Rightarrow> i32 list \<Rightarrow> host \<Rightarrow> (int \<times> host) option" where
  "ngx_wasm_wasmtime_call E data name has_result param_type args w =
     (case select_plugin data w of
        (None, w) \<Rightarrow> None
      | (Some plugin, w) \<Rightarrow>
          (case e_export E plugin name of
             None \<Rightarrow> Some (NGX_OK, w)
           | Some kind \<Rightarrow>
               (case param_num param_type of
                  None \<Rightarrow> Some (NGX_ERROR, w)
                | Some n \<Rightarrow>
                    if length args < n \<or> kind \<noteq> ExternFunc then None
                    else case e_invoke E plugin name (take n args) has_result w of
                           (InvokeError, w') \<Rightarrow> Some (NGX_ERROR, w')
                         | (InvokeOk v, w') \<Rightarrow>
                             if \<not> has_result then Some (NGX_OK, w')
                             else (case v of
                                     I32 x \<Rightarrow> Some (sint x, w')
                                   | _ \<Rightarrow> Some (NGX_ERROR, w')))))"

definition ngx_wasm_wasmedge_call ::
  "env \<Rightarrow> nat option \<Rightarrow> string \<Rightarrow> bool \<Rightarrow> nat \<Rightarrow> i32 list \<Rightarrow> host \<Rightarrow> (int \<times> host) option" where
  "ngx_wasm_wasmedge_call E data name has_result param_type args w =
     (case select_plugin data w of
        (None, w) \<Rightarrow> None
      | (Some plugin, w) \<Rightarrow>
          if \<not> ngx_wasm_wasmedge_has E plugin name then Some (NGX_OK, w)
          else case param_num param_type of
                 None \<Rightarrow> Some (NGX_ERROR, w)
               | Some n \<Rightarrow>
                   if length args < n then None
                   else case e_invoke E plugin name (take n args) has_result w of
                          (InvokeError, w') \<Rightarrow> Some (NGX_ERROR, w')
                        | (InvokeOk v, w') \<Rightarrow>
                            if \<not> has_result then Some (NGX_OK, w')
                            else Some (sint (e_we_get_i32 E v), w'))"

definition vm_call ::
  "env \<Rightarrow> nat option \<Rightarrow> string \<Rightarrow> bool \<Rightarrow> nat \<Rightarrow> i32 list \<Rightarrow> host \<Rightarrow> (int \<times> host) option" where
  "vm_call E data name has_result param_type args w =
     (case e_vm E of
        Wasmtime \<Rightarrow> ngx_wasm_wasmtime_call E data name has_result param_type args w
      | Wasmedge \<Rightarrow> ngx_wasm_wasmedge_call E data name has_result param_type args w)"

section \<open>proxy_wasm_memory_alloc\<close>

definition proxy_wasm_memory_alloc :: "env \<Rightarrow> i32 \<Rightarrow> host \<Rightarrow> (i32 \<times> host) option" where
  "proxy_wasm_memory_alloc E sz w =
     do { (rc, w) \<leftarrow> vm_call E None ''proxy_on_memory_allocate'' True NGX_WASM_PARAM_I32 [sz] w;
          let addr = (word_of_int rc :: i32);
          if addr = 0
          then do { (rc, w) \<leftarrow> vm_call E None ''malloc'' True NGX_WASM_PARAM_I32 [sz] w;
                    Some (word_of_int rc, w) }
          else Some (addr, w) }"

section \<open>The contract of get_memory\<close>

text \<open>
  vm.h: \<^verbatim>\<open>get_memory\<close> returns a pointer to the given address and NULL if address plus size is
  out of bounds. The law is claimed for addresses and sizes that are not negative as
  \<^verbatim>\<open>int32_t\<close> and for memories of a 32-bit Wasm instance, at most 4 GiB; the theorems about
  negative ones are below.
\<close>

definition wasm32_mem :: "bytes \<Rightarrow> bool" where
  "wasm32_mem m \<longleftrightarrow> length m \<le> 2 ^ 32"

locale vm_memory =
  fixes get :: "bytes \<Rightarrow> i32 \<Rightarrow> i32 \<Rightarrow> int option"
  assumes get_sound:
    "wasm32_mem m \<Longrightarrow> 0 \<le> sint addr \<Longrightarrow> 0 \<le> sint sz \<Longrightarrow> get m addr sz = Some p \<Longrightarrow>
       p = sint addr \<and> sint addr + sint sz \<le> int (length m)"
    and get_complete:
    "0 \<le> sint addr \<Longrightarrow> 0 \<le> sint sz \<Longrightarrow> sint addr + sint sz \<le> int (length m) \<Longrightarrow>
       sint addr + sint sz < 2 ^ 31 \<Longrightarrow> get m addr sz = Some (sint addr)"
begin

lemma get_in_obj:
  assumes "wasm32_mem m" "0 \<le> sint addr" "0 \<le> sint sz" "get m addr sz = Some p"
    "n \<le> nat (sint sz)"
  shows "in_obj m p n"
proof -
  from get_sound [OF assms(1-4)] have "p = sint addr" "sint addr + sint sz \<le> int (length m)"
    by simp_all
  moreover from assms(3,5) have "int n \<le> sint sz" by simp
  ultimately show ?thesis using assms(2) by (simp add: in_obj_def)
qed

lemma get_rd:
  assumes "wasm32_mem m" "0 \<le> sint addr" "0 \<le> sint sz" "get m addr sz = Some p"
    "n \<le> nat (sint sz)"
  shows "\<exists>bs. rd m p n = Some bs \<and> length bs = n"
  using get_in_obj [OF assms] by (rule rd_in_obj)

lemma get_wr:
  assumes "wasm32_mem m" "0 \<le> sint addr" "0 \<le> sint sz" "get m addr sz = Some p"
    "length bs \<le> nat (sint sz)"
  shows "\<exists>m'. wr m p bs = Some m' \<and> length m' = length m"
  using get_in_obj [OF assms] by (rule wr_in_obj)

lemma get_None:
  assumes "wasm32_mem m" "0 \<le> sint addr" "0 \<le> sint sz"
    "int (length m) < sint addr + sint sz"
  shows "get m addr sz = None"
proof (cases "get m addr sz")
  case (Some p)
  with get_sound [OF assms(1-3)] assms(4) show ?thesis by fastforce
qed

end

lemma wasmtime_pointer_nonneg:
  assumes m: "wasm32_mem m" and a: "0 \<le> sint addr" and z: "0 \<le> sint sz"
  shows "wasmtime_pointer m addr sz =
    (if sint addr + sint sz \<le> int (length m) \<and> sint addr + sint sz < 2 ^ 31
     then Some (sint addr) else None)"
proof (cases "sint addr + sint sz < 2 ^ 31")
  case True
  with a z have s: "sint (addr + sz) = sint addr + sint sz" by (intro sint_add_i32) simp_all
  then have "size_of_i32 (addr + sz) = nat (sint addr + sint sz)"
    using a z by (simp add: size_of_i32_nonneg)
  with True a z show ?thesis by (auto simp: wasmtime_pointer_def)
next
  case False
  then have "sint (addr + sz) = sint addr + sint sz - 2 ^ 32" by (intro sint_add_i32_over) simp
  then have "sint (addr + sz) < 0" and "- (2 ^ 31) \<le> sint (addr + sz)"
    using sint_i32_bounds [of addr] sint_i32_bounds [of sz] sint_i32_bounds [of "addr + sz"]
    by simp_all
  then have "2 ^ 63 \<le> size_of_i32 (addr + sz)"
    by (simp add: size_of_i32_neg)
  with m have "length m < size_of_i32 (addr + sz)"
    by (simp add: wasm32_mem_def)
  with False show ?thesis by (simp add: wasmtime_pointer_def)
qed

lemma wasmtime_pointer_sum:
  assumes m: "wasm32_mem m"
  shows "wasmtime_pointer m addr sz =
    (if 0 \<le> sint (addr + sz) \<and> sint (addr + sz) \<le> int (length m) then Some (sint addr) else None)"
proof (cases "0 \<le> sint (addr + sz)")
  case True
  then show ?thesis by (auto simp: wasmtime_pointer_def size_of_i32_nonneg)
next
  case False
  then have "2 ^ 63 \<le> size_of_i32 (addr + sz)"
    using sint_i32_bounds [of "addr + sz"] by (simp add: size_of_i32_neg)
  with m False show ?thesis by (simp add: wasmtime_pointer_def wasm32_mem_def)
qed

interpretation wt: vm_memory wasmtime_pointer
proof unfold_locales
  fix m :: bytes and addr sz :: i32 and p
  assume "wasm32_mem m" "0 \<le> sint addr" "0 \<le> sint sz" "wasmtime_pointer m addr sz = Some p"
  then show "p = sint addr \<and> sint addr + sint sz \<le> int (length m)"
    by (simp add: wasmtime_pointer_nonneg split: if_splits)
next
  fix m :: bytes and addr sz :: i32
  assume "0 \<le> sint addr" "0 \<le> sint sz" "sint addr + sint sz \<le> int (length m)"
    "sint addr + sint sz < 2 ^ 31"
  then show "wasmtime_pointer m addr sz = Some (sint addr)"
    by (simp add: wasmtime_pointer_def size_of_i32_nonneg sint_add_i32)
qed

text \<open>
  The pointer function of the selected runtime. For WasmEdge it is the parameter
  \<open>e_we_pointer\<close>, of which the comment in wasmedge.c documents that it returns NULL where
  offset plus length is larger than the memory; then it has the same contract.
\<close>

definition vm_pointer :: "env \<Rightarrow> bytes \<Rightarrow> i32 \<Rightarrow> i32 \<Rightarrow> int option" where
  "vm_pointer E = (case e_vm E of Wasmtime \<Rightarrow> wasmtime_pointer | Wasmedge \<Rightarrow> e_we_pointer E)"

definition wasmedge_pointer_documented :: "env \<Rightarrow> bool" where
  "wasmedge_pointer_documented E \<longleftrightarrow>
     (\<forall>m addr sz. e_we_pointer E m addr sz =
        (if length m < unat addr + unat sz then None else Some (uint addr)))"

definition vm_documented :: "env \<Rightarrow> bool" where
  "vm_documented E \<longleftrightarrow> e_vm E = Wasmtime \<or> wasmedge_pointer_documented E"

lemma vm_get_memory_eq:
  "vm_get_memory E addr sz w = do { cur \<leftarrow> h_cur_plugin w; Some (vm_pointer E (h_mem w cur) addr sz) }"
  by (simp add: vm_get_memory_def vm_pointer_def ngx_wasm_wasmtime_get_memory_def
      ngx_wasm_wasmedge_get_memory_def split: vm_kind.split)

lemma uint_eq_sint_i32: "0 \<le> sint (a :: i32) \<Longrightarrow> uint a = sint a"
  using sint_i32_bounds [of a] by (simp add: uint_sint take_bit_eq_mod)

lemma unat_eq_sint_i32: "0 \<le> sint (a :: i32) \<Longrightarrow> unat a = nat (sint a)"
  unfolding unat_eq_nat_uint by (simp only: uint_eq_sint_i32)

lemma vm_memory_documented:
  assumes "vm_documented E"
  shows "vm_memory (vm_pointer E)"
proof (cases "e_vm E")
  case Wasmtime
  then show ?thesis by (simp add: vm_pointer_def wt.vm_memory_axioms)
next
  case Wasmedge
  with assms have "\<And>m addr sz. vm_pointer E m addr sz =
      (if length m < unat addr + unat sz then None else Some (uint addr))"
    by (simp add: vm_documented_def wasmedge_pointer_documented_def vm_pointer_def)
  then show ?thesis
    by unfold_locales (auto simp: uint_eq_sint_i32 unat_eq_sint_i32 split: if_splits)
qed

lemma wasm32_wr: "wr m p bs = Some m' \<Longrightarrow> wasm32_mem m \<Longrightarrow> wasm32_mem m'"
  by (simp add: wasm32_mem_def wr_length)

section \<open>Running guest code\<close>

text \<open>
  The step both runtimes take once the plugin and the function are known; \<open>vm_result\<close> is
  the conversion of what the guest returned to the \<^verbatim>\<open>ngx_int_t\<close> of \<^verbatim>\<open>call\<close>.
\<close>

definition vm_result :: "env \<Rightarrow> bool \<Rightarrow> invoke_result \<Rightarrow> int" where
  "vm_result E has_result r =
     (case r of
        InvokeError \<Rightarrow> NGX_ERROR
      | InvokeOk v \<Rightarrow>
          if \<not> has_result then NGX_OK
          else (case e_vm E of
                  Wasmtime \<Rightarrow> (case v of I32 x \<Rightarrow> sint x | _ \<Rightarrow> NGX_ERROR)
                | Wasmedge \<Rightarrow> sint (e_we_get_i32 E v)))"

lemma vm_call_func:
  assumes "e_export E plugin name = Some ExternFunc" "param_num pt = Some n" "n \<le> length args"
  shows "vm_call E (Some plugin) name hr pt args w =
    (case e_invoke E plugin name (take n args) hr (w\<lparr>h_cur_plugin := Some plugin\<rparr>) of
       (r, w') \<Rightarrow> Some (vm_result E hr r, w'))"
  using assms
  by (auto simp: vm_call_def ngx_wasm_wasmtime_call_def ngx_wasm_wasmedge_call_def select_plugin_def
      ngx_wasm_wasmedge_has_def vm_result_def split: vm_kind.split invoke_result.split wasm_val.split
      prod.split)

lemma vm_call_cur_func:
  assumes "h_cur_plugin w = Some plugin" "e_export E plugin name = Some ExternFunc"
    "param_num pt = Some n" "n \<le> length args"
  shows "vm_call E None name hr pt args w =
    (case e_invoke E plugin name (take n args) hr w of (r, w') \<Rightarrow> Some (vm_result E hr r, w'))"
  using assms
  by (auto simp: vm_call_def ngx_wasm_wasmtime_call_def ngx_wasm_wasmedge_call_def select_plugin_def
      ngx_wasm_wasmedge_has_def vm_result_def split: vm_kind.split invoke_result.split wasm_val.split
      prod.split)

lemma vm_call_missing:
  assumes "e_export E plugin name = None"
  shows "vm_call E (Some plugin) name hr pt args w = Some (NGX_OK, w\<lparr>h_cur_plugin := Some plugin\<rparr>)"
  using assms
  by (simp add: vm_call_def ngx_wasm_wasmtime_call_def ngx_wasm_wasmedge_call_def select_plugin_def
      ngx_wasm_wasmedge_has_def split: vm_kind.split)

lemma vm_call_cur_missing:
  assumes "h_cur_plugin w = Some plugin" "e_export E plugin name = None"
  shows "vm_call E None name hr pt args w = Some (NGX_OK, w)"
  using assms
  by (simp add: vm_call_def ngx_wasm_wasmtime_call_def ngx_wasm_wasmedge_call_def select_plugin_def
      ngx_wasm_wasmedge_has_def split: vm_kind.split)

lemma param_num_simps [simp]:
  "param_num 1 = Some 0" "param_num (Suc 0) = Some 0" "param_num 2 = Some 1" "param_num 3 = Some 2"
  "param_num 4 = Some 3" "param_num 5 = Some 4" "param_num 6 = Some 5"
  by (simp_all add: param_num_def)

section \<open>Properties\<close>

text \<open>
  C5. \<^verbatim>\<open>get_memory\<close> of the wasmtime runtime (vm.h, wasmtime.c) judges a range by the 32-bit sum
  of address and size alone: it returns the address as an offset exactly when the sum, read as
  \<^verbatim>\<open>int32_t\<close>, is not negative and at most the size of the linear memory, and NULL otherwise. For
  an address and a size that are not negative this means: a range outside the memory is
  refused, and so is one inside it whose end reaches 2 GiB; every other range is accepted, and
  each of its bytes can then be read and written. What the sum means for a negative address is
  C16.
\<close>

theorem get_memory_in_bounds:
  assumes "e_vm E = Wasmtime" "h_cur_plugin w = Some pl" "wasm32_mem (h_mem w pl)"
  shows "vm_get_memory E addr sz w =
      Some (if 0 \<le> sint (addr + sz) \<and> sint (addr + sz) \<le> int (length (h_mem w pl))
            then Some (sint addr) else None) \<and>
    (0 \<le> sint addr \<and> 0 \<le> sint sz \<longrightarrow>
      (vm_get_memory E addr sz w = Some (Some (sint addr)) \<longleftrightarrow>
         sint addr + sint sz \<le> int (length (h_mem w pl)) \<and> sint addr + sint sz < 2 ^ 31) \<and>
      (vm_get_memory E addr sz w = Some (Some (sint addr)) \<and> length bs = nat (sint sz) \<longrightarrow>
         guest_rd w (sint addr) (nat (sint sz)) \<noteq> None \<and> guest_wr w (sint addr) bs \<noteq> None))"
proof -
  have eq: "vm_get_memory E addr sz w = Some (wasmtime_pointer (h_mem w pl) addr sz)"
    using assms(1,2) by (simp add: vm_get_memory_eq vm_pointer_def)
  have "guest_rd w (sint addr) (nat (sint sz)) \<noteq> None \<and> guest_wr w (sint addr) bs \<noteq> None"
    if "0 \<le> sint addr" "0 \<le> sint sz" "wasmtime_pointer (h_mem w pl) addr sz = Some (sint addr)"
      "length bs = nat (sint sz)"
    using wt.get_in_obj [OF assms(3) that(1-3), of "nat (sint sz)"] assms(2) that(4)
    by (simp add: guest_rd_def rd_None_iff guest_wr_None)
  moreover have "wasmtime_pointer (h_mem w pl) addr sz = Some (sint addr) \<longleftrightarrow>
      sint addr + sint sz \<le> int (length (h_mem w pl)) \<and> sint addr + sint sz < 2 ^ 31"
    if "0 \<le> sint addr" "0 \<le> sint sz"
    by (simp add: wasmtime_pointer_nonneg [OF assms(3) that])
  moreover have "vm_get_memory E addr sz w = Some (if 0 \<le> sint (addr + sz) \<and>
      sint (addr + sz) \<le> int (length (h_mem w pl)) then Some (sint addr) else None)"
    by (simp only: eq wasmtime_pointer_sum [OF assms(3)])
  ultimately show ?thesis unfolding eq by blast
qed

theorem get_memory_in_bounds_witness: "vm_get_memory sample_env 8 16 running_host = Some (Some 8)"
  using get_memory_in_bounds [of sample_env running_host 0 8 16 "replicate 16 0"]
  by (simp add: running_host_simps wasm32_mem_def sample_env_def)

text \<open>
  C16. The check of wasmtime.c looks at the sum only. An address that is negative as
  \<^verbatim>\<open>int32_t\<close> (a guest pointer of 2 GiB or more) passes it when the sum with the size is
  inside the memory, and the pointer returned lies before the linear memory: every access
  through it is outside the sandbox, although vm.h promises NULL for a range out of bounds.
\<close>

theorem get_memory_negative_addr_escapes:
  assumes "h_cur_plugin w = Some pl" "sint addr < 0" "0 \<le> sint addr + sint sz"
    "sint addr + sint sz \<le> int (length (h_mem w pl))"
  shows "ngx_wasm_wasmtime_get_memory addr sz w = Some (Some (sint addr)) \<and>
    guest_rd w (sint addr) n = None \<and> guest_wr w (sint addr) bs = None"
proof -
  have "sint (addr + sz) = sint addr + sint sz"
    using assms(2,3) sint_i32_bounds [of sz] by (intro sint_add_i32) simp_all
  then have "size_of_i32 (addr + sz) = nat (sint addr + sint sz)"
    using assms(3) by (simp add: size_of_i32_nonneg)
  then have "wasmtime_pointer (h_mem w pl) addr sz = Some (sint addr)"
    using assms(3,4) by (simp add: wasmtime_pointer_def)
  with assms(1,2) show ?thesis
    by (simp add: ngx_wasm_wasmtime_get_memory_def guest_rd_def rd_None_iff guest_wr_None in_obj_def)
qed

theorem get_memory_negative_addr_escapes_witness:
  "ngx_wasm_wasmtime_get_memory (-8) 16 running_host = Some (Some (-8)) \<and> guest_rd running_host (-8) 1 = None"
  using get_memory_negative_addr_escapes [of running_host 0 "-8" 16 1 "[]"]
  by (simp add: running_host_simps)

text \<open>
  The answer of one of the two allocation functions of the plugin, 0 when it is not exported.
\<close>

definition alloc_answer :: "env \<Rightarrow> nat \<Rightarrow> string \<Rightarrow> i32 \<Rightarrow> host \<Rightarrow> i32 \<times> host" where
  "alloc_answer E pl name sz w =
     (case e_export E pl name of
        None \<Rightarrow> (0, w)
      | Some _ \<Rightarrow> (case e_invoke E pl name [sz] True w of
                    (r, w') \<Rightarrow> (word_of_int (vm_result E True r), w')))"

text \<open>
  \<^verbatim>\<open>proxy_wasm_memory_alloc\<close> (proxy_wasm_memory.c): the plugin's
  \<^verbatim>\<open>proxy_on_memory_allocate\<close> is asked first; its answer is final unless it is 0 (or the
  function is not exported), and only then \<^verbatim>\<open>malloc\<close> is asked, in the state the first call
  left. With neither exported the result is 0.
\<close>

theorem memory_alloc_order:
  assumes "h_cur_plugin w = Some pl"
    "e_export E pl ''proxy_on_memory_allocate'' \<in> {None, Some ExternFunc}"
    "e_export E pl ''malloc'' \<in> {None, Some ExternFunc}"
    "alloc_answer E pl ''proxy_on_memory_allocate'' sz w = (a, w1)"
    "h_cur_plugin w1 = Some pl"
  shows "proxy_wasm_memory_alloc E sz w =
    Some (if a \<noteq> 0 then (a, w1) else alloc_answer E pl ''malloc'' sz w1)"
  using assms
  by (auto simp: proxy_wasm_memory_alloc_def alloc_answer_def vm_call_cur_func vm_call_cur_missing
      split: prod.splits)

theorem memory_alloc_order_witness: "proxy_wasm_memory_alloc sample_env 8 running_host = Some (1, running_host)"
  using memory_alloc_order [of running_host 0 sample_env 8 1 running_host]
  by (simp add: running_host_simps sample_env_def alloc_answer_def vm_result_def)

end
