(* ===== verification/Pseudo_Headers.thy ===== *)
theory Pseudo_Headers
  imports VM
begin

text \<open>
  The pseudo headers of requests and responses: the tables of ngx_http_wasm_call.c and
  ngx_http_wasm_api.c and the search both files do in them, for a name that lies in C memory
  at a pointer with a length.
\<close>

datatype pseudo_header = PseudoPath | PseudoMethod | PseudoScheme | PseudoAuthority | PseudoStatus

text \<open>\<open>proxy_wasm_pseudo_headers\<close> of ngx_http_wasm_call.c and the two static tables of
  ngx_http_wasm_api.c, in their orders.\<close>

definition proxy_wasm_pseudo_headers :: "(bytes \<times> pseudo_header) list" where
  "proxy_wasm_pseudo_headers =
     [(ascii '':path'', PseudoPath), (ascii '':method'', PseudoMethod),
      (ascii '':scheme'', PseudoScheme), (ascii '':authority'', PseudoAuthority)]"

definition wasm_pseudo_req_header_static_table :: "(bytes \<times> pseudo_header) list" where
  "wasm_pseudo_req_header_static_table =
     [(ascii '':scheme'', PseudoScheme), (ascii '':path'', PseudoPath),
      (ascii '':method'', PseudoMethod), (ascii '':authority'', PseudoAuthority)]"

definition wasm_pseudo_resp_header_static_table :: "(bytes \<times> pseudo_header) list" where
  "wasm_pseudo_resp_header_static_table = [(ascii '':status'', PseudoStatus)]"

text \<open>The guard \<^verbatim>\<open>len > 0 && key[0] == ':'\<close>, which reads one byte.\<close>

definition starts_with_colon :: "bytes \<Rightarrow> int \<Rightarrow> nat \<Rightarrow> bool option" where
  "starts_with_colon m key key_len =
     (if key_len = 0 then Some False
      else do { c \<leftarrow> rd m key 1; Some (c = ascii '':'') })"

text \<open>
  \<^verbatim>\<open>key_len == name.len && ngx_strncasecmp(key, name.data, name.len) == 0\<close>: the name is read
  only when the lengths are equal.
\<close>

definition name_is :: "env \<Rightarrow> bytes \<Rightarrow> int \<Rightarrow> nat \<Rightarrow> bytes \<Rightarrow> bool option" where
  "name_is E m key key_len name =
     (if key_len \<noteq> length name then Some False
      else do { k \<leftarrow> rd m key key_len; Some (e_strncasecmp E k name (length name) = 0) })"

fun find_pseudo :: "env \<Rightarrow> bytes \<Rightarrow> int \<Rightarrow> nat \<Rightarrow> (bytes \<times> pseudo_header) list \<Rightarrow> pseudo_header option option" where
  "find_pseudo E m key key_len [] = Some None"
| "find_pseudo E m key key_len ((name, ty) # table) =
     do { found \<leftarrow> name_is E m key key_len name;
          if found then Some (Some ty) else find_pseudo E m key key_len table }"

section \<open>The search on bytes\<close>

text \<open>What the search finds for a name whose bytes are known.\<close>

definition same_name :: "env \<Rightarrow> bytes \<Rightarrow> bytes \<Rightarrow> bool" where
  "same_name E k name \<longleftrightarrow> strlow E k = strlow E name"

fun lookup_pseudo :: "env \<Rightarrow> bytes \<Rightarrow> (bytes \<times> pseudo_header) list \<Rightarrow> pseudo_header option" where
  "lookup_pseudo E k [] = None"
| "lookup_pseudo E k ((name, ty) # table) =
     (if same_name E k name then Some ty else lookup_pseudo E k table)"

definition pseudo_of :: "env \<Rightarrow> (bytes \<times> pseudo_header) list \<Rightarrow> bytes \<Rightarrow> pseudo_header option" where
  "pseudo_of E table k =
     (case k of [] \<Rightarrow> None | c # _ \<Rightarrow> if [c] = ascii '':'' then lookup_pseudo E k table else None)"

lemma same_name_length: "same_name E k name \<Longrightarrow> length k = length name"
  unfolding same_name_def strlow_def by (rule map_eq_imp_length_eq)

lemma name_is_bytes:
  assumes "strncasecmp_documented E" "0 \<notin> set name" "rd m key (length k) = Some k"
  shows "name_is E m key (length k) name = Some (same_name E k name)"
proof (cases "length k = length name")
  case True
  then show ?thesis
    using assms by (simp add: name_is_def same_name_def strncasecmp_documented_def)
next
  case False
  with same_name_length [of E k name] show ?thesis by (auto simp: name_is_def)
qed

lemma find_pseudo_bytes:
  assumes "strncasecmp_documented E" "\<forall>(name, ty) \<in> set table. 0 \<notin> set name"
    "rd m key (length k) = Some k"
  shows "find_pseudo E m key (length k) table = Some (lookup_pseudo E k table)"
  using assms(2)
proof (induction table)
  case (Cons e table)
  obtain name ty where e: "e = (name, ty)" by (cases e)
  with Cons.prems have "name_is E m key (length k) name = Some (same_name E k name)"
    by (intro name_is_bytes [OF assms(1) _ assms(3)]) auto
  with Cons e show ?case by auto
qed simp

lemma starts_with_colon_bytes:
  assumes "rd m key (length k) = Some k"
  shows "starts_with_colon m key (length k) =
    Some (case k of [] \<Rightarrow> False | c # _ \<Rightarrow> [c] = ascii '':'')"
proof (cases k)
  case (Cons c cs)
  with rd_prefix [OF assms, of 1] show ?thesis by (simp add: starts_with_colon_def)
qed (simp add: starts_with_colon_def)

lemma pseudo_tables_nul_free:
  "\<forall>(name, ty) \<in> set proxy_wasm_pseudo_headers. 0 \<notin> set name"
  "\<forall>(name, ty) \<in> set wasm_pseudo_req_header_static_table. 0 \<notin> set name"
  "\<forall>(name, ty) \<in> set wasm_pseudo_resp_header_static_table. 0 \<notin> set name"
  by (simp_all add: proxy_wasm_pseudo_headers_def wasm_pseudo_req_header_static_table_def
      wasm_pseudo_resp_header_static_table_def ascii_def)

end
