(* ===== verification/Proxy_Map.thy ===== *)
theory Proxy_Map
  imports Wasm_Prelude
begin

text \<open>
  src/proxy_wasm/proxy_wasm_map.c: the serialized form of a header map that host and guest
  exchange, its iterator, the reading loop and the writing operations. Maps live in an
  object of C memory (a linear memory or a pool buffer) at a pointer. The locale
  \<open>map_writer\<close> is the contract of an operation that appends one entry; both writing
  operations of the code implement it.
\<close>

section \<open>The code\<close>

record proxy_wasm_map_iter =
  it_idx :: i32
  it_len :: i32
  it_size_ptr :: int
  it_data_ptr :: int

definition proxy_wasm_map_init_map :: "bytes \<Rightarrow> int \<Rightarrow> i32 \<Rightarrow> bytes option" where
  "proxy_wasm_map_init_map m map_data len = wr32 m map_data len"

definition proxy_wasm_map_init_iter :: "bytes \<Rightarrow> int \<Rightarrow> proxy_wasm_map_iter option" where
  "proxy_wasm_map_init_iter m map_data =
     do { len \<leftarrow> rd32 m map_data;
          let size_ptr = map_data + 4;
          Some \<lparr>it_idx = 0, it_len = len, it_size_ptr = size_ptr,
                it_data_ptr = size_ptr + 4 * sint (2 * len)\<rparr> }"

text \<open>
  \<^verbatim>\<open>proxy_wasm_map_next\<close>: the inner \<open>None\<close> is the result false; otherwise the key pointer and
  length, the value pointer and length, and the advanced iterator.
\<close>

definition proxy_wasm_map_next ::
  "bytes \<Rightarrow> proxy_wasm_map_iter \<Rightarrow> (int \<times> i32 \<times> int \<times> i32 \<times> proxy_wasm_map_iter) option option" where
  "proxy_wasm_map_next m it =
     (if it_idx it = it_len it then Some None
      else do { key_len \<leftarrow> rd32 m (it_size_ptr it);
                val_len \<leftarrow> rd32 m (it_size_ptr it + 4);
                let key = it_data_ptr it;
                let val = key + sint (key_len + 1);
                Some (Some (key, key_len, val, val_len,
                  it\<lparr>it_idx := it_idx it + 1, it_size_ptr := it_size_ptr it + 8,
                     it_data_ptr := val + sint (val_len + 1)\<rparr>)) })"

definition proxy_wasm_map_reserve ::
  "bytes \<Rightarrow> proxy_wasm_map_iter \<Rightarrow> i32 \<Rightarrow> i32 \<Rightarrow> (int \<times> int \<times> bytes \<times> proxy_wasm_map_iter) option option" where
  "proxy_wasm_map_reserve m it key_len val_len =
     (if it_idx it = it_len it then Some None
      else do { m \<leftarrow> wr32 m (it_size_ptr it) key_len;
                m \<leftarrow> wr32 m (it_size_ptr it + 4) val_len;
                let key = it_data_ptr it;
                m \<leftarrow> wr m (key + sint key_len) [0];
                let val = key + sint key_len + 1;
                m \<leftarrow> wr m (val + sint val_len) [0];
                Some (Some (key, val, m,
                  it\<lparr>it_idx := it_idx it + 1, it_size_ptr := it_size_ptr it + 8,
                     it_data_ptr := val + sint val_len + 1\<rparr>)) })"

text \<open>
  \<^verbatim>\<open>key\<close> and \<^verbatim>\<open>val\<close> point to C strings: the objects include the trailing NUL, which
  \<^verbatim>\<open>ngx_cpymem\<close> copies along.
\<close>

definition proxy_wasm_map_reserve_literal_with_len ::
  "bytes \<Rightarrow> proxy_wasm_map_iter \<Rightarrow> bytes \<Rightarrow> nat \<Rightarrow> bytes \<Rightarrow> nat
     \<Rightarrow> (bytes \<times> proxy_wasm_map_iter) option option" where
  "proxy_wasm_map_reserve_literal_with_len m it key key_len val val_len =
     (if it_idx it = it_len it then Some None
      else do { m \<leftarrow> wr32 m (it_size_ptr it) (of_nat key_len);
                m \<leftarrow> wr32 m (it_size_ptr it + 4) (of_nat val_len);
                k \<leftarrow> rd key 0 (key_len + 1);
                m \<leftarrow> wr m (it_data_ptr it) k;
                let data_ptr = it_data_ptr it + int (key_len + 1);
                v \<leftarrow> rd val 0 (val_len + 1);
                m \<leftarrow> wr m data_ptr v;
                Some (Some (m, it\<lparr>it_idx := it_idx it + 1, it_size_ptr := it_size_ptr it + 8,
                     it_data_ptr := data_ptr + int (val_len + 1)\<rparr>)) })"

definition proxy_wasm_map_reserve_literal ::
  "bytes \<Rightarrow> proxy_wasm_map_iter \<Rightarrow> bytes \<Rightarrow> bytes \<Rightarrow> (bytes \<times> proxy_wasm_map_iter) option" where
  "proxy_wasm_map_reserve_literal m it k v =
     (case proxy_wasm_map_reserve_literal_with_len m it (k @ [0]) (length k) (v @ [0]) (length v) of
        None \<Rightarrow> None
      | Some None \<Rightarrow> Some (m, it)
      | Some (Some r) \<Rightarrow> Some r)"

text \<open>
  The callers that write a map do, for each entry, \<^verbatim>\<open>proxy_wasm_map_reserve\<close> and a
  \<^verbatim>\<open>ngx_memcpy\<close> of the key and of the value through the pointers it set. They ignore its
  result; had it been false, the pointers would not have been set, which is undefined.
\<close>

definition put_pair ::
  "bytes \<Rightarrow> proxy_wasm_map_iter \<Rightarrow> bytes \<Rightarrow> bytes \<Rightarrow> (bytes \<times> proxy_wasm_map_iter) option" where
  "put_pair m it k v =
     (case proxy_wasm_map_reserve m it (of_nat (length k)) (of_nat (length v)) of
        None \<Rightarrow> None
      | Some None \<Rightarrow> None
      | Some (Some (key, val, m, it)) \<Rightarrow>
          do { m \<leftarrow> wr m key k; m \<leftarrow> wr m val v; Some (m, it) })"

fun put_list ::
  "(bytes \<Rightarrow> proxy_wasm_map_iter \<Rightarrow> bytes \<Rightarrow> bytes \<Rightarrow> (bytes \<times> proxy_wasm_map_iter) option) \<Rightarrow>
   bytes \<Rightarrow> proxy_wasm_map_iter \<Rightarrow> (bytes \<times> bytes) list \<Rightarrow> (bytes \<times> proxy_wasm_map_iter) option" where
  "put_list put m it [] = Some (m, it)"
| "put_list put m it ((k, v) # kvs) =
     do { (m, it) \<leftarrow> put m it k v; put_list put m it kvs }"

text \<open>
  The loop \<^verbatim>\<open>while (proxy_wasm_map_next(&it, &key, &key_len, &val, &val_len)) { body }\<close>. The
  body gets the pointers and lengths and a state; it goes on with a new state (\<open>Inr\<close>) or
  returns from the function (\<open>Inl\<close>). Each round reads two lengths behind the last ones, so
  the loop cannot go on past the end of the object: the measure.
\<close>

function map_loop ::
  "bytes \<Rightarrow> (int \<Rightarrow> i32 \<Rightarrow> int \<Rightarrow> i32 \<Rightarrow> 's \<Rightarrow> ('r + 's) option) \<Rightarrow>
   proxy_wasm_map_iter \<Rightarrow> 's \<Rightarrow> ('r + 's) option" where
  "map_loop m body it s =
     (case proxy_wasm_map_next m it of
        None \<Rightarrow> None
      | Some None \<Rightarrow> Some (Inr s)
      | Some (Some (key, key_len, val, val_len, it')) \<Rightarrow>
          (case body key key_len val val_len s of
             None \<Rightarrow> None
           | Some (Inl r) \<Rightarrow> Some (Inl r)
           | Some (Inr s') \<Rightarrow> map_loop m body it' s'))"
  by pat_completeness auto
termination
  by (relation "measure (\<lambda>(m, body, it, s). nat (int (length m) - it_size_ptr it))")
    (auto simp: proxy_wasm_map_next_def Let_def rd32_def bind_eq_Some_conv in_obj_def
      split: if_splits dest!: rd_SomeD)

declare map_loop.simps [simp del]

section \<open>The format\<close>

definition entry_sizes :: "bytes \<times> bytes \<Rightarrow> bytes" where
  "entry_sizes e = le32 (of_nat (length (fst e))) @ le32 (of_nat (length (snd e)))"

definition entry_data :: "bytes \<times> bytes \<Rightarrow> bytes" where
  "entry_data e = fst e @ [0] @ snd e @ [0]"

definition enc_sizes :: "(bytes \<times> bytes) list \<Rightarrow> bytes" where
  "enc_sizes kvs = concat (map entry_sizes kvs)"

definition enc_data :: "(bytes \<times> bytes) list \<Rightarrow> bytes" where
  "enc_data kvs = concat (map entry_data kvs)"

definition enc_map :: "(bytes \<times> bytes) list \<Rightarrow> bytes" where
  "enc_map kvs = le32 (of_nat (length kvs)) @ enc_sizes kvs @ enc_data kvs"

definition map_size :: "(bytes \<times> bytes) list \<Rightarrow> nat" where
  "map_size kvs = 4 + 8 * length kvs + length (enc_data kvs)"

definition map_at :: "bytes \<Rightarrow> int \<Rightarrow> (bytes \<times> bytes) list \<Rightarrow> bool" where
  "map_at m p kvs \<longleftrightarrow> rd m p (map_size kvs) = Some (enc_map kvs)"

lemma length_entry_sizes [simp]: "length (entry_sizes e) = 8"
  by (simp add: entry_sizes_def)

lemma length_entry_data: "length (entry_data e) = length (fst e) + length (snd e) + 2"
  by (simp add: entry_data_def)

lemma length_enc_sizes [simp]: "length (enc_sizes kvs) = 8 * length kvs"
  by (induction kvs) (simp_all add: enc_sizes_def)

lemma enc_append [simp]:
  "enc_sizes (xs @ ys) = enc_sizes xs @ enc_sizes ys"
  "enc_data (xs @ ys) = enc_data xs @ enc_data ys"
  "enc_sizes [] = []" "enc_data [] = []"
  "enc_sizes (e # ys) = entry_sizes e @ enc_sizes ys"
  "enc_data (e # ys) = entry_data e @ enc_data ys"
  by (simp_all add: enc_sizes_def enc_data_def)

lemma length_enc_map: "length (enc_map kvs) = map_size kvs"
  by (simp add: enc_map_def map_size_def)

text \<open>The iterator after the entries \<open>dn\<close> of a map with \<open>n\<close> entries at \<open>p\<close>.\<close>

definition iter_at :: "int \<Rightarrow> nat \<Rightarrow> (bytes \<times> bytes) list \<Rightarrow> proxy_wasm_map_iter" where
  "iter_at p n dn = \<lparr>it_idx = of_nat (length dn), it_len = of_nat n,
     it_size_ptr = p + 4 + 8 * int (length dn),
     it_data_ptr = p + 4 + 8 * int n + int (length (enc_data dn))\<rparr>"

lemma init_iter_at:
  assumes "rd32 m p = Some (of_nat n)" "n < 2 ^ 29"
  shows "proxy_wasm_map_init_iter m p = Some (iter_at p n [])"
proof -
  have "2 * of_nat n = (of_nat (2 * n) :: i32)" by simp
  then have "sint (2 * of_nat n :: i32) = 2 * int n"
    using assms(2) sint_of_nat_i32 [of "2 * n"] by simp
  with assms(1) show ?thesis
    by (simp add: proxy_wasm_map_init_iter_def iter_at_def Let_def)
qed

section \<open>Writing\<close>

text \<open>
  The contract of an operation that appends an entry: with a free slot and room for the
  entry at the two pointers of the iterator, it succeeds, advances the iterator, writes the
  two lengths and the two NUL-terminated strings there and changes no other byte.
\<close>

definition outside :: "int \<Rightarrow> nat \<Rightarrow> int \<Rightarrow> nat \<Rightarrow> bool" where
  "outside p n q k \<longleftrightarrow> q + int k \<le> p \<or> p + int n \<le> q"

definition entry_advance :: "proxy_wasm_map_iter \<Rightarrow> bytes \<times> bytes \<Rightarrow> proxy_wasm_map_iter" where
  "entry_advance it e = it\<lparr>it_idx := it_idx it + 1, it_size_ptr := it_size_ptr it + 8,
     it_data_ptr := it_data_ptr it + int (length (entry_data e))\<rparr>"

definition entry_written :: "bytes \<Rightarrow> proxy_wasm_map_iter \<Rightarrow> bytes \<times> bytes \<Rightarrow> bytes \<Rightarrow> bool" where
  "entry_written m it e m' \<longleftrightarrow>
     length m' = length m \<and>
     rd m' (it_size_ptr it) 8 = Some (entry_sizes e) \<and>
     rd m' (it_data_ptr it) (length (entry_data e)) = Some (entry_data e) \<and>
     (\<forall>q k. outside (it_size_ptr it) 8 q k \<and> outside (it_data_ptr it) (length (entry_data e)) q k \<longrightarrow>
        rd m' q k = rd m q k)"

definition entry_room :: "bytes \<Rightarrow> proxy_wasm_map_iter \<Rightarrow> bytes \<times> bytes \<Rightarrow> bool" where
  "entry_room m it e \<longleftrightarrow>
     it_idx it \<noteq> it_len it \<and> in_obj m (it_size_ptr it) 8 \<and> it_size_ptr it + 8 \<le> it_data_ptr it \<and>
     in_obj m (it_data_ptr it) (length (entry_data e)) \<and> length (entry_data e) < 2 ^ 31"

definition map_progress ::
  "bytes \<Rightarrow> int \<Rightarrow> nat \<Rightarrow> nat \<Rightarrow> (bytes \<times> bytes) list \<Rightarrow> bytes \<Rightarrow> bool" where
  "map_progress m0 p n S dn m \<longleftrightarrow>
     in_obj m p S \<and> length m = length m0 \<and> length dn \<le> n \<and>
     4 + 8 * n + length (enc_data dn) \<le> S \<and>
     rd m p 4 = Some (le32 (of_nat n)) \<and>
     rd m (p + 4) (8 * length dn) = Some (enc_sizes dn) \<and>
     rd m (p + 4 + 8 * int n) (length (enc_data dn)) = Some (enc_data dn) \<and>
     (\<forall>q k. outside p S q k \<longrightarrow> rd m q k = rd m0 q k) \<and>
     (\<forall>q k. p + 4 + 8 * int (length dn) \<le> q \<and> q + int k \<le> p + 4 + 8 * int n \<longrightarrow>
        rd m q k = rd m0 q k)"

locale map_writer =
  fixes put :: "bytes \<Rightarrow> proxy_wasm_map_iter \<Rightarrow> bytes \<Rightarrow> bytes \<Rightarrow> (bytes \<times> proxy_wasm_map_iter) option"
  assumes put_entry:
    "entry_room m it (k, v) \<Longrightarrow>
       \<exists>m'. put m it k v = Some (m', entry_advance it (k, v)) \<and> entry_written m it (k, v) m'"
begin

lemma put_progress:
  assumes P: "map_progress m0 p n S dn m" and S: "S < 2 ^ 31"
    and n: "length dn < n" and room: "4 + 8 * n + length (enc_data (dn @ [(k, v)])) \<le> S"
  shows "\<exists>m'. put m (iter_at p n dn) k v = Some (m', iter_at p n (dn @ [(k, v)])) \<and>
    map_progress m0 p n S (dn @ [(k, v)]) m'"
proof -
  let ?it = "iter_at p n dn" and ?e = "(k, v)"
  have obj: "in_obj m p S" and Pr: "rd m p 4 = Some (le32 (of_nat n))"
    "rd m (p + 4) (8 * length dn) = Some (enc_sizes dn)"
    "rd m (p + 4 + 8 * int n) (length (enc_data dn)) = Some (enc_data dn)"
    using P by (auto simp: map_progress_def)
  have "n < 2 ^ 31" "length dn < 2 ^ 31" using S n room by simp_all
  then have "entry_room m ?it ?e"
    using n room S obj by (auto simp: entry_room_def iter_at_def of_nat_i32_inj in_obj_def)
  from put_entry [OF this] obtain m' where
    put: "put m ?it k v = Some (m', entry_advance ?it ?e)" and wrt: "entry_written m ?it ?e m'"
    by blast
  have adv: "entry_advance ?it ?e = iter_at p n (dn @ [?e])"
    by (simp add: entry_advance_def iter_at_def)
  have len: "length m' = length m"
    and s: "rd m' (p + 4 + int (8 * length dn)) 8 = Some (entry_sizes ?e)"
    and d: "rd m' (p + 4 + 8 * int n + int (length (enc_data dn))) (length (entry_data ?e))
       = Some (entry_data ?e)"
    and fr: "\<And>q k'. outside (p + 4 + 8 * int (length dn)) 8 q k' \<Longrightarrow>
       outside (p + 4 + 8 * int n + int (length (enc_data dn))) (length (entry_data ?e)) q k' \<Longrightarrow>
       rd m' q k' = rd m q k'"
    using wrt by (auto simp: entry_written_def iter_at_def)
  have "rd m' p 4 = Some (le32 (of_nat n))"
    using Pr(1) n by (simp add: fr outside_def)
  moreover have "rd m' (p + 4) (8 * length dn) = Some (enc_sizes dn)"
    using Pr(2) n by (simp add: fr outside_def)
  with s have "rd m' (p + 4) (8 * length (dn @ [?e])) = Some (enc_sizes (dn @ [?e]))"
    using rd_join [of m' "p + 4" "8 * length dn" "enc_sizes dn" 8 "entry_sizes ?e"]
    by (simp add: add.commute)
  moreover have "rd m' (p + 4 + 8 * int n) (length (enc_data dn)) = Some (enc_data dn)"
    using Pr(3) n by (simp add: fr outside_def)
  with d have "rd m' (p + 4 + 8 * int n) (length (enc_data (dn @ [?e])))
      = Some (enc_data (dn @ [?e]))"
    using rd_join [of m' "p + 4 + 8 * int n" "length (enc_data dn)" "enc_data dn"] by simp
  moreover have "rd m' q k' = rd m0 q k'" if "outside p S q k'" for q k'
  proof -
    from that n room have "rd m' q k' = rd m q k'" by (intro fr) (auto simp: outside_def)
    with that P show ?thesis by (simp add: map_progress_def)
  qed
  moreover have "rd m' q k' = rd m0 q k'"
    if "p + 4 + 8 * int (length (dn @ [?e])) \<le> q" "q + int k' \<le> p + 4 + 8 * int n" for q k'
  proof -
    from that have "rd m' q k' = rd m q k'" by (intro fr) (auto simp: outside_def)
    also have "rd m q k' = rd m0 q k'" using that P by (simp add: map_progress_def)
    finally show ?thesis .
  qed
  ultimately have "map_progress m0 p n S (dn @ [?e]) m'"
    using P len n room by (simp add: map_progress_def in_obj_def)
  with put adv show ?thesis by auto
qed

lemma put_list_progress:
  assumes "map_progress m0 p n S dn m" "S < 2 ^ 31" "length dn + length kvs \<le> n"
    "4 + 8 * n + length (enc_data (dn @ kvs)) \<le> S"
  shows "\<exists>m'. put_list put m (iter_at p n dn) kvs = Some (m', iter_at p n (dn @ kvs)) \<and>
    map_progress m0 p n S (dn @ kvs) m'"
  using assms
proof (induction kvs arbitrary: dn m)
  case Nil
  then show ?case by simp
next
  case (Cons e kvs)
  obtain k v where e: "e = (k, v)" by (cases e)
  have "length dn < n" "4 + 8 * n + length (enc_data (dn @ [(k, v)])) \<le> S"
    using Cons.prems e by simp_all
  from put_progress [OF Cons.prems(1,2) this] obtain m1 where
    "put m (iter_at p n dn) k v = Some (m1, iter_at p n (dn @ [e]))"
    "map_progress m0 p n S (dn @ [e]) m1" using e by blast
  moreover from Cons.IH [OF this(2)] Cons.prems obtain m' where
    "put_list put m1 (iter_at p n (dn @ [e])) kvs = Some (m', iter_at p n (dn @ e # kvs))"
    "map_progress m0 p n S (dn @ e # kvs) m'" by auto
  ultimately show ?case using e by auto
qed

end

lemma map_progress_start:
  assumes "in_obj m p S" "4 + 8 * n \<le> S" "S < 2 ^ 31"
  shows "\<exists>m'. proxy_wasm_map_init_map m p (of_nat n) = Some m' \<and>
    proxy_wasm_map_init_iter m' p = Some (iter_at p n []) \<and> map_progress m p n S [] m'"
proof -
  from assms have "in_obj m p (length (le32 (of_nat n)))" by (simp add: in_obj_def)
  from wr_in_obj [OF this] obtain m' where w: "wr m p (le32 (of_nat n)) = Some m'"
    and l: "length m' = length m" by blast
  have r: "rd m' p 4 = Some (le32 (of_nat n))" using rd_wr_same [OF w] by simp
  have "rd32 m' p = Some (of_nat n)" using r by (simp add: rd32_def)
  then have "proxy_wasm_map_init_iter m' p = Some (iter_at p n [])"
    using assms by (intro init_iter_at) simp_all
  moreover have "map_progress m p n S [] m'"
    using assms l r w
    by (auto simp: map_progress_def in_obj_def outside_def rd_def [of _ "_ + _"] intro!: rd_wr_other)
  ultimately show ?thesis using w by (auto simp: proxy_wasm_map_init_map_def wr32_def)
qed

lemma map_progress_finish:
  assumes "map_progress m0 p (length kvs) S kvs m"
  shows "map_at m p kvs"
proof -
  from assms have a: "rd m p 4 = Some (le32 (of_nat (length kvs)))"
    and b: "rd m (p + int 4) (8 * length kvs) = Some (enc_sizes kvs)"
    and c: "rd m (p + int (4 + 8 * length kvs)) (length (enc_data kvs)) = Some (enc_data kvs)"
    by (simp_all add: map_progress_def add.assoc)
  from rd_join [OF rd_join [OF a b] c] show ?thesis
    by (simp add: map_at_def map_size_def enc_map_def)
qed

subsection \<open>The two writing operations\<close>

lemma put_pair_entry:
  assumes room: "entry_room m it (k, v)"
  shows "\<exists>m'. put_pair m it k v = Some (m', entry_advance it (k, v)) \<and> entry_written m it (k, v) m'"
proof -
  define sp dp lk lv where "sp = it_size_ptr it" and "dp = it_data_ptr it"
    and "lk = length k" and "lv = length v"
  have idx: "it_idx it \<noteq> it_len it" and sp8: "sp + 8 \<le> dp" "0 \<le> sp"
    and dpl: "dp + int lk + int lv + 2 \<le> int (length m)" and b: "lk < 2 ^ 31" "lv < 2 ^ 31"
    using room by (auto simp: entry_room_def in_obj_def length_entry_data sp_def dp_def lk_def lv_def)
  have sint: "sint (of_nat lk :: i32) = int lk" "sint (of_nat lv :: i32) = int lv"
    using b by (simp_all add: sint_of_nat_i32)
  obtain m1 where w1: "wr m sp (le32 (of_nat lk)) = Some m1" and l1: "length m1 = length m"
    using wr_in_obj [of m sp "le32 (of_nat lk)"] sp8 dpl by (auto simp: in_obj_def)
  obtain m2 where w2: "wr m1 (sp + 4) (le32 (of_nat lv)) = Some m2" and l2: "length m2 = length m"
    using wr_in_obj [of m1 "sp + 4" "le32 (of_nat lv)"] sp8 dpl l1 by (auto simp: in_obj_def)
  obtain m3 where w3: "wr m2 (dp + int lk) [0] = Some m3" and l3: "length m3 = length m"
    using wr_in_obj [of m2 "dp + int lk" "[0]"] sp8 dpl l2 by (auto simp: in_obj_def)
  obtain m4 where w4: "wr m3 (dp + int lk + 1 + int lv) [0] = Some m4" and l4: "length m4 = length m"
    using wr_in_obj [of m3 "dp + int lk + 1 + int lv" "[0]"] sp8 dpl l3 by (auto simp: in_obj_def)
  obtain m5 where w5: "wr m4 dp k = Some m5" and l5: "length m5 = length m"
    using wr_in_obj [of m4 dp k] sp8 dpl l4 by (auto simp: in_obj_def lk_def)
  obtain m6 where w6: "wr m5 (dp + int lk + 1) v = Some m6" and l6: "length m6 = length m"
    using wr_in_obj [of m5 "dp + int lk + 1" v] sp8 dpl l5 by (auto simp: in_obj_def lv_def)
  have put: "put_pair m it k v = Some (m6, entry_advance it (k, v))"
    using idx w1 w2 w3 w4 w5 w6
    by (simp add: put_pair_def proxy_wasm_map_reserve_def wr32_def Let_def entry_advance_def
        length_entry_data sint flip: sp_def dp_def lk_def lv_def)
  have other: "rd m6 q c = rd m q c"
    if "outside sp 8 q c" "outside dp (length (entry_data (k, v))) q c" for q c
  proof -
    have "rd m6 q c = rd m5 q c" "rd m5 q c = rd m4 q c" "rd m4 q c = rd m3 q c"
      "rd m3 q c = rd m2 q c" "rd m2 q c = rd m1 q c" "rd m1 q c = rd m q c"
      using that
      by (auto intro!: rd_wr_other [OF w6] rd_wr_other [OF w5] rd_wr_other [OF w4]
          rd_wr_other [OF w3] rd_wr_other [OF w2] rd_wr_other [OF w1]
          simp: outside_def length_entry_data lk_def lv_def)
    then show ?thesis by simp
  qed
  have "rd m6 sp 4 = Some (le32 (of_nat lk))"
    using rd_wr_same [OF w1] sp8
    by (simp add: rd_wr_other [OF w6] rd_wr_other [OF w5] rd_wr_other [OF w4]
        rd_wr_other [OF w3] rd_wr_other [OF w2])
  moreover have "rd m6 (sp + int 4) 4 = Some (le32 (of_nat lv))"
    using rd_wr_same [OF w2] sp8
    by (simp add: rd_wr_other [OF w6] rd_wr_other [OF w5] rd_wr_other [OF w4] rd_wr_other [OF w3])
  ultimately have sizes: "rd m6 sp 8 = Some (entry_sizes (k, v))"
    using rd_join [of m6 sp 4 "le32 (of_nat lk)" 4] by (simp add: entry_sizes_def lk_def lv_def)
  have "rd m6 dp lk = Some k"
    using rd_wr_same [OF w5] by (simp add: rd_wr_other [OF w6] lk_def)
  moreover have "rd m6 (dp + int lk) 1 = Some [0]"
    using rd_wr_same [OF w3]
    by (simp add: rd_wr_other [OF w6] rd_wr_other [OF w5] rd_wr_other [OF w4] lk_def)
  moreover have "rd m6 (dp + int (lk + 1)) lv = Some v"
    using rd_wr_same [OF w6] by (simp add: lv_def add_ac)
  moreover have "rd m6 (dp + int (lk + 1 + lv)) 1 = Some [0]"
  proof -
    have eq: "dp + int (lk + 1 + lv) = dp + int lk + 1 + int lv" by simp
    show ?thesis
      unfolding eq using rd_wr_same [OF w4]
      by (simp add: rd_wr_other [OF w6] rd_wr_other [OF w5] lk_def lv_def)
  qed
  ultimately have "rd m6 dp (lk + 1 + lv + 1) = Some (((k @ [0]) @ v) @ [0])"
    by (intro rd_join) auto
  then have "rd m6 dp (length (entry_data (k, v))) = Some (entry_data (k, v))"
    by (simp add: entry_data_def length_entry_data lk_def lv_def)
  with sizes other l6 have "entry_written m it (k, v) m6"
    by (simp add: entry_written_def flip: sp_def dp_def)
  with put show ?thesis by blast
qed

interpretation pair_writer: map_writer put_pair
  by unfold_locales (rule put_pair_entry)

lemma put_literal_entry:
  assumes room: "entry_room m it (k, v)"
  shows "\<exists>m'. proxy_wasm_map_reserve_literal m it k v = Some (m', entry_advance it (k, v)) \<and>
    entry_written m it (k, v) m'"
proof -
  define sp dp lk lv where "sp = it_size_ptr it" and "dp = it_data_ptr it"
    and "lk = length k" and "lv = length v"
  have idx: "it_idx it \<noteq> it_len it" and sp8: "sp + 8 \<le> dp" "0 \<le> sp"
    and dpl: "dp + int lk + int lv + 2 \<le> int (length m)"
    using room by (auto simp: entry_room_def in_obj_def length_entry_data sp_def dp_def lk_def lv_def)
  obtain m1 where w1: "wr m sp (le32 (of_nat lk)) = Some m1" and l1: "length m1 = length m"
    using wr_in_obj [of m sp "le32 (of_nat lk)"] sp8 dpl by (auto simp: in_obj_def)
  obtain m2 where w2: "wr m1 (sp + 4) (le32 (of_nat lv)) = Some m2" and l2: "length m2 = length m"
    using wr_in_obj [of m1 "sp + 4" "le32 (of_nat lv)"] sp8 dpl l1 by (auto simp: in_obj_def)
  obtain m3 where w3: "wr m2 dp (k @ [0]) = Some m3" and l3: "length m3 = length m"
    using wr_in_obj [of m2 dp "k @ [0]"] sp8 dpl l2 by (auto simp: in_obj_def lk_def)
  obtain m4 where w4: "wr m3 (dp + (1 + int lk)) (v @ [0]) = Some m4" and l4: "length m4 = length m"
    using wr_in_obj [of m3 "dp + (1 + int lk)" "v @ [0]"] sp8 dpl l3 by (auto simp: in_obj_def lv_def)
  have rdk: "rd (k @ [0]) 0 (lk + 1) = Some (k @ [0])" "rd (v @ [0]) 0 (lv + 1) = Some (v @ [0])"
    using rd_zero [of "k @ [0]"] rd_zero [of "v @ [0]"] by (simp_all add: lk_def lv_def)
  have put: "proxy_wasm_map_reserve_literal m it k v = Some (m4, entry_advance it (k, v))"
    using idx w1 w2 w3 w4 rdk
    by (simp add: proxy_wasm_map_reserve_literal_def proxy_wasm_map_reserve_literal_with_len_def
        wr32_def Let_def entry_advance_def length_entry_data add_ac flip: sp_def dp_def lk_def lv_def)
  have other: "rd m4 q c = rd m q c"
    if "outside sp 8 q c" "outside dp (length (entry_data (k, v))) q c" for q c
  proof -
    have "rd m4 q c = rd m3 q c" "rd m3 q c = rd m2 q c" "rd m2 q c = rd m1 q c" "rd m1 q c = rd m q c"
      using that
      by (auto intro!: rd_wr_other [OF w4] rd_wr_other [OF w3] rd_wr_other [OF w2] rd_wr_other [OF w1]
          simp: outside_def length_entry_data lk_def lv_def)
    then show ?thesis by simp
  qed
  have "rd m4 sp 4 = Some (le32 (of_nat lk))"
    using rd_wr_same [OF w1] sp8
    by (simp add: rd_wr_other [OF w4] rd_wr_other [OF w3] rd_wr_other [OF w2])
  moreover have "rd m4 (sp + int 4) 4 = Some (le32 (of_nat lv))"
    using rd_wr_same [OF w2] sp8 by (simp add: rd_wr_other [OF w4] rd_wr_other [OF w3])
  ultimately have sizes: "rd m4 sp 8 = Some (entry_sizes (k, v))"
    using rd_join [of m4 sp 4 "le32 (of_nat lk)" 4] by (simp add: entry_sizes_def lk_def lv_def)
  have "rd m4 dp (lk + 1) = Some (k @ [0])"
    using rd_wr_same [OF w3] by (simp add: rd_wr_other [OF w4] lk_def)
  moreover have "rd m4 (dp + int (lk + 1)) (lv + 1) = Some (v @ [0])"
    using rd_wr_same [OF w4] by (simp add: lv_def add.assoc)
  ultimately have "rd m4 dp ((lk + 1) + (lv + 1)) = Some ((k @ [0]) @ (v @ [0]))"
    by (rule rd_join)
  then have "rd m4 dp (length (entry_data (k, v))) = Some (entry_data (k, v))"
    by (simp add: entry_data_def length_entry_data lk_def lv_def add_ac)
  with sizes other l4 have "entry_written m it (k, v) m4"
    by (simp add: entry_written_def flip: sp_def dp_def)
  with put show ?thesis by blast
qed

interpretation literal_writer: map_writer proxy_wasm_map_reserve_literal
  by unfold_locales (rule put_literal_entry)

section \<open>Reading\<close>

lemma rd_mid:
  assumes "rd m p (length (a @ b @ c)) = Some (a @ b @ c)"
  shows "rd m (p + int (length a)) (length b) = Some b"
proof -
  from assms have o: "in_obj m p (length (a @ b @ c))"
    and t: "take (length (a @ b @ c)) (drop (nat p) m) = a @ b @ c"
    by (auto simp: rd_def split: if_splits)
  from o have p: "nat (p + int (length a)) = nat p + length a"
    by (simp add: in_obj_def nat_add_distrib)
  have "drop (length a) (take (length (a @ b @ c)) (drop (nat p) m)) = b @ c"
    by (simp only: t) simp
  then have "take (length (b @ c)) (drop (nat p + length a) m) = b @ c"
    by (simp add: drop_take add.commute)
  then have "take (length b) (take (length (b @ c)) (drop (nat p + length a) m)) = b"
    by simp
  then have "take (length b) (drop (nat p + length a) m) = b"
    by (simp add: min_def)
  with o p show ?thesis by (auto simp: rd_def in_obj_def)
qed

lemma map_at_mid:
  assumes "map_at m p kvs" "enc_map kvs = a @ b @ c"
  shows "rd m (p + int (length a)) (length b) = Some b"
  using assms by (intro rd_mid [where c = c]) (simp add: map_at_def flip: length_enc_map)

lemma map_next_at:
  assumes at: "map_at m p kvs" and kvs: "kvs = dn @ (k, v) # rest" and n: "n = length kvs"
    and S: "map_size kvs < 2 ^ 31"
  shows "\<exists>kp vp. proxy_wasm_map_next m (iter_at p n dn) =
      Some (Some (kp, of_nat (length k), vp, of_nat (length v), iter_at p n (dn @ [(k, v)]))) \<and>
    rd m kp (length k) = Some k \<and> rd m vp (length v) = Some v"
proof -
  let ?n = "le32 (of_nat (length kvs))"
  have bounds: "length dn < 2 ^ 31" "n < 2 ^ 31" "length k + 1 < 2 ^ 31" "length v + 1 < 2 ^ 31"
    using S by (simp_all add: kvs n map_size_def length_entry_data)
  have idx: "(of_nat (length dn) :: i32) \<noteq> of_nat n"
  proof -
    have "length dn \<noteq> n" using n kvs by simp
    then show ?thesis using of_nat_i32_inj [OF bounds(1,2)] by blast
  qed
  have "rd m (p + 4 + 8 * int (length dn)) 4 = Some (le32 (of_nat (length k)))"
    using map_at_mid [OF at, of "?n @ enc_sizes dn" "le32 (of_nat (length k))"
        "le32 (of_nat (length v)) @ enc_sizes rest @ enc_data kvs"]
    by (simp add: enc_map_def kvs entry_sizes_def add.assoc)
  then have k32: "rd32 m (p + 4 + 8 * int (length dn)) = Some (of_nat (length k))"
    by (simp add: rd32_def)
  have "rd m (p + 4 + 8 * int (length dn) + 4) 4 = Some (le32 (of_nat (length v)))"
    using map_at_mid [OF at, of "?n @ enc_sizes dn @ le32 (of_nat (length k))"
        "le32 (of_nat (length v))" "enc_sizes rest @ enc_data kvs"]
    by (simp add: enc_map_def kvs entry_sizes_def add_ac)
  then have v32: "rd32 m (p + 4 + 8 * int (length dn) + 4) = Some (of_nat (length v))"
    by (simp add: rd32_def)
  define kp where "kp = p + 4 + 8 * int n + int (length (enc_data dn))"
  have "rd m kp (length k) = Some k"
    using map_at_mid [OF at, of "?n @ enc_sizes kvs @ enc_data dn" k "[0] @ v @ [0] @ enc_data rest"]
    by (simp add: enc_map_def kvs n entry_data_def kp_def add_ac)
  moreover have "rd m (kp + (int (length k) + 1)) (length v) = Some v"
    using map_at_mid [OF at, of "?n @ enc_sizes kvs @ enc_data dn @ k @ [0]" v "[0] @ enc_data rest"]
    by (simp add: enc_map_def kvs n entry_data_def kp_def add_ac)
  moreover have "sint (of_nat (length k) + 1 :: i32) = int (length k) + 1"
    "sint (of_nat (length v) + 1 :: i32) = int (length v) + 1"
    using sint_of_nat_i32 [OF bounds(3)] sint_of_nat_i32 [OF bounds(4)] by (simp_all add: add_ac)
  ultimately show ?thesis
    using idx k32 v32
    by (simp add: proxy_wasm_map_next_def iter_at_def Let_def length_entry_data kp_def add_ac)
qed

text \<open>What the loop does on a well-formed map: the body, entry by entry, on their bytes.\<close>

fun fold_entries ::
  "(bytes \<Rightarrow> bytes \<Rightarrow> 's \<Rightarrow> ('r + 's) option) \<Rightarrow> (bytes \<times> bytes) list \<Rightarrow> 's \<Rightarrow> ('r + 's) option" where
  "fold_entries f [] s = Some (Inr s)"
| "fold_entries f ((k, v) # kvs) s =
     (case f k v s of
        None \<Rightarrow> None
      | Some (Inl r) \<Rightarrow> Some (Inl r)
      | Some (Inr s') \<Rightarrow> fold_entries f kvs s')"

lemma map_loop_at:
  assumes at: "map_at m p (dn @ rest)" and n: "n = length (dn @ rest)"
    and S: "map_size (dn @ rest) < 2 ^ 31"
    and body: "\<And>kp k vp v s. (k, v) \<in> set rest \<Longrightarrow> rd m kp (length k) = Some k \<Longrightarrow>
      rd m vp (length v) = Some v \<Longrightarrow> body kp (of_nat (length k)) vp (of_nat (length v)) s = f k v s"
  shows "map_loop m body (iter_at p n dn) s = fold_entries f rest s"
  using assms
proof (induction rest arbitrary: dn s)
  case Nil
  then show ?case
    by (simp add: map_loop.simps [of m body] proxy_wasm_map_next_def iter_at_def)
next
  case (Cons e rest)
  obtain k v where e: "e = (k, v)" by (cases e)
  from map_next_at [OF Cons.prems(1) _ Cons.prems(2,3), of dn k v rest] e obtain kp vp where
    nxt: "proxy_wasm_map_next m (iter_at p n dn) =
      Some (Some (kp, of_nat (length k), vp, of_nat (length v), iter_at p n (dn @ [(k, v)])))"
    and r: "rd m kp (length k) = Some k" "rd m vp (length v) = Some v" by auto
  have b: "body kp (of_nat (length k)) vp (of_nat (length v)) s = f k v s"
    using r e by (intro Cons.prems(4)) simp_all
  have IH: "map_loop m body (iter_at p n (dn @ [(k, v)])) s' = fold_entries f rest s'" for s'
    using Cons.prems e by (intro Cons.IH) simp_all
  show ?case
    by (simp add: map_loop.simps [of m body "iter_at p n dn"] nxt b e IH
        split: option.split sum.split)
qed

text \<open>The loop with a body that keeps the pointers: a relation of the state to the entries read.\<close>

lemma map_loop_rel:
  assumes at: "map_at m p (dn @ rest)" and n: "n = length (dn @ rest)"
    and S: "map_size (dn @ rest) < 2 ^ 31"
    and P: "P dn s"
    and body: "\<And>xs kp k vp v s. (k, v) \<in> set rest \<Longrightarrow> rd m kp (length k) = Some k \<Longrightarrow>
      rd m vp (length v) = Some v \<Longrightarrow> P xs s \<Longrightarrow>
      \<exists>s'. body kp (of_nat (length k)) vp (of_nat (length v)) s = Some (Inr s') \<and> P (xs @ [(k, v)]) s'"
  shows "\<exists>s'. map_loop m body (iter_at p n dn) s = Some (Inr s') \<and> P (dn @ rest) s'"
  using assms
proof (induction rest arbitrary: dn s)
  case Nil
  then show ?case
    by (simp add: map_loop.simps [of m body] proxy_wasm_map_next_def iter_at_def)
next
  case (Cons e rest)
  obtain k v where e: "e = (k, v)" by (cases e)
  from map_next_at [OF Cons.prems(1) _ Cons.prems(2,3), of dn k v rest] e obtain kp vp where
    nxt: "proxy_wasm_map_next m (iter_at p n dn) =
      Some (Some (kp, of_nat (length k), vp, of_nat (length v), iter_at p n (dn @ [(k, v)])))"
    and r: "rd m kp (length k) = Some k" "rd m vp (length v) = Some v" by auto
  obtain s1 where s1: "body kp (of_nat (length k)) vp (of_nat (length v)) s = Some (Inr s1)"
    "P (dn @ [(k, v)]) s1"
    using Cons.prems(5) [of k v kp vp dn s] r e Cons.prems(4) by auto
  have "\<exists>s'. map_loop m body (iter_at p n (dn @ [(k, v)])) s1 = Some (Inr s') \<and> P ((dn @ [(k, v)]) @ rest) s'"
  proof (rule Cons.IH)
    show "P (dn @ [(k, v)]) s1" by (rule s1(2))
  qed (use Cons.prems e in simp_all)
  with nxt s1(1) e show ?case
    by (auto simp: map_loop.simps [of m body "iter_at p n dn"])
qed

lemma map_at_init_iter:
  assumes "map_at m p kvs" "map_size kvs < 2 ^ 31"
  shows "proxy_wasm_map_init_iter m p = Some (iter_at p (length kvs) [])"
proof -
  have "rd m (p + int (length ([] :: bytes))) 4 = Some (le32 (of_nat (length kvs)))"
    using map_at_mid [OF assms(1), of "[]" "le32 (of_nat (length kvs))"] by (simp add: enc_map_def)
  then have "rd32 m p = Some (of_nat (length kvs))" by (simp add: rd32_def)
  then show ?thesis using assms(2) by (intro init_iter_at) (simp_all add: map_size_def)
qed

lemma map_loop_whole:
  assumes "map_at m p kvs" "map_size kvs < 2 ^ 31" "proxy_wasm_map_init_iter m p = Some it"
    and "\<And>kp k vp v s. (k, v) \<in> set kvs \<Longrightarrow> rd m kp (length k) = Some k \<Longrightarrow>
      rd m vp (length v) = Some v \<Longrightarrow> body kp (of_nat (length k)) vp (of_nat (length v)) s = f k v s"
  shows "map_loop m body it s = fold_entries f kvs s"
  using map_loop_at [of m p "[]" kvs "length kvs" body f s] assms map_at_init_iter [OF assms(1,2)]
  by simp

text \<open>A loop that returns has run once for each entry the map claims.\<close>

lemma map_loop_count:
  assumes body: "\<And>kp kl vp vl s s'. body kp kl vp vl s = Some (Inr s') \<Longrightarrow> size_st s' \<le> Suc (size_st s)"
  shows "map_loop m body it s = Some (Inr s') \<Longrightarrow> size_st s' \<le> size_st s + unat (it_len it - it_idx it)"
proof (induction "unat (it_len it - it_idx it)" arbitrary: it s rule: less_induct)
  case less
  note run = less.prems
  show ?case
  proof (cases "it_idx it = it_len it")
    case True
    then show ?thesis using run by (simp add: map_loop.simps [of m body] proxy_wasm_map_next_def)
  next
    case False
    then obtain kp kl vp vl it1 where nxt: "proxy_wasm_map_next m it = Some (Some (kp, kl, vp, vl, it1))"
      and it1: "it_len it1 = it_len it" "it_idx it1 = it_idx it + 1"
      using run
      by (cases "proxy_wasm_map_next m it")
        (auto simp: map_loop.simps [of m body] proxy_wasm_map_next_def Let_def bind_eq_Some_conv)
    with run obtain s1 where s1: "body kp kl vp vl s = Some (Inr s1)" "map_loop m body it1 s1 = Some (Inr s')"
      by (auto simp: map_loop.simps [of m body it] split: option.splits sum.splits)
    have nz: "it_len it - it_idx it \<noteq> 0" using False by simp
    have dec: "unat (it_len it1 - it_idx it1) = unat (it_len it - it_idx it) - 1"
      using nz unat_minus_one [of "it_len it - it_idx it"] it1 by (simp add: diff_diff_eq)
    moreover have "0 < unat (it_len it - it_idx it)" using nz by (simp add: unat_gt_0)
    ultimately have "size_st s' \<le> size_st s1 + unat (it_len it1 - it_idx it1)"
      by (intro less.hyps s1(2)) simp
    moreover have "size_st s1 \<le> Suc (size_st s)" by (rule body [OF s1(1)])
    ultimately show ?thesis using dec \<open>0 < unat _\<close> by simp
  qed
qed

section \<open>Properties\<close>

text \<open>Writing a whole map as the header functions do, and reading all its entries.\<close>

definition write_map :: "bytes \<Rightarrow> int \<Rightarrow> (bytes \<times> bytes) list \<Rightarrow> bytes option" where
  "write_map m p kvs =
     do { m \<leftarrow> proxy_wasm_map_init_map m p (of_nat (length kvs));
          it \<leftarrow> proxy_wasm_map_init_iter m p;
          (m, it) \<leftarrow> put_list put_pair m it kvs;
          Some m }"

definition collect_entry ::
  "bytes \<Rightarrow> int \<Rightarrow> i32 \<Rightarrow> int \<Rightarrow> i32 \<Rightarrow> (bytes \<times> bytes) list \<Rightarrow> (unit + (bytes \<times> bytes) list) option" where
  "collect_entry m key key_len val val_len acc =
     do { k \<leftarrow> rd m key (size_of_i32 key_len);
          v \<leftarrow> rd m val (size_of_i32 val_len);
          Some (Inr (acc @ [(k, v)])) }"

definition read_map :: "bytes \<Rightarrow> int \<Rightarrow> (bytes \<times> bytes) list option" where
  "read_map m p =
     do { it \<leftarrow> proxy_wasm_map_init_iter m p;
          r \<leftarrow> map_loop m (collect_entry m) it [];
          (case r of Inl _ \<Rightarrow> None | Inr kvs \<Rightarrow> Some kvs) }"

lemma fold_entries_append:
  "fold_entries (\<lambda>k v acc. Some (Inr (acc @ [(k, v)]))) kvs acc = Some (Inr (acc @ kvs))"
  by (induction kvs arbitrary: acc) auto

lemma entry_bound:
  assumes "map_size kvs < 2 ^ 31" "(k, v) \<in> set kvs"
  shows "length k < 2 ^ 31" "length v < 2 ^ 31"
proof -
  obtain xs ys where "kvs = xs @ (k, v) # ys" using assms(2) by (meson split_list)
  with assms(1) show "length k < 2 ^ 31" "length v < 2 ^ 31"
    by (simp_all add: map_size_def length_entry_data)
qed

lemma size_of_nat_i32: "n < 2 ^ 31 \<Longrightarrow> size_of_i32 (of_nat n) = n"
  by (simp add: size_of_i32_nonneg sint_of_nat_i32)

lemma read_map_at:
  assumes "map_at m p kvs" "map_size kvs < 2 ^ 31"
  shows "read_map m p = Some kvs"
proof -
  let ?it = "iter_at p (length kvs) []"
  have it: "proxy_wasm_map_init_iter m p = Some ?it" using assms by (rule map_at_init_iter)
  have "map_loop m (collect_entry m) ?it [] =
      fold_entries (\<lambda>k v acc. Some (Inr (acc @ [(k, v)]))) kvs []"
  proof (rule map_loop_whole [OF assms it])
    fix kp k vp v and s :: "(bytes \<times> bytes) list"
    assume "(k, v) \<in> set kvs" "rd m kp (length k) = Some k" "rd m vp (length v) = Some v"
    with entry_bound [OF assms(2), of k v]
    show "collect_entry m kp (of_nat (length k)) vp (of_nat (length v)) s = Some (Inr (s @ [(k, v)]))"
      by (simp add: collect_entry_def size_of_nat_i32)
  qed
  with it show ?thesis by (simp add: read_map_def fold_entries_append)
qed

lemma write_map_at:
  assumes "in_obj m p (map_size kvs)" "map_size kvs < 2 ^ 31"
  shows "\<exists>m'. write_map m p kvs = Some m' \<and> map_at m' p kvs \<and> length m' = length m \<and>
    (\<forall>q k. outside p (map_size kvs) q k \<longrightarrow> rd m' q k = rd m q k)"
proof -
  let ?n = "length kvs"
  have "4 + 8 * ?n \<le> map_size kvs" by (simp add: map_size_def)
  from map_progress_start [OF assms(1) this assms(2)] obtain m1 where
    m1: "proxy_wasm_map_init_map m p (of_nat ?n) = Some m1"
      "proxy_wasm_map_init_iter m1 p = Some (iter_at p ?n [])"
    and pr: "map_progress m p ?n (map_size kvs) [] m1" by blast
  from pair_writer.put_list_progress [OF pr assms(2), of kvs] obtain m2 where
    "put_list put_pair m1 (iter_at p ?n []) kvs = Some (m2, iter_at p ?n kvs)"
    and pr2: "map_progress m p ?n (map_size kvs) kvs m2" by (auto simp: map_size_def)
  with m1 have "write_map m p kvs = Some m2" by (simp add: write_map_def)
  moreover have "map_at m2 p kvs" using pr2 by (rule map_progress_finish)
  ultimately show ?thesis using pr2 by (auto simp: map_progress_def)
qed

text \<open>
  C4. The map format round-trips (proxy_wasm_map.c): a list of entries of any content, NUL
  bytes included, written into a region of \<open>4 + 8 * n + sum (key + 1 + value + 1)\<close> bytes by
  \<^verbatim>\<open>init_map\<close>, \<^verbatim>\<open>init_iter\<close> and one \<^verbatim>\<open>reserve\<close> with its copies for each entry, is read back
  by \<^verbatim>\<open>init_iter\<close> and the loop over \<^verbatim>\<open>next\<close> as the same list in the same order, and no byte
  outside the region changes.
\<close>

theorem proxy_map_roundtrip:
  assumes "in_obj m p (map_size kvs)" "map_size kvs < 2 ^ 31"
  shows "\<exists>m'. write_map m p kvs = Some m' \<and> read_map m' p = Some kvs \<and> length m' = length m \<and>
    (\<forall>q k. outside p (map_size kvs) q k \<longrightarrow> rd m' q k = rd m q k)"
  using write_map_at [OF assms] read_map_at [OF _ assms(2)] by blast

theorem proxy_map_roundtrip_witness:
  "\<exists>m'. write_map (replicate 40 0) 2 [([97], [1, 2]), ([], [0])] = Some m' \<and>
     read_map m' 2 = Some [([97], [1, 2]), ([], [0])]"
  using proxy_map_roundtrip [of "replicate 40 0" 2 "[([97], [1, 2]), ([], [0])]"]
  by (auto simp: map_size_def in_obj_def entry_data_def)

lemma map_loop_negative:
  assumes len: "length m \<le> 2 ^ 32"
    and body: "\<And>kp kl vp vl s r. body kp kl vp vl s \<noteq> Some (Inl r)"
    and neg: "sint (it_len it) < 0"
    and idx: "it_idx it = of_nat i" "8 * int i \<le> it_size_ptr it" "it_size_ptr it \<le> int (length m)"
  shows "map_loop m body it s = None"
  using neg idx
proof (induction "nat (int (length m) - it_size_ptr it)" arbitrary: it i s rule: less_induct)
  case less
  have "it_idx it \<noteq> it_len it"
  proof
    assume eq: "it_idx it = it_len it"
    from less.prems len have "8 * int i \<le> 2 ^ 32" by simp
    then have "sint (of_nat i :: i32) = int i" by (intro sint_of_nat_i32) simp
    with eq less.prems show False by simp
  qed
  show ?case
  proof (cases "proxy_wasm_map_next m it")
    case None
    then show ?thesis by (simp add: map_loop.simps [of m body it])
  next
    case (Some x)
    with \<open>it_idx it \<noteq> it_len it\<close> obtain kp kl vp vl it' where
      nxt: "proxy_wasm_map_next m it = Some (Some (kp, kl, vp, vl, it'))"
      and it': "it_len it' = it_len it" "it_idx it' = of_nat (Suc i)"
        "it_size_ptr it' = it_size_ptr it + 8"
      and sz: "in_obj m (it_size_ptr it + 4) 4"
      using less.prems(2)
      by (fastforce simp: proxy_wasm_map_next_def Let_def rd32_def bind_eq_Some_conv
          dest: rd_SomeD)
    have "map_loop m body it' s' = None" for s'
      using less.prems it' sz by (intro less.hyps [of _ "Suc i"]) (auto simp: in_obj_def)
    then show ?thesis
      using body by (auto simp: map_loop.simps [of m body it] nxt split: option.split sum.split)
  qed
qed

text \<open>
  The reader trusts the count and the lengths the map claims: it is never given the size
  of the buffer. A map whose count is negative makes every loop over it that is not left
  early run off the end of the memory, however large the buffer.
\<close>

theorem map_negative_count_undefined:
  assumes "rd32 m p = Some c" "sint c < 0" "length m \<le> 2 ^ 32"
    "\<And>kp kl vp vl s r. body kp kl vp vl s \<noteq> Some (Inl r)"
  shows "do { it \<leftarrow> proxy_wasm_map_init_iter m p; map_loop m body it s } = None"
proof -
  from assms(1) have o: "in_obj m p 4" by (auto simp: rd32_def dest: rd_SomeD)
  from assms(1) obtain it where it: "proxy_wasm_map_init_iter m p = Some it"
    and "it_len it = c" "it_idx it = of_nat 0" "it_size_ptr it = p + 4"
    by (simp add: proxy_wasm_map_init_iter_def Let_def)
  with o assms(2) have "map_loop m body it s = None"
    by (intro map_loop_negative [OF assms(3,4), of it 0]) (auto simp: in_obj_def)
  with it show ?thesis by simp
qed

theorem map_negative_count_undefined_witness:
  "do { it \<leftarrow> proxy_wasm_map_init_iter (replicate 16 255) 0;
        map_loop (replicate 16 255) (\<lambda>kp kl vp vl s. Some (Inr s)) it () } = (None :: (unit + unit) option)"
proof (rule map_negative_count_undefined)
  show "rd32 (replicate 16 255) 0 = Some (- 1)" by code_simp
qed simp_all

text \<open>
  A map with a positive count in a buffer that ends behind its count: the first
  \<^verbatim>\<open>next\<close> already reads past the buffer, whatever the caller said its size was.
\<close>

theorem map_truncated_undefined:
  assumes "rd32 m p = Some c" "c \<noteq> 0" "int (length m) < p + 12"
  shows "do { it \<leftarrow> proxy_wasm_map_init_iter m p; map_loop m body it s } = None"
proof -
  have "rd32 m (p + 4 + 4) = None"
    using assms(3) by (simp add: rd32_None_iff in_obj_def)
  with assms(1,2) have "do { it \<leftarrow> proxy_wasm_map_init_iter m p; proxy_wasm_map_next m it } = None"
    by (auto simp: proxy_wasm_map_init_iter_def proxy_wasm_map_next_def Let_def bind_eq_None_conv)
  then show ?thesis
    by (auto simp: bind_eq_None_conv map_loop.simps [of m body])
qed

theorem map_truncated_undefined_witness:
  "do { it \<leftarrow> proxy_wasm_map_init_iter [1, 0, 0, 0, 0, 0] 0;
        map_loop [1, 0, 0, 0, 0, 0] (\<lambda>kp kl vp vl s. Some (Inr s)) it () } = (None :: (unit + unit) option)"
proof (rule map_truncated_undefined)
  show "rd32 [1, 0, 0, 0, 0, 0] 0 = Some 1" by code_simp
qed simp_all

lemma map_loop_rounds:
  assumes "it_idx it = of_nat i" "it_len it = of_nat (i + k)" "i + k < 2 ^ 31"
    and "0 \<le> it_size_ptr it" "it_size_ptr it \<le> int (length m)"
  shows "map_loop m (\<lambda>kp kl vp vl n. Some (Inr (Suc n))) it n =
    (if it_size_ptr it + 8 * int k \<le> int (length m) then Some (Inr (n + k)) else None)"
    (is "map_loop m ?b it n = _")
  using assms
proof (induction k arbitrary: i it n)
  case 0
  then show ?case by (simp add: map_loop.simps [of m _ it] proxy_wasm_map_next_def)
next
  case (Suc k)
  have ne: "it_idx it \<noteq> it_len it"
  proof
    assume "it_idx it = it_len it"
    then have "sint (of_nat i :: i32) = sint (of_nat (i + Suc k) :: i32)"
      using Suc.prems(1,2) by (simp only:)
    moreover have "sint (of_nat i :: i32) = int i" "sint (of_nat (i + Suc k) :: i32) = int (i + Suc k)"
      using Suc.prems(3) by (intro sint_of_nat_i32; simp)+
    ultimately show False by simp
  qed
  show ?case
  proof (cases "in_obj m (it_size_ptr it) 4 \<and> in_obj m (it_size_ptr it + 4) 4")
    case False
    then have "proxy_wasm_map_next m it = None"
      using ne by (auto simp: proxy_wasm_map_next_def Let_def bind_eq_None_conv rd32_None_iff)
    moreover have "\<not> it_size_ptr it + 8 * int (Suc k) \<le> int (length m)"
      using False Suc.prems(4) by (auto simp: in_obj_def)
    ultimately show ?thesis by (simp add: map_loop.simps [of m _ it])
  next
    case True
    then obtain kl vl where r: "rd32 m (it_size_ptr it) = Some kl" "rd32 m (it_size_ptr it + 4) = Some vl"
      by (metis rd32_None_iff option.exhaust)
    let ?val = "it_data_ptr it + sint (kl + 1)"
    let ?it = "it\<lparr>it_idx := it_idx it + 1, it_size_ptr := it_size_ptr it + 8, it_data_ptr := ?val + sint (vl + 1)\<rparr>"
    have nx: "proxy_wasm_map_next m it = Some (Some (it_data_ptr it, kl, ?val, vl, ?it))"
      using ne r by (simp add: proxy_wasm_map_next_def Let_def)
    have "map_loop m ?b ?it (Suc n) =
        (if it_size_ptr ?it + 8 * int k \<le> int (length m) then Some (Inr (Suc n + k)) else None)"
      using Suc.prems True by (intro Suc.IH [of _ "Suc i"]) (auto simp: in_obj_def)
    then show ?thesis by (simp add: map_loop.simps [of m _ it] nx algebra_simps)
  qed
qed

text \<open>
  C39. The loop over a map always ends, whatever bytes the guest left there: it makes exactly as
  many rounds as the map claims entries if their lengths lie inside the memory, and reads
  outside the memory otherwise: nothing compares the count, which may be negative, with the
  size of the map.
\<close>

theorem map_reading_ends:
  assumes "rd32 m p = Some c" "length m \<le> 2 ^ 32"
  shows "do { it \<leftarrow> proxy_wasm_map_init_iter m p;
              map_loop m (\<lambda>key key_len val val_len n. Some (Inr (Suc n))) it 0 } =
    (if 0 \<le> sint c \<and> p + 4 + 8 * sint c \<le> int (length m) then Some (Inr (nat (sint c))) else None)"
    (is "Option.bind _ (\<lambda>it. map_loop m ?b it 0) = _")
proof -
  have o: "in_obj m p 4" using assms(1) by (auto simp: rd32_def dest: rd_SomeD)
  obtain it where it: "proxy_wasm_map_init_iter m p = Some it" "it_len it = c" "it_idx it = of_nat 0" "it_size_ptr it = p + 4"
    using assms(1) by (simp add: proxy_wasm_map_init_iter_def Let_def)
  show ?thesis
  proof (cases "0 \<le> sint c")
    case True
    have c: "c = of_nat (0 + nat (sint c))" using True by simp
    have "nat (sint c) < 2 ^ 31" using sint_i32_bounds [of c] by simp
    then have "map_loop m ?b it 0 =
        (if it_size_ptr it + 8 * int (nat (sint c)) \<le> int (length m) then Some (Inr (0 + nat (sint c))) else None)"
      using it c o by (intro map_loop_rounds [where i = 0]) (auto simp: in_obj_def)
    with it True show ?thesis by simp
  next
    case False
    then have "map_loop m ?b it 0 = None"
      using it o by (intro map_loop_negative [OF assms(2), of _ it 0]) (auto simp: in_obj_def)
    with it False show ?thesis by simp
  qed
qed

theorem map_reading_ends_witness:
  "do { it \<leftarrow> proxy_wasm_map_init_iter (1 # replicate 15 0) 0;
        map_loop (1 # replicate 15 0) (\<lambda>key key_len val val_len n. Some (Inr (Suc n))) it 0 } = (Some (Inr 1) :: (unit + nat) option)"
proof -
  have "rd32 (1 # replicate 15 0) 0 = Some 1" by code_simp
  from map_reading_ends [OF this] show ?thesis by simp
qed

end
