(* ===== verification/Wasm_State.thy ===== *)
theory Wasm_State
  imports VM
begin

text \<open>
  src/http/ngx_http_wasm_state.c: the static pointer \<^verbatim>\<open>cur_state\<close> to the state record of the
  plugin or plugin context that runs, and its getters. A NULL or dangling \<^verbatim>\<open>cur_state\<close> that
  the code follows is undefined. The locale \<open>state_cell\<close> is the contract callers rely on:
  between setting and clearing, every getter answers from the record that was set.
\<close>

definition cur_wasm_state :: "host \<Rightarrow> wasm_state option option" where
  "cur_wasm_state w =
     (case h_cur_state w of
        None \<Rightarrow> Some None
      | Some st \<Rightarrow> do { ws \<leftarrow> h_states w st; Some (Some ws) })"

definition ngx_http_wasm_set_state :: "nat option \<Rightarrow> host \<Rightarrow> host option" where
  "ngx_http_wasm_set_state state w =
     (case state of
        None \<Rightarrow>
          do { cur \<leftarrow> h_cur_state w;
               ws \<leftarrow> h_states w cur;
               Some (w\<lparr>h_states := (h_states w)(cur \<mapsto> ws\<lparr>ws_body := Some str_null\<rparr>),
                       h_cur_state := None\<rparr>) }
      | Some st \<Rightarrow> Some (w\<lparr>h_cur_state := Some st\<rparr>))"

text \<open>The getters: the inner \<open>None\<close> is NULL.\<close>

definition ngx_http_wasm_get_conf :: "host \<Rightarrow> ngx_str option option" where
  "ngx_http_wasm_get_conf w = do { cur \<leftarrow> cur_wasm_state w; Some (map_option ws_conf cur) }"

definition ngx_http_wasm_get_req :: "host \<Rightarrow> nat option option" where
  "ngx_http_wasm_get_req w =
     do { cur \<leftarrow> cur_wasm_state w;
          Some (case cur of None \<Rightarrow> None | Some ws \<Rightarrow> ws_r ws) }"

text \<open>
  \<^verbatim>\<open>ngx_http_wasm_get_log\<close> returns the log of the request or of the cycle; which of the two
  is not modelled, that it follows the request pointer is.
\<close>

definition ngx_http_wasm_get_log :: "host \<Rightarrow> unit option" where
  "ngx_http_wasm_get_log w =
     do { r \<leftarrow> ngx_http_wasm_get_req w;
          (case r of None \<Rightarrow> Some () | Some r \<Rightarrow> do { _ \<leftarrow> h_requests w r; Some () }) }"

definition ngx_http_wasm_get_plugin_name :: "host \<Rightarrow> bytes option option" where
  "ngx_http_wasm_get_plugin_name w =
     do { cur \<leftarrow> cur_wasm_state w;
          Some (case cur of None \<Rightarrow> None | Some ws \<Rightarrow> ws_plugin_name ws) }"

text \<open>
  \<^verbatim>\<open>ngx_http_wasm_get_body\<close> returns the address of the field; its only caller reads the field
  at once, which is undefined while it is uninitialised.
\<close>

definition ngx_http_wasm_get_body :: "host \<Rightarrow> ngx_str option option" where
  "ngx_http_wasm_get_body w =
     do { cur \<leftarrow> cur_wasm_state w;
          (case cur of
             None \<Rightarrow> Some None
           | Some ws \<Rightarrow> do { b \<leftarrow> ws_body ws; Some (Some b) }) }"

section \<open>The module context of a request\<close>

text \<open>
  \<^verbatim>\<open>ngx_http_wasm_get_module_ctx\<close> of ngx_http_wasm_module.c: the context of a request, created
  with its cleanup handler when it is missing. The result is whether there is one (NULL when
  an allocation fails). A new context is zeroed; its address is that of its allocation, the
  number of allocations before it. Its array \<^verbatim>\<open>http_ctxs\<close> is not part of the host:
  \<open>m_get_module_ctx\<close> in Contexts sets it to NULL. \<open>sizeof_wasm_ctx\<close> is
  \<^verbatim>\<open>sizeof(ngx_http_wasm_ctx_t)\<close> of a 64-bit build.
\<close>

abbreviation (input) sizeof_wasm_ctx :: nat where "sizeof_wasm_ctx \<equiv> 48"
abbreviation (input) sizeof_pool_cleanup :: nat where "sizeof_pool_cleanup \<equiv> 24"

definition new_wasm_ctx :: "host \<Rightarrow> wasm_ctx" where
  "new_wasm_ctx w = wasm_ctx_zero\<lparr>wc_addr := h_allocs w\<rparr>"

definition ngx_http_wasm_get_module_ctx :: "env \<Rightarrow> nat \<Rightarrow> host \<Rightarrow> (wasm_ctx option \<times> host) option" where
  "ngx_http_wasm_get_module_ctx E r w =
     do { rq \<leftarrow> h_requests w r;
          (case rq_ctx rq of
             Some ctx \<Rightarrow> Some (Some ctx, w)
           | None \<Rightarrow>
               let ctx = new_wasm_ctx w in
               (case try_alloc E sizeof_wasm_ctx w of
                  (False, w) \<Rightarrow> Some (None, w)
                | (True, w) \<Rightarrow>
                    (case try_alloc E sizeof_pool_cleanup w of
                       (False, w) \<Rightarrow> Some (None, w)
                     | (True, w) \<Rightarrow>
                         do { w \<leftarrow> upd_request r (\<lambda>rq. rq\<lparr>rq_ctx := Some ctx\<rparr>) w;
                              Some (Some ctx, w) }))) }"

text \<open>The module context of a request at the pointer the caller got earlier.\<close>

definition request_ctx :: "nat \<Rightarrow> host \<Rightarrow> wasm_ctx option" where
  "request_ctx r w = do { rq \<leftarrow> h_requests w r; rq_ctx rq }"

text \<open>Storing back a context that is there.\<close>

definition set_wasm_ctx :: "nat \<Rightarrow> wasm_ctx \<Rightarrow> host \<Rightarrow> host option" where
  "set_wasm_ctx r ctx w = upd_request r (\<lambda>rq. rq\<lparr>rq_ctx := Some ctx\<rparr>) w"

text \<open>
  What nothing in the module or in its host functions does: take the module context of a
  request away, or put another one in its place. \<open>ctx_frame\<close> states it of guest code.
\<close>

definition keeps_ctxs :: "host \<Rightarrow> host \<Rightarrow> bool" where
  "keeps_ctxs w w' \<longleftrightarrow>
     (\<forall>r c. request_ctx r w = Some c \<longrightarrow> (\<exists>c'. request_ctx r w' = Some c' \<and> wc_addr c' = wc_addr c))"

definition ctx_frame :: "env \<Rightarrow> bool" where
  "ctx_frame E \<longleftrightarrow> (\<forall>plugin name args hr w. keeps_ctxs w (snd (e_invoke E plugin name args hr w)))"

lemma keeps_ctxs_refl: "(\<And>r. request_ctx r w' = request_ctx r w) \<Longrightarrow> keeps_ctxs w w'"
  by (simp add: keeps_ctxs_def)

lemma keeps_ctxs_trans: "keeps_ctxs w w1 \<Longrightarrow> keeps_ctxs w1 w2 \<Longrightarrow> keeps_ctxs w w2"
  unfolding keeps_ctxs_def by metis

lemma keeps_ctxsD: "keeps_ctxs w w' \<Longrightarrow> request_ctx r w \<noteq> None \<Longrightarrow> request_ctx r w' \<noteq> None"
  unfolding keeps_ctxs_def by fastforce

text \<open>The change of one request keeps the contexts if it keeps that of the request.\<close>

definition keeps_ctx :: "request \<Rightarrow> request \<Rightarrow> bool" where
  "keeps_ctx rq rq' \<longleftrightarrow> (\<forall>c. rq_ctx rq = Some c \<longrightarrow> (\<exists>c'. rq_ctx rq' = Some c' \<and> wc_addr c' = wc_addr c))"

lemma keeps_ctxs_request:
  "h_requests w r = Some rq \<Longrightarrow> keeps_ctx rq rq' \<Longrightarrow> keeps_ctxs w (w\<lparr>h_requests := (h_requests w)(r \<mapsto> rq')\<rparr>)"
  by (auto simp: keeps_ctxs_def keeps_ctx_def request_ctx_def)

section \<open>The contract of the state pointer\<close>

locale state_cell =
  fixes set_st :: "nat option \<Rightarrow> 'w \<Rightarrow> 'w option"
    and current :: "'w \<Rightarrow> 's option option"
    and record_of :: "'w \<Rightarrow> nat \<Rightarrow> 's option"
    and clear :: "'s \<Rightarrow> 's"
  assumes set_Some: "\<exists>w'. set_st (Some st) w = Some w' \<and> record_of w' = record_of w \<and>
      (record_of w st = Some x \<longrightarrow> current w' = Some (Some x))"
    and set_None: "current w = Some (Some x) \<Longrightarrow>
      \<exists>w' st. set_st None w = Some w' \<and> current w' = Some None \<and>
        record_of w st = Some x \<and> record_of w' = (record_of w)(st := Some (clear x))"
    and set_None_twice: "current w = Some None \<Longrightarrow> set_st None w = None"
begin

text \<open>A bracket of set and clear leaves no current record and clears exactly the one set.\<close>

lemma bracket:
  assumes "record_of w st = Some x"
  shows "\<exists>w1 w2 st'. set_st (Some st) w = Some w1 \<and> current w1 = Some (Some x) \<and>
    set_st None w1 = Some w2 \<and> current w2 = Some None \<and> record_of w st' = Some x \<and>
    record_of w2 = (record_of w)(st' := Some (clear x))"
proof -
  from set_Some [of st w x] assms obtain w1 where w1: "set_st (Some st) w = Some w1"
    "record_of w1 = record_of w" "current w1 = Some (Some x)" by auto
  from set_None [OF w1(3)] w1(2) obtain w2 st' where "set_st None w1 = Some w2"
    "current w2 = Some None" "record_of w st' = Some x"
    "record_of w2 = (record_of w)(st' := Some (clear x))" by auto
  with w1 show ?thesis by blast
qed

lemma no_double_clear:
  assumes "record_of w st = Some x" "set_st (Some st) w = Some w1" "set_st None w1 = Some w2"
  shows "set_st None w2 = None"
proof -
  from bracket [OF assms(1)] assms(2,3) have "current w2 = Some None" by auto
  then show ?thesis by (rule set_None_twice)
qed

end

interpretation cell: state_cell ngx_http_wasm_set_state cur_wasm_state h_states
  "\<lambda>ws. ws\<lparr>ws_body := Some str_null\<rparr>"
proof unfold_locales
  fix w :: host and st x
  show "\<exists>w'. ngx_http_wasm_set_state (Some st) w = Some w' \<and> h_states w' = h_states w \<and>
      (h_states w st = Some x \<longrightarrow> cur_wasm_state w' = Some (Some x))"
    by (simp add: ngx_http_wasm_set_state_def cur_wasm_state_def)
next
  fix w :: host and x
  assume "cur_wasm_state w = Some (Some x)"
  then obtain st where "h_cur_state w = Some st" "h_states w st = Some x"
    by (auto simp: cur_wasm_state_def bind_eq_Some_conv split: option.splits)
  then show "\<exists>w' st. ngx_http_wasm_set_state None w = Some w' \<and> cur_wasm_state w' = Some None \<and>
      h_states w st = Some x \<and> h_states w' = (h_states w)(st \<mapsto> x\<lparr>ws_body := Some str_null\<rparr>)"
    by (auto simp: ngx_http_wasm_set_state_def cur_wasm_state_def)
next
  fix w :: host
  assume "cur_wasm_state w = Some None"
  then show "ngx_http_wasm_set_state None w = None"
    by (auto simp: ngx_http_wasm_set_state_def cur_wasm_state_def bind_eq_Some_conv
        split: option.splits)
qed

lemma set_state_Some [simp]: "ngx_http_wasm_set_state (Some st) w = Some (w\<lparr>h_cur_state := Some st\<rparr>)"
  by (simp add: ngx_http_wasm_set_state_def)

lemma set_state_None:
  "ngx_http_wasm_set_state None w = Some w' \<longleftrightarrow>
     (\<exists>st ws. h_cur_state w = Some st \<and> h_states w st = Some ws \<and>
        w' = w\<lparr>h_states := (h_states w)(st \<mapsto> ws\<lparr>ws_body := Some str_null\<rparr>), h_cur_state := None\<rparr>)"
  by (auto simp: ngx_http_wasm_set_state_def bind_eq_Some_conv)

lemma cur_wasm_state_simps:
  "h_cur_state w = None \<Longrightarrow> cur_wasm_state w = Some None"
  "h_cur_state w = Some st \<Longrightarrow> h_states w st = Some ws \<Longrightarrow> cur_wasm_state w = Some (Some ws)"
  by (simp_all add: cur_wasm_state_def)

section \<open>Properties\<close>

text \<open>
  The state bracket of ngx_http_wasm_state.c: after \<^verbatim>\<open>set_state(st)\<close> all getters answer
  from the record of \<open>st\<close>; after the closing \<^verbatim>\<open>set_state(NULL)\<close> they answer NULL, the body of
  that record is cleared and its configuration, request and plugin name are kept; a second
  \<^verbatim>\<open>set_state(NULL)\<close> would follow a NULL pointer.
\<close>

theorem state_bracket:
  assumes "h_states w st = Some ws" "ws_body ws = Some b"
  shows "\<exists>w1 w2.
    ngx_http_wasm_set_state (Some st) w = Some w1 \<and>
    ngx_http_wasm_get_conf w1 = Some (Some (ws_conf ws)) \<and>
    ngx_http_wasm_get_req w1 = Some (ws_r ws) \<and>
    ngx_http_wasm_get_plugin_name w1 = Some (ws_plugin_name ws) \<and>
    ngx_http_wasm_get_body w1 = Some (Some b) \<and>
    ngx_http_wasm_set_state None w1 = Some w2 \<and>
    ngx_http_wasm_get_conf w2 = Some None \<and> ngx_http_wasm_get_req w2 = Some None \<and>
    ngx_http_wasm_get_plugin_name w2 = Some None \<and> ngx_http_wasm_get_body w2 = Some None \<and>
    h_states w2 st = Some (ws\<lparr>ws_body := Some str_null\<rparr>) \<and>
    ngx_http_wasm_set_state None w2 = None"
proof -
  let ?w1 = "w\<lparr>h_cur_state := Some st\<rparr>"
  let ?w2 = "?w1\<lparr>h_states := (h_states w)(st \<mapsto> ws\<lparr>ws_body := Some str_null\<rparr>), h_cur_state := None\<rparr>"
  have s2: "ngx_http_wasm_set_state None ?w1 = Some ?w2"
    using assms by (simp add: ngx_http_wasm_set_state_def)
  moreover have "cur_wasm_state ?w1 = Some (Some ws)" "cur_wasm_state ?w2 = Some None"
    using assms by (simp_all add: cur_wasm_state_def)
  moreover have "ngx_http_wasm_set_state None ?w2 = None"
    using cell.no_double_clear [OF assms(1) set_state_Some s2] .
  ultimately show ?thesis
    using assms(2)
    by (intro exI [of _ ?w1] exI [of _ ?w2])
      (simp add: ngx_http_wasm_get_conf_def ngx_http_wasm_get_req_def ngx_http_wasm_get_body_def
        ngx_http_wasm_get_plugin_name_def)
qed

theorem state_bracket_witness:
  "\<exists>w2. ngx_http_wasm_set_state None (sample_host\<lparr>h_states := [4 \<mapsto> sample_state], h_cur_state := Some 4\<rparr>) = Some w2 \<and>
     ngx_http_wasm_get_conf w2 = Some None"
  using state_bracket [of "sample_host\<lparr>h_states := [4 \<mapsto> sample_state]\<rparr>" 4 sample_state str_null]
  by (auto simp: sample_state_def)

end
