(* ===== verification/Api_Base.thy ===== *)
theory Api_Base
  imports Pseudo_Headers Proxy_Map Wasm_State
begin

text \<open>
  The helpers of src/http/ngx_http_wasm_api.c: checks of what a plugin may set, copying to the
  memory of the plugin, and setting and reading headers with the pseudo headers. A function
  outside the repository that is given a pointer with a length may read all of it: a range that
  is not inside its object is undefined there. The functions here are read as they are, byte
  by byte.
\<close>

abbreviation (input) FFI_NO_REQ_CTX :: int where "FFI_NO_REQ_CTX \<equiv> -100"
abbreviation (input) FFI_BAD_CONTEXT :: int where "FFI_BAD_CONTEXT \<equiv> -101"
abbreviation (input) STR_BUF_SIZE :: nat where "STR_BUF_SIZE \<equiv> 4096"

section \<open>Checks\<close>

text \<open>\<^verbatim>\<open>NGX_HTTP_WASM_YIELDABLE\<close>: the phases rewrite, access, content and timer.\<close>

definition yieldable_phases :: int where
  "yieldable_phases = 0x2 + 0x4 + 0x8 + 0x80"

definition ngx_http_wasm_is_yieldable :: "env \<Rightarrow> request \<Rightarrow> bool" where
  "ngx_http_wasm_is_yieldable E rq =
     (let phase = e_get_phase E rq in if phase < 0 then False else and phase yieldable_phases \<noteq> 0)"

text \<open>The bitmap: 32 characters to a word, the bit of a character is its low five bits.\<close>

definition unsafe_bits :: "i32 list" where
  "unsafe_bits = [0xfffffdff, 0, 0, 0x80000000, 0, 0, 0, 0]"

definition unsafe_uri_byte :: "byte \<Rightarrow> bool" where
  "unsafe_uri_byte c = bit (unsafe_bits ! (unat c div 32)) (unat c mod 32)"

fun ngx_http_wasm_check_unsafe_uri_bytes :: "bytes \<Rightarrow> int \<Rightarrow> nat \<Rightarrow> int option" where
  "ngx_http_wasm_check_unsafe_uri_bytes m str 0 = Some NGX_OK"
| "ngx_http_wasm_check_unsafe_uri_bytes m str (Suc len) =
     do { c \<leftarrow> rd m str 1;
          if unsafe_uri_byte (hd c) then Some NGX_ERROR
          else ngx_http_wasm_check_unsafe_uri_bytes m (str + 1) len }"

definition is_alpha :: "byte \<Rightarrow> bool" where
  "is_alpha c \<longleftrightarrow> (65 \<le> c \<and> c \<le> 90) \<or> (97 \<le> c \<and> c \<le> 122)"

fun ngx_http_wasm_check_unsafe_method :: "bytes \<Rightarrow> int \<Rightarrow> nat \<Rightarrow> int option" where
  "ngx_http_wasm_check_unsafe_method m str 0 = Some NGX_OK"
| "ngx_http_wasm_check_unsafe_method m str (Suc len) =
     do { c \<leftarrow> rd m str 1;
          if \<not> is_alpha (hd c) then Some NGX_ERROR
          else ngx_http_wasm_check_unsafe_method m (str + 1) len }"

section \<open>Copying to the plugin\<close>

text \<open>
  \<^verbatim>\<open>ngx_http_wasm_copy_to_wasm\<close>: the data is NULL or the bytes from the pointer to the end of
  its object. The size is written first; the address of the copy last.
\<close>

definition ngx_http_wasm_copy_to_wasm ::
  "env \<Rightarrow> bytes option \<Rightarrow> i32 \<Rightarrow> i32 \<Rightarrow> i32 \<Rightarrow> host \<Rightarrow> (proxy_result \<times> host) option" where
  "ngx_http_wasm_copy_to_wasm E data len addr size_addr w =
     do { p_size \<leftarrow> vm_get_memory E size_addr 4 w;
          (case p_size of
             None \<Rightarrow> Some (PROXY_RESULT_INVALID_MEMORY_ACCESS, w)
           | Some p_size \<Rightarrow>
               do { w \<leftarrow> guest_wr w p_size (le32 len);
                    if len = 0 then Some (PROXY_RESULT_OK, w)
                    else do {
                      (buf_addr, w) \<leftarrow> proxy_wasm_memory_alloc E len w;
                      if buf_addr = 0 then Some (PROXY_RESULT_INTERNAL_FAILURE, w)
                      else do {
                        buf \<leftarrow> vm_get_memory E buf_addr len w;
                        (case buf of
                           None \<Rightarrow> Some (PROXY_RESULT_INVALID_MEMORY_ACCESS, w)
                         | Some buf \<Rightarrow>
                             do { d \<leftarrow> data;
                                  bs \<leftarrow> rd d 0 (size_of_i32 len);
                                  w \<leftarrow> guest_wr w buf bs;
                                  p \<leftarrow> vm_get_memory E addr 4 w;
                                  (case p of
                                     None \<Rightarrow> Some (PROXY_RESULT_INVALID_MEMORY_ACCESS, w)
                                   | Some p \<Rightarrow>
                                       do { w \<leftarrow> guest_wr w p (le32 buf_addr);
                                            Some (PROXY_RESULT_OK, w) }) }) } } }) }"

text \<open>The inner \<open>None\<close> is NULL.\<close>

definition ngx_http_wasm_get_buf_to_write ::
  "env \<Rightarrow> i32 \<Rightarrow> i32 \<Rightarrow> i32 \<Rightarrow> host \<Rightarrow> (int option \<times> host) option" where
  "ngx_http_wasm_get_buf_to_write E len addr size_addr w =
     do { (buf_addr, w) \<leftarrow> proxy_wasm_memory_alloc E len w;
          if buf_addr = 0 then Some (None, w)
          else do {
            buf \<leftarrow> vm_get_memory E buf_addr len w;
            (case buf of
               None \<Rightarrow> Some (None, w)
             | Some buf \<Rightarrow>
                 do { p \<leftarrow> vm_get_memory E addr 4 w;
                      (case p of
                         None \<Rightarrow> Some (None, w)
                       | Some p \<Rightarrow>
                           do { w \<leftarrow> guest_wr w p (le32 buf_addr);
                                p_size \<leftarrow> vm_get_memory E size_addr 4 w;
                                (case p_size of
                                   None \<Rightarrow> Some (None, w)
                                 | Some p_size \<Rightarrow>
                                     do { w \<leftarrow> guest_wr w p_size (le32 len);
                                          Some (Some buf, w) }) }) }) } }"

text \<open>
  \<^verbatim>\<open>ngx_http_wasm_get_string_buf\<close>: the static buffer, or an allocation when it is too small.
  That calls nested in a guest call share the static buffer is not modelled.
\<close>

definition ngx_http_wasm_get_string_buf :: "env \<Rightarrow> nat \<Rightarrow> host \<Rightarrow> bool \<times> host" where
  "ngx_http_wasm_get_string_buf E sz w = (if sz > STR_BUF_SIZE then try_alloc E sz w else (True, w))"

section \<open>Setting headers\<close>

text \<open>A string argument: NULL, or a pointer into the memory \<open>m\<close> with a length.\<close>

definition str_arg :: "bytes \<Rightarrow> (int \<times> nat) option \<Rightarrow> bytes option option" where
  "str_arg m v = (case v of None \<Rightarrow> Some None | Some (p, n) \<Rightarrow> do { bs \<leftarrow> rd m p n; Some (Some bs) })"

definition str_arg_len :: "(int \<times> nat) option \<Rightarrow> nat" where
  "str_arg_len v = (case v of None \<Rightarrow> 0 | Some (p, n) \<Rightarrow> n)"

text \<open>The result of the FFI functions that set headers: anything but OK and DECLINED is an error.\<close>

definition ffi_rc :: "int \<Rightarrow> int" where
  "ffi_rc rc = (if rc \<noteq> NGX_OK \<and> rc \<noteq> NGX_DECLINED then NGX_ERROR else NGX_OK)"

text \<open>What the pseudo headers \<^verbatim>\<open>:path\<close> and the others (called "method" in the code) do.\<close>

definition set_path :: "env \<Rightarrow> bytes \<Rightarrow> request \<Rightarrow> request" where
  "set_path E v rq =
     (e_set_exten E (rq\<lparr>rq_uri := v, rq_internal := True, rq_valid_unparsed_uri := False\<rparr>))
       \<lparr>rq_valid_location := False, rq_uri_changed := False\<rparr>"

definition set_pseudo_req_header ::
  "env \<Rightarrow> nat \<Rightarrow> bytes \<Rightarrow> pseudo_header \<Rightarrow> int \<times> nat \<Rightarrow> host \<Rightarrow> (int \<times> host) option" where
  "set_pseudo_req_header E r m ty val w =
     (case val of (p, val_len) \<Rightarrow>
        do { rc \<leftarrow> (if ty = PseudoPath then ngx_http_wasm_check_unsafe_uri_bytes m p val_len
                   else ngx_http_wasm_check_unsafe_method m p val_len);
             if rc \<noteq> NGX_OK then Some (NGX_ERROR, w)
             else case try_alloc E val_len w of
                    (False, w) \<Rightarrow> Some (NGX_ERROR, w)
                  | (True, w) \<Rightarrow>
                      do { v \<leftarrow> rd m p val_len;
                           w \<leftarrow> upd_request r (if ty = PseudoPath then set_path E v
                                             else (\<lambda>rq. rq\<lparr>rq_method_name := v\<rparr>)) w;
                           Some (NGX_OK, w) } })"

text \<open>
  \<^verbatim>\<open>ngx_http_wasm_set_req_header\<close>. The loop starts at 1, behind \<^verbatim>\<open>:scheme\<close>; a name that starts
  with a colon and is not found goes on to the FFI function like any other.
\<close>

definition ngx_http_wasm_set_req_header ::
  "env \<Rightarrow> nat \<Rightarrow> bytes \<Rightarrow> int \<Rightarrow> nat \<Rightarrow> (int \<times> nat) option \<Rightarrow> bool \<Rightarrow> host \<Rightarrow> (int \<times> host) option" where
  "ngx_http_wasm_set_req_header E r m key key_len val override w =
     do { colon \<leftarrow> starts_with_colon m key key_len;
          if colon \<and> str_arg_len val = 0 then Some (NGX_ERROR, w)
          else do {
            found \<leftarrow> (if colon then find_pseudo E m key key_len (tl wasm_pseudo_req_header_static_table)
                      else Some None);
            (case found of
               Some ty \<Rightarrow> do { val \<leftarrow> val; set_pseudo_req_header E r m ty val w }
             | None \<Rightarrow>
                 do { k \<leftarrow> rd m key key_len;
                      v \<leftarrow> str_arg m val;
                      rq \<leftarrow> h_requests w r;
                      (case e_set_req_header E k v override rq of
                         (rc, rq) \<Rightarrow>
                           do { w \<leftarrow> upd_request r (\<lambda>_. rq) w; Some (ffi_rc rc, w) }) }) } }"

definition ngx_http_wasm_set_resp_header ::
  "env \<Rightarrow> nat \<Rightarrow> bytes \<Rightarrow> int \<Rightarrow> nat \<Rightarrow> bool \<Rightarrow> (int \<times> nat) option \<Rightarrow> bool \<Rightarrow> host \<Rightarrow> (int \<times> host) option" where
  "ngx_http_wasm_set_resp_header E r m key key_len is_nil val override w =
     do { status \<leftarrow> name_is E m key key_len (ascii '':status'');
          if status then
            if is_nil then Some (NGX_ERROR, w)
            else do {
              v \<leftarrow> str_arg m val;
              v \<leftarrow> v;
              let code = e_atoi E v;
              if code = NGX_ERROR then Some (NGX_ERROR, w)
              else do {
                rq \<leftarrow> h_requests w r;
                (case e_set_resp_status E code rq of
                   (rc, rq) \<Rightarrow> do { w \<leftarrow> upd_request r (\<lambda>_. rq) w; Some (ffi_rc rc, w) }) } }
          else do {
            k \<leftarrow> rd m key key_len;
            v \<leftarrow> str_arg m val;
            rq \<leftarrow> h_requests w r;
            (case e_set_resp_header E k is_nil v override rq of
               (rc, rq) \<Rightarrow> do { w \<leftarrow> upd_request r (\<lambda>_. rq) w; Some (ffi_rc rc, w) }) } }"

section \<open>The pseudo headers of a request and a response\<close>

definition ngx_http_wasm_get_path :: "request \<Rightarrow> bytes option" where
  "ngx_http_wasm_get_path rq = Some (rq_unparsed_uri rq)"

text \<open>The host header may be NULL; the member of a NULL struct is read by the callers.\<close>

definition ngx_http_wasm_get_authority :: "request \<Rightarrow> bytes option" where
  "ngx_http_wasm_get_authority rq = rq_host rq"

definition ngx_http_wasm_get_method :: "request \<Rightarrow> bytes option" where
  "ngx_http_wasm_get_method rq = Some (rq_method_name rq)"

definition ngx_http_wasm_get_scheme :: "request \<Rightarrow> bytes option" where
  "ngx_http_wasm_get_scheme rq = Some (if rq_ssl rq then ascii ''https'' else ascii ''http'')"

definition ngx_http_wasm_get_status :: "env \<Rightarrow> request \<Rightarrow> bytes option" where
  "ngx_http_wasm_get_status E rq =
     Some (e_fmt_uint E (if rq_err_status rq \<noteq> 0 then rq_err_status rq else rq_status rq))"

definition pseudo_getter :: "env \<Rightarrow> pseudo_header \<Rightarrow> request \<Rightarrow> bytes option" where
  "pseudo_getter E ty rq =
     (case ty of
        PseudoScheme \<Rightarrow> ngx_http_wasm_get_scheme rq
      | PseudoPath \<Rightarrow> ngx_http_wasm_get_path rq
      | PseudoMethod \<Rightarrow> ngx_http_wasm_get_method rq
      | PseudoAuthority \<Rightarrow> ngx_http_wasm_get_authority rq
      | PseudoStatus \<Rightarrow> ngx_http_wasm_get_status E rq)"

text \<open>\<^verbatim>\<open>ty\<close> is 1 for a request and 2 for a response; the inner \<open>None\<close> is NULL.\<close>

abbreviation (input) PROXY_WASM_REQUEST_HEADER :: nat where "PROXY_WASM_REQUEST_HEADER \<equiv> 1"
abbreviation (input) PROXY_WASM_RESPONSE_HEADER :: nat where "PROXY_WASM_RESPONSE_HEADER \<equiv> 2"

definition ngx_http_wasm_get_pseudo_header ::
  "env \<Rightarrow> request \<Rightarrow> bytes \<Rightarrow> int \<Rightarrow> nat \<Rightarrow> nat \<Rightarrow> bytes option option" where
  "ngx_http_wasm_get_pseudo_header E rq m key_data key_size ty =
     (if ty \<noteq> PROXY_WASM_REQUEST_HEADER \<and> ty \<noteq> PROXY_WASM_RESPONSE_HEADER then Some None
      else do {
        let whs = (if ty = PROXY_WASM_REQUEST_HEADER then wasm_pseudo_req_header_static_table
                   else wasm_pseudo_resp_header_static_table);
        colon \<leftarrow> starts_with_colon m key_data key_size;
        if \<not> colon then Some None
        else do {
          found \<leftarrow> find_pseudo E m key_data key_size whs;
          (case found of
             None \<Rightarrow> Some None
           | Some ty \<Rightarrow> do { h \<leftarrow> pseudo_getter E ty rq; Some (Some h) }) } })"

definition ngx_http_wasm_get_pseudo_req_header ::
  "env \<Rightarrow> request \<Rightarrow> bytes \<Rightarrow> int \<Rightarrow> nat \<Rightarrow> bytes option option" where
  "ngx_http_wasm_get_pseudo_req_header E rq m key_data key_size =
     ngx_http_wasm_get_pseudo_header E rq m key_data key_size PROXY_WASM_REQUEST_HEADER"

definition ngx_http_wasm_get_pseudo_resp_header ::
  "env \<Rightarrow> request \<Rightarrow> bytes \<Rightarrow> int \<Rightarrow> nat \<Rightarrow> bytes option option" where
  "ngx_http_wasm_get_pseudo_resp_header E rq m key_data key_size =
     ngx_http_wasm_get_pseudo_header E rq m key_data key_size PROXY_WASM_RESPONSE_HEADER"

end
