(* ===== verification/Api_Headers.thy ===== *)
theory Api_Headers
  imports Api_Base
begin

text \<open>
  Reading the header maps in src/http/ngx_http_wasm_api.c: all headers of a request, of a
  response or of the response of an HTTP call, serialized into memory that the plugin
  allocates, and one header by its name.
\<close>

section \<open>Writing a header map\<close>

text \<open>
  \<^verbatim>\<open>proxy_wasm_map_init_map\<close>, \<^verbatim>\<open>proxy_wasm_map_init_iter\<close> and the writes of a list of entries,
  at the pointer \<open>buf\<close> into the memory of the plugin.
\<close>

definition start_map :: "int \<Rightarrow> i32 \<Rightarrow> host \<Rightarrow> (bytes \<times> proxy_wasm_map_iter) option" where
  "start_map buf count w =
     do { m \<leftarrow> guest_mem w;
          m \<leftarrow> proxy_wasm_map_init_map m buf count;
          it \<leftarrow> proxy_wasm_map_init_iter m buf;
          Some (m, it) }"

text \<open>The sizes are \<^verbatim>\<open>int\<close> sums: they wrap at 32 bits.\<close>

definition pair_size :: "bytes \<times> bytes \<Rightarrow> i32" where
  "pair_size e = of_nat (length (fst e)) + of_nat (length (snd e)) + 2"

definition pairs_size :: "(bytes \<times> bytes) list \<Rightarrow> i32" where
  "pairs_size kvs = sum_list (map pair_size kvs)"

section \<open>All headers\<close>

abbreviation (input) sizeof_table_elt :: nat where "sizeof_table_elt \<equiv> 32"

fun pseudo_req_headers :: "env \<Rightarrow> request \<Rightarrow> (bytes \<times> pseudo_header) list \<Rightarrow> (bytes \<times> bytes) list option" where
  "pseudo_req_headers E rq [] = Some []"
| "pseudo_req_headers E rq ((name, ty) # table) =
     do { s \<leftarrow> pseudo_getter E ty rq;
          rest \<leftarrow> pseudo_req_headers E rq table;
          Some ((name, s) # rest) }"

text \<open>
  \<^verbatim>\<open>ngx_http_wasm_req_get_headers\<close>. The FFI functions count the headers and fill an array of
  that many entries. The pseudo headers are asked for twice: for the size, and after the
  plugin's allocator has run.
\<close>

definition ngx_http_wasm_req_get_headers ::
  "env \<Rightarrow> nat \<Rightarrow> i32 \<Rightarrow> i32 \<Rightarrow> host \<Rightarrow> (proxy_result \<times> host) option" where
  "ngx_http_wasm_req_get_headers E r addr size_addr w =
     do { rq \<leftarrow> h_requests w r;
          let count = e_req_headers_count E rq;
          if count = FFI_BAD_CONTEXT then Some (PROXY_RESULT_BAD_ARGUMENT, w)
          else do {
            let (ok, w) = (if 0 < count
                           then ngx_http_wasm_get_string_buf E (nat count * sizeof_table_elt) w
                           else (True, w));
            let (rc, headers) = (if 0 < count then e_req_headers E count rq else (NGX_OK, []));
            if \<not> ok \<or> rc \<noteq> NGX_OK then Some (PROXY_RESULT_INTERNAL_FAILURE, w)
            else if length headers < nat count then None
            else do {
              let headers = take (nat count) headers;
              ps \<leftarrow> pseudo_req_headers E rq wasm_pseudo_req_header_static_table;
              let n = of_int count + of_nat (length wasm_pseudo_req_header_static_table);
              let sz = pairs_size headers + pairs_size ps + (4 + n * 2 * 4);
              (buf, w) \<leftarrow> ngx_http_wasm_get_buf_to_write E sz addr size_addr w;
              (case buf of
                 None \<Rightarrow> Some (PROXY_RESULT_INVALID_MEMORY_ACCESS, w)
               | Some buf \<Rightarrow>
                   do { (m, it) \<leftarrow> start_map buf n w;
                        (m, it) \<leftarrow> put_list put_pair m it headers;
                        rq \<leftarrow> h_requests w r;
                        ps \<leftarrow> pseudo_req_headers E rq wasm_pseudo_req_header_static_table;
                        (m, it) \<leftarrow> put_list put_pair m it ps;
                        w \<leftarrow> set_guest_mem m w;
                        Some (PROXY_RESULT_OK, w) }) } } }"

text \<open>
  The loop over an \<^verbatim>\<open>ngx_list_t\<close> from a given part on: the elements in order. Behind the end
  of a part the next one is entered and its element 0 is taken without a look at its length,
  which is undefined for an empty part (\<open>None\<close>).
\<close>

fun list_from :: "header_list \<Rightarrow> table_elt list option" where
  "list_from [] = None"
| "list_from [part] = Some part"
| "list_from (part # next_part # parts) =
     (if next_part = [] then None
      else do { rest \<leftarrow> list_from (next_part # parts); Some (part @ rest) })"

definition used_headers :: "table_elt list \<Rightarrow> table_elt list" where
  "used_headers hs = filter (\<lambda>h. te_hash h \<noteq> 0) hs"

definition elt_pair :: "table_elt \<Rightarrow> bytes \<times> bytes" where
  "elt_pair h = (te_key h, te_value h)"

text \<open>The headers that nginx keeps outside the list, in the order they are written.\<close>

abbreviation (input) NGX_HTTP_SWITCHING_PROTOCOLS :: nat where "NGX_HTTP_SWITCHING_PROTOCOLS \<equiv> 101"
abbreviation (input) NGX_OFF_T_LEN :: nat where "NGX_OFF_T_LEN \<equiv> 20"
abbreviation (input) NGX_INT_T_LEN :: nat where "NGX_INT_T_LEN \<equiv> 20"

definition needs_content_length :: "request \<Rightarrow> bool" where
  "needs_content_length rq \<longleftrightarrow> \<not> rq_content_length_set rq \<and> 0 \<le> rq_content_length_n rq"

definition connection_value :: "request \<Rightarrow> bytes" where
  "connection_value rq =
     (if rq_status rq = NGX_HTTP_SWITCHING_PROTOCOLS then ascii ''upgrade''
      else if rq_keepalive rq then ascii ''keep-alive''
      else ascii ''close'')"

definition special_type :: "request \<Rightarrow> (bytes \<times> bytes) list" where
  "special_type rq =
     (if rq_content_type rq \<noteq> [] then [(ascii ''content-type'', rq_content_type rq)] else [])"

definition special_length :: "env \<Rightarrow> request \<Rightarrow> (bytes \<times> bytes) list" where
  "special_length E rq =
     (if needs_content_length rq
      then [(ascii ''content-length'', take NGX_OFF_T_LEN (e_fmt_off E (rq_content_length_n rq)))] else [])"

definition special_connection :: "request \<Rightarrow> (bytes \<times> bytes) list" where
  "special_connection rq =
     (ascii ''connection'', connection_value rq) #
     (if rq_chunked rq then [(ascii ''transfer-encoding'', ascii ''chunked'')] else [])"

definition special_status :: "env \<Rightarrow> request \<Rightarrow> (bytes \<times> bytes) list" where
  "special_status E rq =
     (if rq_status rq \<noteq> 0
      then [(ascii '':status'', take NGX_INT_T_LEN (e_fmt_uint E (rq_status rq)))] else [])"

text \<open>
  The first stage of \<^verbatim>\<open>ngx_http_wasm_resp_get_headers\<close>: count and size. The name
  \<^verbatim>\<open>connection\<close> is counted with the size of \<^verbatim>\<open>"content-length"\<close>. The strings for the content
  length and the status are allocated; \<open>None\<close> of the pair is a failure.
\<close>

definition literal_slack :: i32 where
  "literal_slack = of_nat (length (ascii ''content-length'') - length (ascii ''connection''))"

definition resp_headers_size :: "env \<Rightarrow> request \<Rightarrow> table_elt list \<Rightarrow> i32 \<times> i32" where
  "resp_headers_size E rq hs =
     (let special = special_type rq @ special_length E rq @ special_connection rq @ special_status E rq;
          count = of_nat (length hs + length special)
      in (count, pairs_size (map elt_pair hs) + pairs_size special + literal_slack + (4 + count * 2 * 4)))"

definition resp_headers_alloc :: "env \<Rightarrow> request \<Rightarrow> host \<Rightarrow> bool \<times> host" where
  "resp_headers_alloc E rq w =
     (let (ok, w) = (if needs_content_length rq then try_alloc E NGX_OFF_T_LEN w else (True, w))
      in if \<not> ok then (False, w)
         else if rq_status rq \<noteq> 0 then try_alloc E NGX_INT_T_LEN w else (True, w))"

text \<open>
  \<^verbatim>\<open>ngx_http_wasm_resp_get_headers\<close>. The second loop goes on from the part where the first one
  stopped, the last one: \<^verbatim>\<open>part\<close> is not set back to the head of the list. The strings of the
  special headers are those of the first stage except the content type, the connection and
  the chunked flag, which are read again after the plugin's allocator has run.
\<close>

definition put_literals ::
  "bytes \<Rightarrow> proxy_wasm_map_iter \<Rightarrow> (bytes \<times> bytes) list \<Rightarrow> (bytes \<times> proxy_wasm_map_iter) option" where
  "put_literals m it kvs = put_list proxy_wasm_map_reserve_literal m it kvs"

definition ngx_http_wasm_resp_get_headers ::
  "env \<Rightarrow> nat \<Rightarrow> i32 \<Rightarrow> i32 \<Rightarrow> host \<Rightarrow> (proxy_result \<times> host) option" where
  "ngx_http_wasm_resp_get_headers E r addr size_addr w =
     do { rq \<leftarrow> h_requests w r;
          all_parts \<leftarrow> list_from (rq_headers_out rq);
          let (ok, w) = resp_headers_alloc E rq w;
          if \<not> ok then Some (PROXY_RESULT_INTERNAL_FAILURE, w)
          else do {
            let (count, sz) = resp_headers_size E rq (used_headers all_parts);
            (buf, w) \<leftarrow> ngx_http_wasm_get_buf_to_write E sz addr size_addr w;
            (case buf of
               None \<Rightarrow> Some (PROXY_RESULT_INVALID_MEMORY_ACCESS, w)
             | Some buf \<Rightarrow>
                 do { (m, it) \<leftarrow> start_map buf count w;
                      rq2 \<leftarrow> h_requests w r;
                      last_part \<leftarrow> list_from (drop (length (rq_headers_out rq) - 1) (rq_headers_out rq2));
                      (m, it) \<leftarrow> put_list put_pair m it
                        (map (\<lambda>h. (strlow E (te_key h), te_value h)) (used_headers last_part));
                      (m, it) \<leftarrow> put_list put_pair m it (special_type rq2);
                      (m, it) \<leftarrow> put_list put_pair m it (special_length E rq);
                      (m, it) \<leftarrow> put_literals m it (special_connection rq2);
                      (m, it) \<leftarrow> put_list put_pair m it (special_status E rq);
                      w \<leftarrow> set_guest_mem m w;
                      Some (PROXY_RESULT_OK, w) }) } }"

definition ngx_http_wasm_http_call_resp_get_headers ::
  "env \<Rightarrow> nat \<Rightarrow> i32 \<Rightarrow> i32 \<Rightarrow> host \<Rightarrow> (proxy_result \<times> host) option" where
  "ngx_http_wasm_http_call_resp_get_headers E r addr size_addr w =
     do { (ctx, w) \<leftarrow> ngx_http_wasm_get_module_ctx E r w;
          ctx \<leftarrow> ctx;
          let n = wc_call_resp_n_header ctx;
          if n = 0 then Some (PROXY_RESULT_NOT_FOUND, w)
          else if length (wc_call_resp_headers ctx) < n then None
          else do {
            let hdr = take n (wc_call_resp_headers ctx);
            (buf, w) \<leftarrow> ngx_http_wasm_get_buf_to_write E (pairs_size hdr + (4 + of_nat n * 2 * 4)) addr size_addr w;
            (case buf of
               None \<Rightarrow> Some (PROXY_RESULT_INVALID_MEMORY_ACCESS, w)
             | Some buf \<Rightarrow>
                 do { (m, it) \<leftarrow> start_map buf (of_nat n) w;
                      (m, it) \<leftarrow> put_list put_pair m it hdr;
                      w \<leftarrow> set_guest_mem m w;
                      Some (PROXY_RESULT_OK, w) }) } }"

section \<open>One header\<close>

text \<open>The search in a list of parts, with the same walk over the parts; first match wins.\<close>

fun find_elt :: "env \<Rightarrow> bytes \<Rightarrow> int \<Rightarrow> nat \<Rightarrow> header_list \<Rightarrow> bytes option option" where
  "find_elt E m key key_size [] = Some None"
| "find_elt E m key key_size ([] # parts) =
     (case parts of
        [] \<Rightarrow> Some None
      | part # _ \<Rightarrow> if part = [] then None else find_elt E m key key_size parts)"
| "find_elt E m key key_size ((h # hs) # parts) =
     (if te_hash h = 0 then find_elt E m key key_size (hs # parts)
      else do { found \<leftarrow> name_is E m key key_size (te_key h);
                if found then Some (Some (te_value h)) else find_elt E m key key_size (hs # parts) })"

definition copy_value ::
  "env \<Rightarrow> bytes option \<Rightarrow> i32 \<Rightarrow> i32 \<Rightarrow> host \<Rightarrow> (proxy_result \<times> host) option" where
  "copy_value E val addr size_addr w =
     (case val of
        None \<Rightarrow> Some (PROXY_RESULT_NOT_FOUND, w)
      | Some v \<Rightarrow> ngx_http_wasm_copy_to_wasm E (Some v) (of_nat (length v)) addr size_addr w)"

definition ngx_http_wasm_req_get_header ::
  "env \<Rightarrow> nat \<Rightarrow> int \<Rightarrow> i32 \<Rightarrow> i32 \<Rightarrow> i32 \<Rightarrow> host \<Rightarrow> (proxy_result \<times> host) option" where
  "ngx_http_wasm_req_get_header E r key key_size addr size_addr w =
     do { rq \<leftarrow> h_requests w r;
          m \<leftarrow> guest_mem w;
          ph \<leftarrow> ngx_http_wasm_get_pseudo_req_header E rq m key (size_of_i32 key_size);
          (case ph of
             Some v \<Rightarrow> copy_value E (Some v) addr size_addr w
           | None \<Rightarrow>
               do { v \<leftarrow> find_elt E m key (size_of_i32 key_size) (rq_headers_in rq);
                    copy_value E v addr size_addr w }) }"

abbreviation (input) sizeof_str :: nat where "sizeof_str \<equiv> 16"

text \<open>\<^verbatim>\<open>key_size + sizeof(ngx_str_t)\<close> is a \<^verbatim>\<open>size_t\<close> sum.\<close>

definition ngx_http_wasm_resp_get_header ::
  "env \<Rightarrow> nat \<Rightarrow> int \<Rightarrow> i32 \<Rightarrow> i32 \<Rightarrow> i32 \<Rightarrow> host \<Rightarrow> (proxy_result \<times> host) option" where
  "ngx_http_wasm_resp_get_header E r key key_size addr size_addr w =
     (case ngx_http_wasm_get_string_buf E ((size_of_i32 key_size + sizeof_str) mod 2 ^ 64) w of
        (False, w) \<Rightarrow> Some (PROXY_RESULT_INTERNAL_FAILURE, w)
      | (True, w) \<Rightarrow>
          do { rq \<leftarrow> h_requests w r;
               m \<leftarrow> guest_mem w;
               ph \<leftarrow> ngx_http_wasm_get_pseudo_resp_header E rq m key (size_of_i32 key_size);
               (case ph of
                  Some v \<Rightarrow> copy_value E (Some v) addr size_addr w
                | None \<Rightarrow>
                    do { k \<leftarrow> rd m key (size_of_i32 key_size);
                         (case e_get_resp_header E k rq of
                            (rc, v) \<Rightarrow>
                              if rc < 0 then Some (PROXY_RESULT_BAD_ARGUMENT, w)
                              else if rc = 0 then Some (PROXY_RESULT_NOT_FOUND, w)
                              else copy_value E (Some v) addr size_addr w) }) })"

fun find_pair :: "env \<Rightarrow> bytes \<Rightarrow> int \<Rightarrow> i32 \<Rightarrow> (bytes \<times> bytes) list \<Rightarrow> bytes option option" where
  "find_pair E m key key_size [] = Some None"
| "find_pair E m key key_size ((k, v) # kvs) =
     (if size_of_i32 key_size \<noteq> length k then find_pair E m key key_size kvs
      else do { bs \<leftarrow> rd m key (length k);
                if e_strncasecmp E bs k (length k) = 0 then Some (Some v)
                else find_pair E m key key_size kvs })"

definition ngx_http_wasm_http_call_resp_get_header ::
  "env \<Rightarrow> nat \<Rightarrow> int \<Rightarrow> i32 \<Rightarrow> i32 \<Rightarrow> i32 \<Rightarrow> host \<Rightarrow> (proxy_result \<times> host) option" where
  "ngx_http_wasm_http_call_resp_get_header E r key key_size addr size_addr w =
     do { (ctx, w) \<leftarrow> ngx_http_wasm_get_module_ctx E r w;
          ctx \<leftarrow> ctx;
          let n = wc_call_resp_n_header ctx;
          if n = 0 then Some (PROXY_RESULT_NOT_FOUND, w)
          else do {
            m \<leftarrow> guest_mem w;
            v \<leftarrow> find_pair E m key key_size (take n (wc_call_resp_headers ctx));
            copy_value E v addr size_addr w } }"

end
