(* ===== verification/Callout.thy ===== *)
theory Callout
  imports Pseudo_Headers Proxy_Map Wasm_State
begin

text \<open>
  src/http/ngx_http_wasm_call.c: an HTTP call that a plugin asks for is registered with the
  request, one at a time, and fetched by the Lua library after the hook has returned. The
  headers stay in the map format until they are fetched.
\<close>

section \<open>The code\<close>

abbreviation (input) sizeof_callout :: nat where "sizeof_callout \<equiv> 32"

text \<open>
  \<^verbatim>\<open>ngx_http_wasm_call_register\<close>; the id is the out-parameter, set on success only. A
  module context that could not be created is followed, which is undefined.
\<close>

definition ngx_http_wasm_call_register ::
  "env \<Rightarrow> nat \<Rightarrow> bytes \<Rightarrow> bytes option \<Rightarrow> bytes option \<Rightarrow> i32 \<Rightarrow> host \<Rightarrow> (int \<times> i32 option \<times> host) option" where
  "ngx_http_wasm_call_register E r up map_data body timeout w =
     do { (ctx, w) \<leftarrow> ngx_http_wasm_get_module_ctx E r w;
          ctx \<leftarrow> ctx;
          if wc_callout ctx \<noteq> None then Some (NGX_ERROR, None, w)
          else case try_alloc E sizeof_callout w of
                 (False, w) \<Rightarrow> Some (NGX_DECLINED, None, w)
               | (True, w) \<Rightarrow>
                   if sint timeout < 0 then Some (NGX_ERROR, None, w)
                   else do {
                     let callout = \<lparr>co_timeout_ms = timeout, co_up = up, co_map_data = map_data,
                                    co_body = body\<rparr>;
                     let cid = h_cur_callout_id w;
                     w \<leftarrow> set_wasm_ctx r (ctx\<lparr>wc_callout := Some callout, wc_callout_id := cid\<rparr>) w;
                     Some (NGX_OK, Some cid, w\<lparr>h_cur_callout_id := cid + 1\<rparr>) } }"

definition ngx_http_wasm_call_max_headers_count :: "env \<Rightarrow> nat \<Rightarrow> host \<Rightarrow> (int \<times> host) option" where
  "ngx_http_wasm_call_max_headers_count E r w =
     do { (ctx, w) \<leftarrow> ngx_http_wasm_get_module_ctx E r w;
          ctx \<leftarrow> ctx;
          callout \<leftarrow> wc_callout ctx;
          m \<leftarrow> co_map_data callout;
          it \<leftarrow> proxy_wasm_map_init_iter m 0;
          Some (sint (it_len it), w) }"

text \<open>
  What \<^verbatim>\<open>ngx_http_wasm_call_get\<close> writes through its out-parameters. A string is the pointer
  and the length that is stored, not its bytes; \<open>None\<close> is an out-parameter that is left as it
  was. The entry keys are pointers into the map or the constant \<^verbatim>\<open>"host"\<close>; the end mark, a
  key of length 0, follows the entries. Without a body only its length is set, to 0.
\<close>

datatype call_key = MapKey int i32 | HostKey

record call_args =
  cg_host :: bytes
  cg_timeout :: i32
  cg_method :: "(int \<times> i32) option"
  cg_scheme :: "(int \<times> i32) option"
  cg_path :: "(int \<times> i32) option"
  cg_headers :: "(call_key \<times> int \<times> i32) list"
  cg_body :: "bytes option"

definition call_add_header :: "call_key \<Rightarrow> int \<Rightarrow> i32 \<Rightarrow> call_args \<Rightarrow> call_args" where
  "call_add_header key val val_len a = a\<lparr>cg_headers := cg_headers a @ [(key, val, val_len)]\<rparr>"

text \<open>The \<^verbatim>\<open>switch\<close> on the pseudo header, and what is done with any other header.\<close>

definition call_place :: "pseudo_header option \<Rightarrow> int \<Rightarrow> i32 \<Rightarrow> int \<Rightarrow> i32 \<Rightarrow> call_args \<Rightarrow> call_args" where
  "call_place ty key key_len val val_len a =
     (case ty of
        Some PseudoPath \<Rightarrow> a\<lparr>cg_path := Some (val, val_len)\<rparr>
      | Some PseudoMethod \<Rightarrow> a\<lparr>cg_method := Some (val, val_len)\<rparr>
      | Some PseudoScheme \<Rightarrow> a\<lparr>cg_scheme := Some (val, val_len)\<rparr>
      | Some PseudoAuthority \<Rightarrow> call_add_header HostKey val val_len a
      | _ \<Rightarrow> call_add_header (MapKey key key_len) val val_len a)"

text \<open>The body of the loop; \<^verbatim>\<open>key_len\<close> is compared as \<^verbatim>\<open>int32_t\<close> with 0 and as \<^verbatim>\<open>size_t\<close> later.\<close>

definition call_get_entry ::
  "env \<Rightarrow> bytes \<Rightarrow> int \<Rightarrow> i32 \<Rightarrow> int \<Rightarrow> i32 \<Rightarrow> call_args \<Rightarrow> (unit + call_args) option" where
  "call_get_entry E m key key_len val val_len a =
     (if key_len = 0 then Some (Inr a)
      else do {
        colon \<leftarrow> starts_with_colon m key (size_of_i32 key_len);
        ty \<leftarrow> (if colon then find_pseudo E m key (size_of_i32 key_len) proxy_wasm_pseudo_headers
               else Some None);
        Some (Inr (call_place ty key key_len val val_len a)) })"

definition ngx_http_wasm_call_get :: "env \<Rightarrow> nat \<Rightarrow> host \<Rightarrow> (call_args \<times> host) option" where
  "ngx_http_wasm_call_get E r w =
     do { (ctx, w) \<leftarrow> ngx_http_wasm_get_module_ctx E r w;
          ctx \<leftarrow> ctx;
          callout \<leftarrow> wc_callout ctx;
          w \<leftarrow> set_wasm_ctx r (ctx\<lparr>wc_callout := None\<rparr>) w;
          m \<leftarrow> co_map_data callout;
          it \<leftarrow> proxy_wasm_map_init_iter m 0;
          res \<leftarrow> map_loop m (call_get_entry E m) it
                   \<lparr>cg_host = co_up callout, cg_timeout = co_timeout_ms callout, cg_method = None,
                    cg_scheme = None, cg_path = None, cg_headers = [], cg_body = None\<rparr>;
          (case res of
             Inl _ \<Rightarrow> None
           | Inr a \<Rightarrow> Some (a\<lparr>cg_body := co_body callout\<rparr>, w)) }"

section \<open>What the fetched call means\<close>

text \<open>The bytes the stored pointers lead to.\<close>

definition call_bytes :: "bytes \<Rightarrow> int \<times> i32 \<Rightarrow> bytes option" where
  "call_bytes m s = rd m (fst s) (size_of_i32 (snd s))"

definition call_key_bytes :: "bytes \<Rightarrow> call_key \<Rightarrow> bytes option" where
  "call_key_bytes m k = (case k of MapKey p n \<Rightarrow> call_bytes m (p, n) | HostKey \<Rightarrow> Some (ascii ''host''))"

text \<open>
  The specification on the list of entries: the pseudo headers give the path, method and
  scheme (the last one wins) and a host header; entries with an empty name are dropped.
\<close>

definition call_pseudo :: "env \<Rightarrow> bytes \<Rightarrow> pseudo_header option" where
  "call_pseudo E = pseudo_of E proxy_wasm_pseudo_headers"

definition last_pseudo :: "env \<Rightarrow> pseudo_header \<Rightarrow> (bytes \<times> bytes) list \<Rightarrow> bytes option" where
  "last_pseudo E ty kvs =
     (case rev (filter (\<lambda>(k, v). call_pseudo E k = Some ty) kvs) of [] \<Rightarrow> None | (k, v) # _ \<Rightarrow> Some v)"

definition spec_headers :: "env \<Rightarrow> (bytes \<times> bytes) list \<Rightarrow> (bytes \<times> bytes) list" where
  "spec_headers E kvs =
     concat (map (\<lambda>(k, v).
       if k = [] then []
       else case call_pseudo E k of
              Some PseudoAuthority \<Rightarrow> [(ascii ''host'', v)]
            | Some PseudoPath \<Rightarrow> [] | Some PseudoMethod \<Rightarrow> [] | Some PseudoScheme \<Rightarrow> []
            | _ \<Rightarrow> [(k, v)]) kvs)"

definition opt_bytes :: "bytes \<Rightarrow> (int \<times> i32) option \<Rightarrow> bytes option \<Rightarrow> bool" where
  "opt_bytes m s v = (case s of None \<Rightarrow> v = None | Some s \<Rightarrow> call_bytes m s = v \<and> v \<noteq> None)"

definition headers_are :: "bytes \<Rightarrow> (call_key \<times> int \<times> i32) list \<Rightarrow> (bytes \<times> bytes) list \<Rightarrow> bool" where
  "headers_are m hs kvs =
     list_all2 (\<lambda>(key, s) (k, v). call_key_bytes m key = Some k \<and> call_bytes m s = Some v) hs kvs"

definition call_means :: "env \<Rightarrow> bytes \<Rightarrow> (bytes \<times> bytes) list \<Rightarrow> call_args \<Rightarrow> bool" where
  "call_means E m kvs a \<longleftrightarrow>
     headers_are m (cg_headers a) (spec_headers E kvs) \<and>
     opt_bytes m (cg_path a) (last_pseudo E PseudoPath kvs) \<and>
     opt_bytes m (cg_method a) (last_pseudo E PseudoMethod kvs) \<and>
     opt_bytes m (cg_scheme a) (last_pseudo E PseudoScheme kvs)"

lemma spec_append:
  "spec_headers E (xs @ ys) = spec_headers E xs @ spec_headers E ys"
  "last_pseudo E ty (xs @ [(k, v)]) = (if call_pseudo E k = Some ty then Some v else last_pseudo E ty xs)"
  by (simp_all add: spec_headers_def last_pseudo_def)

lemma headers_are_append:
  "headers_are m hs kvs \<Longrightarrow> call_key_bytes m key = Some k \<Longrightarrow> call_bytes m s = Some v \<Longrightarrow>
     headers_are m (hs @ [(key, s)]) (kvs @ [(k, v)])"
  unfolding headers_are_def by (intro list_all2_appendI) auto

lemma call_pseudo_status: "call_pseudo E k \<noteq> Some PseudoStatus"
  by (auto simp: call_pseudo_def pseudo_of_def proxy_wasm_pseudo_headers_def split: list.splits)

text \<open>One entry.\<close>

lemma call_get_entry_means:
  assumes E: "strncasecmp_documented E" and len: "length k < 2 ^ 31" "length v < 2 ^ 31"
    and k: "rd m kp (length k) = Some k" and v: "rd m vp (length v) = Some v"
    and a: "call_means E m dn a"
  shows "\<exists>a'. call_get_entry E m kp (of_nat (length k)) vp (of_nat (length v)) a = Some (Inr a') \<and>
    call_means E m (dn @ [(k, v)]) a' \<and> cg_host a' = cg_host a \<and> cg_timeout a' = cg_timeout a"
proof (cases "k = []")
  case True
  then have "call_get_entry E m kp (of_nat (length k)) vp (of_nat (length v)) a = Some (Inr a)"
    by (simp add: call_get_entry_def)
  moreover have "call_pseudo E [] = None" by (simp add: call_pseudo_def pseudo_of_def)
  then have "call_means E m (dn @ [(k, v)]) a"
    using a True by (simp add: call_means_def spec_append) (simp add: spec_headers_def)
  ultimately show ?thesis by blast
next
  case False
  have kl: "size_of_i32 (of_nat (length k)) = length k" "size_of_i32 (of_nat (length v)) = length v"
    using len by (simp_all add: size_of_nat_i32)
  have nz: "(of_nat (length k) :: i32) \<noteq> 0"
    using False len of_nat_i32_inj [of "length k" 0] by auto
  have key: "call_bytes m (kp, of_nat (length k)) = Some k" "call_bytes m (vp, of_nat (length v)) = Some v"
    using k v kl by (simp_all add: call_bytes_def)
  define ty where "ty = call_pseudo E k"
  let ?colon = "case k of [] \<Rightarrow> False | c # _ \<Rightarrow> [c] = ascii '':''"
  have "(if ?colon then find_pseudo E m kp (length k) proxy_wasm_pseudo_headers else Some None) = Some ty"
    using find_pseudo_bytes [OF E pseudo_tables_nul_free(1) k] False
    by (auto simp: ty_def call_pseudo_def pseudo_of_def split: list.splits)
  then have run: "call_get_entry E m kp (of_nat (length k)) vp (of_nat (length v)) a =
      Some (Inr (call_place ty kp (of_nat (length k)) vp (of_nat (length v)) a))"
    using nz starts_with_colon_bytes [OF k] by (cases ?colon) (auto simp: call_get_entry_def kl)
  have hs: "headers_are m (cg_headers a) (spec_headers E dn)" using a by (simp add: call_means_def)
  have addk: "headers_are m (cg_headers a @ [(MapKey kp (of_nat (length k)), vp, of_nat (length v))])
      (spec_headers E dn @ [(k, v)])"
    by (rule headers_are_append [OF hs]) (use key in \<open>simp_all add: call_key_bytes_def\<close>)
  have addh: "headers_are m (cg_headers a @ [(HostKey, vp, of_nat (length v))])
      (spec_headers E dn @ [(ascii ''host'', v)])"
    by (rule headers_are_append [OF hs]) (use key in \<open>simp_all add: call_key_bytes_def\<close>)
  have one: "spec_headers E [(k, v)] = (case ty of Some PseudoAuthority \<Rightarrow> [(ascii ''host'', v)]
      | Some PseudoPath \<Rightarrow> [] | Some PseudoMethod \<Rightarrow> [] | Some PseudoScheme \<Rightarrow> [] | _ \<Rightarrow> [(k, v)])"
    using False by (simp add: spec_headers_def ty_def)
  have "ty \<noteq> Some PseudoStatus" by (simp add: ty_def call_pseudo_status)
  then show ?thesis
    unfolding run using a key(2) addk addh ty_def [symmetric]
    by (auto simp: call_place_def call_means_def spec_append one opt_bytes_def call_add_header_def
        split: option.splits pseudo_header.splits)
qed

lemma get_module_ctx_there:
  assumes "h_requests w r = Some rq" "rq_ctx rq = Some ctx"
  shows "ngx_http_wasm_get_module_ctx E r w = Some (Some ctx, w)"
  using assms by (simp add: ngx_http_wasm_get_module_ctx_def)

lemma get_module_ctx_result:
  assumes "ngx_http_wasm_get_module_ctx E r w = Some (Some ctx, w1)"
  shows "\<exists>rq. h_requests w1 r = Some rq \<and> rq_ctx rq = Some ctx"
  using assms
  by (auto simp: ngx_http_wasm_get_module_ctx_def bind_eq_Some_conv upd_request_def try_alloc_def Let_def
      split: option.splits prod.splits bool.splits if_splits)

lemma call_register_ok:
  assumes "ngx_http_wasm_call_register E r up map_data body timeout w = Some (NGX_OK, cid, w1)"
  shows "\<exists>rq ctx. h_requests w1 r = Some rq \<and> rq_ctx rq = Some ctx \<and> 0 \<le> sint timeout \<and>
    wc_callout ctx = Some \<lparr>co_timeout_ms = timeout, co_up = up, co_map_data = map_data, co_body = body\<rparr> \<and>
    cid = Some (wc_callout_id ctx) \<and> h_cur_callout_id w1 = wc_callout_id ctx + 1"
  using assms
  by (auto simp: ngx_http_wasm_call_register_def bind_eq_Some_conv set_wasm_ctx_def upd_request_def
      try_alloc_def Let_def split: bool.splits if_splits)

lemma call_get_at:
  assumes E: "strncasecmp_documented E" and rq: "h_requests w r = Some rq" "rq_ctx rq = Some ctx"
    and c: "wc_callout ctx = Some c" "co_map_data c = Some m"
    and at: "map_at m 0 kvs" "map_size kvs < 2 ^ 31"
  shows "\<exists>a. ngx_http_wasm_call_get E r w =
      Some (a, w\<lparr>h_requests := (h_requests w)(r \<mapsto> rq\<lparr>rq_ctx := Some (ctx\<lparr>wc_callout := None\<rparr>)\<rparr>)\<rparr>) \<and>
    cg_host a = co_up c \<and> cg_timeout a = co_timeout_ms c \<and> cg_body a = co_body c \<and> call_means E m kvs a"
proof -
  let ?a = "\<lparr>cg_host = co_up c, cg_timeout = co_timeout_ms c, cg_method = None,
     cg_scheme = None, cg_path = None, cg_headers = [], cg_body = None\<rparr>"
  let ?P = "\<lambda>dn a. call_means E m dn a \<and> cg_host a = co_up c \<and> cg_timeout a = co_timeout_ms c"
  have P: "?P [] ?a"
    by (simp add: call_means_def headers_are_def spec_headers_def last_pseudo_def opt_bytes_def)
  have "\<exists>a. map_loop m (call_get_entry E m) (iter_at 0 (length kvs) []) ?a = Some (Inr a) \<and> ?P ([] @ kvs) a"
  proof (rule map_loop_rel [where P = ?P])
    fix xs kp k vp v a
    assume "(k, v) \<in> set kvs" "rd m kp (length k) = Some k" "rd m vp (length v) = Some v" "?P xs a"
    then show "\<exists>a'. call_get_entry E m kp (of_nat (length k)) vp (of_nat (length v)) a = Some (Inr a') \<and>
        ?P (xs @ [(k, v)]) a'"
      using call_get_entry_means [OF E, of k v m kp vp xs a] entry_bound [OF at(2), of k v] by auto
  qed (use at P in simp_all)
  then obtain a where a: "map_loop m (call_get_entry E m) (iter_at 0 (length kvs) []) ?a = Some (Inr a)"
    "?P kvs a" by auto
  have "ngx_http_wasm_call_get E r w = Some (a\<lparr>cg_body := co_body c\<rparr>,
      w\<lparr>h_requests := (h_requests w)(r \<mapsto> rq\<lparr>rq_ctx := Some (ctx\<lparr>wc_callout := None\<rparr>)\<rparr>)\<rparr>)"
    using rq c a(1) map_at_init_iter [OF at]
    by (simp add: ngx_http_wasm_call_get_def get_module_ctx_there set_wasm_ctx_def upd_request_def)
  with a(2) show ?thesis by (auto simp: call_means_def)
qed

section \<open>Properties\<close>

text \<open>
  C11. A registered call and what the Lua library fetches of it. While the call is pending a
  second \<^verbatim>\<open>ngx_http_wasm_call_register\<close> of the request is refused and changes nothing. For
  headers in the map format, \<^verbatim>\<open>ngx_http_wasm_call_max_headers_count\<close> is their number, and
  \<^verbatim>\<open>ngx_http_wasm_call_get\<close> returns the host, timeout, body, the headers without the pseudo
  headers (\<^verbatim>\<open>:authority\<close> becomes a host header) and the last \<^verbatim>\<open>:path\<close>, \<^verbatim>\<open>:method\<close> and \<^verbatim>\<open>:scheme\<close>; the
  slot is free again and the id that was handed out is kept with the request.
\<close>

theorem callout_roundtrip:
  assumes "strncasecmp_documented E"
    and reg: "ngx_http_wasm_call_register E r up (Some m) body timeout w = Some (NGX_OK, cid, w1)"
    and at: "map_at m 0 kvs" "map_size kvs < 2 ^ 31"
  shows "ngx_http_wasm_call_register E r up' m' body' timeout' w1 = Some (NGX_ERROR, None, w1) \<and>
    ngx_http_wasm_call_max_headers_count E r w1 = Some (int (length kvs), w1) \<and>
    (\<exists>a w2 rq ctx. ngx_http_wasm_call_get E r w1 = Some (a, w2) \<and>
       cg_host a = up \<and> cg_timeout a = timeout \<and> 0 \<le> sint timeout \<and> cg_body a = body \<and>
       call_means E m kvs a \<and>
       h_requests w2 r = Some rq \<and> rq_ctx rq = Some ctx \<and> wc_callout ctx = None \<and>
       cid = Some (wc_callout_id ctx))"
proof -
  let ?c = "\<lparr>co_timeout_ms = timeout, co_up = up, co_map_data = Some m, co_body = body\<rparr>"
  from call_register_ok [OF reg] obtain rq ctx where
    rq: "h_requests w1 r = Some rq" "rq_ctx rq = Some ctx" and t: "0 \<le> sint timeout"
    and c: "wc_callout ctx = Some ?c" and cid: "cid = Some (wc_callout_id ctx)" by blast
  have "ngx_http_wasm_call_register E r up' m' body' timeout' w1 = Some (NGX_ERROR, None, w1)"
    using c by (simp add: ngx_http_wasm_call_register_def get_module_ctx_there [OF rq])
  moreover have "sint (of_nat (length kvs) :: i32) = int (length kvs)"
    using at(2) by (intro sint_of_nat_i32) (simp add: map_size_def)
  then have "ngx_http_wasm_call_max_headers_count E r w1 = Some (int (length kvs), w1)"
    using c map_at_init_iter [OF at]
    by (simp add: ngx_http_wasm_call_max_headers_count_def get_module_ctx_there [OF rq] iter_at_def)
  moreover from call_get_at [OF assms(1) rq c _ at] obtain a where
    "ngx_http_wasm_call_get E r w1 =
      Some (a, w1\<lparr>h_requests := (h_requests w1)(r \<mapsto> rq\<lparr>rq_ctx := Some (ctx\<lparr>wc_callout := None\<rparr>)\<rparr>)\<rparr>)"
    "cg_host a = up" "cg_timeout a = timeout" "cg_body a = body" "call_means E m kvs a" by auto
  ultimately show ?thesis using t cid by auto
qed


text \<open>
  C34. A defect: \<^verbatim>\<open>proxy_http_call\<close> passes a NULL pointer for the headers when their size is not
  positive, and neither \<^verbatim>\<open>ngx_http_wasm_call_max_headers_count\<close> nor \<^verbatim>\<open>ngx_http_wasm_call_get\<close>
  checks it: both read through it.
\<close>

theorem call_without_headers_undefined:
  assumes "ngx_http_wasm_call_register E r up None body timeout w = Some (NGX_OK, cid, w1)"
  shows "ngx_http_wasm_call_max_headers_count E r w1 = None \<and> ngx_http_wasm_call_get E r w1 = None"
proof -
  from call_register_ok [OF assms] obtain rq ctx where
    rq: "h_requests w1 r = Some rq" "rq_ctx rq = Some ctx"
    and c: "wc_callout ctx = Some \<lparr>co_timeout_ms = timeout, co_up = up, co_map_data = None, co_body = body\<rparr>"
    by blast
  then show ?thesis
    by (simp add: ngx_http_wasm_call_max_headers_count_def ngx_http_wasm_call_get_def
        get_module_ctx_there [OF rq] bind_eq_None_conv)
qed

section \<open>Witnesses\<close>

lemma sample_strncasecmp: "strncasecmp_documented sample_env"
  by (auto simp: strncasecmp_documented_def sample_env_def strlow_def)

definition sample_map :: "(bytes \<times> bytes) list" where
  "sample_map = [(ascii '':path'', ascii ''/a''), (ascii '':authority'', ascii ''h''), (ascii ''k'', ascii ''v'')]"

definition sample_registered :: host where
  "sample_registered = (case ngx_http_wasm_call_register sample_env 7 (ascii ''up'')
      (Some (enc_map sample_map)) None 500 sample_host of Some (_, _, w) \<Rightarrow> w | None \<Rightarrow> sample_host)"

lemma sample_map_facts:
  "map_at (enc_map sample_map) 0 sample_map" "map_size sample_map < 2 ^ 31"
proof -
  show "map_at (enc_map sample_map) 0 sample_map"
    by (simp add: map_at_def rd_def in_obj_def length_enc_map [symmetric])
  show "map_size sample_map < 2 ^ 31"
    by (simp add: sample_map_def map_size_def length_entry_data ascii_def)
qed

lemma sample_register:
  "ngx_http_wasm_call_register sample_env 7 (ascii ''up'') (Some (enc_map sample_map)) None 500 sample_host =
     Some (NGX_OK, Some 0, sample_registered)"
proof -
  have "map_option (\<lambda>(rc, cid, w). (rc, cid)) (ngx_http_wasm_call_register sample_env 7 (ascii ''up'')
      (Some (enc_map sample_map)) None 500 sample_host) = Some (NGX_OK, Some 0)" by code_simp
  then show ?thesis by (auto simp: sample_registered_def)
qed

theorem callout_roundtrip_witness:
  "\<exists>a w2. ngx_http_wasm_call_get sample_env 7 sample_registered = Some (a, w2) \<and> cg_host a = ascii ''up''"
  using callout_roundtrip [OF sample_strncasecmp sample_register sample_map_facts, of "[]" None None 0] by blast


theorem call_without_headers_undefined_witness:
  "\<exists>w1. ngx_http_wasm_call_register sample_env 7 [] None None 0 sample_host = Some (NGX_OK, Some 0, w1) \<and>
     ngx_http_wasm_call_get sample_env 7 w1 = None"
proof -
  have "map_option (\<lambda>(rc, cid, w). (rc, cid)) (ngx_http_wasm_call_register sample_env 7 [] None None 0 sample_host) =
      Some (NGX_OK, Some 0)" by code_simp
  then obtain w1 where "ngx_http_wasm_call_register sample_env 7 [] None None 0 sample_host = Some (NGX_OK, Some 0, w1)"
    by auto
  with call_without_headers_undefined [OF this] show ?thesis by blast
qed

end
