(* ===== verification/Api.thy ===== *)
theory Api
  imports Api_Headers Callout
begin

text \<open>
  The functions src/http/ngx_http_wasm_api.c exports to the plugins. Each takes the \<^verbatim>\<open>int32_t\<close>
  parameters of the guest and the host state and returns its result code and the new host
  state; \<open>None\<close> is undefined behaviour. What is only logged is not modelled, except the
  messages of \<^verbatim>\<open>proxy_log\<close>.
\<close>

section \<open>Early returns\<close>

text \<open>The macros \<^verbatim>\<open>must_get_req\<close> and \<^verbatim>\<open>must_get_memory\<close>, which return from the function.\<close>

definition must_get_req ::
  "host \<Rightarrow> (nat \<Rightarrow> (proxy_result \<times> host) option) \<Rightarrow> (proxy_result \<times> host) option" where
  "must_get_req w go =
     do { r \<leftarrow> ngx_http_wasm_get_req w;
          (case r of None \<Rightarrow> Some (PROXY_RESULT_BAD_ARGUMENT, w) | Some r \<Rightarrow> go r) }"

definition must_get_memory ::
  "env \<Rightarrow> i32 \<Rightarrow> i32 \<Rightarrow> host \<Rightarrow> (int \<Rightarrow> (proxy_result \<times> host) option) \<Rightarrow> (proxy_result \<times> host) option" where
  "must_get_memory E addr sz w go =
     do { p \<leftarrow> vm_get_memory E addr sz w;
          (case p of None \<Rightarrow> Some (PROXY_RESULT_INVALID_MEMORY_ACCESS, w) | Some p \<Rightarrow> go p) }"

section \<open>Properties\<close>

text \<open>
  \<^verbatim>\<open>proxy_get_property\<close>. The buffer for the lower-case name is not checked, and neither is the
  plugin name or the variable nginx returns: a NULL is followed.
\<close>

definition proxy_get_property :: "env \<Rightarrow> i32 \<Rightarrow> i32 \<Rightarrow> i32 \<Rightarrow> i32 \<Rightarrow> host \<Rightarrow> (proxy_result \<times> host) option" where
  "proxy_get_property E path_data path_size res_data res_size w =
     do { _ \<leftarrow> ngx_http_wasm_get_log w;
          must_get_memory E path_data path_size w (\<lambda>p.
            do { root \<leftarrow> (if path_size = 14
                         then do { bs \<leftarrow> guest_rd w p 14; Some (bs = ascii ''plugin_root_id'') }
                         else Some False);
                 if root then do {
                   name \<leftarrow> ngx_http_wasm_get_plugin_name w;
                   name \<leftarrow> name;
                   ngx_http_wasm_copy_to_wasm E (Some name) (of_nat (length name)) res_data res_size w }
                 else must_get_req w (\<lambda>r.
                   case ngx_http_wasm_get_string_buf E (size_of_i32 path_size) w of
                     (False, w) \<Rightarrow> None
                   | (True, w) \<Rightarrow>
                       do { name \<leftarrow> guest_rd w p (size_of_i32 path_size);
                            rq \<leftarrow> h_requests w r;
                            let (vv, rq) = e_get_variable E (strlow E name) (e_hash_strlow E name) rq;
                            w \<leftarrow> upd_request r (\<lambda>_. rq) w;
                            (case vv of
                               VarNull \<Rightarrow> None
                             | VarNotFound \<Rightarrow> Some (PROXY_RESULT_NOT_FOUND, w)
                             | VarValue v \<Rightarrow>
                                 ngx_http_wasm_copy_to_wasm E (Some v) (of_nat (length v)) res_data res_size w) }) }) }"

text \<open>
  \<^verbatim>\<open>proxy_set_property\<close>. After the value has been fetched it is the key that is compared with
  NULL once more, so a NULL value goes on to \<^verbatim>\<open>ngx_http_lua_ffi_var_set\<close>. The message is the
  C string that function leaves in the buffer.
\<close>

fun contains :: "bytes \<Rightarrow> bytes \<Rightarrow> bool" where
  "contains [] pat = (pat = [])"
| "contains (b # bs) pat = (take (length pat) (b # bs) = pat \<or> contains bs pat)"

abbreviation (input) errlen :: nat where "errlen \<equiv> 256"

definition proxy_set_property :: "env \<Rightarrow> i32 \<Rightarrow> i32 \<Rightarrow> i32 \<Rightarrow> i32 \<Rightarrow> host \<Rightarrow> (proxy_result \<times> host) option" where
  "proxy_set_property E path_data path_size data sz w =
     do { _ \<leftarrow> ngx_http_wasm_get_log w;
          must_get_req w (\<lambda>r.
            must_get_memory E path_data path_size w (\<lambda>key.
              do { val \<leftarrow> vm_get_memory E data sz w;
                   (case ngx_http_wasm_get_string_buf E ((size_of_i32 path_size + errlen) mod 2 ^ 64) w of
                      (False, w) \<Rightarrow> None
                    | (True, w) \<Rightarrow>
                        do { k \<leftarrow> guest_rd w key (size_of_i32 path_size);
                             m \<leftarrow> guest_mem w;
                             v \<leftarrow> str_arg m (map_option (\<lambda>p. (p, size_of_i32 sz)) val);
                             rq \<leftarrow> h_requests w r;
                             let (result, errmsg, rq) = e_set_variable E k v sz rq;
                             w \<leftarrow> upd_request r (\<lambda>_. rq) w;
                             if result \<noteq> NGX_OK
                             then if contains errmsg (ascii ''not found for writing'')
                                  then Some (PROXY_RESULT_NOT_FOUND, w)
                                  else Some (PROXY_RESULT_INTERNAL_FAILURE, w)
                             else Some (PROXY_RESULT_OK, w) }) })) }"

section \<open>Log, buffers and configuration\<close>

text \<open>
  \<^verbatim>\<open>proxy_log\<close>: the levels of the ABI from TRACE = 0 to CRITICAL = 5, those of nginx from
  EMERG = 1 to DEBUG = 8; a level outside the ABI is logged as an error.
\<close>

definition host_log_level :: "i32 \<Rightarrow> nat" where
  "host_log_level l =
     (if l = 5 then 1 else if l = 4 then 4 else if l = 3 then 5 else if l = 2 then 7
      else if l = 1 then 8 else if l = 0 then 8 else 4)"

definition proxy_log :: "env \<Rightarrow> i32 \<Rightarrow> i32 \<Rightarrow> i32 \<Rightarrow> host \<Rightarrow> (proxy_result \<times> host) option" where
  "proxy_log E log_level addr sz w =
     do { _ \<leftarrow> ngx_http_wasm_get_log w;
          must_get_memory E addr sz w (\<lambda>p.
            do { msg \<leftarrow> guest_rd w p (size_of_i32 sz);
                 Some (PROXY_RESULT_OK, w\<lparr>h_log := h_log w @ [(host_log_level log_level, msg)]\<rparr>) }) }"

text \<open>Request and response body are the types 0 and 1, the body of a call's response is 4, the
  configuration 7.\<close>

abbreviation (input) PROXY_BUFFER_TYPE_HTTP_REQUEST_BODY :: i32 where
  "PROXY_BUFFER_TYPE_HTTP_REQUEST_BODY \<equiv> 0"
abbreviation (input) PROXY_BUFFER_TYPE_HTTP_RESPONSE_BODY :: i32 where
  "PROXY_BUFFER_TYPE_HTTP_RESPONSE_BODY \<equiv> 1"
abbreviation (input) PROXY_BUFFER_TYPE_HTTP_CALL_RESPONSE_BODY :: i32 where
  "PROXY_BUFFER_TYPE_HTTP_CALL_RESPONSE_BODY \<equiv> 4"
abbreviation (input) PROXY_BUFFER_TYPE_PLUGIN_CONFIGURATION :: i32 where
  "PROXY_BUFFER_TYPE_PLUGIN_CONFIGURATION \<equiv> 7"

text \<open>
  The bottom of \<^verbatim>\<open>proxy_get_buffer_bytes\<close>, once the buffer is known. \<^verbatim>\<open>len\<close> is the length cut to
  \<^verbatim>\<open>int32_t\<close>; \<^verbatim>\<open>data + start\<close> drops what is before it.
\<close>

definition copy_buffer ::
  "env \<Rightarrow> bool \<Rightarrow> ngx_str option \<Rightarrow> i32 \<Rightarrow> i32 \<Rightarrow> i32 \<Rightarrow> i32 \<Rightarrow> host \<Rightarrow> (proxy_result \<times> host) option" where
  "copy_buffer E whole buffer start sz addr size_addr w =
     (let data = (case buffer of None \<Rightarrow> None | Some b \<Rightarrow> str_data b);
          len = (case buffer of None \<Rightarrow> 0 | Some b \<Rightarrow> ucast (str_len b)) :: i32
      in if len = 0 then Some (PROXY_RESULT_NOT_FOUND, w)
         else if whole then ngx_http_wasm_copy_to_wasm E data len addr size_addr w
         else if sint start < 0 \<or> sint sz \<le> 0 \<or> sint len \<le> sint start
         then Some (PROXY_RESULT_BAD_ARGUMENT, w)
         else let sz = (if sint len < sint (start + sz) then len - start else sz)
              in ngx_http_wasm_copy_to_wasm E (map_option (drop (nat (sint start))) data) sz addr size_addr w)"

definition proxy_get_buffer_bytes ::
  "env \<Rightarrow> i32 \<Rightarrow> i32 \<Rightarrow> i32 \<Rightarrow> i32 \<Rightarrow> i32 \<Rightarrow> host \<Rightarrow> (proxy_result \<times> host) option" where
  "proxy_get_buffer_bytes E ty start sz addr size_addr w =
     do { _ \<leftarrow> ngx_http_wasm_get_log w;
          if ty = PROXY_BUFFER_TYPE_PLUGIN_CONFIGURATION
          then do { buffer \<leftarrow> ngx_http_wasm_get_conf w;
                    copy_buffer E True buffer start sz addr size_addr w }
          else if ty = PROXY_BUFFER_TYPE_HTTP_REQUEST_BODY \<or> ty = PROXY_BUFFER_TYPE_HTTP_RESPONSE_BODY
          then do { buffer \<leftarrow> ngx_http_wasm_get_body w;
                    copy_buffer E False buffer start sz addr size_addr w }
          else if ty = PROXY_BUFFER_TYPE_HTTP_CALL_RESPONSE_BODY
          then must_get_req w (\<lambda>r.
                 do { (ctx, w) \<leftarrow> ngx_http_wasm_get_module_ctx E r w;
                      ctx \<leftarrow> ctx;
                      copy_buffer E False (map_option str_of (wc_call_resp_body ctx)) start sz addr size_addr w })
          else Some (PROXY_RESULT_UNIMPLEMENTED, w) }"

definition proxy_set_buffer_bytes :: "i32 \<Rightarrow> i32 \<Rightarrow> i32 \<Rightarrow> i32 \<Rightarrow> i32 \<Rightarrow> host \<Rightarrow> (proxy_result \<times> host) option" where
  "proxy_set_buffer_bytes ty start len addr size_addr w = Some (PROXY_RESULT_UNIMPLEMENTED, w)"

definition proxy_get_configuration :: "env \<Rightarrow> i32 \<Rightarrow> i32 \<Rightarrow> host \<Rightarrow> (proxy_result \<times> host) option" where
  "proxy_get_configuration E addr size_addr w =
     do { _ \<leftarrow> ngx_http_wasm_get_log w;
          conf \<leftarrow> ngx_http_wasm_get_conf w;
          (case conf of
             None \<Rightarrow> Some (PROXY_RESULT_NOT_FOUND, w)
           | Some conf \<Rightarrow>
               ngx_http_wasm_copy_to_wasm E (str_data conf) (ucast (str_len conf)) addr size_addr w) }"

section \<open>The local response\<close>

text \<open>
  \<^verbatim>\<open>proxy_send_local_response\<close>. The code and the length of the body are set in the main
  configuration before anything is checked. The headers are read from the memory of the
  plugin in place, an error leaves the headers set so far.
\<close>

definition local_resp_header ::
  "env \<Rightarrow> nat \<Rightarrow> bytes \<Rightarrow> int \<Rightarrow> i32 \<Rightarrow> int \<Rightarrow> i32 \<Rightarrow> host \<Rightarrow> (proxy_result \<times> host + host) option" where
  "local_resp_header E r m key key_len val val_len w =
     do { (rc, w) \<leftarrow> ngx_http_wasm_set_resp_header E r m key (size_of_i32 key_len) False
                       (Some (val, size_of_i32 val_len)) False w;
          Some (if rc \<noteq> NGX_OK then Inl (PROXY_RESULT_BAD_ARGUMENT, w) else Inr w) }"

definition local_resp_headers ::
  "env \<Rightarrow> nat \<Rightarrow> i32 \<Rightarrow> i32 \<Rightarrow> host \<Rightarrow> (proxy_result \<times> host + host) option" where
  "local_resp_headers E r headers headers_size w =
     (if sint headers_size \<le> 0 then Some (Inr w)
      else do {
        p \<leftarrow> vm_get_memory E headers headers_size w;
        (case p of
           None \<Rightarrow> Some (Inl (PROXY_RESULT_INVALID_MEMORY_ACCESS, w))
         | Some p \<Rightarrow>
             do { m \<leftarrow> guest_mem w;
                  it \<leftarrow> proxy_wasm_map_init_iter m p;
                  map_loop m (local_resp_header E r m) it w }) })"

text \<open>The body is allocated from \<^verbatim>\<open>r->pool\<close> and is gone with the request.\<close>

definition local_resp_body :: "env \<Rightarrow> nat \<Rightarrow> i32 \<Rightarrow> i32 \<Rightarrow> host \<Rightarrow> (proxy_result \<times> host) option" where
  "local_resp_body E r body body_size w =
     (if sint body_size \<le> 0 then Some (PROXY_RESULT_OK, w)
      else must_get_memory E body body_size w (\<lambda>p.
        case try_alloc E (size_of_i32 body_size) w of
          (False, w) \<Rightarrow>
            Some (PROXY_RESULT_INTERNAL_FAILURE,
              w\<lparr>h_body := (h_body w)\<lparr>str_data := None\<rparr>, h_body_pool := None\<rparr>)
        | (True, w) \<Rightarrow>
            do { bs \<leftarrow> guest_rd w p (size_of_i32 body_size);
                 Some (PROXY_RESULT_OK,
                   w\<lparr>h_body := (h_body w)\<lparr>str_data := Some bs\<rparr>, h_body_pool := Some r\<rparr>) }))"

definition proxy_send_local_response ::
  "env \<Rightarrow> i32 \<Rightarrow> i32 \<Rightarrow> i32 \<Rightarrow> i32 \<Rightarrow> i32 \<Rightarrow> i32 \<Rightarrow> i32 \<Rightarrow> i32 \<Rightarrow> host \<Rightarrow> (proxy_result \<times> host) option" where
  "proxy_send_local_response E res_code details_data details_size body body_size headers headers_size
     grpc_status w =
     must_get_req w (\<lambda>r.
       do { _ \<leftarrow> h_requests w r;
            let w = w\<lparr>h_code := res_code, h_body := (h_body w)\<lparr>str_len := scast body_size\<rparr>\<rparr>;
            res \<leftarrow> local_resp_headers E r headers headers_size w;
            (case res of
               Inl (rc, w) \<Rightarrow> Some (rc, w)
             | Inr w \<Rightarrow> local_resp_body E r body body_size w) })"

definition proxy_send_http_response ::
  "env \<Rightarrow> i32 \<Rightarrow> i32 \<Rightarrow> i32 \<Rightarrow> i32 \<Rightarrow> i32 \<Rightarrow> i32 \<Rightarrow> i32 \<Rightarrow> i32 \<Rightarrow> host \<Rightarrow> (proxy_result \<times> host) option" where
  "proxy_send_http_response E res_code details_data details_size body body_size headers headers_size
     grpc_status w =
     proxy_send_local_response E res_code details_data details_size body body_size headers
       headers_size grpc_status w"

end
