(* ===== verification/Api_Calls.thy ===== *)
theory Api_Calls
  imports Api
begin

text \<open>
  The other functions src/http/ngx_http_wasm_api.c exports to the plugins: header maps, HTTP
  calls, and those that only answer a constant; and the lookup of the functions of
  lua-nginx-module.
\<close>

section \<open>Header maps\<close>

text \<open>The types of header maps that are implemented: 0, 2 and 6.\<close>

abbreviation (input) PROXY_MAP_TYPE_HTTP_REQUEST_HEADERS :: i32 where
  "PROXY_MAP_TYPE_HTTP_REQUEST_HEADERS \<equiv> 0"
abbreviation (input) PROXY_MAP_TYPE_HTTP_RESPONSE_HEADERS :: i32 where
  "PROXY_MAP_TYPE_HTTP_RESPONSE_HEADERS \<equiv> 2"
abbreviation (input) PROXY_MAP_TYPE_HTTP_CALL_RESPONSE_HEADERS :: i32 where
  "PROXY_MAP_TYPE_HTTP_CALL_RESPONSE_HEADERS \<equiv> 6"

definition proxy_get_header_map_pairs :: "env \<Rightarrow> i32 \<Rightarrow> i32 \<Rightarrow> i32 \<Rightarrow> host \<Rightarrow> (proxy_result \<times> host) option" where
  "proxy_get_header_map_pairs E ty addr size_addr w =
     must_get_req w (\<lambda>r.
       if ty = PROXY_MAP_TYPE_HTTP_REQUEST_HEADERS then ngx_http_wasm_req_get_headers E r addr size_addr w
       else if ty = PROXY_MAP_TYPE_HTTP_RESPONSE_HEADERS
       then ngx_http_wasm_resp_get_headers E r addr size_addr w
       else if ty = PROXY_MAP_TYPE_HTTP_CALL_RESPONSE_HEADERS
       then ngx_http_wasm_http_call_resp_get_headers E r addr size_addr w
       else Some (PROXY_RESULT_UNIMPLEMENTED, w))"

definition proxy_set_header_map_pairs :: "i32 \<Rightarrow> i32 \<Rightarrow> i32 \<Rightarrow> host \<Rightarrow> (proxy_result \<times> host) option" where
  "proxy_set_header_map_pairs ty data sz w = Some (PROXY_RESULT_UNIMPLEMENTED, w)"

definition proxy_get_header_map_value ::
  "env \<Rightarrow> i32 \<Rightarrow> i32 \<Rightarrow> i32 \<Rightarrow> i32 \<Rightarrow> i32 \<Rightarrow> host \<Rightarrow> (proxy_result \<times> host) option" where
  "proxy_get_header_map_value E ty key_data key_size addr sz w =
     must_get_req w (\<lambda>r.
       do { _ \<leftarrow> h_requests w r;
            must_get_memory E key_data key_size w (\<lambda>key.
              if ty = PROXY_MAP_TYPE_HTTP_REQUEST_HEADERS
              then ngx_http_wasm_req_get_header E r key key_size addr sz w
              else if ty = PROXY_MAP_TYPE_HTTP_RESPONSE_HEADERS
              then ngx_http_wasm_resp_get_header E r key key_size addr sz w
              else if ty = PROXY_MAP_TYPE_HTTP_CALL_RESPONSE_HEADERS
              then ngx_http_wasm_http_call_resp_get_header E r key key_size addr sz w
              else Some (PROXY_RESULT_UNIMPLEMENTED, w)) })"

text \<open>The end of the three functions that change a header.\<close>

definition header_result :: "(int \<times> host) option \<Rightarrow> (proxy_result \<times> host) option" where
  "header_result res =
     do { (rc, w) \<leftarrow> res;
          Some (if rc \<noteq> NGX_OK then PROXY_RESULT_BAD_ARGUMENT else PROXY_RESULT_OK, w) }"

definition proxy_remove_header_map_value :: "env \<Rightarrow> i32 \<Rightarrow> i32 \<Rightarrow> i32 \<Rightarrow> host \<Rightarrow> (proxy_result \<times> host) option" where
  "proxy_remove_header_map_value E ty key_data key_size w =
     do { _ \<leftarrow> ngx_http_wasm_get_log w;
          must_get_req w (\<lambda>r.
            must_get_memory E key_data key_size w (\<lambda>key.
              do { m \<leftarrow> guest_mem w;
                   if ty = PROXY_MAP_TYPE_HTTP_REQUEST_HEADERS
                   then header_result
                          (ngx_http_wasm_set_req_header E r m key (size_of_i32 key_size) None True w)
                   else if ty = PROXY_MAP_TYPE_HTTP_RESPONSE_HEADERS
                   then header_result
                          (ngx_http_wasm_set_resp_header E r m key (size_of_i32 key_size) True None True w)
                   else Some (PROXY_RESULT_UNIMPLEMENTED, w) })) }"

definition set_header_map_value ::
  "env \<Rightarrow> bool \<Rightarrow> i32 \<Rightarrow> i32 \<Rightarrow> i32 \<Rightarrow> i32 \<Rightarrow> i32 \<Rightarrow> host \<Rightarrow> (proxy_result \<times> host) option" where
  "set_header_map_value E override ty key_data key_size data sz w =
     do { _ \<leftarrow> ngx_http_wasm_get_log w;
          must_get_req w (\<lambda>r.
            must_get_memory E key_data key_size w (\<lambda>key.
              must_get_memory E data sz w (\<lambda>val.
                do { m \<leftarrow> guest_mem w;
                     if ty = PROXY_MAP_TYPE_HTTP_REQUEST_HEADERS
                     then header_result (ngx_http_wasm_set_req_header E r m key (size_of_i32 key_size)
                            (Some (val, size_of_i32 sz)) override w)
                     else if ty = PROXY_MAP_TYPE_HTTP_RESPONSE_HEADERS
                     then header_result (ngx_http_wasm_set_resp_header E r m key (size_of_i32 key_size)
                            False (Some (val, size_of_i32 sz)) override w)
                     else Some (PROXY_RESULT_UNIMPLEMENTED, w) }))) }"

definition proxy_replace_header_map_value ::
  "env \<Rightarrow> i32 \<Rightarrow> i32 \<Rightarrow> i32 \<Rightarrow> i32 \<Rightarrow> i32 \<Rightarrow> host \<Rightarrow> (proxy_result \<times> host) option" where
  "proxy_replace_header_map_value E ty key_data key_size data sz w =
     set_header_map_value E True ty key_data key_size data sz w"

definition proxy_add_header_map_value ::
  "env \<Rightarrow> i32 \<Rightarrow> i32 \<Rightarrow> i32 \<Rightarrow> i32 \<Rightarrow> i32 \<Rightarrow> host \<Rightarrow> (proxy_result \<times> host) option" where
  "proxy_add_header_map_value E ty key_data key_size data sz w =
     set_header_map_value E False ty key_data key_size data sz w"

section \<open>HTTP calls\<close>

abbreviation (input) sizeof_ngx_str :: nat where "sizeof_ngx_str \<equiv> 16"

text \<open>A copy of a piece of the plugin's memory; the inner \<open>None\<close> is NULL.\<close>

definition ngx_http_wasm_copy_as_str :: "env \<Rightarrow> int \<Rightarrow> nat \<Rightarrow> host \<Rightarrow> (bytes option \<times> host) option" where
  "ngx_http_wasm_copy_as_str E src sz w =
     (case try_alloc E ((sizeof_ngx_str + sz) mod 2 ^ 64) w of
        (False, w) \<Rightarrow> Some (None, w)
      | (True, w) \<Rightarrow> do { bs \<leftarrow> guest_rd w src sz; Some (Some bs, w) })"

text \<open>
  The stages of \<^verbatim>\<open>proxy_http_call\<close>: the copies of the headers and of the body, both optional
  (\<open>Inl\<close> is a return with an error), and the rest.
\<close>

definition call_copy_headers ::
  "env \<Rightarrow> i32 \<Rightarrow> i32 \<Rightarrow> host \<Rightarrow> (proxy_result \<times> host + bytes option \<times> host) option" where
  "call_copy_headers E headers_data headers_size w =
     (if sint headers_size \<le> 0 then Some (Inr (None, w))
      else do {
        p \<leftarrow> vm_get_memory E headers_data headers_size w;
        (case p of
           None \<Rightarrow> Some (Inl (PROXY_RESULT_INVALID_MEMORY_ACCESS, w))
         | Some p \<Rightarrow>
             (case try_alloc E (size_of_i32 headers_size) w of
                (False, w) \<Rightarrow> Some (Inl (PROXY_RESULT_INTERNAL_FAILURE, w))
              | (True, w) \<Rightarrow>
                  do { bs \<leftarrow> guest_rd w p (size_of_i32 headers_size); Some (Inr (Some bs, w)) })) })"

definition call_copy_body ::
  "env \<Rightarrow> i32 \<Rightarrow> i32 \<Rightarrow> host \<Rightarrow> (proxy_result \<times> host + bytes option \<times> host) option" where
  "call_copy_body E body_data body_size w =
     (if sint body_size \<le> 0 then Some (Inr (None, w))
      else do {
        p \<leftarrow> vm_get_memory E body_data body_size w;
        (case p of
           None \<Rightarrow> Some (Inl (PROXY_RESULT_INVALID_MEMORY_ACCESS, w))
         | Some p \<Rightarrow>
             do { (s, w) \<leftarrow> ngx_http_wasm_copy_as_str E p (size_of_i32 body_size) w;
                  Some (case s of None \<Rightarrow> Inl (PROXY_RESULT_INTERNAL_FAILURE, w)
                                | Some bs \<Rightarrow> Inr (Some bs, w)) }) })"

definition call_register_and_store ::
  "env \<Rightarrow> nat \<Rightarrow> bytes \<Rightarrow> bytes option \<Rightarrow> bytes option \<Rightarrow> i32 \<Rightarrow> i32 \<Rightarrow> host \<Rightarrow> (proxy_result \<times> host) option" where
  "call_register_and_store E r up headers body timeout callout_addr w =
     do { (rc, callout_id, w) \<leftarrow> ngx_http_wasm_call_register E r up headers body timeout w;
          if rc \<noteq> NGX_OK then Some (PROXY_RESULT_INTERNAL_FAILURE, w)
          else must_get_memory E callout_addr 4 w (\<lambda>p.
            do { callout_id \<leftarrow> callout_id;
                 w \<leftarrow> guest_wr w p (le32 callout_id);
                 Some (PROXY_RESULT_OK, w) }) }"

definition proxy_http_call ::
  "env \<Rightarrow> i32 \<Rightarrow> i32 \<Rightarrow> i32 \<Rightarrow> i32 \<Rightarrow> i32 \<Rightarrow> i32 \<Rightarrow> i32 \<Rightarrow> i32 \<Rightarrow> i32 \<Rightarrow> i32 \<Rightarrow> host \<Rightarrow> (proxy_result \<times> host) option" where
  "proxy_http_call E up_data up_size headers_data headers_size body_data body_size trailer_data
     trailer_size timeout callout_addr w =
     must_get_req w (\<lambda>r.
       do { rq \<leftarrow> h_requests w r;
            if \<not> ngx_http_wasm_is_yieldable E rq then Some (PROXY_RESULT_BAD_ARGUMENT, w)
            else must_get_memory E up_data up_size w (\<lambda>p.
              do { (up, w) \<leftarrow> ngx_http_wasm_copy_as_str E p (size_of_i32 up_size) w;
                   (case up of
                      None \<Rightarrow> Some (PROXY_RESULT_INTERNAL_FAILURE, w)
                    | Some up \<Rightarrow>
                        if e_parse_url E up \<noteq> NGX_OK then Some (PROXY_RESULT_BAD_ARGUMENT, w)
                        else do {
                          res \<leftarrow> call_copy_headers E headers_data headers_size w;
                          (case res of
                             Inl (rc, w) \<Rightarrow> Some (rc, w)
                           | Inr (headers, w) \<Rightarrow>
                               do { res \<leftarrow> call_copy_body E body_data body_size w;
                                    (case res of
                                       Inl (rc, w) \<Rightarrow> Some (rc, w)
                                     | Inr (body, w) \<Rightarrow>
                                         call_register_and_store E r up headers body timeout callout_addr w) }) }) }) })"

section \<open>Constant answers\<close>

text \<open>These read and change nothing.\<close>

definition proxy_set_effective_context :: "i32 \<Rightarrow> host \<Rightarrow> (proxy_result \<times> host) option" where
  "proxy_set_effective_context ctx_id w = Some (PROXY_RESULT_OK, w)"

definition proxy_get_current_time_nanoseconds :: "i32 \<Rightarrow> host \<Rightarrow> (proxy_result \<times> host) option" where
  "proxy_get_current_time_nanoseconds time_addr w = Some (PROXY_RESULT_UNIMPLEMENTED, w)"

definition proxy_set_tick_period_milliseconds :: "i32 \<Rightarrow> host \<Rightarrow> (proxy_result \<times> host) option" where
  "proxy_set_tick_period_milliseconds tick w = Some (PROXY_RESULT_UNIMPLEMENTED, w)"

definition proxy_continue_request :: "host \<Rightarrow> (proxy_result \<times> host) option" where
  "proxy_continue_request w = Some (PROXY_RESULT_OK, w)"

definition proxy_continue_response :: "host \<Rightarrow> (proxy_result \<times> host) option" where
  "proxy_continue_response w = Some (PROXY_RESULT_OK, w)"

definition proxy_clear_route_cache :: "host \<Rightarrow> (proxy_result \<times> host) option" where
  "proxy_clear_route_cache w = Some (PROXY_RESULT_UNIMPLEMENTED, w)"

definition proxy_continue_stream :: "i32 \<Rightarrow> host \<Rightarrow> (proxy_result \<times> host) option" where
  "proxy_continue_stream stream_type w = Some (PROXY_RESULT_OK, w)"

definition proxy_close_stream :: "i32 \<Rightarrow> host \<Rightarrow> (proxy_result \<times> host) option" where
  "proxy_close_stream stream_type w = Some (PROXY_RESULT_OK, w)"

definition proxy_done :: "host \<Rightarrow> (proxy_result \<times> host) option" where
  "proxy_done w = Some (PROXY_RESULT_UNIMPLEMENTED, w)"

definition proxy_get_status :: "i32 \<Rightarrow> i32 \<Rightarrow> i32 \<Rightarrow> host \<Rightarrow> (proxy_result \<times> host) option" where
  "proxy_get_status code addr sz w = Some (PROXY_RESULT_UNIMPLEMENTED, w)"

definition proxy_get_shared_data ::
  "i32 \<Rightarrow> i32 \<Rightarrow> i32 \<Rightarrow> i32 \<Rightarrow> i32 \<Rightarrow> host \<Rightarrow> (proxy_result \<times> host) option" where
  "proxy_get_shared_data key_data key_size addr sz cas w = Some (PROXY_RESULT_UNIMPLEMENTED, w)"

definition proxy_set_shared_data ::
  "i32 \<Rightarrow> i32 \<Rightarrow> i32 \<Rightarrow> i32 \<Rightarrow> i32 \<Rightarrow> host \<Rightarrow> (proxy_result \<times> host) option" where
  "proxy_set_shared_data key_data key_size data sz cas w = Some (PROXY_RESULT_UNIMPLEMENTED, w)"

definition proxy_register_shared_queue ::
  "i32 \<Rightarrow> i32 \<Rightarrow> i32 \<Rightarrow> host \<Rightarrow> (proxy_result \<times> host) option" where
  "proxy_register_shared_queue data sz queue_addr w = Some (PROXY_RESULT_UNIMPLEMENTED, w)"

definition proxy_resolve_shared_queue ::
  "i32 \<Rightarrow> i32 \<Rightarrow> i32 \<Rightarrow> i32 \<Rightarrow> i32 \<Rightarrow> host \<Rightarrow> (proxy_result \<times> host) option" where
  "proxy_resolve_shared_queue vm_id_data vm_id_size name_data name_size
    return_id w = Some (PROXY_RESULT_UNIMPLEMENTED, w)"

definition proxy_dequeue_shared_queue ::
  "i32 \<Rightarrow> i32 \<Rightarrow> i32 \<Rightarrow> host \<Rightarrow> (proxy_result \<times> host) option" where
  "proxy_dequeue_shared_queue queue_id addr sz w = Some (PROXY_RESULT_UNIMPLEMENTED, w)"

definition proxy_enqueue_shared_queue ::
  "i32 \<Rightarrow> i32 \<Rightarrow> i32 \<Rightarrow> host \<Rightarrow> (proxy_result \<times> host) option" where
  "proxy_enqueue_shared_queue queue_id addr sz w = Some (PROXY_RESULT_UNIMPLEMENTED, w)"

definition proxy_grpc_call ::
  "i32 \<Rightarrow> i32 \<Rightarrow> i32 \<Rightarrow> i32 \<Rightarrow> i32 \<Rightarrow> i32 \<Rightarrow> i32 \<Rightarrow> i32 \<Rightarrow> i32 \<Rightarrow> i32 \<Rightarrow> i32 \<Rightarrow> i32 \<Rightarrow> host \<Rightarrow> (proxy_result \<times> host) option" where
  "proxy_grpc_call service_data service_size service_name_data service_name_size
    method_data method_size metadata_data metadata_size request_data request_size timeout callout_addr w = Some (PROXY_RESULT_UNIMPLEMENTED, w)"

definition proxy_grpc_stream ::
  "i32 \<Rightarrow> i32 \<Rightarrow> i32 \<Rightarrow> i32 \<Rightarrow> i32 \<Rightarrow> i32 \<Rightarrow> i32 \<Rightarrow> i32 \<Rightarrow> i32 \<Rightarrow> host \<Rightarrow> (proxy_result \<times> host) option" where
  "proxy_grpc_stream service_data service_size service_name_data service_name_size
    method_data method_size metadata_data metadata_size callout_addr w = Some (PROXY_RESULT_UNIMPLEMENTED, w)"

definition proxy_grpc_send ::
  "i32 \<Rightarrow> i32 \<Rightarrow> i32 \<Rightarrow> i32 \<Rightarrow> host \<Rightarrow> (proxy_result \<times> host) option" where
  "proxy_grpc_send call_id message_data message_size end_of_stream w =
    Some (PROXY_RESULT_UNIMPLEMENTED, w)"

definition proxy_grpc_cancel :: "i32 \<Rightarrow> host \<Rightarrow> (proxy_result \<times> host) option" where
  "proxy_grpc_cancel call_id w = Some (PROXY_RESULT_UNIMPLEMENTED, w)"

definition proxy_grpc_close :: "i32 \<Rightarrow> host \<Rightarrow> (proxy_result \<times> host) option" where
  "proxy_grpc_close call_id w = Some (PROXY_RESULT_UNIMPLEMENTED, w)"

definition proxy_call_foreign_function ::
  "i32 \<Rightarrow> i32 \<Rightarrow> i32 \<Rightarrow> i32 \<Rightarrow> i32 \<Rightarrow> i32 \<Rightarrow> host \<Rightarrow> (proxy_result \<times> host) option" where
  "proxy_call_foreign_function fn_data fn_size param_data param_size res_data
    res_size w = Some (PROXY_RESULT_UNIMPLEMENTED, w)"

definition proxy_define_metric ::
  "i32 \<Rightarrow> i32 \<Rightarrow> i32 \<Rightarrow> i32 \<Rightarrow> host \<Rightarrow> (proxy_result \<times> host) option" where
  "proxy_define_metric ty name_data name_size res_addr w = Some (PROXY_RESULT_OK, w)"

definition proxy_increment_metric ::
  "i32 \<Rightarrow> u64 \<Rightarrow> host \<Rightarrow> (proxy_result \<times> host) option" where
  "proxy_increment_metric metric_id offset w = Some (PROXY_RESULT_OK, w)"

definition proxy_record_metric ::
  "i32 \<Rightarrow> u64 \<Rightarrow> host \<Rightarrow> (proxy_result \<times> host) option" where
  "proxy_record_metric metric_id val w = Some (PROXY_RESULT_OK, w)"

definition proxy_get_metric :: "i32 \<Rightarrow> u64 \<Rightarrow> host \<Rightarrow> (proxy_result \<times> host) option" where
  "proxy_get_metric metric_id res w = Some (PROXY_RESULT_OK, w)"

section \<open>Functions of lua-nginx-module\<close>

text \<open>
  \<^verbatim>\<open>ngx_http_wasm_resolve_symbol\<close>: the symbols in the order they are looked up with \<open>dlsym\<close>,
  up to the first that is missing; the result also lists the pointers that were set.
\<close>

fun resolve_symbols :: "(string \<Rightarrow> bool) \<Rightarrow> string list \<Rightarrow> int \<times> string list" where
  "resolve_symbols dlsym [] = (NGX_OK, [])"
| "resolve_symbols dlsym (s # ss) =
     (if \<not> dlsym s then (NGX_ERROR, [])
      else case resolve_symbols dlsym ss of (rc, fs) \<Rightarrow> (rc, s # fs))"

definition ngx_http_wasm_resolve_symbol :: "(string \<Rightarrow> bool) \<Rightarrow> int \<times> string list" where
  "ngx_http_wasm_resolve_symbol dlsym =
     resolve_symbols dlsym
       [''ngx_http_lua_ffi_get_phase'', ''ngx_http_lua_ffi_set_resp_header'',
        ''ngx_http_lua_ffi_set_resp_status'', ''ngx_http_lua_ffi_get_resp_header'',
        ''ngx_http_lua_ffi_req_get_headers_count'', ''ngx_http_lua_ffi_req_get_headers'',
        ''ngx_http_lua_ffi_req_set_header'', ''ngx_http_lua_ffi_var_set'']"

end
