(* ===== verification/Contexts.thy ===== *)
theory Contexts
  imports Wasm_State
begin

text \<open>
  The plugins, plugin contexts and HTTP contexts of src/http/ngx_http_wasm_module.c: loading
  and unloading, configuring, the contexts of a request and their release. The three structs
  live in heaps (maps from addresses); an address that is freed is not in its heap, and
  following it is undefined. A queue of nginx (\<^verbatim>\<open>ngx_queue_t\<close>) is the list of the addresses of
  its elements from its head: \<^verbatim>\<open>ngx_queue_insert_head\<close> is Cons, \<^verbatim>\<open>ngx_queue_last\<close> the last
  element, \<^verbatim>\<open>ngx_queue_remove\<close> takes an element out of the queue it is in.
\<close>

section \<open>State\<close>

record wasm_plugin =
  pl_plugin :: nat
  pl_cur_ctx_id :: i32
  pl_abi_version :: nat
  pl_name :: bytes
  pl_state :: nat
  pl_occupied :: "nat list"
  pl_free :: "nat list"
  pl_done :: bool

record wasm_plugin_ctx =
  px_id :: i32
  px_state :: "nat option"
  px_hw_plugin :: nat
  px_pool :: bool
  px_occupied :: "nat list"
  px_free :: "nat list"
  px_done :: bool

record wasm_http_ctx =
  hx_id :: i32
  hx_hwp_ctx :: nat

text \<open>
  \<open>m_live\<close> are the VM instances that are loaded, \<open>m_req_ctxs\<close> the \<^verbatim>\<open>http_ctxs\<close> arrays of the
  module contexts of requests, by the address of the context (\<open>None\<close> for NULL), \<open>m_next\<close> the
  next address an allocation returns.
\<close>

record mstate =
  m_vm_inited :: bool
  m_live :: "nat \<Rightarrow> bool"
  m_plugins :: "nat \<Rightarrow> wasm_plugin option"
  m_pctxs :: "nat \<Rightarrow> wasm_plugin_ctx option"
  m_hctxs :: "nat \<Rightarrow> wasm_http_ctx option"
  m_req_ctxs :: "nat \<Rightarrow> nat list option"
  m_next :: nat
  m_host :: host

abbreviation (input) PROXY_WASM_ABI_VER_010 :: nat where "PROXY_WASM_ABI_VER_010 \<equiv> 0"
abbreviation (input) PROXY_WASM_ABI_VER_MAX :: nat where "PROXY_WASM_ABI_VER_MAX \<equiv> 99"

definition set_plugin :: "nat \<Rightarrow> wasm_plugin \<Rightarrow> mstate \<Rightarrow> mstate" where
  "set_plugin hw p s = s\<lparr>m_plugins := (m_plugins s)(hw \<mapsto> p)\<rparr>"

definition set_pctx :: "nat \<Rightarrow> wasm_plugin_ctx \<Rightarrow> mstate \<Rightarrow> mstate" where
  "set_pctx px x s = s\<lparr>m_pctxs := (m_pctxs s)(px \<mapsto> x)\<rparr>"

definition m_alloc :: "env \<Rightarrow> nat \<Rightarrow> mstate \<Rightarrow> bool \<times> mstate" where
  "m_alloc E sz s = (case try_alloc E sz (m_host s) of (ok, w) \<Rightarrow> (ok, s\<lparr>m_host := w\<rparr>))"

text \<open>Calls into the VM; a call into an instance that was unloaded is undefined.\<close>

definition m_call ::
  "env \<Rightarrow> nat \<Rightarrow> string \<Rightarrow> bool \<Rightarrow> nat \<Rightarrow> i32 list \<Rightarrow> mstate \<Rightarrow> (int \<times> mstate) option" where
  "m_call E plugin name has_result param_type args s =
     (if m_live s plugin
      then do { (rc, w) \<leftarrow> vm_call E (Some plugin) name has_result param_type args (m_host s);
                Some (rc, s\<lparr>m_host := w\<rparr>) }
      else None)"

definition m_set_state :: "nat option \<Rightarrow> mstate \<Rightarrow> mstate option" where
  "m_set_state st s =
     do { w \<leftarrow> ngx_http_wasm_set_state st (m_host s); Some (s\<lparr>m_host := w\<rparr>) }"

definition vm_unload :: "nat \<Rightarrow> mstate \<Rightarrow> mstate option" where
  "vm_unload plugin s =
     (if m_live s plugin then Some (s\<lparr>m_live := (m_live s)(plugin := False)\<rparr>) else None)"

text \<open>\<^verbatim>\<open>ngx_queue_remove\<close> of an element that is in one of the two queues of its owner.\<close>

definition queue_remove :: "nat \<Rightarrow> nat list \<times> nat list \<Rightarrow> (nat list \<times> nat list) option" where
  "queue_remove q qs =
     (case qs of (occupied, free) \<Rightarrow>
        if q \<in> set occupied \<union> set free then Some (remove1 q occupied, remove1 q free) else None)"

section \<open>Loading and unloading a plugin\<close>

definition abi_versions :: "string list" where
  "abi_versions = [''proxy_abi_version_0_1_0'', ''proxy_abi_version_0_2_0'', ''proxy_abi_version_0_2_1'']"

fun find_abi_version :: "env \<Rightarrow> nat \<Rightarrow> nat \<Rightarrow> string list \<Rightarrow> nat \<Rightarrow> nat" where
  "find_abi_version E plugin i [] v = v"
| "find_abi_version E plugin i (name # names) v =
     find_abi_version E plugin (Suc i) names (if vm_has E plugin name then i else v)"

text \<open>\<open>sizeof_plugin\<close> and its kin are the struct sizes of a 64-bit build.\<close>

abbreviation (input) sizeof_plugin :: nat where "sizeof_plugin \<equiv> 80"
abbreviation (input) sizeof_state :: nat where "sizeof_state \<equiv> 48"
abbreviation (input) sizeof_plugin_ctx :: nat where "sizeof_plugin_ctx \<equiv> 88"
abbreviation (input) sizeof_http_ctx :: nat where "sizeof_http_ctx \<equiv> 32"

text \<open>
  \<^verbatim>\<open>ngx_http_wasm_load_plugin\<close> in its two stages, the start function of the instance and the
  plugin struct; \<open>load_ok\<close> is whether \<^verbatim>\<open>ngx_wasm_vm->load\<close> returns an instance for the
  bytecode. The plugin's state record is allocated with the plugin and zeroed.
\<close>

definition start_plugin :: "env \<Rightarrow> nat \<Rightarrow> mstate \<Rightarrow> (int \<times> mstate) option" where
  "start_plugin E plugin s =
     (if vm_has E plugin ''_start''
      then m_call E plugin ''_start'' False NGX_WASM_PARAM_VOID [] s
      else if vm_has E plugin ''_initialize''
      then m_call E plugin ''_initialize'' False NGX_WASM_PARAM_VOID [] s
      else Some (NGX_OK, s))"

definition create_plugin :: "env \<Rightarrow> nat \<Rightarrow> bytes \<Rightarrow> mstate \<Rightarrow> nat option \<times> mstate" where
  "create_plugin E plugin name s =
     (case m_alloc E (sizeof_plugin + length name + sizeof_state) s of
        (False, s) \<Rightarrow> (None, s)
      | (True, s) \<Rightarrow>
          let hw_plugin = m_next s; state = Suc (m_next s);
              p = \<lparr>pl_plugin = plugin, pl_cur_ctx_id = 0,
                   pl_abi_version = find_abi_version E plugin 0 abi_versions PROXY_WASM_ABI_VER_MAX,
                   pl_name = name, pl_state = state, pl_occupied = [], pl_free = [],
                   pl_done = False\<rparr>;
              st = \<lparr>ws_conf = str_null, ws_body = Some str_null, ws_r = None,
                    ws_plugin_name = Some name\<rparr>;
              w = m_host s
          in (Some hw_plugin, (set_plugin hw_plugin p s)
               \<lparr>m_next := Suc state, m_host := w\<lparr>h_states := (h_states w)(state \<mapsto> st)\<rparr>\<rparr>))"

definition ngx_http_wasm_load_plugin ::
  "env \<Rightarrow> bool \<Rightarrow> bytes \<Rightarrow> mstate \<Rightarrow> (nat option \<times> mstate) option" where
  "ngx_http_wasm_load_plugin E load_ok name s =
     (if \<not> m_vm_inited s then Some (None, s)
      else if \<not> load_ok then Some (None, s)
      else do {
        let plugin = m_next s;
        let s = s\<lparr>m_next := Suc plugin, m_live := (m_live s)(plugin := True)\<rparr>;
        (rc, s) \<leftarrow> start_plugin E plugin s;
        if rc \<noteq> NGX_OK then do { s \<leftarrow> vm_unload plugin s; Some (None, s) }
        else (case create_plugin E plugin name s of
                (None, s) \<Rightarrow> do { s \<leftarrow> vm_unload plugin s; Some (None, s) }
              | (Some hw_plugin, s) \<Rightarrow> Some (Some hw_plugin, s)) })"

text \<open>The loop that frees the contexts in the free queue, from its last element.\<close>

fun free_plugin_ctxs :: "nat list \<Rightarrow> mstate \<Rightarrow> mstate option" where
  "free_plugin_ctxs qs s =
     (if qs = [] then Some s
      else do { _ \<leftarrow> m_pctxs s (last qs);
                free_plugin_ctxs (butlast qs) (s\<lparr>m_pctxs := (m_pctxs s)(last qs := None)\<rparr>) })"

declare free_plugin_ctxs.simps [simp del]

definition ngx_http_wasm_free_plugin :: "nat \<Rightarrow> mstate \<Rightarrow> mstate option" where
  "ngx_http_wasm_free_plugin hw_plugin s =
     do { p \<leftarrow> m_plugins s hw_plugin;
          if pl_occupied p \<noteq> [] then Some s
          else do { s \<leftarrow> vm_unload (pl_plugin p) s;
                    s \<leftarrow> free_plugin_ctxs (pl_free p) s;
                    let w = m_host s;
                    Some (s\<lparr>m_plugins := (m_plugins s)(hw_plugin := None),
                            m_host := w\<lparr>h_states := (h_states w)(pl_state p := None)\<rparr>\<rparr>) } }"

definition ngx_http_wasm_unload_plugin :: "nat \<Rightarrow> mstate \<Rightarrow> mstate option" where
  "ngx_http_wasm_unload_plugin hw_plugin s =
     do { p \<leftarrow> m_plugins s hw_plugin;
          ngx_http_wasm_free_plugin hw_plugin (set_plugin hw_plugin (p\<lparr>pl_done := True\<rparr>) s) }"

section \<open>Plugin contexts\<close>

text \<open>
  \<^verbatim>\<open>ngx_destroy_pool(hwp_ctx->pool)\<close>: the HTTP contexts of the plugin context and its state
  record were allocated from that pool and are gone with it.
\<close>

definition destroy_pctx_pool :: "nat \<Rightarrow> wasm_plugin_ctx \<Rightarrow> mstate \<Rightarrow> mstate" where
  "destroy_pctx_pool px x s =
     (let w = m_host s in
      s\<lparr>m_hctxs := (\<lambda>hc. case m_hctxs s hc of
                           None \<Rightarrow> None
                         | Some h \<Rightarrow> if hx_hwp_ctx h = px then None else Some h),
        m_host := w\<lparr>h_states := (case px_state x of
                                  None \<Rightarrow> h_states w
                                | Some st \<Rightarrow> (h_states w)(st := None))\<rparr>\<rparr>)"

definition ngx_http_wasm_free_plugin_ctx :: "env \<Rightarrow> nat \<Rightarrow> mstate \<Rightarrow> mstate option" where
  "ngx_http_wasm_free_plugin_ctx E hwp_ctx s =
     do { x \<leftarrow> m_pctxs s hwp_ctx;
          let ctx_id = px_id x;
          p \<leftarrow> m_plugins s (px_hw_plugin x);
          let plugin = pl_plugin p;
          if px_occupied x \<noteq> [] then Some s
          else do {
            (occupied, free) \<leftarrow> queue_remove hwp_ctx (pl_occupied p, pl_free p);
            let s = set_plugin (px_hw_plugin x)
                      (p\<lparr>pl_occupied := occupied, pl_free := hwp_ctx # free\<rparr>) s;
            (_, s) \<leftarrow> m_call E plugin ''proxy_on_done'' True NGX_WASM_PARAM_I32 [ctx_id] s;
            (_, s) \<leftarrow> m_call E plugin ''proxy_on_delete'' False NGX_WASM_PARAM_I32 [ctx_id] s;
            let s = (if px_pool x
                     then set_pctx hwp_ctx (x\<lparr>px_pool := False, px_occupied := [], px_free := []\<rparr>)
                            (destroy_pctx_pool hwp_ctx x s)
                     else s);
            p \<leftarrow> m_plugins s (px_hw_plugin x);
            if pl_done p then ngx_http_wasm_free_plugin (px_hw_plugin x) s else Some s } }"

definition ngx_http_wasm_delete_plugin_ctx :: "env \<Rightarrow> nat \<Rightarrow> mstate \<Rightarrow> mstate option" where
  "ngx_http_wasm_delete_plugin_ctx E hwp_ctx s =
     do { x \<leftarrow> m_pctxs s hwp_ctx;
          ngx_http_wasm_free_plugin_ctx E hwp_ctx (set_pctx hwp_ctx (x\<lparr>px_done := True\<rparr>) s) }"

text \<open>
  \<^verbatim>\<open>ngx_http_wasm_on_configure\<close>, in its two stages. First a context is taken from the tail
  of the free queue or allocated with the next id; \<open>None\<close> is the failed allocation.
\<close>

definition take_plugin_ctx :: "env \<Rightarrow> nat \<Rightarrow> mstate \<Rightarrow> (nat option \<times> mstate) option" where
  "take_plugin_ctx E hw_plugin s =
     do { p \<leftarrow> m_plugins s hw_plugin;
          if pl_free p \<noteq> []
          then do { let hwp_ctx = last (pl_free p);
                    x \<leftarrow> m_pctxs s hwp_ctx;
                    Some (Some hwp_ctx,
                      set_pctx hwp_ctx (x\<lparr>px_done := False\<rparr>)
                        (set_plugin hw_plugin (p\<lparr>pl_free := butlast (pl_free p)\<rparr>) s)) }
          else case m_alloc E sizeof_plugin_ctx s of
                 (False, s) \<Rightarrow> Some (None, s)
               | (True, s) \<Rightarrow>
                   let hwp_ctx = m_next s; ctx_id = pl_cur_ctx_id p + 1;
                       x = \<lparr>px_id = ctx_id, px_state = None, px_hw_plugin = hw_plugin,
                            px_pool = False, px_occupied = [], px_free = [], px_done = False\<rparr>
                   in Some (Some hwp_ctx,
                        (set_pctx hwp_ctx x (set_plugin hw_plugin (p\<lparr>pl_cur_ctx_id := ctx_id\<rparr>) s))
                        \<lparr>m_next := Suc hwp_ctx\<rparr>) }"

text \<open>
  The second stage, after the guest has accepted the context: the pool and the state record,
  which holds a copy of the configuration, and the guest's \<^verbatim>\<open>proxy_on_configure\<close>. The result
  is whether the context is configured; if not, the caller deletes it. The body of the
  state record is not initialised here.
\<close>

definition configure_plugin_ctx ::
  "env \<Rightarrow> nat \<Rightarrow> bytes \<Rightarrow> mstate \<Rightarrow> (bool \<times> mstate) option" where
  "configure_plugin_ctx E hwp_ctx conf s =
     do { x \<leftarrow> m_pctxs s hwp_ctx;
          p \<leftarrow> m_plugins s (px_hw_plugin x);
          (case m_alloc E 512 s of
             (False, s) \<Rightarrow> Some (False, set_pctx hwp_ctx (x\<lparr>px_pool := False\<rparr>) s)
           | (True, s) \<Rightarrow>
               (case m_alloc E (sizeof_state + length conf) s of
                  (False, s) \<Rightarrow> Some (False, set_pctx hwp_ctx (x\<lparr>px_pool := True, px_state := None\<rparr>) s)
                | (True, s) \<Rightarrow>
                    do { let state = m_next s;
                         let ws = \<lparr>ws_conf = str_of conf, ws_body = None, ws_r = None,
                                   ws_plugin_name = Some (pl_name p)\<rparr>;
                         let w = m_host s;
                         let s = (set_pctx hwp_ctx (x\<lparr>px_pool := True, px_state := Some state\<rparr>) s)
                                 \<lparr>m_next := Suc state,
                                   m_host := w\<lparr>h_states := (h_states w)(state \<mapsto> ws)\<rparr>\<rparr>;
                         s \<leftarrow> m_set_state (Some state) s;
                         (rc, s) \<leftarrow> m_call E (pl_plugin p) ''proxy_on_configure'' True
                                     NGX_WASM_PARAM_I32_I32 [px_id x, of_nat (length conf)] s;
                         s \<leftarrow> m_set_state None s;
                         Some (0 < rc, s) })) }"

definition ngx_http_wasm_on_configure ::
  "env \<Rightarrow> nat \<Rightarrow> bytes \<Rightarrow> mstate \<Rightarrow> (nat option \<times> mstate) option" where
  "ngx_http_wasm_on_configure E hw_plugin conf s =
     do { p \<leftarrow> m_plugins s hw_plugin;
          let plugin = pl_plugin p;
          if \<not> m_vm_inited s then Some (None, s)
          else do {
            (taken, s) \<leftarrow> take_plugin_ctx E hw_plugin s;
            (case taken of
               None \<Rightarrow> Some (None, s)
             | Some hwp_ctx \<Rightarrow>
                 do { x \<leftarrow> m_pctxs s hwp_ctx;
                      s \<leftarrow> m_set_state (Some (pl_state p)) s;
                      (rc, s) \<leftarrow> m_call E plugin ''proxy_on_context_create'' False
                                  NGX_WASM_PARAM_I32_I32 [px_id x, 0] s;
                      p \<leftarrow> m_plugins s hw_plugin;
                      if rc \<noteq> NGX_OK
                      then Some (None, set_plugin hw_plugin (p\<lparr>pl_free := hwp_ctx # pl_free p\<rparr>) s)
                      else do {
                        let s = set_plugin hw_plugin (p\<lparr>pl_occupied := hwp_ctx # pl_occupied p\<rparr>) s;
                        (ok, s) \<leftarrow> configure_plugin_ctx E hwp_ctx conf s;
                        if ok then Some (Some hwp_ctx, s)
                        else do { s \<leftarrow> ngx_http_wasm_delete_plugin_ctx E hwp_ctx s;
                                  Some (None, s) } } }) } }"

section \<open>HTTP contexts\<close>

definition take_http_ctx :: "env \<Rightarrow> nat \<Rightarrow> mstate \<Rightarrow> (nat option \<times> mstate) option" where
  "take_http_ctx E hwp_ctx s =
     do { x \<leftarrow> m_pctxs s hwp_ctx;
          p \<leftarrow> m_plugins s (px_hw_plugin x);
          if px_free x \<noteq> []
          then do { let http_ctx = last (px_free x);
                    _ \<leftarrow> m_hctxs s http_ctx;
                    Some (Some http_ctx, set_pctx hwp_ctx (x\<lparr>px_free := butlast (px_free x)\<rparr>) s) }
          else if \<not> px_pool x then None
          else case m_alloc E sizeof_http_ctx s of
                 (False, s) \<Rightarrow> Some (None, s)
               | (True, s) \<Rightarrow>
                   let http_ctx = m_next s; ctx_id = pl_cur_ctx_id p + 1
                   in Some (Some http_ctx,
                        (set_plugin (px_hw_plugin x) (p\<lparr>pl_cur_ctx_id := ctx_id\<rparr>) s)
                        \<lparr>m_next := Suc http_ctx,
                          m_hctxs := (m_hctxs s)(http_ctx \<mapsto>
                            \<lparr>hx_id = ctx_id, hx_hwp_ctx = hwp_ctx\<rparr>)\<rparr>) }"

definition ngx_http_wasm_create_http_ctx ::
  "env \<Rightarrow> nat \<Rightarrow> nat \<Rightarrow> mstate \<Rightarrow> (nat option \<times> mstate) option" where
  "ngx_http_wasm_create_http_ctx E hwp_ctx r s =
     do { x \<leftarrow> m_pctxs s hwp_ctx;
          p \<leftarrow> m_plugins s (px_hw_plugin x);
          _ \<leftarrow> h_requests (m_host s) r;
          (taken, s) \<leftarrow> take_http_ctx E hwp_ctx s;
          (case taken of
             None \<Rightarrow> Some (None, s)
           | Some http_ctx \<Rightarrow>
               do { h \<leftarrow> m_hctxs s http_ctx;
                    (rc, s) \<leftarrow> m_call E (pl_plugin p) ''proxy_on_context_create'' False
                                NGX_WASM_PARAM_I32_I32 [hx_id h, px_id x] s;
                    x \<leftarrow> m_pctxs s hwp_ctx;
                    if rc \<noteq> NGX_OK
                    then Some (None, set_pctx hwp_ctx (x\<lparr>px_free := http_ctx # px_free x\<rparr>) s)
                    else Some (Some http_ctx,
                           set_pctx hwp_ctx (x\<lparr>px_occupied := http_ctx # px_occupied x\<rparr>) s) }) }"

text \<open>The search loop of \<^verbatim>\<open>ngx_http_wasm_fetch_http_ctx\<close>.\<close>

fun find_http_ctx :: "nat \<Rightarrow> nat list \<Rightarrow> mstate \<Rightarrow> nat option option" where
  "find_http_ctx hwp_ctx [] s = Some None"
| "find_http_ctx hwp_ctx (hc # hcs) s =
     do { h \<leftarrow> m_hctxs s hc;
          if hx_hwp_ctx h = hwp_ctx then Some (Some hc) else find_http_ctx hwp_ctx hcs s }"

text \<open>
  \<^verbatim>\<open>ngx_http_wasm_get_module_ctx\<close> as the module sees it: the address of the context, and with a
  context that is created here (\<^verbatim>\<open>ngx_pcalloc\<close>) its array, which is NULL.
\<close>

definition m_get_module_ctx :: "env \<Rightarrow> nat \<Rightarrow> mstate \<Rightarrow> (nat option \<times> mstate) option" where
  "m_get_module_ctx E r s =
     do { (ctx, w) \<leftarrow> ngx_http_wasm_get_module_ctx E r (m_host s);
          (case ctx of
             None \<Rightarrow> Some (None, s\<lparr>m_host := w\<rparr>)
           | Some c \<Rightarrow>
               let arrays = (if request_ctx r (m_host s) = None
                             then (m_req_ctxs s)(wc_addr c := None) else m_req_ctxs s)
               in Some (Some (wc_addr c), s\<lparr>m_host := w, m_req_ctxs := arrays\<rparr>)) }"

text \<open>
  \<^verbatim>\<open>ngx_http_wasm_fetch_http_ctx\<close>. The result of \<^verbatim>\<open>ngx_array_push\<close> is written through without
  a check, so a failed allocation there is undefined. \<open>sizeof_array\<close> is \<^verbatim>\<open>sizeof(ngx_array_t)\<close>.
\<close>

abbreviation (input) sizeof_array :: nat where "sizeof_array \<equiv> 40"
abbreviation (input) sizeof_pointer :: nat where "sizeof_pointer \<equiv> 8"

definition ngx_http_wasm_fetch_http_ctx ::
  "env \<Rightarrow> nat \<Rightarrow> nat \<Rightarrow> mstate \<Rightarrow> (nat option \<times> mstate) option" where
  "ngx_http_wasm_fetch_http_ctx E hwp_ctx r s =
     do { (ctx, s) \<leftarrow> m_get_module_ctx E r s;
          (case ctx of
             None \<Rightarrow> Some (None, s)
           | Some c \<Rightarrow>
            let (ok, s) = (case m_req_ctxs s c of
                             Some _ \<Rightarrow> (True, s)
                           | None \<Rightarrow>
                               (case m_alloc E (sizeof_array + sizeof_pointer) s of
                                  (False, s) \<Rightarrow> (False, s)
                                | (True, s) \<Rightarrow>
                                    (True, s\<lparr>m_req_ctxs := (m_req_ctxs s)(c \<mapsto> [])\<rparr>)))
            in if \<not> ok then Some (None, s)
               else do {
                 hcs \<leftarrow> m_req_ctxs s c;
                 found \<leftarrow> find_http_ctx hwp_ctx hcs s;
                 (case found of
                    Some hc \<Rightarrow> Some (Some hc, s)
                  | None \<Rightarrow>
                      do { (created, s) \<leftarrow> ngx_http_wasm_create_http_ctx E hwp_ctx r s;
                           (case created of
                              None \<Rightarrow> Some (None, s)
                            | Some http_ctx \<Rightarrow>
                                (case m_alloc E sizeof_pointer s of
                                   (False, s) \<Rightarrow> None
                                 | (True, s) \<Rightarrow>
                                     Some (Some http_ctx,
                                       s\<lparr>m_req_ctxs := (m_req_ctxs s)(c \<mapsto> hcs @ [http_ctx])\<rparr>))) }) }) }"

text \<open>
  \<^verbatim>\<open>ngx_http_wasm_cleanup\<close>, the cleanup handler of the request's pool, over the array of
  HTTP contexts of the module context it was registered with (its \<^verbatim>\<open>data\<close>).
\<close>

definition cleanup_http_ctx :: "env \<Rightarrow> nat \<Rightarrow> mstate \<Rightarrow> mstate option" where
  "cleanup_http_ctx E http_ctx s =
     do { h \<leftarrow> m_hctxs s http_ctx;
          let ctx_id = hx_id h;
          let hwp_ctx = hx_hwp_ctx h;
          x \<leftarrow> m_pctxs s hwp_ctx;
          p \<leftarrow> m_plugins s (px_hw_plugin x);
          let plugin = pl_plugin p;
          (occupied, free) \<leftarrow> queue_remove http_ctx (px_occupied x, px_free x);
          let s = set_pctx hwp_ctx (x\<lparr>px_occupied := occupied, px_free := http_ctx # free\<rparr>) s;
          (_, s) \<leftarrow> m_call E plugin ''proxy_on_done'' True NGX_WASM_PARAM_I32 [ctx_id] s;
          (_, s) \<leftarrow> m_call E plugin ''proxy_on_delete'' False NGX_WASM_PARAM_I32 [ctx_id] s;
          x \<leftarrow> m_pctxs s hwp_ctx;
          if px_done x then ngx_http_wasm_free_plugin_ctx E hwp_ctx s else Some s }"

fun cleanup_http_ctxs :: "env \<Rightarrow> nat list \<Rightarrow> mstate \<Rightarrow> mstate option" where
  "cleanup_http_ctxs E [] s = Some s"
| "cleanup_http_ctxs E (hc # hcs) s =
     do { s \<leftarrow> cleanup_http_ctx E hc s; cleanup_http_ctxs E hcs s }"

definition ngx_http_wasm_cleanup :: "env \<Rightarrow> nat \<Rightarrow> mstate \<Rightarrow> mstate option" where
  "ngx_http_wasm_cleanup E ctx s =
     (case m_req_ctxs s ctx of
        None \<Rightarrow> Some s
      | Some hcs \<Rightarrow> cleanup_http_ctxs E hcs s)"

end
