(* ===== verification/Contexts_Inv.thy ===== *)
theory Contexts_Inv
  imports Contexts
begin

text \<open>
  The invariant of the plugin, plugin context and HTTP context heaps of
  ngx_http_wasm_module.c, and one lemma per change the operations make to them: a context
  taken from or put into a queue, created, retired with its pool, an array extended.
  \<open>wf_core F G R s\<close> has the plugin contexts \<open>F\<close> and the HTTP contexts \<open>G\<close> in hand, in no queue,
  and the arrays \<open>R\<close> of the module contexts, by address.
\<close>

section \<open>Well-formedness\<close>

text \<open>The plugin contexts of a plugin, and the HTTP contexts of a plugin context.\<close>

definition pctx_set :: "nat set \<Rightarrow> mstate \<Rightarrow> nat \<Rightarrow> nat set" where
  "pctx_set F s hw = {px. px \<notin> F \<and> (\<exists>x. m_pctxs s px = Some x \<and> px_hw_plugin x = hw)}"

definition hctx_set :: "nat set \<Rightarrow> mstate \<Rightarrow> nat \<Rightarrow> nat set" where
  "hctx_set G s px = {hc. hc \<notin> G \<and> (\<exists>h. m_hctxs s hc = Some h \<and> hx_hwp_ctx h = px)}"

definition wf_plugins :: "nat set \<Rightarrow> mstate \<Rightarrow> bool" where
  "wf_plugins F s \<longleftrightarrow>
     (\<forall>hw p. m_plugins s hw = Some p \<longrightarrow>
        distinct (pl_occupied p @ pl_free p) \<and>
        set (pl_occupied p) \<union> set (pl_free p) = pctx_set F s hw)"

definition wf_pctxs :: "nat set \<Rightarrow> mstate \<Rightarrow> bool" where
  "wf_pctxs G s \<longleftrightarrow>
     (\<forall>px x. m_pctxs s px = Some x \<longrightarrow>
        m_plugins s (px_hw_plugin x) \<noteq> None \<and>
        distinct (px_occupied x @ px_free x) \<and>
        set (px_occupied x) \<union> set (px_free x) = hctx_set G s px)"

definition wf_hctxs :: "mstate \<Rightarrow> bool" where
  "wf_hctxs s \<longleftrightarrow>
     (\<forall>hc h. m_hctxs s hc = Some h \<longrightarrow> (\<exists>x. m_pctxs s (hx_hwp_ctx h) = Some x \<and> px_pool x))"

definition wf_pools :: "mstate \<Rightarrow> bool" where
  "wf_pools s \<longleftrightarrow>
     (\<forall>hw p px x. m_plugins s hw = Some p \<longrightarrow> m_pctxs s px = Some x \<longrightarrow>
        px \<in> set (pl_free p) \<longrightarrow> \<not> px_pool x)"

definition wf_live :: "mstate \<Rightarrow> bool" where
  "wf_live s \<longleftrightarrow>
     (\<forall>hw p. m_plugins s hw = Some p \<longrightarrow> m_live s (pl_plugin p)) \<and>
     (\<forall>hw p hw' p'. m_plugins s hw = Some p \<longrightarrow> m_plugins s hw' = Some p' \<longrightarrow>
        pl_plugin p = pl_plugin p' \<longrightarrow> hw = hw')"

definition wf_fresh :: "mstate \<Rightarrow> bool" where
  "wf_fresh s \<longleftrightarrow>
     (\<forall>a. m_next s \<le> a \<longrightarrow>
        m_plugins s a = None \<and> m_pctxs s a = None \<and> m_hctxs s a = None \<and> \<not> m_live s a)"

text \<open>
  The arrays \<open>R\<close> of the module contexts of requests: each lists occupied HTTP contexts, at most
  one of a plugin context, and no HTTP context is listed in two arrays.
\<close>

definition hctx_owner :: "mstate \<Rightarrow> nat \<Rightarrow> nat option" where
  "hctx_owner s hc = map_option hx_hwp_ctx (m_hctxs s hc)"

definition occ_hctx :: "mstate \<Rightarrow> nat \<Rightarrow> bool" where
  "occ_hctx s hc \<longleftrightarrow>
     (\<exists>h x. m_hctxs s hc = Some h \<and> m_pctxs s (hx_hwp_ctx h) = Some x \<and> hc \<in> set (px_occupied x))"

definition disjoint_reqs :: "(nat \<Rightarrow> nat list option) \<Rightarrow> bool" where
  "disjoint_reqs R \<longleftrightarrow>
     (\<forall>r r' hcs hcs'. R r = Some hcs \<longrightarrow> R r' = Some hcs' \<longrightarrow> r \<noteq> r' \<longrightarrow> set hcs \<inter> set hcs' = {})"

definition wf_reqs :: "(nat \<Rightarrow> nat list option) \<Rightarrow> mstate \<Rightarrow> bool" where
  "wf_reqs R s \<longleftrightarrow>
     (\<forall>r hcs. R r = Some hcs \<longrightarrow>
        distinct (map (hctx_owner s) hcs) \<and> (\<forall>hc \<in> set hcs. occ_hctx s hc)) \<and>
     disjoint_reqs R"

lemma disjoint_reqsD:
  "disjoint_reqs R \<Longrightarrow> R r = Some a \<Longrightarrow> R r' = Some b \<Longrightarrow> r \<noteq> r' \<Longrightarrow> set a \<inter> set b = {}"
  unfolding disjoint_reqs_def by blast

lemma disjoint_reqs_upd:
  "disjoint_reqs R \<Longrightarrow> (\<And>k b. k \<noteq> r \<Longrightarrow> R k = Some b \<Longrightarrow> set a \<inter> set b = {}) \<Longrightarrow>
     disjoint_reqs (R(r \<mapsto> a))"
  unfolding disjoint_reqs_def by (simp add: Int_commute split: if_splits)

definition wf_core :: "nat set \<Rightarrow> nat set \<Rightarrow> (nat \<Rightarrow> nat list option) \<Rightarrow> mstate \<Rightarrow> bool" where
  "wf_core F G R s \<longleftrightarrow> wf_plugins F s \<and> wf_pctxs G s \<and> wf_hctxs s \<and> wf_pools s \<and> wf_live s \<and>
     wf_fresh s \<and> wf_reqs R s"

lemma wf_coreD:
  assumes "wf_core F G R s"
  shows "wf_plugins F s" "wf_pctxs G s" "wf_hctxs s" "wf_pools s" "wf_live s" "wf_fresh s" "wf_reqs R s"
  using assms by (simp_all only: wf_core_def)

lemma wf_poolsD:
  "wf_pools s \<Longrightarrow> m_plugins s hw = Some p \<Longrightarrow> m_pctxs s px = Some x \<Longrightarrow> px \<in> set (pl_free p) \<Longrightarrow> \<not> px_pool x"
  unfolding wf_pools_def by blast

lemmas wf_defs = wf_core_def wf_plugins_def wf_pctxs_def wf_hctxs_def wf_pools_def wf_live_def
  wf_fresh_def wf_reqs_def hctx_owner_def [abs_def] occ_hctx_def

lemma set_sels [simp]:
  "m_plugins (set_plugin hw p s) = (m_plugins s)(hw \<mapsto> p)" "m_pctxs (set_plugin hw p s) = m_pctxs s"
  "m_hctxs (set_plugin hw p s) = m_hctxs s" "m_live (set_plugin hw p s) = m_live s"
  "m_next (set_plugin hw p s) = m_next s" "m_host (set_plugin hw p s) = m_host s"
  "m_req_ctxs (set_plugin hw p s) = m_req_ctxs s" "m_vm_inited (set_plugin hw p s) = m_vm_inited s"
  "m_plugins (set_pctx px x s) = m_plugins s" "m_pctxs (set_pctx px x s) = (m_pctxs s)(px \<mapsto> x)"
  "m_hctxs (set_pctx px x s) = m_hctxs s" "m_live (set_pctx px x s) = m_live s"
  "m_next (set_pctx px x s) = m_next s" "m_host (set_pctx px x s) = m_host s"
  "m_req_ctxs (set_pctx px x s) = m_req_ctxs s" "m_vm_inited (set_pctx px x s) = m_vm_inited s"
  by (simp_all add: set_plugin_def set_pctx_def)

lemma sets_cong:
  "m_pctxs s' = m_pctxs s \<Longrightarrow> pctx_set F s' = pctx_set F s"
  "m_hctxs s' = m_hctxs s \<Longrightarrow> hctx_set G s' = hctx_set G s"
  by (simp_all add: pctx_set_def hctx_set_def fun_eq_iff)

lemma sets_simps [simp]:
  "pctx_set F (set_plugin hw p s) = pctx_set F s" "hctx_set G (set_plugin hw p s) = hctx_set G s"
  "hctx_set G (set_pctx px x s) = hctx_set G s"
  "pctx_set F (s\<lparr>m_host := w\<rparr>) = pctx_set F s" "hctx_set G (s\<lparr>m_host := w\<rparr>) = hctx_set G s"
  "pctx_set F (s\<lparr>m_next := n\<rparr>) = pctx_set F s" "hctx_set G (s\<lparr>m_next := n\<rparr>) = hctx_set G s"
  "pctx_set F (s\<lparr>m_req_ctxs := q\<rparr>) = pctx_set F s" "hctx_set G (s\<lparr>m_req_ctxs := q\<rparr>) = hctx_set G s"
  by (rule sets_cong; simp)+

lemma pctx_set_same:
  "m_pctxs s px = Some y \<Longrightarrow> px_hw_plugin x = px_hw_plugin y \<Longrightarrow>
     pctx_set F (set_pctx px x s) = pctx_set F s"
  by (auto simp: pctx_set_def fun_eq_iff)

lemma pctx_set_hand: "pctx_set (insert px F) s hw = pctx_set F s hw - {px}"
  by (auto simp: pctx_set_def)

lemma pctx_set_new:
  "m_pctxs s px = None \<Longrightarrow> pctx_set {px} (set_pctx px x s) = pctx_set {} s"
  by (auto simp: pctx_set_def fun_eq_iff)

lemma hctx_set_hand: "hctx_set (insert hc G) s px = hctx_set G s px - {hc}"
  by (auto simp: hctx_set_def)

lemma wf_core_host [simp]: "wf_core F G R (s\<lparr>m_host := w\<rparr>) = wf_core F G R s"
  by (simp add: wf_defs)

lemma wf_core_req_ctxs [simp]: "wf_core F G R (s\<lparr>m_req_ctxs := q\<rparr>) = wf_core F G R s"
  by (simp add: wf_defs)

lemma wf_core_next: "wf_core F G R s \<Longrightarrow> m_next s \<le> n \<Longrightarrow> wf_core F G R (s\<lparr>m_next := n\<rparr>)"
  by (auto simp: wf_defs)

lemma wf_live_cong:
  "wf_live s \<Longrightarrow> m_plugins s' = m_plugins s \<Longrightarrow> m_live s' = m_live s \<Longrightarrow> wf_live s'"
  by (simp only: wf_live_def)

text \<open>The arrays only speak of occupied contexts, so they bear any step that keeps those.\<close>

lemma wf_reqs_step:
  assumes wf: "wf_reqs R s"
    and occ: "\<And>r hcs hc. R r = Some hcs \<Longrightarrow> hc \<in> set hcs \<Longrightarrow> occ_hctx s hc \<Longrightarrow>
      occ_hctx s' hc \<and> hctx_owner s' hc = hctx_owner s hc"
  shows "wf_reqs R s'"
proof -
  have "distinct (map (hctx_owner s') hcs) \<and> (\<forall>hc \<in> set hcs. occ_hctx s' hc)" if r: "R r = Some hcs" for r hcs
  proof -
    have "occ_hctx s' hc" "hctx_owner s' hc = hctx_owner s hc" if "hc \<in> set hcs" for hc
      using occ [OF r that] wf r that unfolding wf_reqs_def by blast+
    moreover have "distinct (map (hctx_owner s) hcs)" using wf r unfolding wf_reqs_def by blast
    ultimately show ?thesis by (simp cong: map_cong)
  qed
  with wf show ?thesis unfolding wf_reqs_def by blast
qed

lemma wf_reqs_mono:
  assumes wf: "wf_reqs R s" and h: "m_hctxs s' = m_hctxs s"
    and occ: "\<And>r hcs hc. R r = Some hcs \<Longrightarrow> hc \<in> set hcs \<Longrightarrow> occ_hctx s hc \<Longrightarrow> occ_hctx s' hc"
  shows "wf_reqs R s'"
  using wf by (rule wf_reqs_step) (use h occ in \<open>auto simp: hctx_owner_def\<close>)

text \<open>What the invariant says of one plugin, context and array.\<close>

lemma wf_pluginD:
  assumes "wf_core F G R s" "m_plugins s hw = Some p"
  shows "distinct (pl_occupied p @ pl_free p)" "set (pl_occupied p) \<union> set (pl_free p) = pctx_set F s hw"
    "m_live s (pl_plugin p)" "hw < m_next s"
proof -
  from assms show "distinct (pl_occupied p @ pl_free p)"
    "set (pl_occupied p) \<union> set (pl_free p) = pctx_set F s hw"
    by (simp_all only: wf_core_def wf_plugins_def)
  from assms show "m_live s (pl_plugin p)" by (auto simp: wf_core_def wf_live_def)
  from assms show "hw < m_next s" by (auto simp: wf_core_def wf_fresh_def not_le [symmetric])
qed

lemma wf_pctxD:
  assumes "wf_core F G R s" "m_pctxs s px = Some x"
  shows "\<exists>p. m_plugins s (px_hw_plugin x) = Some p" "distinct (px_occupied x @ px_free x)"
    "set (px_occupied x) \<union> set (px_free x) = hctx_set G s px" "px < m_next s"
proof -
  from assms show "\<exists>p. m_plugins s (px_hw_plugin x) = Some p" "distinct (px_occupied x @ px_free x)"
    "set (px_occupied x) \<union> set (px_free x) = hctx_set G s px"
    by (auto simp only: wf_core_def wf_pctxs_def not_None_eq)
  from assms show "px < m_next s" by (auto simp: wf_core_def wf_fresh_def not_le [symmetric])
qed

lemma wf_owner:
  assumes "wf_core F G R s" "m_plugins s hw = Some p" "px \<in> set (pl_occupied p) \<union> set (pl_free p)"
    "m_pctxs s px = Some x"
  shows "px_hw_plugin x = hw" "px \<notin> F"
proof -
  have "px \<in> pctx_set F s hw" using wf_pluginD(2) [OF assms(1,2)] assms(3) by simp
  with assms(4) show "px_hw_plugin x = hw" "px \<notin> F" by (auto simp: pctx_set_def)
qed

section \<open>The steps\<close>

text \<open>A step that only rewrites one plugin, keeping its instance.\<close>

lemma wf_set_plugin:
  assumes wf: "wf_core F G R s" and p: "m_plugins s hw = Some p" and q: "pl_plugin q = pl_plugin p"
    and d: "distinct (pl_occupied q @ pl_free q)"
    and eq: "set (pl_occupied q) \<union> set (pl_free q) = pctx_set F' s hw"
    and others: "\<And>h p'. h \<noteq> hw \<Longrightarrow> m_plugins s h = Some p' \<Longrightarrow> pctx_set F' s h = pctx_set F s h"
    and free: "\<And>px x. px \<in> set (pl_free q) \<Longrightarrow> m_pctxs s px = Some x \<Longrightarrow> \<not> px_pool x"
  shows "wf_core F' G R (set_plugin hw q s)"
proof -
  have "wf_plugins F' (set_plugin hw q s)"
    using wf d eq others by (simp add: wf_core_def wf_plugins_def)
  moreover have "wf_pctxs G (set_plugin hw q s)"
    using wf p by (auto simp: wf_core_def wf_pctxs_def)
  moreover have "wf_hctxs (set_plugin hw q s)"
    using wf by (simp add: wf_core_def wf_hctxs_def)
  moreover have "wf_pools (set_plugin hw q s)"
    using wf free by (auto simp: wf_core_def wf_pools_def split: if_splits)
  moreover have "wf_live (set_plugin hw q s)"
    using wf p q by (auto simp: wf_core_def wf_live_def split: if_splits)
  moreover have "wf_fresh (set_plugin hw q s)"
    using wf p by (auto simp: wf_core_def wf_fresh_def)
  moreover have "wf_reqs R (set_plugin hw q s)"
    using wf_coreD(7) [OF wf] by (rule wf_reqs_mono) (simp_all add: occ_hctx_def)
  ultimately show ?thesis by (simp add: wf_core_def)
qed

text \<open>A step that only rewrites fields of one plugin context other than its two queues.\<close>

lemma wf_set_pctx:
  assumes wf: "wf_core F G R s" and x: "m_pctxs s px = Some x"
    and y: "px_hw_plugin y = px_hw_plugin x" "px_occupied y = px_occupied x" "px_free y = px_free x"
    and pool: "px_pool x \<Longrightarrow> px_pool y"
    and free: "\<And>p. m_plugins s (px_hw_plugin x) = Some p \<Longrightarrow> px \<in> set (pl_free p) \<Longrightarrow> \<not> px_pool y"
  shows "wf_core F G R (set_pctx px y s)"
proof -
  note pe = pctx_set_same [OF x y(1)]
  have "wf_plugins F (set_pctx px y s)"
    using wf by (simp add: wf_core_def wf_plugins_def pe)
  moreover have "wf_pctxs G (set_pctx px y s)"
    using wf x y by (simp add: wf_core_def wf_pctxs_def)
  moreover have "wf_hctxs (set_pctx px y s)"
    using wf x y pool unfolding wf_core_def wf_hctxs_def by fastforce
  moreover have "wf_pools (set_pctx px y s)"
  proof (unfold wf_pools_def, intro allI impI)
    fix h p a b
    assume h: "m_plugins (set_pctx px y s) h = Some p" "m_pctxs (set_pctx px y s) a = Some b"
      "a \<in> set (pl_free p)"
    show "\<not> px_pool b"
    proof (cases "a = px")
      case True
      with h x have "px_hw_plugin x = h" by (intro wf_owner(1) [OF wf]) auto
      with True h free y show ?thesis by auto
    next
      case False
      with h wf show ?thesis by (auto simp: wf_core_def wf_pools_def)
    qed
  qed
  moreover have "wf_live (set_pctx px y s)"
    using wf by (simp add: wf_core_def wf_live_def)
  moreover have "wf_fresh (set_pctx px y s)"
    using wf x by (auto simp: wf_core_def wf_fresh_def)
  moreover have "wf_reqs R (set_pctx px y s)"
    using wf_coreD(7) [OF wf] by (rule wf_reqs_mono) (use x y in \<open>auto simp: occ_hctx_def\<close>)
  ultimately show ?thesis by (simp add: wf_core_def)
qed

text \<open>A plugin context leaves the free queue, or is new: it is in hand.\<close>

lemma wf_take_free:
  assumes wf: "wf_core {} G R s" and p: "m_plugins s hw = Some p" "pl_free p = fs @ [px]"
    and x: "m_pctxs s px = Some x"
  shows "wf_core {px} G R (set_pctx px (x\<lparr>px_done := d\<rparr>) (set_plugin hw (p\<lparr>pl_free := fs\<rparr>) s))"
proof -
  have own: "px_hw_plugin x = hw" using p x by (intro wf_owner(1) [OF wf]) auto
  have "wf_core {px} G R (set_plugin hw (p\<lparr>pl_free := fs\<rparr>) s)"
  proof (rule wf_set_plugin [OF wf p(1)])
    show "distinct (pl_occupied (p\<lparr>pl_free := fs\<rparr>) @ pl_free (p\<lparr>pl_free := fs\<rparr>))"
      using wf_pluginD(1) [OF wf p(1)] p(2) by simp
    show "set (pl_occupied (p\<lparr>pl_free := fs\<rparr>)) \<union> set (pl_free (p\<lparr>pl_free := fs\<rparr>)) = pctx_set {px} s hw"
      using wf_pluginD(1,2) [OF wf p(1)] p(2) by (auto simp: pctx_set_hand)
    show "pctx_set {px} s h = pctx_set {} s h" if "h \<noteq> hw" for h
      using that x own by (auto simp: pctx_set_def)
    show "\<not> px_pool y" if "a \<in> set (pl_free (p\<lparr>pl_free := fs\<rparr>))" "m_pctxs s a = Some y" for a y
      using that wf p by (auto simp: wf_core_def wf_pools_def)
  qed simp
  then show ?thesis
    by (rule wf_set_pctx [where x = x]) (use p own wf x in \<open>auto simp: wf_core_def wf_pools_def\<close>)
qed

lemma wf_new_pctx:
  assumes wf: "wf_core {} G R s" and p: "m_plugins s hw = Some p"
    and x: "px_hw_plugin x = hw" "px_occupied x = []" "px_free x = []"
  shows "wf_core {m_next s} G R ((set_pctx (m_next s) x (set_plugin hw (p\<lparr>pl_cur_ctx_id := i\<rparr>) s))
           \<lparr>m_next := Suc (m_next s)\<rparr>)"
proof -
  let ?px = "m_next s"
  let ?p = "set_plugin hw (p\<lparr>pl_cur_ctx_id := i\<rparr>) s"
  let ?s = "(set_pctx ?px x ?p)\<lparr>m_next := Suc ?px\<rparr>"
  have none: "m_pctxs s ?px = None" "m_plugins s ?px = None" "m_hctxs s ?px = None"
    using wf by (auto simp: wf_core_def wf_fresh_def)
  have P: "wf_core {} G R ?p"
    using wf_pluginD(1,2) [OF wf p] wf p
    by (intro wf_set_plugin [OF wf p]) (auto simp: wf_core_def wf_pools_def)
  have ps: "pctx_set {?px} ?s = pctx_set {} ?p"
    using none pctx_set_new [of ?p ?px x] by simp
  have hp: "hx_hwp_ctx h \<noteq> ?px" if "m_hctxs s hc = Some h" for hc h
    using wf that none unfolding wf_core_def wf_hctxs_def by fastforce
  have "wf_plugins {?px} ?s"
    using P unfolding wf_core_def wf_plugins_def ps by simp
  moreover have "wf_pctxs G ?s"
    using P p x none hp unfolding wf_core_def wf_pctxs_def by (auto simp: hctx_set_def split: if_splits)
  moreover have "wf_hctxs ?s"
    using P hp unfolding wf_core_def wf_hctxs_def by auto
  moreover have "wf_pools ?s"
  proof -
    have "?px \<notin> set (pl_free q)" if "m_plugins ?p h = Some q" for h q
    proof -
      have "?px \<notin> pctx_set {} ?p h" using none by (simp add: pctx_set_def)
      with wf_pluginD(2) [OF P that] show ?thesis by blast
    qed
    note fresh = this
    show ?thesis
    proof (unfold wf_pools_def, intro allI impI)
      fix h q a b
      assume H: "m_plugins ?s h = Some q" "m_pctxs ?s a = Some b" "a \<in> set (pl_free q)"
      then have q: "m_plugins ?p h = Some q" by simp
      with fresh H(3) have "a \<noteq> ?px" by blast
      then have "m_pctxs ?p a = Some b" using H(2) by simp
      moreover have "wf_pools ?p" using P by (simp only: wf_core_def)
      ultimately show "\<not> px_pool b" using q H(3) unfolding wf_pools_def by blast
    qed
  qed
  moreover have "wf_live ?s"
    using P unfolding wf_core_def by (elim conjE) (rule wf_live_cong [of ?p], simp_all)
  moreover have "wf_fresh ?s" using P p by (auto simp: wf_core_def wf_fresh_def)
  moreover have "wf_reqs R ?s"
    using wf_coreD(7) [OF P] by (rule wf_reqs_mono) (use none in \<open>auto simp: occ_hctx_def\<close>)
  ultimately show ?thesis by (simp add: wf_core_def)
qed

text \<open>The context in hand goes to the head of the free or of the occupied queue.\<close>

lemma wf_put_free:
  assumes wf: "wf_core {px} G R s" and p: "m_plugins s hw = Some p"
    and x: "m_pctxs s px = Some x" "px_hw_plugin x = hw" "\<not> px_pool x"
  shows "wf_core {} G R (set_plugin hw (p\<lparr>pl_free := px # pl_free p\<rparr>) s)"
  using wf_pluginD(1,2) [OF wf p] x wf p
  by (intro wf_set_plugin [OF wf p])
    (auto simp: pctx_set_hand pctx_set_def wf_core_def wf_pools_def)

lemma wf_put_occupied:
  assumes wf: "wf_core {px} G R s" and p: "m_plugins s hw = Some p"
    and x: "m_pctxs s px = Some x" "px_hw_plugin x = hw"
  shows "wf_core {} G R (set_plugin hw (p\<lparr>pl_occupied := px # pl_occupied p\<rparr>) s)"
  using wf_pluginD(1,2) [OF wf p] x wf p
  by (intro wf_set_plugin [OF wf p])
    (auto simp: pctx_set_hand pctx_set_def wf_core_def wf_pools_def)

text \<open>A step that only rewrites the two queues of one plugin context.\<close>

lemma wf_set_queues:
  assumes wf: "wf_core F G R s" and x: "m_pctxs s px = Some x"
    and y: "px_hw_plugin y = px_hw_plugin x" "px_pool y = px_pool x"
    and d: "distinct (px_occupied y @ px_free y)"
    and eq: "set (px_occupied y) \<union> set (px_free y) = hctx_set G' s px"
    and others: "\<And>a b. a \<noteq> px \<Longrightarrow> m_pctxs s a = Some b \<Longrightarrow> hctx_set G' s a = hctx_set G s a"
    and reqs: "wf_reqs R' (set_pctx px y s)"
  shows "wf_core F G' R' (set_pctx px y s)"
proof -
  note pe = pctx_set_same [OF x y(1)]
  have "wf_plugins F (set_pctx px y s)"
    using wf by (simp add: wf_core_def wf_plugins_def pe)
  moreover have "wf_pctxs G' (set_pctx px y s)"
    using wf x y d eq others by (simp add: wf_core_def wf_pctxs_def)
  moreover have "wf_hctxs (set_pctx px y s)"
    using wf x y unfolding wf_core_def wf_hctxs_def by fastforce
  moreover have "wf_pools (set_pctx px y s)"
    unfolding wf_pools_def using wf_poolsD [OF wf_coreD(4) [OF wf]] x y by (auto split: if_splits)
  moreover have "wf_live (set_pctx px y s)"
    using wf unfolding wf_core_def by (elim conjE) (rule wf_live_cong [of s], simp_all)
  moreover have "wf_fresh (set_pctx px y s)"
    using wf x by (auto simp: wf_core_def wf_fresh_def)
  ultimately show ?thesis using reqs by (simp only: wf_core_def)
qed

lemma wf_reqD:
  assumes wf: "wf_core F G R s" and "R r = Some hcs" "hc \<in> set hcs"
  shows "occ_hctx s hc" "hc \<notin> G"
proof -
  show occ: "occ_hctx s hc" using wf_coreD(7) [OF wf] assms(2,3) unfolding wf_reqs_def by blast
  then obtain h x where "m_hctxs s hc = Some h" and
    x: "m_pctxs s (hx_hwp_ctx h) = Some x" "hc \<in> set (px_occupied x)"
    unfolding occ_hctx_def by auto
  with wf_pctxD(3) [OF wf x(1)] show "hc \<notin> G" by (auto simp: hctx_set_def)
qed

text \<open>An HTTP context leaves the free queue of its plugin context, or is new.\<close>

lemma wf_take_hfree:
  assumes wf: "wf_core F {} R s" and x: "m_pctxs s px = Some x" "px_free x = fs @ [hc]"
  shows "wf_core F {hc} R (set_pctx px (x\<lparr>px_free := fs\<rparr>) s)"
proof (rule wf_set_queues [OF wf x(1)])
  have hc: "hc \<in> hctx_set {} s px" using wf_pctxD(3) [OF wf x(1)] x(2) by auto
  show "set (px_occupied (x\<lparr>px_free := fs\<rparr>)) \<union> set (px_free (x\<lparr>px_free := fs\<rparr>)) = hctx_set {hc} s px"
    using wf_pctxD(2,3) [OF wf x(1)] x(2) by (auto simp: hctx_set_hand)
  show "hctx_set {hc} s a = hctx_set {} s a" if "a \<noteq> px" for a
    using hc that by (auto simp: hctx_set_def)
  have "wf_reqs R s" using wf by (simp add: wf_core_def)
  then show "wf_reqs R (set_pctx px (x\<lparr>px_free := fs\<rparr>) s)"
    by (rule wf_reqs_mono) (use x in \<open>auto simp: occ_hctx_def\<close>)
qed (use wf_pctxD(2) [OF wf x(1)] x(2) in auto)

text \<open>The context in hand goes to the head of the free or of the occupied queue.\<close>

lemma wf_put_hctx:
  assumes wf: "wf_core F {hc} R s" and x: "m_pctxs s px = Some x"
    and hc: "m_hctxs s hc = Some h" "hx_hwp_ctx h = px"
    and y: "y = x\<lparr>px_free := hc # px_free x\<rparr> \<or> y = x\<lparr>px_occupied := hc # px_occupied x\<rparr>"
  shows "wf_core F {} R (set_pctx px y s)"
proof (rule wf_set_queues [OF wf x])
  have old: "set (px_occupied x) \<union> set (px_free x) = hctx_set {} s px - {hc}"
    using wf_pctxD(3) [OF wf x] by (simp add: hctx_set_hand)
  have mem: "hc \<in> hctx_set {} s px" using hc by (simp add: hctx_set_def)
  have union: "set (px_occupied y) \<union> set (px_free y) = insert hc (set (px_occupied x) \<union> set (px_free x))"
    using y by auto
  show "set (px_occupied y) \<union> set (px_free y) = hctx_set {} s px"
    unfolding union old using mem by blast
  have "hc \<notin> set (px_occupied x) \<union> set (px_free x)" unfolding old by blast
  then show "distinct (px_occupied y @ px_free y)"
    using wf_pctxD(2) [OF wf x] y by auto
  show "hctx_set {} s a = hctx_set {hc} s a" if "a \<noteq> px" for a
    using hc that by (auto simp: hctx_set_def)
  have "wf_reqs R s" using wf by (simp add: wf_core_def)
  then show "wf_reqs R (set_pctx px y s)"
    by (rule wf_reqs_mono) (use x y in \<open>auto simp: occ_hctx_def\<close>)
next
  show "px_hw_plugin y = px_hw_plugin x" "px_pool y = px_pool x" using y by auto
qed

lemma wf_new_hctx:
  assumes wf: "wf_core F {} R s" and x: "m_pctxs s px = Some x" "px_pool x"
    and h: "hx_hwp_ctx h = px"
  shows "wf_core F {m_next s} R (s\<lparr>m_next := Suc (m_next s), m_hctxs := (m_hctxs s)(m_next s \<mapsto> h)\<rparr>)"
    (is "wf_core F {?hc} R ?s")
proof -
  have none: "m_hctxs s ?hc = None" using wf by (auto simp: wf_core_def wf_fresh_def)
  have hs: "hctx_set {?hc} ?s = hctx_set {} s" using none by (auto simp: hctx_set_def fun_eq_iff)
  have "wf_plugins F ?s" using wf by (simp add: wf_core_def wf_plugins_def pctx_set_def)
  moreover have "wf_pctxs {?hc} ?s" using wf by (simp add: wf_core_def wf_pctxs_def hs)
  moreover have "wf_hctxs ?s" using wf x h by (simp add: wf_core_def wf_hctxs_def)
  moreover have "wf_pools ?s" unfolding wf_pools_def using wf_poolsD [OF wf_coreD(4) [OF wf]] by simp
  moreover have "wf_live ?s"
    using wf unfolding wf_core_def by (elim conjE) (rule wf_live_cong [of s], simp_all)
  moreover have "wf_fresh ?s" using wf by (auto simp: wf_core_def wf_fresh_def)
  moreover have "wf_reqs R ?s"
    using wf_coreD(7) [OF wf]
    by (rule wf_reqs_step) (use none in \<open>auto simp: occ_hctx_def hctx_owner_def\<close>)
  ultimately show ?thesis by (simp only: wf_core_def)
qed

text \<open>
  The end of a context: it is in the free queue of its plugin, its pool and what was
  allocated from it are gone.
\<close>

lemma wf_retire:
  assumes wf: "wf_core {} {} R s" and x: "m_pctxs s px = Some x" "px_occupied x = []"
    and p: "m_plugins s (px_hw_plugin x) = Some p"
    and s': "m_plugins s' = (m_plugins s)(px_hw_plugin x \<mapsto>
                p\<lparr>pl_occupied := remove1 px (pl_occupied p), pl_free := px # remove1 px (pl_free p)\<rparr>)"
      "m_pctxs s' = (m_pctxs s)(px \<mapsto> y)" "m_next s' = m_next s" "m_live s' = m_live s"
    and y: "px_hw_plugin y = px_hw_plugin x" "\<not> px_pool y" "px_occupied y = []" "px_free y = []"
    and h: "\<And>hc. m_hctxs s' hc = (if \<exists>h. m_hctxs s hc = Some h \<and> hx_hwp_ctx h = px then None
                                    else m_hctxs s hc)"
  shows "wf_core {} {} R s'"
proof -
  let ?hw = "px_hw_plugin x"
  have mem: "px \<in> set (pl_occupied p) \<union> set (pl_free p)"
    using wf_pluginD(2) [OF wf p] x by (auto simp: pctx_set_def)
  note d = wf_pluginD(1) [OF wf p]
  have ps: "pctx_set {} s' = pctx_set {} s"
    using s' x y by (auto simp: pctx_set_def fun_eq_iff)
  have hs: "hctx_set {} s' a = (if a = px then {} else hctx_set {} s a)" for a
    by (auto simp: hctx_set_def h)
  have "wf_plugins {} s'"
    unfolding wf_plugins_def ps
  proof (intro allI impI)
    fix hw q assume q: "m_plugins s' hw = Some q"
    show "distinct (pl_occupied q @ pl_free q) \<and> set (pl_occupied q) \<union> set (pl_free q) = pctx_set {} s hw"
    proof (cases "hw = ?hw")
      case True
      then show ?thesis using q s' d mem wf_pluginD(2) [OF wf p] by auto
    next
      case False
      then show ?thesis using q s' wf_pluginD(1,2) [OF wf] by auto
    qed
  qed
  moreover have "wf_pctxs {} s'"
    unfolding wf_pctxs_def hs using wf_pctxD [OF wf] s' y p by (auto split: if_splits)
  moreover have "wf_hctxs s'"
    using wf_coreD(3) [OF wf] unfolding wf_hctxs_def h s' by auto
  moreover have "wf_pools s'"
    unfolding wf_pools_def
  proof (intro allI impI)
    fix hw q a b
    assume H: "m_plugins s' hw = Some q" "m_pctxs s' a = Some b" "a \<in> set (pl_free q)"
    show "\<not> px_pool b"
    proof (cases "a = px")
      case True then show ?thesis using H s' y by simp
    next
      case False
      then have "m_pctxs s a = Some b" using H s' by simp
      moreover have "\<exists>q'. m_plugins s hw = Some q' \<and> a \<in> set (pl_free q')"
        using H s' p False by (auto split: if_splits dest: notin_set_remove1)
      ultimately show ?thesis using wf_poolsD [OF wf_coreD(4) [OF wf]] by blast
    qed
  qed
  moreover have "wf_live s'"
  proof -
    have "\<exists>q'. m_plugins s hw = Some q' \<and> pl_plugin q' = pl_plugin q" if "m_plugins s' hw = Some q" for hw q
      using that s' p by (auto split: if_splits)
    with wf_coreD(5) [OF wf] s'(4) show ?thesis unfolding wf_live_def by metis
  qed
  moreover have "wf_fresh s'"
    using wf_coreD(6) [OF wf] s' p x by (auto simp: wf_fresh_def h)
  moreover have "wf_reqs R s'"
    using wf_coreD(7) [OF wf]
    by (rule wf_reqs_step) (use s' x in \<open>auto simp: occ_hctx_def hctx_owner_def h\<close>)
  ultimately show ?thesis by (simp only: wf_core_def)
qed

text \<open>The end of a plugin that has no context in use.\<close>

lemma free_plugin_ctxs_result:
  "distinct qs \<Longrightarrow> (\<And>q. q \<in> set qs \<Longrightarrow> m_pctxs s q \<noteq> None) \<Longrightarrow>
     free_plugin_ctxs qs s = Some (s\<lparr>m_pctxs := \<lambda>a. if a \<in> set qs then None else m_pctxs s a\<rparr>)"
proof (induction qs arbitrary: s rule: rev_induct)
  case Nil
  show ?case by (simp add: free_plugin_ctxs.simps [of "[]"])
next
  case (snoc q qs)
  then obtain x where "m_pctxs s q = Some x" by fastforce
  then have "free_plugin_ctxs (qs @ [q]) s = free_plugin_ctxs qs (s\<lparr>m_pctxs := (m_pctxs s)(q := None)\<rparr>)"
    by (simp add: free_plugin_ctxs.simps [of "qs @ [q]"])
  also have "\<dots> = Some (s\<lparr>m_pctxs := (m_pctxs s)(q := None),
      m_pctxs := \<lambda>a. if a \<in> set qs then None else m_pctxs (s\<lparr>m_pctxs := (m_pctxs s)(q := None)\<rparr>) a\<rparr>)"
    using snoc.prems by (intro snoc.IH) auto
  also have "(\<lambda>a. if a \<in> set qs then None else m_pctxs (s\<lparr>m_pctxs := (m_pctxs s)(q := None)\<rparr>) a) =
      (\<lambda>a. if a \<in> set (qs @ [q]) then None else m_pctxs s a)"
    by (auto simp: fun_eq_iff)
  finally show ?case by simp
qed

lemma wf_remove_plugin:
  assumes wf: "wf_core {} {} R s" and p: "m_plugins s hw = Some p" "pl_occupied p = []"
    and s': "m_plugins s' = (m_plugins s)(hw := None)"
      "m_pctxs s' = (\<lambda>a. if a \<in> set (pl_free p) then None else m_pctxs s a)"
      "m_hctxs s' = m_hctxs s" "m_next s' = m_next s" "m_live s' = (m_live s)(pl_plugin p := False)"
  shows "wf_core {} {} R s'"
proof -
  have free: "set (pl_free p) = pctx_set {} s hw" using wf_pluginD(2) [OF wf p(1)] p(2) by simp
  have gone: "m_pctxs s' a = Some b \<longleftrightarrow> m_pctxs s a = Some b \<and> px_hw_plugin b \<noteq> hw" for a b
    unfolding s' free by (auto simp: pctx_set_def)
  have nopool: "\<not> px_pool b" if "m_pctxs s a = Some b" "px_hw_plugin b = hw" for a b
    using wf_poolsD [OF wf_coreD(4) [OF wf] p(1) that(1)] that free by (auto simp: pctx_set_def)
  have kept: "\<exists>b. m_pctxs s (hx_hwp_ctx h) = Some b \<and> px_pool b \<and> px_hw_plugin b \<noteq> hw"
    if "m_hctxs s hc = Some h" for hc h
    using wf_coreD(3) [OF wf] that nopool unfolding wf_hctxs_def by blast
  have hs: "hctx_set {} s' = hctx_set {} s" using s' by (simp add: hctx_set_def fun_eq_iff)
  have "wf_plugins {} s'"
    unfolding wf_plugins_def
  proof (intro allI impI)
    fix k q assume q: "m_plugins s' k = Some q"
    then have k: "k \<noteq> hw" "m_plugins s k = Some q" using s' by (auto split: if_splits)
    have "pctx_set {} s' k = pctx_set {} s k" using k gone by (auto simp: pctx_set_def)
    with wf_pluginD(1,2) [OF wf k(2)] show
      "distinct (pl_occupied q @ pl_free q) \<and> set (pl_occupied q) \<union> set (pl_free q) = pctx_set {} s' k"
      by simp
  qed
  moreover have "wf_pctxs {} s'"
    unfolding wf_pctxs_def hs
  proof (intro allI impI)
    fix px x assume "m_pctxs s' px = Some x"
    then have x: "m_pctxs s px = Some x" "px_hw_plugin x \<noteq> hw" using gone by auto
    with wf_pctxD [OF wf x(1)] show "m_plugins s' (px_hw_plugin x) \<noteq> None \<and>
        distinct (px_occupied x @ px_free x) \<and>
        set (px_occupied x) \<union> set (px_free x) = hctx_set {} s px"
      using s' by auto
  qed
  moreover have "wf_hctxs s'"
    unfolding wf_hctxs_def s'(3) gone using kept by blast
  moreover have "wf_pools s'"
    unfolding wf_pools_def using wf_poolsD [OF wf_coreD(4) [OF wf]] gone s' by (auto split: if_splits)
  moreover have "wf_live s'"
    using wf_coreD(5) [OF wf] p unfolding wf_live_def s' by (auto split: if_splits)
  moreover have "wf_fresh s'"
    using wf_coreD(6) [OF wf] s' by (auto simp: wf_fresh_def)
  moreover have "wf_reqs R s'"
    using wf_coreD(7) [OF wf]
  proof (rule wf_reqs_step)
    fix hc assume "occ_hctx s hc"
    then obtain h x where hx: "m_hctxs s hc = Some h" "m_pctxs s (hx_hwp_ctx h) = Some x"
      "hc \<in> set (px_occupied x)" by (auto simp: occ_hctx_def)
    with kept [OF hx(1)] gone have "m_pctxs s' (hx_hwp_ctx h) = Some x" by auto
    with hx s' show "occ_hctx s' hc \<and> hctx_owner s' hc = hctx_owner s hc"
      by (auto simp: occ_hctx_def hctx_owner_def)
  qed
  ultimately show ?thesis by (simp only: wf_core_def)
qed

text \<open>The clean-up of a request takes the first context of its array to the free queue.\<close>

lemma wf_release:
  assumes wf: "wf_core F {} R s" and r: "R r = Some (hc # hcs)"
    and h: "m_hctxs s hc = Some h" and x: "m_pctxs s (hx_hwp_ctx h) = Some x"
  shows "wf_core F {} (R(r \<mapsto> hcs)) (set_pctx (hx_hwp_ctx h)
           (x\<lparr>px_occupied := remove1 hc (px_occupied x), px_free := hc # remove1 hc (px_free x)\<rparr>) s)"
    (is "wf_core F {} ?R (set_pctx ?px ?y s)")
proof (rule wf_set_queues [OF wf x])
  note d = wf_pctxD(2) [OF wf x] and eq = wf_pctxD(3) [OF wf x]
  have mem: "hc \<in> set (px_occupied x)" using wf_reqD(1) [OF wf r, of hc] h x by (simp add: occ_hctx_def)
  show "distinct (px_occupied ?y @ px_free ?y)" using d by auto
  show "set (px_occupied ?y) \<union> set (px_free ?y) = hctx_set {} s ?px" using d mem eq by auto
  have W: "wf_reqs R s" by (rule wf_coreD(7) [OF wf])
  then have own: "distinct (map (hctx_owner s) (hc # hcs))" using r unfolding wf_reqs_def by blast
  have dis: "disjoint_reqs R" using W unfolding wf_reqs_def by blast
  have other: "hc \<notin> set hcs'" if "?R k = Some hcs'" for k hcs'
  proof (cases "k = r")
    case True then show ?thesis using own that by auto
  next
    case False
    then have "set (hc # hcs) \<inter> set hcs' = {}" using disjoint_reqsD [OF dis r] that by simp
    then show ?thesis by simp
  qed
  have occ: "occ_hctx s k" if "?R a = Some b" "k \<in> set b" for a b k
    using wf_reqD(1) [OF wf, of a _ k] wf_reqD(1) [OF wf r, of k] that by (auto split: if_splits)
  have "set hcs \<inter> set b = {}" if "k \<noteq> r" "R k = Some b" for k b
    using disjoint_reqsD [OF dis r that(2)] that(1) by simp
  then have "disjoint_reqs ?R" by (rule disjoint_reqs_upd [OF dis])
  moreover have "distinct (map (hctx_owner s) b)" if "?R a = Some b" for a b
    using that own W unfolding wf_reqs_def by (auto split: if_splits)
  ultimately have "wf_reqs ?R s" unfolding wf_reqs_def using occ by blast
  then show "wf_reqs ?R (set_pctx ?px ?y s)"
  proof (rule wf_reqs_mono)
    fix a b k assume k: "?R a = Some b" "k \<in> set b" "occ_hctx s k"
    then have "k \<noteq> hc" using other by blast
    then show "occ_hctx (set_pctx ?px ?y s) k" using k(3) x by (auto simp: occ_hctx_def)
  qed simp
qed simp_all

text \<open>The request's array gains the context that was created for it.\<close>

lemma wf_push:
  assumes wf: "wf_core F {} R s" and r: "R r = Some hcs" and occ: "occ_hctx s hc"
    and new: "\<And>k b. R k = Some b \<Longrightarrow> hc \<notin> set b"
    and own: "hctx_owner s hc \<notin> hctx_owner s ` set hcs"
  shows "wf_core F {} (R(r \<mapsto> hcs @ [hc])) s"
proof -
  have W: "wf_reqs R s" by (rule wf_coreD(7) [OF wf])
  have "disjoint_reqs R" using W unfolding wf_reqs_def by blast
  then have "disjoint_reqs (R(r \<mapsto> hcs @ [hc]))"
    using r new unfolding disjoint_reqs_def by (auto split: if_splits)
  moreover have "distinct (map (hctx_owner s) b) \<and> (\<forall>k \<in> set b. occ_hctx s k)"
    if b: "(R(r \<mapsto> hcs @ [hc])) a = Some b" for a b
  proof (cases "a = r")
    case True
    have "distinct (map (hctx_owner s) hcs) \<and> (\<forall>k \<in> set hcs. occ_hctx s k)"
      using W r unfolding wf_reqs_def by blast
    with True b occ own show ?thesis by auto
  next
    case False
    then show ?thesis using b W unfolding wf_reqs_def by simp
  qed
  ultimately have "wf_reqs (R(r \<mapsto> hcs @ [hc])) s" unfolding wf_reqs_def by blast
  with wf show ?thesis unfolding wf_core_def by blast
qed

lemma wf_array:
  assumes "wf_core F {} R s" "R r = None"
  shows "wf_core F {} (R(r \<mapsto> [])) s"
proof -
  have "wf_reqs (R(r \<mapsto> [])) s"
    using wf_coreD(7) [OF assms(1)] by (auto simp: wf_reqs_def disjoint_reqs_def split: if_splits)
  with assms(1) show ?thesis unfolding wf_core_def by blast
qed

end
