(* ===== verification/Contexts_Ops.thy ===== *)
theory Contexts_Ops
  imports Contexts_Inv
begin

text \<open>
  Every operation of the contexts, in a state that satisfies the invariant: it is defined, it
  keeps the invariant, and what it leaves behind. Calls into the guest and allocations come
  first, then the operations from the innermost one out.
\<close>

section \<open>Calls and allocations\<close>

definition hooks :: "string list" where
  "hooks = [''_start'', ''_initialize'', ''proxy_on_context_create'', ''proxy_on_configure'',
     ''proxy_on_done'', ''proxy_on_delete'', ''proxy_on_request_headers'',
     ''proxy_on_request_body'', ''proxy_on_response_headers'', ''proxy_on_response_body'',
     ''proxy_on_http_call_response'']"

text \<open>The plugins export the hooks as functions or not at all.\<close>

definition hook_exports :: "env \<Rightarrow> bool" where
  "hook_exports E \<longleftrightarrow>
     (\<forall>plugin. \<forall>name \<in> set hooks. e_export E plugin name \<in> {None, Some ExternFunc})"

text \<open>
  What guest code cannot reach: no host function writes the state records or the state
  pointer, which only ngx_http_wasm_module.c does, and none ends a request.
\<close>

definition guest_frame :: "env \<Rightarrow> bool" where
  "guest_frame E \<longleftrightarrow>
     (\<forall>plugin name args hr w. case e_invoke E plugin name args hr w of (_, w') \<Rightarrow>
        h_states w' = h_states w \<and> h_cur_state w' = h_cur_state w \<and>
        dom (h_requests w') = dom (h_requests w))"

definition same_states :: "host \<Rightarrow> host \<Rightarrow> bool" where
  "same_states w w' \<longleftrightarrow> h_states w' = h_states w \<and> h_cur_state w' = h_cur_state w \<and>
     dom (h_requests w') = dom (h_requests w)"

lemma m_call_ok:
  assumes E: "hook_exports E" "guest_frame E" and live: "m_live s plugin"
    and name: "name \<in> set hooks" and pt: "param_num pt = Some n" "n \<le> length args"
  obtains rc w where "m_call E plugin name hr pt args s = Some (rc, s\<lparr>m_host := w\<rparr>)"
    "same_states (m_host s) w"
proof (cases "e_export E plugin name")
  case None
  then have "m_call E plugin name hr pt args s =
      Some (NGX_OK, s\<lparr>m_host := (m_host s)\<lparr>h_cur_plugin := Some plugin\<rparr>\<rparr>)"
    using live by (simp add: m_call_def vm_call_missing)
  then show ?thesis by (rule that) (simp add: same_states_def)
next
  case (Some k)
  then have k: "e_export E plugin name = Some ExternFunc"
    using E(1) [unfolded hook_exports_def] name by (metis empty_iff insert_iff option.discI)
  obtain r w' where i: "e_invoke E plugin name (take n args) hr ((m_host s)\<lparr>h_cur_plugin := Some plugin\<rparr>) = (r, w')"
    by (cases "e_invoke E plugin name (take n args) hr ((m_host s)\<lparr>h_cur_plugin := Some plugin\<rparr>)")
  have "m_call E plugin name hr pt args s = Some (vm_result E hr r, s\<lparr>m_host := w'\<rparr>)"
    using live by (simp add: m_call_def vm_call_func [OF k pt] i)
  moreover have "same_states (m_host s) w'"
    using E(2) [unfolded guest_frame_def, THEN spec, of plugin, THEN spec, of name, THEN spec,
        of "take n args", THEN spec, of hr, THEN spec, of "(m_host s)\<lparr>h_cur_plugin := Some plugin\<rparr>"]
    by (simp add: i same_states_def)
  ultimately show ?thesis by (rule that)
qed

lemma m_call_ex:
  assumes "hook_exports E" "guest_frame E" "m_live s plugin" "name \<in> set hooks"
    "param_num pt = Some n" "n \<le> length args"
  shows "\<exists>rc w. m_call E plugin name hr pt args s = Some (rc, s\<lparr>m_host := w\<rparr>) \<and> same_states (m_host s) w"
  by (rule m_call_ok [OF assms]) blast

lemma m_alloc_ok:
  obtains ok w where "m_alloc E sz s = (ok, s\<lparr>m_host := w\<rparr>)" "same_states (m_host s) w"
  by (rule that [of "\<not> e_oom E (h_allocs (m_host s)) sz" "(m_host s)\<lparr>h_allocs := Suc (h_allocs (m_host s))\<rparr>"])
    (simp_all add: m_alloc_def try_alloc_def same_states_def)

lemma m_alloc_ex: "\<exists>ok w. m_alloc E sz s = (ok, s\<lparr>m_host := w\<rparr>) \<and> same_states (m_host s) w"
  by (rule m_alloc_ok) blast

section \<open>No context outlives its use\<close>

text \<open>
  A plugin that is done has a context in use, a plugin context in use has its pool, and if it
  is done an HTTP context; \<open>HX\<close> and \<open>PX\<close> are plugins and contexts that an operation works on.
\<close>

definition quiet :: "nat set \<Rightarrow> nat set \<Rightarrow> mstate \<Rightarrow> bool" where
  "quiet HX PX s \<longleftrightarrow>
     (\<forall>hw p. m_plugins s hw = Some p \<longrightarrow>
        (pl_done p \<longrightarrow> hw \<notin> HX \<longrightarrow> pl_occupied p \<noteq> []) \<and>
        (\<forall>px \<in> set (pl_occupied p). px \<notin> PX \<longrightarrow>
           (\<forall>x. m_pctxs s px = Some x \<longrightarrow> px_pool x \<and> (px_done x \<longrightarrow> px_occupied x \<noteq> []))))"

lemma quiet_host [simp]: "quiet HX PX (s\<lparr>m_host := w\<rparr>) = quiet HX PX s"
  by (simp add: quiet_def)

lemma quiet_req_ctxs [simp]: "quiet HX PX (s\<lparr>m_req_ctxs := q\<rparr>) = quiet HX PX s"
  by (simp add: quiet_def)

lemma quiet_mono: "quiet HX PX s \<Longrightarrow> HX \<subseteq> HX' \<Longrightarrow> PX \<subseteq> PX' \<Longrightarrow> quiet HX' PX' s"
  unfolding quiet_def by blast

lemma quietI:
  assumes "\<And>hw p. m_plugins s hw = Some p \<Longrightarrow> pl_done p \<Longrightarrow> hw \<notin> HX \<Longrightarrow> pl_occupied p \<noteq> []"
    and "\<And>hw p px x. m_plugins s hw = Some p \<Longrightarrow> px \<in> set (pl_occupied p) \<Longrightarrow> px \<notin> PX \<Longrightarrow>
      m_pctxs s px = Some x \<Longrightarrow> px_pool x \<and> (px_done x \<longrightarrow> px_occupied x \<noteq> [])"
  shows "quiet HX PX s"
  using assms unfolding quiet_def by simp

lemma quietD:
  assumes "quiet HX PX s" "m_plugins s hw = Some p"
  shows "pl_done p \<Longrightarrow> hw \<notin> HX \<Longrightarrow> pl_occupied p \<noteq> []"
    "px \<in> set (pl_occupied p) \<Longrightarrow> px \<notin> PX \<Longrightarrow> m_pctxs s px = Some x \<Longrightarrow> px_pool x"
    "px \<in> set (pl_occupied p) \<Longrightarrow> px \<notin> PX \<Longrightarrow> m_pctxs s px = Some x \<Longrightarrow> px_done x \<Longrightarrow> px_occupied x \<noteq> []"
  using assms unfolding quiet_def by simp_all

lemma quiet_drop:
  assumes q: "quiet {hw} PX s" and p: "m_plugins s hw = Some p" "pl_done p \<Longrightarrow> pl_occupied p \<noteq> []"
  shows "quiet {} PX s"
proof (rule quietI)
  show "pl_occupied p' \<noteq> []" if "m_plugins s h = Some p'" "pl_done p'" for h p'
    by (cases "h = hw") (use that p quietD(1) [OF q, of h p'] in auto)
qed (use quietD(2,3) [OF q] in blast)

section \<open>Ending a plugin\<close>

lemma free_plugin_ok:
  assumes wf: "wf_core {} {} R s" and q: "quiet {hw} {} s" and p: "m_plugins s hw = Some p"
  obtains s' where "ngx_http_wasm_free_plugin hw s = Some s'" "wf_core {} {} R s'" "quiet {} {} s'"
    "m_req_ctxs s' = m_req_ctxs s" "m_hctxs s' = m_hctxs s"
    "m_plugins s' = (if pl_occupied p = [] then (m_plugins s)(hw := None) else m_plugins s)"
    "pl_occupied p = [] \<longrightarrow> a \<in> set (pl_free p) \<longrightarrow> m_pctxs s' a = None"
    "pl_occupied p = [] \<longrightarrow> \<not> m_live s' (pl_plugin p)" "pl_occupied p \<noteq> [] \<longrightarrow> s' = s"
    "pl_occupied p = [] \<longrightarrow>
       m_host s' = (m_host s)\<lparr>h_states := (h_states (m_host s))(pl_state p := None)\<rparr>"
proof (cases "pl_occupied p = []")
  case False
  then have "ngx_http_wasm_free_plugin hw s = Some s" using p by (simp add: ngx_http_wasm_free_plugin_def)
  moreover have "quiet {} {} s"
    by (rule quiet_drop [OF q p]) (use False in simp)
  ultimately show ?thesis using False wf by (intro that [of s]) simp_all
next
  case True
  have live: "m_live s (pl_plugin p)" by (rule wf_pluginD(3) [OF wf p])
  let ?s1 = "s\<lparr>m_live := (m_live s)(pl_plugin p := False)\<rparr>"
  let ?s2 = "?s1\<lparr>m_pctxs := \<lambda>a. if a \<in> set (pl_free p) then None else m_pctxs s a\<rparr>"
  let ?w = "(m_host s)\<lparr>h_states := (h_states (m_host s))(pl_state p := None)\<rparr>"
  let ?s3 = "?s2\<lparr>m_plugins := (m_plugins s)(hw := None), m_host := ?w\<rparr>"
  have "free_plugin_ctxs (pl_free p) ?s1 =
      Some (?s1\<lparr>m_pctxs := \<lambda>a. if a \<in> set (pl_free p) then None else m_pctxs ?s1 a\<rparr>)"
  proof (rule free_plugin_ctxs_result)
    show "distinct (pl_free p)" using wf_pluginD(1) [OF wf p] by simp
    show "m_pctxs ?s1 a \<noteq> None" if "a \<in> set (pl_free p)" for a
    proof -
      have "a \<in> pctx_set {} s hw" using wf_pluginD(2) [OF wf p] that by blast
      then show ?thesis by (auto simp: pctx_set_def)
    qed
  qed
  then have "free_plugin_ctxs (pl_free p) ?s1 = Some ?s2" by (simp cong: if_cong)
  then have "ngx_http_wasm_free_plugin hw s = Some ?s3"
    using p live True by (simp add: ngx_http_wasm_free_plugin_def vm_unload_def Let_def)
  moreover have "wf_core {} {} R ?s3" by (rule wf_remove_plugin [OF wf p True]) simp_all
  moreover have "quiet {} {} ?s3"
    by (rule quietI) (use quietD [OF q] in \<open>auto split: if_splits\<close>)
  ultimately show ?thesis using True by (intro that [of ?s3]) simp_all
qed

lemma unload_plugin_ok:
  assumes wf: "wf_core {} {} R s" and q: "quiet {} {} s" and p: "m_plugins s hw = Some p"
  obtains s' where "ngx_http_wasm_unload_plugin hw s = Some s'" "wf_core {} {} R s'" "quiet {} {} s'"
    "m_req_ctxs s' = m_req_ctxs s" "m_hctxs s' = m_hctxs s"
    "m_plugins s' hw = (if pl_occupied p = [] then None else Some (p\<lparr>pl_done := True\<rparr>))"
    "pl_occupied p = [] \<longrightarrow> \<not> m_live s' (pl_plugin p)"
    "pl_occupied p \<noteq> [] \<longrightarrow> s' = set_plugin hw (p\<lparr>pl_done := True\<rparr>) s"
    "pl_occupied p = [] \<longrightarrow>
       m_host s' = (m_host s)\<lparr>h_states := (h_states (m_host s))(pl_state p := None)\<rparr>"
proof -
  let ?p = "p\<lparr>pl_done := True\<rparr>"
  let ?s = "set_plugin hw ?p s"
  have "wf_core {} {} R ?s"
    using wf_pluginD(1,2) [OF wf p] wf_poolsD [OF wf_coreD(4) [OF wf] p]
    by (intro wf_set_plugin [OF wf p]) auto
  moreover have "quiet {hw} {} ?s"
    by (rule quietI) (use quietD [OF q] p in \<open>auto split: if_splits\<close>)
  ultimately obtain s' where s': "ngx_http_wasm_free_plugin hw ?s = Some s'" "wf_core {} {} R s'"
    "quiet {} {} s'" "m_req_ctxs s' = m_req_ctxs ?s" "m_hctxs s' = m_hctxs ?s"
    "m_plugins s' = (if pl_occupied ?p = [] then (m_plugins ?s)(hw := None) else m_plugins ?s)"
    "pl_occupied ?p = [] \<longrightarrow> \<not> m_live s' (pl_plugin ?p)" "pl_occupied ?p \<noteq> [] \<longrightarrow> s' = ?s"
    "pl_occupied ?p = [] \<longrightarrow>
       m_host s' = (m_host ?s)\<lparr>h_states := (h_states (m_host ?s))(pl_state ?p := None)\<rparr>"
    by (rule free_plugin_ok) simp
  moreover have "ngx_http_wasm_unload_plugin hw s = Some s'"
    using p s' by (simp add: ngx_http_wasm_unload_plugin_def)
  ultimately show ?thesis by (intro that [of s']) simp_all
qed

section \<open>Ending a plugin context\<close>

text \<open>
  What is left of a plugin context that ended: it is free again, unless it was the last one
  of a plugin that is done, which is gone with it.
\<close>

definition pctx_ended :: "mstate \<Rightarrow> mstate \<Rightarrow> nat \<Rightarrow> wasm_plugin_ctx \<Rightarrow> wasm_plugin \<Rightarrow> bool" where
  "pctx_ended s s' px x p \<longleftrightarrow>
     (if pl_done p \<and> remove1 px (pl_occupied p) = []
      then m_plugins s' (px_hw_plugin x) = None \<and> m_pctxs s' px = None \<and> \<not> m_live s' (pl_plugin p)
      else m_plugins s' (px_hw_plugin x) = Some (p\<lparr>pl_occupied := remove1 px (pl_occupied p),
               pl_free := px # remove1 px (pl_free p)\<rparr>) \<and>
           m_pctxs s' px = Some (x\<lparr>px_pool := False, px_occupied := [], px_free := []\<rparr>) \<and>
           m_live s' (pl_plugin p))"

lemma free_plugin_ctx_ok:
  assumes E: "hook_exports E" "guest_frame E"
    and wf: "wf_core {} {} R s" and q: "quiet {} {px} s" and x: "m_pctxs s px = Some x"
    and fr: "px_occupied x = [] \<or> px_done x"
  obtains s' where "ngx_http_wasm_free_plugin_ctx E px s = Some s'" "wf_core {} {} R s'" "quiet {} {} s'"
    "m_req_ctxs s' = m_req_ctxs s"
    "px_occupied x \<noteq> [] \<longrightarrow> s' = s"
    "\<forall>p. m_plugins s (px_hw_plugin x) = Some p \<longrightarrow> px_occupied x = [] \<longrightarrow> pctx_ended s s' px x p"
proof (cases "px_occupied x = []")
  case False
  obtain p where p: "m_plugins s (px_hw_plugin x) = Some p" using wf_pctxD(1) [OF wf x] by blast
  obtain hc where hc: "hc \<in> set (px_occupied x)" using False by (cases "px_occupied x") auto
  then have "hc \<in> hctx_set {} s px" using wf_pctxD(3) [OF wf x] by blast
  then have pool: "px_pool x" using wf_coreD(3) [OF wf] x unfolding wf_hctxs_def hctx_set_def by fastforce
  have "quiet {} {} s"
  proof (rule quietI)
    fix hw p a b
    assume H: "m_plugins s hw = Some p" "a \<in> set (pl_occupied p)" "m_pctxs s a = Some b"
    show "px_pool b \<and> (px_done b \<longrightarrow> px_occupied b \<noteq> [])"
      by (cases "a = px") (use H quietD(2,3) [OF q H(1), of a b] pool False x in auto)
  qed (use quietD(1) [OF q] in auto)
  moreover have "ngx_http_wasm_free_plugin_ctx E px s = Some s"
    using x p False by (simp add: ngx_http_wasm_free_plugin_ctx_def)
  ultimately show ?thesis using False wf by (intro that [of s]) simp_all
next
  case True
  let ?hw = "px_hw_plugin x"
  obtain p where p: "m_plugins s ?hw = Some p" using wf_pctxD(1) [OF wf x] by blast
  have mem: "px \<in> set (pl_occupied p) \<union> set (pl_free p)"
    using wf_pluginD(2) [OF wf p] x by (auto simp: pctx_set_def)
  let ?p = "p\<lparr>pl_occupied := remove1 px (pl_occupied p), pl_free := px # remove1 px (pl_free p)\<rparr>"
  let ?s1 = "set_plugin ?hw ?p s"
  have live: "m_live s (pl_plugin p)" by (rule wf_pluginD(3) [OF wf p])
  obtain rc1 w1 where c1: "m_call E (pl_plugin p) ''proxy_on_done'' True NGX_WASM_PARAM_I32 [px_id x] ?s1 =
      Some (rc1, ?s1\<lparr>m_host := w1\<rparr>)"
    using m_call_ex [OF E, of ?s1 "pl_plugin p" "''proxy_on_done''" 2 1 "[px_id x]" True] live
    by (auto simp: hooks_def)
  let ?s2 = "?s1\<lparr>m_host := w1\<rparr>"
  obtain rc2 w2 where c2: "m_call E (pl_plugin p) ''proxy_on_delete'' False NGX_WASM_PARAM_I32 [px_id x] ?s2 =
      Some (rc2, ?s1\<lparr>m_host := w2\<rparr>)"
    using m_call_ex [OF E, of ?s2 "pl_plugin p" "''proxy_on_delete''" 2 1 "[px_id x]" False] live
    by (auto simp: hooks_def)
  let ?s3 = "?s1\<lparr>m_host := w2\<rparr>"
  define s4 where "s4 = (if px_pool x
       then set_pctx px (x\<lparr>px_pool := False, px_occupied := [], px_free := []\<rparr>) (destroy_pctx_pool px x ?s3)
       else ?s3)"
  define y where "y = x\<lparr>px_pool := False, px_occupied := [], px_free := []\<rparr>"
  have nohc: "px_free x = []" "\<And>hc h. m_hctxs s hc = Some h \<Longrightarrow> hx_hwp_ctx h \<noteq> px" if "\<not> px_pool x"
  proof -
    show *: "hx_hwp_ctx h \<noteq> px" if "m_hctxs s hc = Some h" for hc h
      using wf_coreD(3) [OF wf] that \<open>\<not> px_pool x\<close> x unfolding wf_hctxs_def by fastforce
    have "hctx_set {} s px = {}" using * by (auto simp: hctx_set_def)
    then show "px_free x = []" using wf_pctxD(3) [OF wf x] by simp
  qed
  have s4: "m_plugins s4 = (m_plugins s)(?hw \<mapsto> ?p)" "m_pctxs s4 = (m_pctxs s)(px \<mapsto> y)"
    "m_next s4 = m_next s" "m_live s4 = m_live s" "m_req_ctxs s4 = m_req_ctxs s"
    using x True nohc(1) by (auto simp: s4_def y_def destroy_pctx_pool_def Let_def fun_eq_iff)
  have h4: "m_hctxs s4 hc = (if \<exists>h. m_hctxs s hc = Some h \<and> hx_hwp_ctx h = px then None else m_hctxs s hc)" for hc
    using nohc(2) [of hc]
    by (cases "m_hctxs s hc") (auto simp: s4_def destroy_pctx_pool_def Let_def)
  have wf4: "wf_core {} {} R s4"
    by (rule wf_retire [OF wf x True p s4(1-4) _ _ _ _ h4]) (simp_all add: y_def)
  have q4: "quiet {?hw} {} s4"
  proof (rule quietI)
    fix hw p' a b
    assume H: "m_plugins s4 hw = Some p'" "a \<in> set (pl_occupied p')" "m_pctxs s4 a = Some b"
    then obtain p0 where p0: "m_plugins s hw = Some p0" "a \<in> set (pl_occupied p0)"
      using s4 p set_remove1_subset [of px "pl_occupied p"] by (auto split: if_splits)
    have "a \<noteq> px"
    proof
      assume a: "a = px"
      show False
      proof (cases "hw = ?hw")
        case True
        then have "p' = ?p" using H(1) s4(1) by simp
        then show False using a H(2) wf_pluginD(1) [OF wf p] by simp
      next
        case False
        then show False using a p0 wf_owner(1) [OF wf p0(1), of px x] x by simp
      qed
    qed
    then show "px_pool b \<and> (px_done b \<longrightarrow> px_occupied b \<noteq> [])"
      using H(3) s4(2) quietD(2,3) [OF q p0(1) p0(2)] by auto
  next
    fix hw p' assume "m_plugins s4 hw = Some p'" "pl_done p'" "hw \<notin> {?hw}"
    then show "pl_occupied p' \<noteq> []" using s4 quietD(1) [OF q] by auto
  qed
  have p4: "m_plugins s4 ?hw = Some ?p" using s4 by simp
  have run: "ngx_http_wasm_free_plugin_ctx E px s =
      (if pl_done p then ngx_http_wasm_free_plugin ?hw s4 else Some s4)"
    using x p mem True c1 c2 p4 unfolding s4_def
    by (simp add: ngx_http_wasm_free_plugin_ctx_def queue_remove_def Let_def split del: if_split)
  have x4: "m_pctxs s4 px = Some y" using s4 by simp
  show ?thesis
  proof (cases "pl_done p")
    case False
    have "quiet {} {} s4"
      by (rule quiet_drop [OF q4 p4]) (use False in simp)
    then show ?thesis using False run wf4 s4 True p live
      by (intro that [of s4]) (simp_all add: pctx_ended_def y_def)
  next
    case d: True
    obtain s' where s': "ngx_http_wasm_free_plugin ?hw s4 = Some s'" "wf_core {} {} R s'" "quiet {} {} s'"
      "m_req_ctxs s' = m_req_ctxs s4" "m_hctxs s' = m_hctxs s4"
      "m_plugins s' = (if pl_occupied ?p = [] then (m_plugins s4)(?hw := None) else m_plugins s4)"
      "pl_occupied ?p = [] \<longrightarrow> px \<in> set (pl_free ?p) \<longrightarrow> m_pctxs s' px = None"
      "pl_occupied ?p = [] \<longrightarrow> \<not> m_live s' (pl_plugin ?p)" "pl_occupied ?p \<noteq> [] \<longrightarrow> s' = s4"
      "pl_occupied ?p = [] \<longrightarrow>
         m_host s' = (m_host s4)\<lparr>h_states := (h_states (m_host s4))(pl_state ?p := None)\<rparr>"
      by (rule free_plugin_ok [OF wf4 q4 p4, where a = px])
    have "pctx_ended s s' px x p"
      using s'(6-9) p4 x4 s4(4) live d by (simp add: pctx_ended_def y_def)
    with d run s' s4 True p show ?thesis by (intro that [of s']) simp_all
  qed
qed

lemma wf_core_ext:
  assumes "wf_core F G R s" "m_plugins s' = m_plugins s" "m_pctxs s' = m_pctxs s"
    "m_hctxs s' = m_hctxs s" "m_live s' = m_live s" "m_next s \<le> m_next s'"
  shows "wf_core F G R s'"
proof -
  have "s' = s\<lparr>m_next := m_next s', m_host := m_host s', m_req_ctxs := m_req_ctxs s',
      m_vm_inited := m_vm_inited s'\<rparr>" using assms by simp
  moreover have "wf_core F G R (s\<lparr>m_next := m_next s'\<rparr>)" using assms by (intro wf_core_next)
  then have "wf_core F G R (s\<lparr>m_next := m_next s', m_host := m_host s', m_req_ctxs := m_req_ctxs s',
      m_vm_inited := m_vm_inited s'\<rparr>)" by (simp add: wf_defs pctx_set_def hctx_set_def)
  ultimately show ?thesis by simp
qed

lemma quiet_ext:
  "quiet HX PX s \<Longrightarrow> m_plugins s' = m_plugins s \<Longrightarrow> m_pctxs s' = m_pctxs s \<Longrightarrow> quiet HX PX s'"
  by (simp add: quiet_def)

lemma delete_plugin_ctx_ok:
  assumes E: "hook_exports E" "guest_frame E"
    and wf: "wf_core {} {} R s" and q: "quiet {} {px} s" and x: "m_pctxs s px = Some x"
  obtains s' where "ngx_http_wasm_delete_plugin_ctx E px s = Some s'" "wf_core {} {} R s'" "quiet {} {} s'"
    "m_req_ctxs s' = m_req_ctxs s"
    "px_occupied x \<noteq> [] \<longrightarrow> s' = set_pctx px (x\<lparr>px_done := True\<rparr>) s"
    "\<forall>p. m_plugins s (px_hw_plugin x) = Some p \<longrightarrow> px_occupied x = [] \<longrightarrow>
       pctx_ended s s' px (x\<lparr>px_done := True\<rparr>) p"
proof -
  let ?x = "x\<lparr>px_done := True\<rparr>"
  let ?s = "set_pctx px ?x s"
  have W: "wf_core {} {} R ?s"
    by (rule wf_set_pctx [OF wf x]) (use wf_poolsD [OF wf_coreD(4) [OF wf] _ x] in auto)
  have "quiet {} {px} ?s" by (rule quietI) (use quietD [OF q] in auto)
  then obtain s' where s': "ngx_http_wasm_free_plugin_ctx E px ?s = Some s'" "wf_core {} {} R s'"
    "quiet {} {} s'" "m_req_ctxs s' = m_req_ctxs ?s" "px_occupied ?x \<noteq> [] \<longrightarrow> s' = ?s"
    "\<forall>p. m_plugins ?s (px_hw_plugin ?x) = Some p \<longrightarrow> px_occupied ?x = [] \<longrightarrow> pctx_ended ?s s' px ?x p"
    by (rule free_plugin_ctx_ok [OF E W, where x = ?x]) simp_all
  have run: "ngx_http_wasm_delete_plugin_ctx E px s = Some s'"
    using x s'(1) by (simp add: ngx_http_wasm_delete_plugin_ctx_def)
  show ?thesis
    by (rule that [OF run s'(2,3)]) (use s'(4-6) in \<open>auto simp: pctx_ended_def\<close>)
qed

section \<open>Starting a plugin context\<close>

definition in_hand :: "nat \<Rightarrow> wasm_plugin \<Rightarrow> nat \<Rightarrow> mstate \<Rightarrow> bool" where
  "in_hand hw p px s \<longleftrightarrow>
     (\<exists>x p'. m_pctxs s px = Some x \<and> px_hw_plugin x = hw \<and> \<not> px_pool x \<and> \<not> px_done x \<and>
        px_occupied x = [] \<and> m_plugins s hw = Some p' \<and> pl_plugin p' = pl_plugin p \<and>
        pl_done p' = pl_done p \<and> pl_state p' = pl_state p \<and> pl_occupied p' = pl_occupied p)"

lemma quiet_hand:
  assumes q: "quiet {} {} s" and wf: "wf_core {} G R s"
    and px: "\<And>hw p. m_plugins s hw = Some p \<Longrightarrow> px \<notin> set (pl_occupied p)"
    and s': "m_plugins s' = (m_plugins s)(hw \<mapsto> p')" "m_pctxs s' = (m_pctxs s)(px \<mapsto> x)"
    and p: "m_plugins s hw = Some p" "pl_occupied p' = pl_occupied p" "pl_done p' = pl_done p"
  shows "quiet {} {} s'"
proof (rule quietI)
  fix h q a b
  assume "m_plugins s' h = Some q" "pl_done q"
  then show "pl_occupied q \<noteq> []"
    using s' p quietD(1) [OF assms(1)] by (auto split: if_splits)
next
  fix h q' a b
  assume H: "m_plugins s' h = Some q'" "a \<in> set (pl_occupied q')" "m_pctxs s' a = Some b"
  then obtain q0 where q0: "m_plugins s h = Some q0" "a \<in> set (pl_occupied q0)"
    using s' p by (auto split: if_splits)
  with px have "a \<noteq> px" by blast
  then show "px_pool b \<and> (px_done b \<longrightarrow> px_occupied b \<noteq> [])"
    using quietD(2,3) [OF q q0] H(3) s' by simp
qed

lemma take_plugin_ctx_ok:
  assumes wf: "wf_core {} {} R s" and q: "quiet {} {} s" and p: "m_plugins s hw = Some p"
  obtains s' where "take_plugin_ctx E hw s = Some (None, s')" "wf_core {} {} R s'" "quiet {} {} s'"
      "m_req_ctxs s' = m_req_ctxs s"
  | px s' where "take_plugin_ctx E hw s = Some (Some px, s')" "wf_core {px} {} R s'" "quiet {} {} s'"
      "m_req_ctxs s' = m_req_ctxs s" "in_hand hw p px s'"
proof (cases "pl_free p = []")
  case False
  define px where "px = last (pl_free p)"
  have fs: "pl_free p = butlast (pl_free p) @ [px]" using False by (simp add: px_def)
  then have mem: "px \<in> set (pl_free p)" by (metis in_set_conv_decomp)
  then have "px \<in> pctx_set {} s hw" using wf_pluginD(2) [OF wf p] by blast
  then obtain x where x: "m_pctxs s px = Some x" "px_hw_plugin x = hw" by (auto simp: pctx_set_def)
  have pool: "\<not> px_pool x" using wf_poolsD [OF wf_coreD(4) [OF wf] p x(1)] mem .
  have "px_occupied x = []"
  proof -
    have "hctx_set {} s px = {}"
      using wf_coreD(3) [OF wf] x pool unfolding wf_hctxs_def hctx_set_def by fastforce
    then show ?thesis using wf_pctxD(3) [OF wf x(1)] by simp
  qed
  let ?p = "p\<lparr>pl_free := butlast (pl_free p)\<rparr>"
  let ?s = "set_pctx px (x\<lparr>px_done := False\<rparr>) (set_plugin hw ?p s)"
  have "take_plugin_ctx E hw s = Some (Some px, ?s)"
    using p False x by (simp add: take_plugin_ctx_def px_def Let_def)
  moreover have "wf_core {px} {} R ?s" by (rule wf_take_free [OF wf p fs x(1)])
  moreover have "quiet {} {} ?s"
  proof (rule quiet_hand [OF q wf, where hw = hw and p = p and p' = ?p and px = px])
    show "px \<notin> set (pl_occupied p')" if "m_plugins s hw' = Some p'" for hw' p'
    proof
      assume a: "px \<in> set (pl_occupied p')"
      then have "hw' = hw" using wf_owner(1) [OF wf that, of px x] x by simp
      with that p a mem wf_pluginD(1) [OF wf p] show False by auto
    qed
  qed (use p in simp_all)
  moreover have "in_hand hw p px ?s" using x pool \<open>px_occupied x = []\<close> by (simp add: in_hand_def)
  ultimately show ?thesis by (intro that(2) [of px ?s]) simp_all
next
  case True
  obtain ok w where a: "m_alloc E sizeof_plugin_ctx s = (ok, s\<lparr>m_host := w\<rparr>)"
    by (rule m_alloc_ok)
  show ?thesis
  proof (cases ok)
    case False
    have "take_plugin_ctx E hw s = Some (None, s\<lparr>m_host := w\<rparr>)"
      using p True a False by (simp add: take_plugin_ctx_def)
    then show ?thesis by (rule that(1)) (use wf q in simp_all)
  next
    case ok: True
    let ?px = "m_next s"
    let ?x = "\<lparr>px_id = pl_cur_ctx_id p + 1, px_state = None, px_hw_plugin = hw,
        px_pool = False, px_occupied = [], px_free = [], px_done = False\<rparr>"
    let ?p = "p\<lparr>pl_cur_ctx_id := pl_cur_ctx_id p + 1\<rparr>"
    let ?s = "(set_pctx ?px ?x (set_plugin hw ?p (s\<lparr>m_host := w\<rparr>)))\<lparr>m_next := Suc ?px\<rparr>"
    have run: "take_plugin_ctx E hw s = Some (Some ?px, ?s)"
      using p True a ok by (simp add: take_plugin_ctx_def Let_def)
    have "wf_core {} {} R (s\<lparr>m_host := w\<rparr>)" using wf by simp
    from wf_new_pctx [OF this, of hw p ?x] p have "wf_core {?px} {} R ?s" by simp
    moreover have "quiet {} {} ?s"
    proof (rule quiet_hand [OF q wf, where hw = hw and p = p and p' = ?p and px = ?px])
      show "?px \<notin> set (pl_occupied p')" if "m_plugins s hw' = Some p'" for hw' p'
      proof
        assume "?px \<in> set (pl_occupied p')"
        then have "?px \<in> pctx_set {} s hw'" using wf_pluginD(2) [OF wf that] by blast
        then show False using wf_coreD(6) [OF wf] by (auto simp: pctx_set_def wf_fresh_def)
      qed
    qed (use p in simp_all)
    ultimately show ?thesis by (intro that(2) [OF run]) (simp_all add: in_hand_def)
  qed
qed

lemma configure_plugin_ctx_ok:
  assumes E: "hook_exports E" "guest_frame E"
    and x: "m_pctxs s px = Some x" and p: "m_plugins s (px_hw_plugin x) = Some p"
    and live: "m_live s (pl_plugin p)"
  obtains ok b st s' where "configure_plugin_ctx E px conf s = Some (ok, s')" "ok \<longrightarrow> b"
    "m_plugins s' = m_plugins s" "m_pctxs s' = (m_pctxs s)(px \<mapsto> x\<lparr>px_pool := b, px_state := st\<rparr>)"
    "m_hctxs s' = m_hctxs s" "m_live s' = m_live s" "m_req_ctxs s' = m_req_ctxs s"
    "m_next s \<le> m_next s'"
proof -
  obtain ok1 w1 where a1: "m_alloc E 512 s = (ok1, s\<lparr>m_host := w1\<rparr>)" by (rule m_alloc_ok)
  obtain ok2 w2 where a2: "m_alloc E (sizeof_state + length conf) (s\<lparr>m_host := w1\<rparr>) = (ok2, s\<lparr>m_host := w2\<rparr>)"
    using m_alloc_ex [of E "sizeof_state + length conf" "s\<lparr>m_host := w1\<rparr>"] by auto
  show ?thesis
  proof (cases "ok1 \<and> ok2")
    case False
    let ?y = "x\<lparr>px_pool := ok1, px_state := if ok1 then None else px_state x\<rparr>"
    let ?s = "set_pctx px ?y (s\<lparr>m_host := if ok1 then w2 else w1\<rparr>)"
    have "configure_plugin_ctx E px conf s = Some (False, ?s)"
      using x p a1 a2 False by (cases ok1) (auto simp: configure_plugin_ctx_def)
    then show ?thesis by (rule that [where b = ok1]) simp_all
  next
    case True
    let ?st = "m_next s"
    let ?ws = "\<lparr>ws_conf = str_of conf, ws_body = None, ws_r = None, ws_plugin_name = Some (pl_name p)\<rparr>"
    let ?w3 = "w2\<lparr>h_states := (h_states w2)(?st \<mapsto> ?ws), h_cur_state := Some ?st\<rparr>"
    let ?y = "x\<lparr>px_pool := True, px_state := Some ?st\<rparr>"
    let ?s3 = "(set_pctx px ?y s)\<lparr>m_next := Suc ?st, m_host := ?w3\<rparr>"
    obtain rc w4 where c: "m_call E (pl_plugin p) ''proxy_on_configure'' True NGX_WASM_PARAM_I32_I32
        [px_id x, of_nat (length conf)] ?s3 = Some (rc, ?s3\<lparr>m_host := w4\<rparr>)"
      and w4: "same_states ?w3 w4"
      using m_call_ex [OF E, of ?s3 "pl_plugin p" "''proxy_on_configure''" 3 2
          "[px_id x, of_nat (length conf)]" True] live
      by (auto simp: hooks_def)
    let ?w5 = "w4\<lparr>h_states := (h_states w4)(?st \<mapsto> ?ws\<lparr>ws_body := Some str_null\<rparr>), h_cur_state := None\<rparr>"
    have clr: "ngx_http_wasm_set_state None w4 = Some ?w5"
      using w4 by (simp add: set_state_None same_states_def)
    have "configure_plugin_ctx E px conf s = Some (0 < rc, ?s3\<lparr>m_host := ?w5\<rparr>)"
      using x p a1 a2 True c clr
      by (simp add: configure_plugin_ctx_def m_set_state_def Let_def set_pctx_def)
    then show ?thesis by (rule that [where b = True]) simp_all
  qed
qed

lemma on_configure_ok:
  assumes E: "hook_exports E" "guest_frame E"
    and wf: "wf_core {} {} R s" and q: "quiet {} {} s" and p: "m_plugins s hw = Some p"
    and nd: "\<not> pl_done p"
  obtains res s' where "ngx_http_wasm_on_configure E hw conf s = Some (res, s')" "wf_core {} {} R s'"
    "quiet {} {} s'" "m_req_ctxs s' = m_req_ctxs s"
    "\<And>px. res = Some px \<Longrightarrow> \<exists>x p'. m_pctxs s' px = Some x \<and> px_hw_plugin x = hw \<and>
       \<not> px_done x \<and> px_pool x \<and> m_plugins s' hw = Some p' \<and> px \<in> set (pl_occupied p')"
proof (cases "m_vm_inited s")
  case False
  then show ?thesis
    using p wf q by (intro that [of None s]) (simp_all add: ngx_http_wasm_on_configure_def)
next
  case inited: True
  show ?thesis
  proof (rule take_plugin_ctx_ok [OF wf q p])
    fix s1 assume t: "take_plugin_ctx E hw s = Some (None, s1)" "wf_core {} {} R s1" "quiet {} {} s1"
      "m_req_ctxs s1 = m_req_ctxs s"
    then show ?thesis
      using p inited by (intro that [of None s1]) (simp_all add: ngx_http_wasm_on_configure_def)
  next
    fix px s1 assume t: "take_plugin_ctx E hw s = Some (Some px, s1)" "wf_core {px} {} R s1"
      "quiet {} {} s1" "m_req_ctxs s1 = m_req_ctxs s" "in_hand hw p px s1"
    then obtain x p1 where x: "m_pctxs s1 px = Some x" "px_hw_plugin x = hw" "\<not> px_pool x" "\<not> px_done x"
        "px_occupied x = []"
      and p1: "m_plugins s1 hw = Some p1" "pl_plugin p1 = pl_plugin p" "pl_done p1 = pl_done p"
        "pl_state p1 = pl_state p"
      unfolding in_hand_def by auto
    have live: "m_live s1 (pl_plugin p)" using wf_pluginD(3) [OF t(2) p1(1)] p1(2) by simp
    let ?s2 = "s1\<lparr>m_host := (m_host s1)\<lparr>h_cur_state := Some (pl_state p)\<rparr>\<rparr>"
    obtain rc w3 where c: "m_call E (pl_plugin p) ''proxy_on_context_create'' False NGX_WASM_PARAM_I32_I32
        [px_id x, 0] ?s2 = Some (rc, s1\<lparr>m_host := w3\<rparr>)"
      using m_call_ex [OF E, of ?s2 "pl_plugin p" "''proxy_on_context_create''" 3 2 "[px_id x, 0]" False] live
      by (auto simp: hooks_def)
    let ?s3 = "s1\<lparr>m_host := w3\<rparr>"
    have W3: "wf_core {px} {} R ?s3" and q3: "quiet {} {} ?s3" using t by simp_all
    have dis: "px \<notin> set (pl_occupied p')" if "m_plugins s1 h = Some p'" for h p'
      using wf_owner(2) [OF t(2) that] x by auto
    show ?thesis
    proof (cases "rc = NGX_OK")
      case False
      let ?s4 = "set_plugin hw (p1\<lparr>pl_free := px # pl_free p1\<rparr>) ?s3"
      have "ngx_http_wasm_on_configure E hw conf s = Some (None, ?s4)"
        using p inited t(1) x p1 c False by (simp add: ngx_http_wasm_on_configure_def m_set_state_def)
      moreover have "wf_core {} {} R ?s4" by (rule wf_put_free [OF W3]) (use x p1 in simp_all)
      moreover have "quiet {} {} ?s4"
        by (rule quietI) (use quietD [OF t(3)] p1 in \<open>auto split: if_splits\<close>)
      ultimately show ?thesis using t(4) by (intro that [of None ?s4]) simp_all
    next
      case rc: True
      let ?p4 = "p1\<lparr>pl_occupied := px # pl_occupied p1\<rparr>"
      let ?s4 = "set_plugin hw ?p4 ?s3"
      have W4: "wf_core {} {} R ?s4" by (rule wf_put_occupied [OF W3]) (use x p1 in simp_all)
      have q4: "quiet {} {px} ?s4"
        by (rule quietI) (use quietD [OF t(3)] p1 nd in \<open>auto split: if_splits\<close>)
      obtain ok b st s5 where s5: "configure_plugin_ctx E px conf ?s4 = Some (ok, s5)" "ok \<longrightarrow> b"
        "m_plugins s5 = m_plugins ?s4" "m_pctxs s5 = (m_pctxs ?s4)(px \<mapsto> x\<lparr>px_pool := b, px_state := st\<rparr>)"
        "m_hctxs s5 = m_hctxs ?s4" "m_live s5 = m_live ?s4" "m_req_ctxs s5 = m_req_ctxs ?s4"
        "m_next ?s4 \<le> m_next s5"
        by (rule configure_plugin_ctx_ok [OF E, of ?s4 px x ?p4 conf]) (use x p1 live in simp_all)
      have W5: "wf_core {} {} R s5"
      proof (rule wf_core_ext)
        show "wf_core {} {} R (set_pctx px (x\<lparr>px_pool := b, px_state := st\<rparr>) ?s4)"
          by (rule wf_set_pctx [OF W4]) (use x p1 wf_pluginD(1) [OF W4, of hw ?p4] in auto)
      qed (use s5 in simp_all)
      have q5: "quiet {} {px} s5"
        by (rule quietI) (use quietD [OF q4] s5(3,4) in \<open>auto split: if_splits\<close>)
      let ?run = "ngx_http_wasm_on_configure E hw conf s"
      show ?thesis
      proof (cases ok)
        case True
        have "?run = Some (Some px, s5)"
          using p inited t(1) x p1 c rc s5(1) True
          by (simp add: ngx_http_wasm_on_configure_def m_set_state_def)
        moreover have "quiet {} {} s5"
        proof (rule quietI)
          fix h q' a b'
          assume H: "m_plugins s5 h = Some q'" "a \<in> set (pl_occupied q')" "m_pctxs s5 a = Some b'"
          then show "px_pool b' \<and> (px_done b' \<longrightarrow> px_occupied b' \<noteq> [])"
            using quietD(2,3) [OF q5 H(1,2)] s5(2,4) True x by (cases "a = px") auto
        qed (use quietD(1) [OF q5] in auto)
        ultimately show ?thesis
          using W5 s5 t(4) x p1 True by (intro that [of "Some px" s5]) simp_all
      next
        case False
        have x5: "m_pctxs s5 px = Some (x\<lparr>px_pool := b, px_state := st\<rparr>)" using s5(4) by simp
        obtain s6 where s6: "ngx_http_wasm_delete_plugin_ctx E px s5 = Some s6" "wf_core {} {} R s6"
          "quiet {} {} s6" "m_req_ctxs s6 = m_req_ctxs s5"
          by (rule delete_plugin_ctx_ok [OF E W5 q5 x5])
        have "?run = Some (None, s6)"
          using p inited t(1) x p1 c rc s5(1) False s6(1)
          by (simp add: ngx_http_wasm_on_configure_def m_set_state_def)
        then show ?thesis using s6 s5(7) t(4) by (intro that [of None s6]) simp_all
      qed
    qed
  qed
qed

section \<open>HTTP contexts\<close>

lemma quiet_grow:
  assumes q: "quiet {} {} s" and s': "m_plugins s' = (m_plugins s)(hw \<mapsto> p')"
    "m_pctxs s' = (m_pctxs s)(px \<mapsto> y)"
    and p: "m_plugins s hw = Some p" "pl_occupied p' = pl_occupied p" "pl_done p' = pl_done p"
    and x: "m_pctxs s px = Some x" "px_pool y = px_pool x" "px_done y = px_done x"
      "px_occupied x \<noteq> [] \<longrightarrow> px_occupied y \<noteq> []"
  shows "quiet {} {} s'"
proof (rule quietI)
  fix h q' a b
  assume "m_plugins s' h = Some q'" "pl_done q'"
  then show "pl_occupied q' \<noteq> []"
    using s' p quietD(1) [OF assms(1)] by (auto split: if_splits)
next
  fix h q' a b
  assume H: "m_plugins s' h = Some q'" "a \<in> set (pl_occupied q')" "m_pctxs s' a = Some b"
  then obtain q0 where q0: "m_plugins s h = Some q0" "a \<in> set (pl_occupied q0)"
    using s' p by (auto split: if_splits)
  show "px_pool b \<and> (px_done b \<longrightarrow> px_occupied b \<noteq> [])"
  proof (cases "a = px")
    case True
    then show ?thesis using quietD(2,3) [OF q q0, of x] H(3) s' x by auto
  next
    case False
    then show ?thesis using quietD(2,3) [OF q q0, of b] H(3) s' by auto
  qed
qed

definition hctx_in_hand :: "nat \<Rightarrow> nat \<Rightarrow> mstate \<Rightarrow> mstate \<Rightarrow> bool" where
  "hctx_in_hand px hc s s' \<longleftrightarrow>
     (\<exists>h x y p p'. m_hctxs s' hc = Some h \<and> hx_hwp_ctx h = px \<and> m_pctxs s px = Some x \<and>
        m_pctxs s' px = Some y \<and> px_hw_plugin y = px_hw_plugin x \<and> px_pool y = px_pool x \<and>
        px_done y = px_done x \<and> px_occupied y = px_occupied x \<and>
        m_plugins s (px_hw_plugin x) = Some p \<and> m_plugins s' (px_hw_plugin x) = Some p' \<and>
        pl_plugin p' = pl_plugin p) \<and>
     (\<forall>k h. m_hctxs s k = Some h \<longrightarrow> m_hctxs s' k = Some h)"

lemma take_http_ctx_ok:
  assumes wf: "wf_core {} {} R s" and q: "quiet {} {} s" and x: "m_pctxs s px = Some x"
    and pool: "px_pool x"
  obtains s' where "take_http_ctx E px s = Some (None, s')" "wf_core {} {} R s'" "quiet {} {} s'"
      "m_req_ctxs s' = m_req_ctxs s" "dom (h_requests (m_host s')) = dom (h_requests (m_host s))"
  | hc s' where "take_http_ctx E px s = Some (Some hc, s')" "wf_core {} {hc} R s'" "quiet {} {} s'"
      "m_req_ctxs s' = m_req_ctxs s" "hctx_in_hand px hc s s'"
      "dom (h_requests (m_host s')) = dom (h_requests (m_host s))"
proof -
  obtain p where p: "m_plugins s (px_hw_plugin x) = Some p" using wf_pctxD(1) [OF wf x] by blast
  show ?thesis
  proof (cases "px_free x = []")
    case False
    define hc where "hc = last (px_free x)"
    have fs: "px_free x = butlast (px_free x) @ [hc]" using False by (simp add: hc_def)
    then have "hc \<in> set (px_free x)" by (metis in_set_conv_decomp)
    then have "hc \<in> hctx_set {} s px" using wf_pctxD(3) [OF wf x] by blast
    then obtain h where h: "m_hctxs s hc = Some h" "hx_hwp_ctx h = px" by (auto simp: hctx_set_def)
    let ?y = "x\<lparr>px_free := butlast (px_free x)\<rparr>"
    let ?s = "set_pctx px ?y s"
    have run: "take_http_ctx E px s = Some (Some hc, ?s)"
      using x p False h by (simp add: take_http_ctx_def hc_def Let_def)
    have "m_plugins ?s = (m_plugins s)(px_hw_plugin x \<mapsto> p)" using p by (simp add: fun_eq_iff)
    then have "quiet {} {} ?s" by (rule quiet_grow [OF q, where px = px and y = ?y and x = x]) (use p x in simp_all)
    moreover have "hctx_in_hand px hc s ?s" using h x p by (simp add: hctx_in_hand_def)
    ultimately show ?thesis using wf_take_hfree [OF wf x fs] by (intro that(2) [OF run]) simp_all
  next
    case True
    obtain ok w where a: "m_alloc E sizeof_http_ctx s = (ok, s\<lparr>m_host := w\<rparr>)" "same_states (m_host s) w"
      by (rule m_alloc_ok)
    show ?thesis
    proof (cases ok)
      case False
      have "take_http_ctx E px s = Some (None, s\<lparr>m_host := w\<rparr>)"
        using x p True pool a(1) False by (simp add: take_http_ctx_def)
      then show ?thesis by (rule that(1)) (use wf q a(2) in \<open>simp_all add: same_states_def\<close>)
    next
      case ok: True
      let ?hc = "m_next s"
      let ?h = "\<lparr>hx_id = pl_cur_ctx_id p + 1, hx_hwp_ctx = px\<rparr>"
      let ?p = "p\<lparr>pl_cur_ctx_id := pl_cur_ctx_id p + 1\<rparr>"
      let ?base = "set_plugin (px_hw_plugin x) ?p (s\<lparr>m_host := w\<rparr>)"
      let ?s = "?base\<lparr>m_next := Suc ?hc, m_hctxs := (m_hctxs s)(?hc \<mapsto> ?h)\<rparr>"
      have run: "take_http_ctx E px s = Some (Some ?hc, ?s)"
        using x p True pool a(1) ok by (simp add: take_http_ctx_def Let_def)
      have W: "wf_core {} {} R (s\<lparr>m_host := w\<rparr>)" using wf by simp
      have "wf_core {} {} R ?base"
        using wf_pluginD(1,2) [OF wf p] wf_poolsD [OF wf_coreD(4) [OF wf] p] p
        by (intro wf_set_plugin [OF W, of _ p]) auto
      from wf_new_hctx [OF this, of px x ?h] x pool have "wf_core {} {?hc} R ?s" by simp
      moreover have "m_pctxs ?s = (m_pctxs s)(px \<mapsto> x)" using x by (simp add: fun_eq_iff)
      then have "quiet {} {} ?s"
        by (rule quiet_grow [OF q, where hw = "px_hw_plugin x" and p = p and p' = ?p and px = px and x = x, rotated])
          (use p x in simp_all)
      moreover have "m_hctxs s ?hc = None" using wf_coreD(6) [OF wf] by (simp add: wf_fresh_def)
      then have "hctx_in_hand px ?hc s ?s" using x p by (auto simp: hctx_in_hand_def)
      ultimately show ?thesis
        using a(2) by (intro that(2) [OF run]) (simp_all add: same_states_def)
    qed
  qed
qed

lemma create_http_ctx_ok:
  assumes E: "hook_exports E" "guest_frame E"
    and wf: "wf_core {} {} R s" and q: "quiet {} {} s" and x: "m_pctxs s px = Some x"
    and pool: "px_pool x" and r: "h_requests (m_host s) r = Some rq"
  obtains res s' where "ngx_http_wasm_create_http_ctx E px r s = Some (res, s')" "wf_core {} {} R s'"
    "quiet {} {} s'" "m_req_ctxs s' = m_req_ctxs s"
    "\<forall>hc. res = Some hc \<longrightarrow> occ_hctx s' hc \<and> hctx_owner s' hc = Some px \<and>
       (\<forall>k b. R k = Some b \<longrightarrow> hc \<notin> set b) \<and>
       (\<forall>k h. m_hctxs s k = Some h \<longrightarrow> m_hctxs s' k = Some h)"
proof (rule take_http_ctx_ok [OF wf q x pool])
  fix s1 assume t: "take_http_ctx E px s = Some (None, s1)" "wf_core {} {} R s1" "quiet {} {} s1"
    "m_req_ctxs s1 = m_req_ctxs s"
  obtain p where "m_plugins s (px_hw_plugin x) = Some p" using wf_pctxD(1) [OF wf x] by blast
  then have "ngx_http_wasm_create_http_ctx E px r s = Some (None, s1)"
    using x r t(1) by (simp add: ngx_http_wasm_create_http_ctx_def)
  then show ?thesis by (rule that) (use t in simp_all)
next
  fix hc s1 assume t: "take_http_ctx E px s = Some (Some hc, s1)" "wf_core {} {hc} R s1" "quiet {} {} s1"
    "m_req_ctxs s1 = m_req_ctxs s" "hctx_in_hand px hc s s1"
  obtain p where p: "m_plugins s (px_hw_plugin x) = Some p" using wf_pctxD(1) [OF wf x] by blast
  have old: "\<forall>k h. m_hctxs s k = Some h \<longrightarrow> m_hctxs s1 k = Some h"
    using t(5) unfolding hctx_in_hand_def by simp
  from t(5) x obtain h y p1 where h: "m_hctxs s1 hc = Some h" "hx_hwp_ctx h = px"
    and y: "m_pctxs s1 px = Some y" "px_hw_plugin y = px_hw_plugin x" "px_pool y = px_pool x"
      "px_done y = px_done x" "px_occupied y = px_occupied x"
    and p1: "m_plugins s1 (px_hw_plugin x) = Some p1" and inst: "pl_plugin p1 = pl_plugin p"
    using p unfolding hctx_in_hand_def by auto
  have live: "m_live s1 (pl_plugin p)" using wf_pluginD(3) [OF t(2) p1] inst by simp
  obtain rc w where c: "m_call E (pl_plugin p) ''proxy_on_context_create'' False NGX_WASM_PARAM_I32_I32
      [hx_id h, px_id x] s1 = Some (rc, s1\<lparr>m_host := w\<rparr>)"
    using m_call_ex [OF E, of s1 "pl_plugin p" "''proxy_on_context_create''" 3 2 "[hx_id h, px_id x]" False] live
    by (auto simp: hooks_def)
  let ?s2 = "s1\<lparr>m_host := w\<rparr>"
  define z where "z = (if rc \<noteq> NGX_OK then y\<lparr>px_free := hc # px_free y\<rparr>
                       else y\<lparr>px_occupied := hc # px_occupied y\<rparr>)"
  let ?s = "set_pctx px z ?s2"
  have "ngx_http_wasm_create_http_ctx E px r s =
      Some (if rc \<noteq> NGX_OK then None else Some hc, ?s)"
    using x p r t(1) h c y by (simp add: ngx_http_wasm_create_http_ctx_def z_def)
  moreover have "wf_core {} {hc} R ?s2" using t(2) by simp
  from wf_put_hctx [OF this, of px y h z] y h have "wf_core {} {} R ?s" by (auto simp: z_def)
  moreover have "m_plugins ?s = (m_plugins s1)(px_hw_plugin x \<mapsto> p1)" using p1 by (simp add: fun_eq_iff)
  then have "quiet {} {} ?s"
    by (rule quiet_grow [OF t(3), where px = px and y = z and x = y]) (use p1 y in \<open>simp_all add: z_def\<close>)
  moreover have "hc \<notin> set b" if "R k = Some b" for k b
    using wf_reqD(2) [OF t(2) that, of hc] by auto
  ultimately show ?thesis
    using h t(4) old by (intro that [of "if rc \<noteq> NGX_OK then None else Some hc" ?s])
      (auto simp: occ_hctx_def hctx_owner_def z_def split: if_splits)
qed

lemma find_http_ctx_ok:
  assumes "\<And>hc. hc \<in> set hcs \<Longrightarrow> occ_hctx s hc"
  obtains "find_http_ctx px hcs s = Some None" "Some px \<notin> hctx_owner s ` set hcs"
  | hc where "find_http_ctx px hcs s = Some (Some hc)" "hc \<in> set hcs" "hctx_owner s hc = Some px"
  using assms
proof (induction hcs arbitrary: thesis)
  case Nil
  then show ?case by simp
next
  case (Cons c hcs)
  obtain h where h: "m_hctxs s c = Some h" using Cons.prems(3) [of c] by (auto simp: occ_hctx_def)
  show ?case
  proof (cases "hx_hwp_ctx h = px")
    case True
    then show ?thesis using h by (intro Cons.prems(2) [of c]) (simp_all add: hctx_owner_def)
  next
    case False
    show ?thesis
    proof (rule Cons.IH)
      show "occ_hctx s k" if "k \<in> set hcs" for k using Cons.prems(3) that by simp
    next
      assume "find_http_ctx px hcs s = Some None" "Some px \<notin> hctx_owner s ` set hcs"
      then show ?thesis using h False by (intro Cons.prems(1)) (auto simp: hctx_owner_def)
    next
      fix k assume "find_http_ctx px hcs s = Some (Some k)" "k \<in> set hcs" "hctx_owner s k = Some px"
      then show ?thesis using h False by (intro Cons.prems(2) [of k]) simp_all
    qed
  qed
qed

lemma get_module_ctx_ok:
  assumes "h_requests w r = Some rq"
  obtains ctx w' where "ngx_http_wasm_get_module_ctx E r w = Some (ctx, w')" "same_states w w'"
proof (cases "rq_ctx rq")
  case None
  obtain ok1 w1 where a1: "try_alloc E sizeof_wasm_ctx w = (ok1, w1)" "same_states w w1"
    "h_requests w1 = h_requests w"
    by (simp add: try_alloc_def same_states_def)
  obtain ok2 w2 where a2: "try_alloc E sizeof_pool_cleanup w1 = (ok2, w2)" "same_states w w2"
    "h_requests w2 = h_requests w"
    using a1 by (simp add: try_alloc_def same_states_def)
  show ?thesis
  proof (cases "ok1 \<and> ok2")
    case True
    let ?w = "w2\<lparr>h_requests := (h_requests w)(r \<mapsto> rq\<lparr>rq_ctx := Some (new_wasm_ctx w)\<rparr>)\<rparr>"
    have "ngx_http_wasm_get_module_ctx E r w = Some (Some (new_wasm_ctx w), ?w)"
      using assms None a1 a2 True by (simp add: ngx_http_wasm_get_module_ctx_def upd_request_def Let_def)
    then show ?thesis by (rule that) (use a2 assms in \<open>auto simp: same_states_def\<close>)
  next
    case False
    then have "ngx_http_wasm_get_module_ctx E r w = Some (None, if ok1 then w2 else w1)"
      using assms None a1 a2 by (cases ok1) (auto simp: ngx_http_wasm_get_module_ctx_def Let_def)
    then show ?thesis by (rule that) (use a1 a2 in auto)
  qed
next
  case (Some c)
  then show ?thesis
    using assms by (intro that [of "Some c" w]) (simp_all add: ngx_http_wasm_get_module_ctx_def same_states_def)
qed

text \<open>An array that goes away: the contexts in it stay occupied.\<close>

lemma wf_drop_array:
  assumes "wf_core {} {} R s"
  shows "wf_core {} {} (R(a := None)) s"
proof -
  have d: "disjoint_reqs (R(a := None))" if d: "disjoint_reqs R"
  proof (unfold disjoint_reqs_def, intro allI impI)
    fix k k' b b' assume "(R(a := None)) k = Some b" "(R(a := None)) k' = Some b'" "k \<noteq> k'"
    then show "set b \<inter> set b' = {}"
      using disjoint_reqsD [OF d, of k b k' b'] by (auto split: if_splits)
  qed
  have "wf_reqs (R(a := None)) s"
    using wf_coreD(7) [OF assms] d unfolding wf_reqs_def by (auto split: if_splits)
  with assms show ?thesis unfolding wf_core_def by blast
qed

lemma m_get_module_ctx_ok:
  assumes wf: "wf_core {} {} (m_req_ctxs s) s" and r: "h_requests (m_host s) r = Some rq"
  obtains ctx w R where "m_get_module_ctx E r s = Some (ctx, s\<lparr>m_host := w, m_req_ctxs := R\<rparr>)"
    "same_states (m_host s) w" "wf_core {} {} R s"
proof -
  obtain c w where g: "ngx_http_wasm_get_module_ctx E r (m_host s) = Some (c, w)"
    "same_states (m_host s) w" by (rule get_module_ctx_ok [OF r])
  show ?thesis
  proof (cases c)
    case None
    then have "m_get_module_ctx E r s = Some (None, s\<lparr>m_host := w, m_req_ctxs := m_req_ctxs s\<rparr>)"
      using g by (simp add: m_get_module_ctx_def)
    then show ?thesis by (rule that) (use g wf in simp_all)
  next
    case (Some c)
    let ?R = "if request_ctx r (m_host s) = None then (m_req_ctxs s)(wc_addr c := None) else m_req_ctxs s"
    have "m_get_module_ctx E r s = Some (Some (wc_addr c), s\<lparr>m_host := w, m_req_ctxs := ?R\<rparr>)"
      using g Some by (simp add: m_get_module_ctx_def)
    then show ?thesis by (rule that) (use g wf wf_drop_array [OF wf] in simp_all)
  qed
qed

text \<open>
  The request arrays after a fetch: unchanged, or with the request's array extended by a
  context of the plugin context that had none in it.
\<close>

lemma fetch_http_ctx_ok:
  assumes E: "hook_exports E" "guest_frame E"
    and wf: "wf_core {} {} (m_req_ctxs s) s" and q: "quiet {} {} s" and x: "m_pctxs s px = Some x"
    and pool: "px_pool x" and r: "h_requests (m_host s) r = Some rq"
    and mem: "\<And>k. \<not> e_oom E k sizeof_pointer"
  obtains res s' where "ngx_http_wasm_fetch_http_ctx E px r s = Some (res, s')"
    "wf_core {} {} (m_req_ctxs s') s'" "quiet {} {} s'"
    "\<forall>hc. res = Some hc \<longrightarrow> hctx_owner s' hc = Some px \<and>
       (\<exists>a s0 hcs. m_get_module_ctx E r s = Some (Some a, s0) \<and> m_req_ctxs s' a = Some hcs \<and> hc \<in> set hcs)"
proof -
  obtain ctx w R where g: "m_get_module_ctx E r s = Some (ctx, s\<lparr>m_host := w, m_req_ctxs := R\<rparr>)"
    "same_states (m_host s) w" "wf_core {} {} R s" by (rule m_get_module_ctx_ok [OF wf r])
  let ?s1 = "s\<lparr>m_host := w, m_req_ctxs := R\<rparr>"
  show ?thesis
  proof (cases ctx)
    case None
    then have "ngx_http_wasm_fetch_http_ctx E px r s = Some (None, ?s1)"
      using g by (simp add: ngx_http_wasm_fetch_http_ctx_def)
    then show ?thesis by (rule that) (use g(3) q in simp_all)
  next
    case ctx: (Some a)
    obtain ok2 w2 where a2: "m_alloc E (sizeof_array + sizeof_pointer) ?s1 = (ok2, s\<lparr>m_host := w2, m_req_ctxs := R\<rparr>)"
      "same_states (m_host s) w2"
      by (rule that [of "\<not> e_oom E (h_allocs w) (sizeof_array + sizeof_pointer)" "w\<lparr>h_allocs := Suc (h_allocs w)\<rparr>"])
        (use g(2) in \<open>simp_all add: m_alloc_def try_alloc_def same_states_def\<close>)
    let ?fail = "R a = None \<and> \<not> ok2"
    show ?thesis
    proof (cases ?fail)
      case True
      then have "ngx_http_wasm_fetch_http_ctx E px r s = Some (None, s\<lparr>m_host := w2, m_req_ctxs := R\<rparr>)"
        using g ctx a2 by (simp add: ngx_http_wasm_fetch_http_ctx_def Let_def)
      then show ?thesis by (rule that) (use g(3) q in simp_all)
    next
      case False
      define hcs where "hcs = (case R a of None \<Rightarrow> [] | Some b \<Rightarrow> b)"
      define R2 where "R2 = R(a \<mapsto> hcs)"
      define s2 where "s2 = s\<lparr>m_host := if R a = None then w2 else w, m_req_ctxs := R2\<rparr>"
      have R2: "R2 = (if R a = None then R(a \<mapsto> []) else R)"
        by (auto simp: R2_def hcs_def fun_eq_iff)
      have W2: "wf_core {} {} R2 s2" using g(3) wf_array [OF g(3), of a] by (simp add: R2 s2_def)
      have q2: "quiet {} {} s2" using q by (simp add: s2_def)
      have hcs: "R2 a = Some hcs" by (simp add: R2_def)
      have pre: "ngx_http_wasm_fetch_http_ctx E px r s =
          (do { found \<leftarrow> find_http_ctx px hcs s2;
                (case found of
                   Some hc \<Rightarrow> Some (Some hc, s2)
                 | None \<Rightarrow>
                     do { (created, s3) \<leftarrow> ngx_http_wasm_create_http_ctx E px r s2;
                          (case created of
                             None \<Rightarrow> Some (None, s3)
                           | Some http_ctx \<Rightarrow>
                               (case m_alloc E sizeof_pointer s3 of
                                  (False, s4) \<Rightarrow> None
                                | (True, s4) \<Rightarrow>
                                    Some (Some http_ctx,
                                      s4\<lparr>m_req_ctxs := (m_req_ctxs s4)(a \<mapsto> hcs @ [http_ctx])\<rparr>))) }) })"
      proof (cases "R a")
        case None
        then have st: "s2 = s\<lparr>m_host := w2, m_req_ctxs := R(a \<mapsto> [])\<rparr>" and hs: "hcs = []" and ok2: "ok2"
          using False by (simp_all add: s2_def R2_def hcs_def)
        show ?thesis unfolding hs st using g ctx a2 None ok2
          by (simp add: ngx_http_wasm_fetch_http_ctx_def Let_def)
      next
        case (Some b)
        then have st: "s2 = s\<lparr>m_host := w, m_req_ctxs := R\<rparr>" and hs: "hcs = b"
          by (simp_all add: s2_def R2_def hcs_def map_upd_triv)
        show ?thesis unfolding hs st using g ctx Some
          by (simp add: ngx_http_wasm_fetch_http_ctx_def Let_def)
      qed
      have occ: "occ_hctx s2 k" if "k \<in> set hcs" for k by (rule wf_reqD(1) [OF W2 hcs that])
      show ?thesis
      proof (rule find_http_ctx_ok [of hcs s2 px])
        show "occ_hctx s2 k" if "k \<in> set hcs" for k by (rule occ [OF that])
      next
        fix k assume k: "find_http_ctx px hcs s2 = Some (Some k)" "k \<in> set hcs" "hctx_owner s2 k = Some px"
        have "ngx_http_wasm_fetch_http_ctx E px r s = Some (Some k, s2)" using pre k(1) by simp
        then show ?thesis by (rule that) (use W2 q2 k hcs g(1) ctx in \<open>auto simp: s2_def\<close>)
      next
        assume none: "find_http_ctx px hcs s2 = Some None" "Some px \<notin> hctx_owner s2 ` set hcs"
        have x2: "m_pctxs s2 px = Some x" using x by (simp add: s2_def)
        have "h_requests (m_host s2) r \<noteq> None"
          using r g(2) a2(2) by (auto simp: s2_def same_states_def)
        then obtain rq2 where rq2: "h_requests (m_host s2) r = Some rq2" by blast
        obtain res s3 where c: "ngx_http_wasm_create_http_ctx E px r s2 = Some (res, s3)"
          "wf_core {} {} R2 s3" "quiet {} {} s3" "m_req_ctxs s3 = m_req_ctxs s2"
          "\<forall>hc. res = Some hc \<longrightarrow> occ_hctx s3 hc \<and> hctx_owner s3 hc = Some px \<and>
             (\<forall>k b. R2 k = Some b \<longrightarrow> hc \<notin> set b) \<and>
             (\<forall>k h. m_hctxs s2 k = Some h \<longrightarrow> m_hctxs s3 k = Some h)"
          by (rule create_http_ctx_ok [OF E W2 q2 x2 pool rq2])
        have R3: "m_req_ctxs s3 = R2" using c(4) by (simp add: s2_def)
        show ?thesis
        proof (cases res)
          case None
          then have "ngx_http_wasm_fetch_http_ctx E px r s = Some (None, s3)" using pre none c(1) by simp
          then show ?thesis by (rule that) (use c R3 in simp_all)
        next
          case (Some hc)
          obtain ok4 w4 where a4: "m_alloc E sizeof_pointer s3 = (ok4, s3\<lparr>m_host := w4\<rparr>)" by (rule m_alloc_ok)
          have ok4: ok4 using a4 mem by (auto simp: m_alloc_def try_alloc_def)
          let ?s4 = "s3\<lparr>m_host := w4, m_req_ctxs := R2(a \<mapsto> hcs @ [hc])\<rparr>"
          have run: "ngx_http_wasm_fetch_http_ctx E px r s = Some (Some hc, ?s4)"
            using pre none c(1) Some a4 ok4 R3 by simp
          have hc: "occ_hctx s3 hc" "hctx_owner s3 hc = Some px" "\<And>k b. R2 k = Some b \<Longrightarrow> hc \<notin> set b"
            using c(5) Some by auto
          have "hctx_owner s3 k = hctx_owner s2 k" if "k \<in> set hcs" for k
            using occ [OF that] c(5) Some by (auto simp: occ_hctx_def hctx_owner_def)
          then have "Some px \<notin> hctx_owner s3 ` set hcs" using none(2) by (simp cong: image_cong)
          then have "wf_core {} {} (R2(a \<mapsto> hcs @ [hc])) s3"
            using hc by (intro wf_push [OF c(2) hcs]) simp_all
          then show ?thesis
            using c(3) hc(2) g(1) ctx by (intro that [OF run]) (auto simp: hctx_owner_def)
        qed
      qed
    qed
  qed
qed

section \<open>The clean-up of a request\<close>

lemma cleanup_http_ctx_ok:
  assumes E: "hook_exports E" "guest_frame E"
    and wf: "wf_core {} {} R s" and q: "quiet {} {} s" and r: "R r = Some (hc # hcs)"
  obtains s' where "cleanup_http_ctx E hc s = Some s'" "wf_core {} {} (R(r \<mapsto> hcs)) s'"
    "quiet {} {} s'" "m_req_ctxs s' = m_req_ctxs s"
proof -
  have "occ_hctx s hc" by (rule wf_reqD(1) [OF wf r]) simp
  then obtain h x where h: "m_hctxs s hc = Some h" and x: "m_pctxs s (hx_hwp_ctx h) = Some x"
    and occ: "hc \<in> set (px_occupied x)" by (auto simp: occ_hctx_def)
  let ?px = "hx_hwp_ctx h"
  obtain p where p: "m_plugins s (px_hw_plugin x) = Some p" using wf_pctxD(1) [OF wf x] by blast
  let ?y = "x\<lparr>px_occupied := remove1 hc (px_occupied x), px_free := hc # remove1 hc (px_free x)\<rparr>"
  let ?t = "set_pctx ?px ?y s"
  have live: "m_live s (pl_plugin p)" by (rule wf_pluginD(3) [OF wf p])
  obtain rc1 w1 where c1: "m_call E (pl_plugin p) ''proxy_on_done'' True NGX_WASM_PARAM_I32 [hx_id h] ?t =
      Some (rc1, ?t\<lparr>m_host := w1\<rparr>)"
    using m_call_ex [OF E, of ?t "pl_plugin p" "''proxy_on_done''" 2 1 "[hx_id h]" True] live
    by (auto simp: hooks_def)
  obtain rc2 w2 where c2: "m_call E (pl_plugin p) ''proxy_on_delete'' False NGX_WASM_PARAM_I32 [hx_id h]
      (?t\<lparr>m_host := w1\<rparr>) = Some (rc2, ?t\<lparr>m_host := w2\<rparr>)"
    using m_call_ex [OF E, of "?t\<lparr>m_host := w1\<rparr>" "pl_plugin p" "''proxy_on_delete''" 2 1 "[hx_id h]" False] live
    by (auto simp: hooks_def)
  let ?u = "?t\<lparr>m_host := w2\<rparr>"
  have run: "cleanup_http_ctx E hc s = (if px_done x then ngx_http_wasm_free_plugin_ctx E ?px ?u else Some ?u)"
    using h x p occ c1 c2 by (simp add: cleanup_http_ctx_def queue_remove_def Let_def)
  have W: "wf_core {} {} (R(r \<mapsto> hcs)) ?u" using wf_release [where r = r, OF wf r h x] by simp
  have qp: "quiet {} {?px} ?u" by (rule quietI) (use quietD [OF q] in auto)
  have y: "m_pctxs ?u ?px = Some ?y" by simp
  show ?thesis
  proof (cases "px_done x")
    case True
    obtain s' where s': "ngx_http_wasm_free_plugin_ctx E ?px ?u = Some s'"
      "wf_core {} {} (R(r \<mapsto> hcs)) s'" "quiet {} {} s'" "m_req_ctxs s' = m_req_ctxs ?u"
      by (rule free_plugin_ctx_ok [OF E W qp y]) (use True in simp)
    then show ?thesis using run True by (intro that [of s']) simp_all
  next
    case False
    have "quiet {} {} ?u"
    proof (rule quietI)
      fix hw q' a b
      assume H: "m_plugins ?u hw = Some q'" "a \<in> set (pl_occupied q')" "m_pctxs ?u a = Some b"
      then show "px_pool b \<and> (px_done b \<longrightarrow> px_occupied b \<noteq> [])"
        using quietD(2,3) [OF q, of hw q' a] x False by (cases "a = ?px") auto
    qed (use quietD(1) [OF q] in auto)
    then show ?thesis using run False W by (intro that [of ?u]) simp_all
  qed
qed

lemma cleanup_http_ctxs_ok:
  assumes E: "hook_exports E" "guest_frame E"
    and wf: "wf_core {} {} R s" and q: "quiet {} {} s" and r: "R r = Some hcs"
  obtains s' where "cleanup_http_ctxs E hcs s = Some s'" "wf_core {} {} (R(r \<mapsto> [])) s'"
    "quiet {} {} s'" "m_req_ctxs s' = m_req_ctxs s"
  using wf q r
proof (induction hcs arbitrary: R s thesis)
  case Nil
  then show ?case by (simp add: map_upd_triv)
next
  case (Cons hc hcs)
  obtain s1 where s1: "cleanup_http_ctx E hc s = Some s1" "wf_core {} {} (R(r \<mapsto> hcs)) s1"
    "quiet {} {} s1" "m_req_ctxs s1 = m_req_ctxs s"
    by (rule cleanup_http_ctx_ok [OF E Cons.prems(2,3,4)])
  obtain s2 where s2: "cleanup_http_ctxs E hcs s1 = Some s2" "wf_core {} {} (R(r \<mapsto> [])) s2"
    "quiet {} {} s2" "m_req_ctxs s2 = m_req_ctxs s1"
    by (rule Cons.IH [OF _ s1(2,3), unfolded fun_upd_upd]) simp_all
  show ?case by (rule Cons.prems(1) [OF _ s2(2,3)]) (use s1 s2 in simp_all)
qed

text \<open>The module context goes away with the pool of the request, hence with its array.\<close>

definition end_request :: "nat \<Rightarrow> mstate \<Rightarrow> mstate" where
  "end_request ctx s = s\<lparr>m_req_ctxs := (m_req_ctxs s)(ctx := None)\<rparr>"

lemma cleanup_ok:
  assumes E: "hook_exports E" "guest_frame E"
    and wf: "wf_core {} {} (m_req_ctxs s) s" and q: "quiet {} {} s"
  obtains s' where "ngx_http_wasm_cleanup E r s = Some s'"
    "wf_core {} {} (m_req_ctxs (end_request r s')) (end_request r s')" "quiet {} {} (end_request r s')"
proof (cases "m_req_ctxs s r")
  case None
  then have "end_request r s = s" by (simp add: end_request_def fun_upd_idem)
  then show ?thesis
    using None wf q by (intro that [of s]) (simp_all add: ngx_http_wasm_cleanup_def)
next
  case (Some hcs)
  obtain s' where s': "cleanup_http_ctxs E hcs s = Some s'" "wf_core {} {} ((m_req_ctxs s)(r \<mapsto> [])) s'"
    "quiet {} {} s'" "m_req_ctxs s' = m_req_ctxs s"
    by (rule cleanup_http_ctxs_ok [OF E wf q Some])
  then show ?thesis
    using Some wf_drop_array [OF s'(2), of r]
    by (intro that [of s']) (simp_all add: ngx_http_wasm_cleanup_def end_request_def)
qed

section \<open>Loading a plugin\<close>

lemma wf_fresh_host: "wf_core F G R s \<Longrightarrow> wf_core F G R (s\<lparr>m_next := Suc (m_next s), m_host := w\<rparr>)"
  using wf_core_next [of F G R s "Suc (m_next s)"] by simp

lemma wf_instance:
  assumes "wf_core F G R s"
  shows "wf_core F G R (s\<lparr>m_next := Suc (m_next s), m_live := (m_live s)(m_next s := True)\<rparr>)"
  using assms by (auto simp: wf_defs pctx_set_def hctx_set_def)

lemma wf_unload:
  assumes "wf_core F G R s" "\<And>hw p. m_plugins s hw = Some p \<Longrightarrow> pl_plugin p \<noteq> i"
  shows "wf_core F G R (s\<lparr>m_live := (m_live s)(i := False)\<rparr>)"
proof -
  have "wf_live (s\<lparr>m_live := (m_live s)(i := False)\<rparr>)"
    using wf_coreD(5) [OF assms(1)] assms(2) unfolding wf_live_def by simp
  with assms(1) show ?thesis
    by (simp add: wf_core_def wf_plugins_def wf_pctxs_def wf_hctxs_def wf_pools_def wf_fresh_def
        wf_reqs_def hctx_owner_def [abs_def] occ_hctx_def pctx_set_def hctx_set_def)
qed

lemma wf_add_plugin:
  assumes wf: "wf_core {} G R s" and p: "pl_occupied p = []" "pl_free p = []"
    and live: "m_live s (pl_plugin p)" "\<And>hw q. m_plugins s hw = Some q \<Longrightarrow> pl_plugin q \<noteq> pl_plugin p"
  shows "wf_core {} G R ((set_plugin (m_next s) p s)\<lparr>m_next := Suc (Suc (m_next s))\<rparr>)"
    (is "wf_core {} G R ?t")
proof -
  let ?hw = "m_next s"
  have none: "m_plugins s ?hw = None" using wf_coreD(6) [OF wf] by (simp add: wf_fresh_def)
  have own: "px_hw_plugin x \<noteq> ?hw" if "m_pctxs s px = Some x" for px x
    using wf_pctxD(1) [OF wf that] none by auto
  have "wf_plugins {} ?t"
    using wf_coreD(1) [OF wf] own p by (auto simp: wf_plugins_def pctx_set_def)
  moreover have "wf_pctxs G ?t"
    using wf_coreD(2) [OF wf] by (auto simp: wf_pctxs_def)
  moreover have "wf_hctxs ?t" using wf_coreD(3) [OF wf] by (simp add: wf_hctxs_def)
  moreover have "wf_pools ?t" unfolding wf_pools_def using wf_poolsD [OF wf_coreD(4) [OF wf]] p by auto
  moreover have "wf_live ?t"
    using wf_coreD(5) [OF wf] live none unfolding wf_live_def by (fastforce split: if_splits)
  moreover have "wf_fresh ?t" using wf_coreD(6) [OF wf] by (auto simp: wf_fresh_def)
  moreover have "wf_reqs R ?t"
    using wf_coreD(7) [OF wf] by (rule wf_reqs_step) (auto simp: occ_hctx_def hctx_owner_def)
  ultimately show ?thesis by (simp only: wf_core_def)
qed

lemma load_plugin_ok:
  assumes E: "hook_exports E" "guest_frame E"
    and wf: "wf_core {} {} R s" and q: "quiet {} {} s"
  obtains res s' where "ngx_http_wasm_load_plugin E load_ok name s = Some (res, s')"
    "wf_core {} {} R s'" "quiet {} {} s'" "m_req_ctxs s' = m_req_ctxs s"
    "\<forall>hw. res = Some hw \<longrightarrow> m_plugins s hw = None \<and>
       (\<exists>p. m_plugins s' = (m_plugins s)(hw \<mapsto> p) \<and> pl_name p = name \<and> \<not> pl_done p \<and>
          m_live s' (pl_plugin p) \<and>
          pl_abi_version p = find_abi_version E (pl_plugin p) 0 abi_versions PROXY_WASM_ABI_VER_MAX)"
    "res = None \<longrightarrow> m_plugins s' = m_plugins s \<and> m_live s' = m_live s"
proof (cases "m_vm_inited s \<and> load_ok")
  case False
  then show ?thesis
    using wf q by (intro that [of None s]) (auto simp: ngx_http_wasm_load_plugin_def)
next
  case inited: True
  let ?i = "m_next s"
  let ?a = "s\<lparr>m_next := Suc ?i, m_live := (m_live s)(?i := True)\<rparr>"
  have Wa: "wf_core {} {} R ?a" by (rule wf_instance [OF wf])
  have qa: "quiet {} {} ?a" by (rule quiet_ext [OF q]) simp_all
  have dead: "\<not> m_live s ?i" using wf_coreD(6) [OF wf] by (simp add: wf_fresh_def)
  then have other: "pl_plugin p \<noteq> ?i" if "m_plugins s hw = Some p" for hw p
    using wf_pluginD(3) [OF wf that] by auto
  have restored: "(m_live s)(?i := False) = m_live s" using dead by (simp add: fun_eq_iff)
  obtain rc w where start: "start_plugin E ?i ?a = Some (rc, ?a\<lparr>m_host := w\<rparr>)"
  proof (cases "vm_has E ?i ''_start''")
    case True
    then show ?thesis
      using that m_call_ex [OF E, of ?a ?i "''_start''" 1 0 "[]" False]
      by (auto simp: hooks_def start_plugin_def)
  next
    case no: False
    show ?thesis
    proof (cases "vm_has E ?i ''_initialize''")
      case True
      with no show ?thesis
        using that m_call_ex [OF E, of ?a ?i "''_initialize''" 1 0 "[]" False]
        by (auto simp: hooks_def start_plugin_def)
    next
      case False
      with no show ?thesis using that [of NGX_OK "m_host s"] by (simp add: start_plugin_def)
    qed
  qed
  let ?b = "?a\<lparr>m_host := w\<rparr>"
  let ?sz = "sizeof_plugin + length name + sizeof_state"
  obtain ok w2 where al: "m_alloc E ?sz ?b = (ok, ?a\<lparr>m_host := w2\<rparr>)"
    using m_alloc_ex [of E ?sz ?b] by auto
  define fail where "fail w3 = ?a\<lparr>m_host := w3, m_live := m_live s\<rparr>" for w3
  have fail: "wf_core {} {} R (fail w3)" "quiet {} {} (fail w3)" "m_req_ctxs (fail w3) = m_req_ctxs s"
    "m_plugins (fail w3) = m_plugins s" "m_live (fail w3) = m_live s" for w3
  proof -
    have "wf_core {} {} R (?a\<lparr>m_live := (m_live ?a)(?i := False)\<rparr>)"
      by (rule wf_unload [OF Wa]) (use other in simp)
    then show "wf_core {} {} R (fail w3)" using restored by (simp add: fail_def)
    show "quiet {} {} (fail w3)" by (rule quiet_ext [OF q]) (simp_all add: fail_def)
  qed (simp_all add: fail_def)
  show ?thesis
  proof (cases "rc = NGX_OK \<and> ok")
    case False
    have "ngx_http_wasm_load_plugin E load_ok name s =
        Some (None, fail (if rc \<noteq> NGX_OK then w else w2))"
      using inited start al False restored
      by (auto simp: ngx_http_wasm_load_plugin_def create_plugin_def Let_def vm_unload_def fail_def)
    then show ?thesis by (rule that) (use fail in simp_all)
  next
    case True
    let ?p = "\<lparr>pl_plugin = ?i, pl_cur_ctx_id = 0,
       pl_abi_version = find_abi_version E ?i 0 abi_versions PROXY_WASM_ABI_VER_MAX,
       pl_name = name, pl_state = Suc (Suc ?i), pl_occupied = [], pl_free = [], pl_done = False\<rparr>"
    let ?ws = "\<lparr>ws_conf = str_null, ws_body = Some str_null, ws_r = None, ws_plugin_name = Some name\<rparr>"
    let ?c = "?a\<lparr>m_host := w2\<lparr>h_states := (h_states w2)(Suc (Suc ?i) \<mapsto> ?ws)\<rparr>\<rparr>"
    let ?t = "(set_plugin (Suc ?i) ?p ?c)\<lparr>m_next := Suc (Suc (Suc ?i))\<rparr>"
    have run: "ngx_http_wasm_load_plugin E load_ok name s = Some (Some (Suc ?i), ?t)"
      using inited start al True
      by (simp add: ngx_http_wasm_load_plugin_def create_plugin_def Let_def set_plugin_def)
    have "wf_core {} {} R ?c" using Wa by simp
    from wf_add_plugin [OF this, of ?p] other have W: "wf_core {} {} R ?t" by simp
    have none: "m_plugins s (Suc ?i) = None" using wf_coreD(6) [OF wf] by (simp add: wf_fresh_def)
    have "quiet {} {} ?t" by (rule quietI) (use quietD [OF q] in \<open>auto split: if_splits\<close>)
    moreover have "m_plugins ?t = (m_plugins s)(Suc ?i \<mapsto> ?p) \<and> pl_name ?p = name \<and> \<not> pl_done ?p \<and>
        m_live ?t (pl_plugin ?p) \<and>
        pl_abi_version ?p = find_abi_version E (pl_plugin ?p) 0 abi_versions PROXY_WASM_ABI_VER_MAX"
      by simp
    then have "\<exists>p. m_plugins ?t = (m_plugins s)(Suc ?i \<mapsto> p) \<and> pl_name p = name \<and> \<not> pl_done p \<and>
        m_live ?t (pl_plugin p) \<and>
        pl_abi_version p = find_abi_version E (pl_plugin p) 0 abi_versions PROXY_WASM_ABI_VER_MAX"
      by (rule exI)
    ultimately show ?thesis using none
      by (intro that [OF run W]) simp_all
  qed
qed

end
