(* ===== verification/Host_Apis.thy ===== *)
theory Host_Apis
  imports Api_Calls Contexts_Ops
begin

text \<open>
  src/http/ngx_http_wasm_api_def.h, ngx_http_wasm_api_wasmtime.h and
  ngx_http_wasm_api_wasmedge.h: the declarations of the host functions, the callbacks that
  unpack the values of the runtime and call them, and the tables that the runtimes register
  under the module name \<^verbatim>\<open>env\<close>. The three headers are generated from one list; here each is
  translated as it stands.
\<close>

section \<open>Parameter lists\<close>

text \<open>
  The shapes \<^verbatim>\<open>VOID\<close>, \<^verbatim>\<open>I32_1\<close> to \<^verbatim>\<open>I32_12\<close> and \<^verbatim>\<open>I32_I64\<close> of the macros, and the value types
  they give in \<^verbatim>\<open>DEFINE_WASM_NAME_ARG_*\<close>.
\<close>

datatype arg_shape = ARG_VOID | ARG_I32 nat | ARG_I32_I64

datatype valtype = WASM_I32 | WASM_I64

fun param_type :: "arg_shape \<Rightarrow> valtype list" where
  "param_type ARG_VOID = []"
| "param_type (ARG_I32 n) = replicate n WASM_I32"
| "param_type ARG_I32_I64 = [WASM_I32, WASM_I64]"

definition MAX_WASM_API_ARG :: nat where
  "MAX_WASM_API_ARG = 12"

text \<open>A value of the given type, as the runtime passes it.\<close>

fun has_type :: "wasm_val \<Rightarrow> valtype \<Rightarrow> bool" where
  "has_type (I32 x) t = (t = WASM_I32)"
| "has_type (I64 x) t = (t = WASM_I64)"
| "has_type (F32 x) t = False"
| "has_type (F64 x) t = False"

section \<open>Callbacks\<close>

text \<open>
  \<^verbatim>\<open>DEFINE_WASM_API_ARG_CHECK_*\<close>: the reads of \<^verbatim>\<open>args[i].of.i32\<close> (or \<^verbatim>\<open>WasmEdge_ValueGetI32\<close>).
  An index behind the array, or a member of the union that is not the one stored, is
  undefined.
\<close>

definition get_i32 :: "wasm_val list \<Rightarrow> nat \<Rightarrow> i32 option" where
  "get_i32 args i = (if i < length args then (case args ! i of I32 x \<Rightarrow> Some x | _ \<Rightarrow> None) else None)"

definition get_i64 :: "wasm_val list \<Rightarrow> nat \<Rightarrow> u64 option" where
  "get_i64 args i = (if i < length args then (case args ! i of I64 x \<Rightarrow> Some x | _ \<Rightarrow> None) else None)"

fun get_i32s :: "wasm_val list \<Rightarrow> nat \<Rightarrow> i32 list option" where
  "get_i32s args 0 = Some []"
| "get_i32s args (Suc n) =
     do { ps \<leftarrow> get_i32s args n; p \<leftarrow> get_i32 args n; Some (ps @ [p]) }"

datatype host_args = Words "i32 list" | Word_Long i32 u64

fun arg_check :: "arg_shape \<Rightarrow> wasm_val list \<Rightarrow> host_args option" where
  "arg_check ARG_VOID args = Some (Words [])"
| "arg_check (ARG_I32 n) args = map_option Words (get_i32s args n)"
| "arg_check ARG_I32_I64 args =
     do { p0 \<leftarrow> get_i32 args 0; p1 \<leftarrow> get_i64 args 1; Some (Word_Long p0 p1) }"

text \<open>The values of \<^verbatim>\<open>proxy_result_t\<close>.\<close>

definition result_code :: "proxy_result \<Rightarrow> i32" where
  "result_code r =
     (case r of
        PROXY_RESULT_OK \<Rightarrow> 0 | PROXY_RESULT_NOT_FOUND \<Rightarrow> 1 | PROXY_RESULT_BAD_ARGUMENT \<Rightarrow> 2
      | PROXY_RESULT_SERIALIZATIONF_AILURE \<Rightarrow> 3 | PROXY_RESULT_PARSE_FAILURE \<Rightarrow> 4
      | PROXY_RESULT_BAD_EXPRESSION \<Rightarrow> 5 | PROXY_RESULT_INVALID_MEMORY_ACCESS \<Rightarrow> 6
      | PROXY_RESULT_EMPTY \<Rightarrow> 7 | PROXY_RESULT_CAS_MISMATCH \<Rightarrow> 8 | PROXY_RESULT_RESULT_MISMATCH \<Rightarrow> 9
      | PROXY_RESULT_INTERNAL_FAILURE \<Rightarrow> 10 | PROXY_RESULT_BROKEN_CONNECTION \<Rightarrow> 11
      | PROXY_RESULT_UNIMPLEMENTED \<Rightarrow> 12)"

text \<open>
  \<open>host_fn\<close> is the C function behind a name, on the parameters that were read; a call with
  another number of parameters than its prototype has would not compile (\<open>None\<close>).
\<close>

definition host_fn :: "env \<Rightarrow> string \<Rightarrow> host_args \<Rightarrow> host \<Rightarrow> (proxy_result \<times> host) option" where
  "host_fn E name ps w =
     (case ps of
        Word_Long a b \<Rightarrow>
          if name = ''proxy_increment_metric'' then proxy_increment_metric a b w
          else if name = ''proxy_record_metric'' then proxy_record_metric a b w
          else if name = ''proxy_get_metric'' then proxy_get_metric a b w
          else None
      | Words [] \<Rightarrow>
          if name = ''proxy_continue_request'' then proxy_continue_request w
          else if name = ''proxy_continue_response'' then proxy_continue_response w
          else if name = ''proxy_clear_route_cache'' then proxy_clear_route_cache w
          else if name = ''proxy_done'' then proxy_done w
          else None
      | Words [p0] \<Rightarrow>
          if name = ''proxy_set_effective_context'' then proxy_set_effective_context p0 w
          else if name = ''proxy_get_current_time_nanoseconds'' then proxy_get_current_time_nanoseconds p0 w
          else if name = ''proxy_set_tick_period_milliseconds'' then proxy_set_tick_period_milliseconds p0 w
          else if name = ''proxy_continue_stream'' then proxy_continue_stream p0 w
          else if name = ''proxy_close_stream'' then proxy_close_stream p0 w
          else if name = ''proxy_grpc_cancel'' then proxy_grpc_cancel p0 w
          else if name = ''proxy_grpc_close'' then proxy_grpc_close p0 w
          else None
      | Words [p0, p1] \<Rightarrow>
          if name = ''proxy_get_configuration'' then proxy_get_configuration E p0 p1 w
          else None
      | Words [p0, p1, p2] \<Rightarrow>
          if name = ''proxy_log'' then proxy_log E p0 p1 p2 w
          else if name = ''proxy_get_header_map_pairs'' then proxy_get_header_map_pairs E p0 p1 p2 w
          else if name = ''proxy_set_header_map_pairs'' then proxy_set_header_map_pairs p0 p1 p2 w
          else if name = ''proxy_remove_header_map_value'' then proxy_remove_header_map_value E p0 p1 p2 w
          else if name = ''proxy_register_shared_queue'' then proxy_register_shared_queue p0 p1 p2 w
          else if name = ''proxy_dequeue_shared_queue'' then proxy_dequeue_shared_queue p0 p1 p2 w
          else if name = ''proxy_enqueue_shared_queue'' then proxy_enqueue_shared_queue p0 p1 p2 w
          else if name = ''proxy_get_status'' then proxy_get_status p0 p1 p2 w
          else None
      | Words [p0, p1, p2, p3] \<Rightarrow>
          if name = ''proxy_get_property'' then proxy_get_property E p0 p1 p2 p3 w
          else if name = ''proxy_set_property'' then proxy_set_property E p0 p1 p2 p3 w
          else if name = ''proxy_grpc_send'' then proxy_grpc_send p0 p1 p2 p3 w
          else if name = ''proxy_define_metric'' then proxy_define_metric p0 p1 p2 p3 w
          else None
      | Words [p0, p1, p2, p3, p4] \<Rightarrow>
          if name = ''proxy_get_buffer_bytes'' then proxy_get_buffer_bytes E p0 p1 p2 p3 p4 w
          else if name = ''proxy_set_buffer_bytes'' then proxy_set_buffer_bytes p0 p1 p2 p3 p4 w
          else if name = ''proxy_get_header_map_value'' then proxy_get_header_map_value E p0 p1 p2 p3 p4 w
          else if name = ''proxy_replace_header_map_value'' then proxy_replace_header_map_value E p0 p1 p2 p3 p4 w
          else if name = ''proxy_add_header_map_value'' then proxy_add_header_map_value E p0 p1 p2 p3 p4 w
          else if name = ''proxy_get_shared_data'' then proxy_get_shared_data p0 p1 p2 p3 p4 w
          else if name = ''proxy_set_shared_data'' then proxy_set_shared_data p0 p1 p2 p3 p4 w
          else if name = ''proxy_resolve_shared_queue'' then proxy_resolve_shared_queue p0 p1 p2 p3 p4 w
          else None
      | Words [p0, p1, p2, p3, p4, p5] \<Rightarrow>
          if name = ''proxy_call_foreign_function'' then proxy_call_foreign_function p0 p1 p2 p3 p4 p5 w
          else None
      | Words [p0, p1, p2, p3, p4, p5, p6, p7] \<Rightarrow>
          if name = ''proxy_send_local_response'' then proxy_send_local_response E p0 p1 p2 p3 p4 p5 p6 p7 w
          else if name = ''proxy_send_http_response'' then proxy_send_http_response E p0 p1 p2 p3 p4 p5 p6 p7 w
          else None
      | Words [p0, p1, p2, p3, p4, p5, p6, p7, p8] \<Rightarrow>
          if name = ''proxy_grpc_stream'' then proxy_grpc_stream p0 p1 p2 p3 p4 p5 p6 p7 p8 w
          else None
      | Words [p0, p1, p2, p3, p4, p5, p6, p7, p8, p9] \<Rightarrow>
          if name = ''proxy_http_call'' then proxy_http_call E p0 p1 p2 p3 p4 p5 p6 p7 p8 p9 w
          else None
      | Words [p0, p1, p2, p3, p4, p5, p6, p7, p8, p9, p10, p11] \<Rightarrow>
          if name = ''proxy_grpc_call'' then proxy_grpc_call p0 p1 p2 p3 p4 p5 p6 p7 p8 p9 p10 p11 w
          else None
      | Words _ \<Rightarrow> None)"

text \<open>\<^verbatim>\<open>DEFINE_WASM_API\<close>: the callback of a function, with the shape it is defined with.\<close>

definition api_callback ::
  "env \<Rightarrow> string \<Rightarrow> arg_shape \<Rightarrow> wasm_val list \<Rightarrow> host \<Rightarrow> (wasm_val list \<times> host) option" where
  "api_callback E name shape args w =
     do { ps \<leftarrow> arg_check shape args;
          (rc, w) \<leftarrow> host_fn E name ps w;
          Some ([I32 (result_code rc)], w) }"

section \<open>The three headers\<close>

text \<open>The prototypes of ngx_http_wasm_api_def.h.\<close>

definition api_prototypes :: "(string \<times> arg_shape) list" where
  "api_prototypes = [(''proxy_set_effective_context'', ARG_I32 1),
     (''proxy_get_property'', ARG_I32 4),
     (''proxy_set_property'', ARG_I32 4),
     (''proxy_log'', ARG_I32 3),
     (''proxy_get_buffer_bytes'', ARG_I32 5),
     (''proxy_set_buffer_bytes'', ARG_I32 5),
     (''proxy_send_local_response'', ARG_I32 8),
     (''proxy_send_http_response'', ARG_I32 8),
     (''proxy_get_current_time_nanoseconds'', ARG_I32 1),
     (''proxy_set_tick_period_milliseconds'', ARG_I32 1),
     (''proxy_get_configuration'', ARG_I32 2),
     (''proxy_get_header_map_pairs'', ARG_I32 3),
     (''proxy_set_header_map_pairs'', ARG_I32 3),
     (''proxy_get_header_map_value'', ARG_I32 5),
     (''proxy_remove_header_map_value'', ARG_I32 3),
     (''proxy_replace_header_map_value'', ARG_I32 5),
     (''proxy_add_header_map_value'', ARG_I32 5),
     (''proxy_get_shared_data'', ARG_I32 5),
     (''proxy_set_shared_data'', ARG_I32 5),
     (''proxy_register_shared_queue'', ARG_I32 3),
     (''proxy_resolve_shared_queue'', ARG_I32 5),
     (''proxy_dequeue_shared_queue'', ARG_I32 3),
     (''proxy_enqueue_shared_queue'', ARG_I32 3),
     (''proxy_continue_request'', ARG_VOID),
     (''proxy_continue_response'', ARG_VOID),
     (''proxy_clear_route_cache'', ARG_VOID),
     (''proxy_continue_stream'', ARG_I32 1),
     (''proxy_close_stream'', ARG_I32 1),
     (''proxy_http_call'', ARG_I32 10),
     (''proxy_grpc_call'', ARG_I32 12),
     (''proxy_grpc_stream'', ARG_I32 9),
     (''proxy_grpc_send'', ARG_I32 4),
     (''proxy_grpc_cancel'', ARG_I32 1),
     (''proxy_grpc_close'', ARG_I32 1),
     (''proxy_get_status'', ARG_I32 3),
     (''proxy_done'', ARG_VOID),
     (''proxy_call_foreign_function'', ARG_I32 6),
     (''proxy_define_metric'', ARG_I32 4),
     (''proxy_increment_metric'', ARG_I32_I64),
     (''proxy_record_metric'', ARG_I32_I64),
     (''proxy_get_metric'', ARG_I32_I64)]"

text \<open>The callbacks and the table of ngx_http_wasm_api_wasmtime.h.\<close>

definition wasmtime_callbacks :: "(string \<times> arg_shape) list" where
  "wasmtime_callbacks = [(''proxy_set_effective_context'', ARG_I32 1),
     (''proxy_get_property'', ARG_I32 4),
     (''proxy_set_property'', ARG_I32 4),
     (''proxy_log'', ARG_I32 3),
     (''proxy_get_buffer_bytes'', ARG_I32 5),
     (''proxy_set_buffer_bytes'', ARG_I32 5),
     (''proxy_send_local_response'', ARG_I32 8),
     (''proxy_send_http_response'', ARG_I32 8),
     (''proxy_get_current_time_nanoseconds'', ARG_I32 1),
     (''proxy_set_tick_period_milliseconds'', ARG_I32 1),
     (''proxy_get_configuration'', ARG_I32 2),
     (''proxy_get_header_map_pairs'', ARG_I32 3),
     (''proxy_set_header_map_pairs'', ARG_I32 3),
     (''proxy_get_header_map_value'', ARG_I32 5),
     (''proxy_remove_header_map_value'', ARG_I32 3),
     (''proxy_replace_header_map_value'', ARG_I32 5),
     (''proxy_add_header_map_value'', ARG_I32 5),
     (''proxy_get_shared_data'', ARG_I32 5),
     (''proxy_set_shared_data'', ARG_I32 5),
     (''proxy_register_shared_queue'', ARG_I32 3),
     (''proxy_resolve_shared_queue'', ARG_I32 5),
     (''proxy_dequeue_shared_queue'', ARG_I32 3),
     (''proxy_enqueue_shared_queue'', ARG_I32 3),
     (''proxy_continue_request'', ARG_VOID),
     (''proxy_continue_response'', ARG_VOID),
     (''proxy_clear_route_cache'', ARG_VOID),
     (''proxy_continue_stream'', ARG_I32 1),
     (''proxy_close_stream'', ARG_I32 1),
     (''proxy_http_call'', ARG_I32 10),
     (''proxy_grpc_call'', ARG_I32 12),
     (''proxy_grpc_stream'', ARG_I32 9),
     (''proxy_grpc_send'', ARG_I32 4),
     (''proxy_grpc_cancel'', ARG_I32 1),
     (''proxy_grpc_close'', ARG_I32 1),
     (''proxy_get_status'', ARG_I32 3),
     (''proxy_done'', ARG_VOID),
     (''proxy_call_foreign_function'', ARG_I32 6),
     (''proxy_define_metric'', ARG_I32 4),
     (''proxy_increment_metric'', ARG_I32_I64),
     (''proxy_record_metric'', ARG_I32_I64),
     (''proxy_get_metric'', ARG_I32_I64)]"

definition wasmtime_host_apis :: "(string \<times> arg_shape) list" where
  "wasmtime_host_apis = [(''proxy_set_effective_context'', ARG_I32 1),
     (''proxy_get_property'', ARG_I32 4),
     (''proxy_set_property'', ARG_I32 4),
     (''proxy_log'', ARG_I32 3),
     (''proxy_get_buffer_bytes'', ARG_I32 5),
     (''proxy_set_buffer_bytes'', ARG_I32 5),
     (''proxy_send_local_response'', ARG_I32 8),
     (''proxy_send_http_response'', ARG_I32 8),
     (''proxy_get_current_time_nanoseconds'', ARG_I32 1),
     (''proxy_set_tick_period_milliseconds'', ARG_I32 1),
     (''proxy_get_configuration'', ARG_I32 2),
     (''proxy_get_header_map_pairs'', ARG_I32 3),
     (''proxy_set_header_map_pairs'', ARG_I32 3),
     (''proxy_get_header_map_value'', ARG_I32 5),
     (''proxy_remove_header_map_value'', ARG_I32 3),
     (''proxy_replace_header_map_value'', ARG_I32 5),
     (''proxy_add_header_map_value'', ARG_I32 5),
     (''proxy_get_shared_data'', ARG_I32 5),
     (''proxy_set_shared_data'', ARG_I32 5),
     (''proxy_register_shared_queue'', ARG_I32 3),
     (''proxy_resolve_shared_queue'', ARG_I32 5),
     (''proxy_dequeue_shared_queue'', ARG_I32 3),
     (''proxy_enqueue_shared_queue'', ARG_I32 3),
     (''proxy_continue_request'', ARG_VOID),
     (''proxy_continue_response'', ARG_VOID),
     (''proxy_clear_route_cache'', ARG_VOID),
     (''proxy_continue_stream'', ARG_I32 1),
     (''proxy_close_stream'', ARG_I32 1),
     (''proxy_http_call'', ARG_I32 10),
     (''proxy_grpc_call'', ARG_I32 12),
     (''proxy_grpc_stream'', ARG_I32 9),
     (''proxy_grpc_send'', ARG_I32 4),
     (''proxy_grpc_cancel'', ARG_I32 1),
     (''proxy_grpc_close'', ARG_I32 1),
     (''proxy_get_status'', ARG_I32 3),
     (''proxy_done'', ARG_VOID),
     (''proxy_call_foreign_function'', ARG_I32 6),
     (''proxy_define_metric'', ARG_I32 4),
     (''proxy_increment_metric'', ARG_I32_I64),
     (''proxy_record_metric'', ARG_I32_I64),
     (''proxy_get_metric'', ARG_I32_I64)]"

text \<open>Those of ngx_http_wasm_api_wasmedge.h.\<close>

definition wasmedge_callbacks :: "(string \<times> arg_shape) list" where
  "wasmedge_callbacks = [(''proxy_set_effective_context'', ARG_I32 1),
     (''proxy_get_property'', ARG_I32 4),
     (''proxy_set_property'', ARG_I32 4),
     (''proxy_log'', ARG_I32 3),
     (''proxy_get_buffer_bytes'', ARG_I32 5),
     (''proxy_set_buffer_bytes'', ARG_I32 5),
     (''proxy_send_local_response'', ARG_I32 8),
     (''proxy_send_http_response'', ARG_I32 8),
     (''proxy_get_current_time_nanoseconds'', ARG_I32 1),
     (''proxy_set_tick_period_milliseconds'', ARG_I32 1),
     (''proxy_get_configuration'', ARG_I32 2),
     (''proxy_get_header_map_pairs'', ARG_I32 3),
     (''proxy_set_header_map_pairs'', ARG_I32 3),
     (''proxy_get_header_map_value'', ARG_I32 5),
     (''proxy_remove_header_map_value'', ARG_I32 3),
     (''proxy_replace_header_map_value'', ARG_I32 5),
     (''proxy_add_header_map_value'', ARG_I32 5),
     (''proxy_get_shared_data'', ARG_I32 5),
     (''proxy_set_shared_data'', ARG_I32 5),
     (''proxy_register_shared_queue'', ARG_I32 3),
     (''proxy_resolve_shared_queue'', ARG_I32 5),
     (''proxy_dequeue_shared_queue'', ARG_I32 3),
     (''proxy_enqueue_shared_queue'', ARG_I32 3),
     (''proxy_continue_request'', ARG_VOID),
     (''proxy_continue_response'', ARG_VOID),
     (''proxy_clear_route_cache'', ARG_VOID),
     (''proxy_continue_stream'', ARG_I32 1),
     (''proxy_close_stream'', ARG_I32 1),
     (''proxy_http_call'', ARG_I32 10),
     (''proxy_grpc_call'', ARG_I32 12),
     (''proxy_grpc_stream'', ARG_I32 9),
     (''proxy_grpc_send'', ARG_I32 4),
     (''proxy_grpc_cancel'', ARG_I32 1),
     (''proxy_grpc_close'', ARG_I32 1),
     (''proxy_get_status'', ARG_I32 3),
     (''proxy_done'', ARG_VOID),
     (''proxy_call_foreign_function'', ARG_I32 6),
     (''proxy_define_metric'', ARG_I32 4),
     (''proxy_increment_metric'', ARG_I32_I64),
     (''proxy_record_metric'', ARG_I32_I64),
     (''proxy_get_metric'', ARG_I32_I64)]"

definition wasmedge_host_apis :: "(string \<times> arg_shape) list" where
  "wasmedge_host_apis = [(''proxy_set_effective_context'', ARG_I32 1),
     (''proxy_get_property'', ARG_I32 4),
     (''proxy_set_property'', ARG_I32 4),
     (''proxy_log'', ARG_I32 3),
     (''proxy_get_buffer_bytes'', ARG_I32 5),
     (''proxy_set_buffer_bytes'', ARG_I32 5),
     (''proxy_send_local_response'', ARG_I32 8),
     (''proxy_send_http_response'', ARG_I32 8),
     (''proxy_get_current_time_nanoseconds'', ARG_I32 1),
     (''proxy_set_tick_period_milliseconds'', ARG_I32 1),
     (''proxy_get_configuration'', ARG_I32 2),
     (''proxy_get_header_map_pairs'', ARG_I32 3),
     (''proxy_set_header_map_pairs'', ARG_I32 3),
     (''proxy_get_header_map_value'', ARG_I32 5),
     (''proxy_remove_header_map_value'', ARG_I32 3),
     (''proxy_replace_header_map_value'', ARG_I32 5),
     (''proxy_add_header_map_value'', ARG_I32 5),
     (''proxy_get_shared_data'', ARG_I32 5),
     (''proxy_set_shared_data'', ARG_I32 5),
     (''proxy_register_shared_queue'', ARG_I32 3),
     (''proxy_resolve_shared_queue'', ARG_I32 5),
     (''proxy_dequeue_shared_queue'', ARG_I32 3),
     (''proxy_enqueue_shared_queue'', ARG_I32 3),
     (''proxy_continue_request'', ARG_VOID),
     (''proxy_continue_response'', ARG_VOID),
     (''proxy_clear_route_cache'', ARG_VOID),
     (''proxy_continue_stream'', ARG_I32 1),
     (''proxy_close_stream'', ARG_I32 1),
     (''proxy_http_call'', ARG_I32 10),
     (''proxy_grpc_call'', ARG_I32 12),
     (''proxy_grpc_stream'', ARG_I32 9),
     (''proxy_grpc_send'', ARG_I32 4),
     (''proxy_grpc_cancel'', ARG_I32 1),
     (''proxy_grpc_close'', ARG_I32 1),
     (''proxy_get_status'', ARG_I32 3),
     (''proxy_done'', ARG_VOID),
     (''proxy_call_foreign_function'', ARG_I32 6),
     (''proxy_define_metric'', ARG_I32 4),
     (''proxy_increment_metric'', ARG_I32_I64),
     (''proxy_record_metric'', ARG_I32_I64),
     (''proxy_get_metric'', ARG_I32_I64)]"

text \<open>
  A call of the guest to the import \<^verbatim>\<open>name\<close> of the module \<^verbatim>\<open>env\<close>, under the selected runtime:
  the first entry of its table, with the callback of that name.
\<close>

definition callbacks :: "env \<Rightarrow> (string \<times> arg_shape) list" where
  "callbacks E = (case e_vm E of Wasmtime \<Rightarrow> wasmtime_callbacks | Wasmedge \<Rightarrow> wasmedge_callbacks)"

definition host_apis :: "env \<Rightarrow> (string \<times> arg_shape) list" where
  "host_apis E = (case e_vm E of Wasmtime \<Rightarrow> wasmtime_host_apis | Wasmedge \<Rightarrow> wasmedge_host_apis)"

definition host_call :: "env \<Rightarrow> string \<Rightarrow> wasm_val list \<Rightarrow> host \<Rightarrow> (wasm_val list \<times> host) option" where
  "host_call E name args w =
     do { _ \<leftarrow> map_of (host_apis E) name;
          shape \<leftarrow> map_of (callbacks E) name;
          api_callback E name shape args w }"

end
