(* ===== verification/VM_Load.thy ===== *)
theory VM_Load
  imports Host_Apis "HOL-Library.Multiset"
begin

text \<open>
  Loading and unloading a plugin: \<^verbatim>\<open>load\<close> and \<^verbatim>\<open>unload\<close> of src/vm/wasmtime.c and
  src/vm/wasmedge.c, with the registration of the host functions. The state is the multiset of
  objects of the runtime's library that are held. Whether a call into the library succeeds is a
  parameter of the model; a label of a chain of \<^verbatim>\<open>goto\<close>s is a function that frees what the
  code below the label frees.
\<close>

section \<open>Held objects\<close>

definition acquire :: "'r \<Rightarrow> 'r multiset \<Rightarrow> 'r multiset" where
  "acquire x h = add_mset x h"

text \<open>Freeing what is not held is undefined.\<close>

definition release :: "'r \<Rightarrow> 'r multiset \<Rightarrow> 'r multiset option" where
  "release x h = (if x \<in># h then Some (h - {#x#}) else None)"

fun release_all :: "'r list \<Rightarrow> 'r multiset \<Rightarrow> 'r multiset option" where
  "release_all [] h = Some h"
| "release_all (x # xs) h = do { h \<leftarrow> release x h; release_all xs h }"

text \<open>A failed load returns NULL.\<close>

definition load_failed :: "'r multiset option \<Rightarrow> ('p option \<times> 'r multiset) option" where
  "load_failed h = map_option (\<lambda>h. (None, h)) h"

lemma release_acquire [simp]:
  "release x (acquire y h) = (if x = y then Some h else map_option (acquire y) (release x h))"
  by (auto simp: release_def acquire_def)

lemma load_failed_simps [simp]: "load_failed (Some h) = Some (None, h)"
  by (simp add: load_failed_def)

lemma release_all_mset: "mset xs \<subseteq># h \<Longrightarrow> release_all xs h = Some (h - mset xs)"
  by (induction xs arbitrary: h) (auto simp: release_def insert_subset_eq_iff)

text \<open>The contract of a runtime: a plugin that is loaded holds its objects until it is unloaded.\<close>

locale vm_loader =
  fixes load_vm :: "'l \<Rightarrow> 'r multiset \<Rightarrow> ('p option \<times> 'r multiset) option"
    and unload_vm :: "'p \<Rightarrow> 'r multiset \<Rightarrow> 'r multiset option"
    and owns :: "'p \<Rightarrow> 'r multiset"
  assumes loads: "load_vm l h = Some (Some p, h') \<Longrightarrow> h' = h + owns p"
    and unloads: "owns p \<subseteq># h \<Longrightarrow> unload_vm p h = Some (h - owns p)"
begin

lemma unload_own: "unload_vm p (h + owns p) = Some h"
  using unloads [of p "h + owns p"] by simp

lemma unload_loaded: "load_vm l h = Some (Some p, h') \<Longrightarrow> unload_vm p h' = Some h"
  using loads unload_own by blast

end

text \<open>The type of a host function: its parameters and its results.\<close>

type_synonym functype = "valtype list \<times> valtype list"

definition host_function_types :: "(string \<times> arg_shape) list \<Rightarrow> (string \<times> functype) list" where
  "host_function_types apis = map (\<lambda>(name, shape). (name, (param_type shape, [WASM_I32]))) apis"

section \<open>wasmtime\<close>

datatype wasmtime_object =
  WtEngine | WtModule | WtStore | WtWasiConfig | WtLinker | WtFuncType | WtPlugin | WtError | WtTrap

datatype instantiate_result = InstantiateOk | InstantiateError | InstantiateTrap

text \<open>
  What the library answers: \<open>True\<close> for an object or no error. The functions of the loop answer by
  its index. \<open>wt_memory\<close> is the kind of the export \<^verbatim>\<open>memory\<close>, if there is one.
\<close>

record wasmtime_lib =
  wt_engine_new :: bool
  wt_module_new :: bool
  wt_store_new :: bool
  wt_wasi_config_new :: bool
  wt_set_wasi :: bool
  wt_linker_new :: bool
  wt_define_wasi :: bool
  wt_functype_new :: "nat \<Rightarrow> bool"
  wt_define_func :: "nat \<Rightarrow> bool"
  wt_alloc :: bool
  wt_instantiate :: instantiate_result
  wt_memory :: "extern_kind option"

text \<open>A loaded plugin, with the functions its linker provides in the module \<^verbatim>\<open>env\<close>.\<close>

record wasmtime_plugin =
  wtp_imports :: "(string \<times> functype) list"

definition ngx_http_wasmtime_host_api_func ::
  "wasmtime_lib \<Rightarrow> nat \<Rightarrow> arg_shape \<Rightarrow> wasmtime_object multiset \<Rightarrow> (functype option \<times> wasmtime_object multiset) option" where
  "ngx_http_wasmtime_host_api_func L i shape h =
     (let params = param_type shape
      in if MAX_WASM_API_ARG < length params then None
         else if wt_functype_new L i then Some (Some (params, [WASM_I32]), acquire WtFuncType h)
         else Some (None, h))"

text \<open>\<open>error\<close> is whether the error is not NULL; otherwise there is a trap.\<close>

definition ngx_wasm_wasmtime_report_error :: "bool \<Rightarrow> wasmtime_object multiset \<Rightarrow> wasmtime_object multiset option" where
  "ngx_wasm_wasmtime_report_error error h = (if error then release WtError h else release WtTrap h)"

text \<open>The loop over \<^verbatim>\<open>host_apis\<close>; \<open>False\<close> is \<^verbatim>\<open>goto free_linker\<close>.\<close>

fun wasmtime_define_apis ::
  "wasmtime_lib \<Rightarrow> nat \<Rightarrow> (string \<times> arg_shape) list \<Rightarrow> (string \<times> functype) list \<Rightarrow> wasmtime_object multiset \<Rightarrow>
   (bool \<times> (string \<times> functype) list \<times> wasmtime_object multiset) option" where
  "wasmtime_define_apis L i [] ds h = Some (True, ds, h)"
| "wasmtime_define_apis L i ((name, shape) # apis) ds h =
     do { (f, h) \<leftarrow> ngx_http_wasmtime_host_api_func L i shape h;
          (case f of
             None \<Rightarrow> Some (False, ds, h)
           | Some ty \<Rightarrow>
               if wt_define_func L i
               then do { h \<leftarrow> release WtFuncType h;
                         wasmtime_define_apis L (Suc i) apis (ds @ [(name, ty)]) h }
               else do { h \<leftarrow> release WtFuncType (acquire WtError h);
                         h \<leftarrow> ngx_wasm_wasmtime_report_error True h;
                         Some (False, ds, h) }) }"

definition wt_free_engine :: "wasmtime_object multiset \<Rightarrow> wasmtime_object multiset option" where
  "wt_free_engine h = release WtEngine h"
definition wt_free_module :: "wasmtime_object multiset \<Rightarrow> wasmtime_object multiset option" where
  "wt_free_module h = do { h \<leftarrow> release WtModule h; wt_free_engine h }"
definition wt_free_store :: "wasmtime_object multiset \<Rightarrow> wasmtime_object multiset option" where
  "wt_free_store h = do { h \<leftarrow> release WtStore h; wt_free_module h }"
definition wt_free_linker :: "wasmtime_object multiset \<Rightarrow> wasmtime_object multiset option" where
  "wt_free_linker h = do { h \<leftarrow> release WtLinker h; wt_free_store h }"
definition wt_free_plugin :: "wasmtime_object multiset \<Rightarrow> wasmtime_object multiset option" where
  "wt_free_plugin h = do { h \<leftarrow> release WtPlugin h; wt_free_linker h }"

text \<open>The call that failed left an error, which is reported before the jump.\<close>

definition wt_report_and ::
  "(wasmtime_object multiset \<Rightarrow> wasmtime_object multiset option) \<Rightarrow> wasmtime_object multiset \<Rightarrow>
   (wasmtime_plugin option \<times> wasmtime_object multiset) option" where
  "wt_report_and free h =
     do { h \<leftarrow> ngx_wasm_wasmtime_report_error True (acquire WtError h); load_failed (free h) }"

text \<open>
  The end of \<^verbatim>\<open>ngx_wasm_wasmtime_load\<close>, from the allocation of the plugin. A trap is not an error
  and is not looked at: the instance is then not written, and the lookup of \<^verbatim>\<open>memory\<close> in it is
  undefined.
\<close>

definition wasmtime_instantiate ::
  "wasmtime_lib \<Rightarrow> (string \<times> functype) list \<Rightarrow> wasmtime_object multiset \<Rightarrow>
   (wasmtime_plugin option \<times> wasmtime_object multiset) option" where
  "wasmtime_instantiate L ds h =
     (if \<not> wt_alloc L then load_failed (wt_free_linker h)
      else let h = acquire WtPlugin h
           in case wt_instantiate L of
                InstantiateError \<Rightarrow> wt_report_and wt_free_plugin h
              | InstantiateTrap \<Rightarrow> None
              | InstantiateOk \<Rightarrow>
                  if wt_memory L \<noteq> Some ExternMemory then load_failed (wt_free_plugin h)
                  else Some (Some \<lparr>wtp_imports = ds\<rparr>, h))"

text \<open>\<^verbatim>\<open>wasmtime_context_set_wasi\<close> takes the configuration over, whether it succeeds or not.\<close>

definition ngx_wasm_wasmtime_load ::
  "wasmtime_lib \<Rightarrow> wasmtime_object multiset \<Rightarrow> (wasmtime_plugin option \<times> wasmtime_object multiset) option" where
  "ngx_wasm_wasmtime_load L h =
     (if \<not> wt_engine_new L then Some (None, h)
      else let h = acquire WtEngine h
      in if \<not> wt_module_new L then wt_report_and wt_free_engine h
      else let h = acquire WtModule h
      in if \<not> wt_store_new L then load_failed (wt_free_module h)
      else let h = acquire WtStore h
      in if \<not> wt_wasi_config_new L then load_failed (wt_free_store h)
      else do {
        h \<leftarrow> release WtWasiConfig (acquire WtWasiConfig h);
        if \<not> wt_set_wasi L then wt_report_and wt_free_store h
        else if \<not> wt_linker_new L then load_failed (wt_free_store h)
        else let h = acquire WtLinker h
        in if \<not> wt_define_wasi L then wt_report_and wt_free_linker h
        else do {
          (ok, ds, h) \<leftarrow> wasmtime_define_apis L 0 wasmtime_host_apis [] h;
          if \<not> ok then load_failed (wt_free_linker h) else wasmtime_instantiate L ds h } })"

definition ngx_wasm_wasmtime_unload ::
  "wasmtime_plugin \<Rightarrow> wasmtime_object multiset \<Rightarrow> wasmtime_object multiset option" where
  "ngx_wasm_wasmtime_unload p h = release_all [WtModule, WtStore, WtLinker, WtEngine, WtPlugin] h"

text \<open>What a loaded plugin holds, and the calls before the instantiation.\<close>

definition wasmtime_owns :: "wasmtime_plugin \<Rightarrow> wasmtime_object multiset" where
  "wasmtime_owns p = {#WtPlugin, WtLinker, WtStore, WtModule, WtEngine#}"

definition wasmtime_ready :: "wasmtime_lib \<Rightarrow> bool" where
  "wasmtime_ready L \<longleftrightarrow> wt_engine_new L \<and> wt_module_new L \<and> wt_store_new L \<and> wt_wasi_config_new L \<and>
     wt_set_wasi L \<and> wt_linker_new L \<and> wt_define_wasi L \<and> wt_alloc L \<and>
     (\<forall>i < length wasmtime_host_apis. wt_functype_new L i \<and> wt_define_func L i)"

lemma wasmtime_define_apis_outcome:
  assumes "\<forall>(name, shape) \<in> set apis. length (param_type shape) \<le> MAX_WASM_API_ARG"
  shows "\<exists>ds'. wasmtime_define_apis L i apis ds h =
      Some (\<forall>j < length apis. wt_functype_new L (i + j) \<and> wt_define_func L (i + j), ds', h) \<and>
    ((\<forall>j < length apis. wt_functype_new L (i + j) \<and> wt_define_func L (i + j)) \<longrightarrow>
       ds' = ds @ host_function_types apis)"
  using assms
proof (induction apis arbitrary: i ds)
  case Nil
  then show ?case by (simp add: host_function_types_def)
next
  case (Cons a apis)
  obtain name shape where a: "a = (name, shape)" by (cases a)
  have n: "\<not> MAX_WASM_API_ARG < length (param_type shape)" using Cons.prems a by simp
  show ?case
  proof (cases "wt_functype_new L i \<and> wt_define_func L i")
    case True
    then show ?thesis
      using Cons.IH [of "Suc i" "ds @ [(name, (param_type shape, [WASM_I32]))]"] Cons.prems a n
      by (auto simp: ngx_http_wasmtime_host_api_func_def host_function_types_def All_less_Suc2)
  next
    case False
    then show ?thesis
      using a n by (auto simp: ngx_http_wasmtime_host_api_func_def ngx_wasm_wasmtime_report_error_def All_less_Suc2)
  qed
qed

lemma apis_fit:
  "\<forall>(name, shape) \<in> set wasmtime_host_apis. length (param_type shape) \<le> MAX_WASM_API_ARG"
  by (simp add: wasmtime_host_apis_def MAX_WASM_API_ARG_def)

lemmas wt_free_defs = wt_free_engine_def wt_free_module_def wt_free_store_def wt_free_linker_def
  wt_free_plugin_def wt_report_and_def ngx_wasm_wasmtime_report_error_def

lemma wasmtime_load:
  "ngx_wasm_wasmtime_load L h =
     (if wasmtime_ready L \<and> wt_instantiate L = InstantiateTrap then None
      else if wasmtime_ready L \<and> wt_instantiate L = InstantiateOk \<and> wt_memory L = Some ExternMemory
      then Some (Some \<lparr>wtp_imports = host_function_types wasmtime_host_apis\<rparr>, h + wasmtime_owns p)
      else Some (None, h))"
proof -
  let ?h = "acquire WtLinker (acquire WtStore (acquire WtModule (acquire WtEngine h)))"
  let ?apis = "\<forall>j < length wasmtime_host_apis. wt_functype_new L j \<and> wt_define_func L j"
  obtain ds where d: "wasmtime_define_apis L 0 wasmtime_host_apis [] ?h = Some (?apis, ds, ?h)"
    "?apis \<longrightarrow> ds = host_function_types wasmtime_host_apis"
    using wasmtime_define_apis_outcome [OF apis_fit, of L 0 "[]" ?h] by auto
  have owns: "h + wasmtime_owns p = acquire WtPlugin ?h"
    by (simp add: wasmtime_owns_def acquire_def)
  show ?thesis
    unfolding owns using d
    by (cases "?apis"; cases "wt_instantiate L")
      (simp_all add: ngx_wasm_wasmtime_load_def wasmtime_instantiate_def wasmtime_ready_def wt_free_defs Let_def)
qed

interpretation wasmtime_vm: vm_loader ngx_wasm_wasmtime_load ngx_wasm_wasmtime_unload wasmtime_owns
proof
  show "h' = h + wasmtime_owns p" if "ngx_wasm_wasmtime_load L h = Some (Some p, h')" for L h p h'
    using that by (simp add: wasmtime_load [where p = p] split: if_splits)
  show "ngx_wasm_wasmtime_unload p h = Some (h - wasmtime_owns p)" if "wasmtime_owns p \<subseteq># h" for p h
  proof -
    have "mset [WtModule, WtStore, WtLinker, WtEngine, WtPlugin] = wasmtime_owns p"
      by (simp add: wasmtime_owns_def add_mset_commute)
    then show ?thesis using that unfolding ngx_wasm_wasmtime_unload_def by (metis release_all_mset)
  qed
qed

text \<open>
  C10. Loading a plugin with wasmtime, in full: it succeeds when every call into the library does
  and the plugin exports a memory; then exactly the objects of the plugin are held, every host
  function of the table is linked with its type, and unloading frees exactly these objects. When
  it fails nothing stays held, wherever it failed, and nothing is freed twice. The defect is the
  start function of the plugin that traps: the trap is not looked at and the load goes on with
  an instance that was not written, which is undefined.
\<close>

theorem wasmtime_load_outcome:
  "ngx_wasm_wasmtime_load L h =
     (if wasmtime_ready L \<and> wt_instantiate L = InstantiateTrap then None
      else if wasmtime_ready L \<and> wt_instantiate L = InstantiateOk \<and> wt_memory L = Some ExternMemory
      then Some (Some \<lparr>wtp_imports = host_function_types wasmtime_host_apis\<rparr>, h + wasmtime_owns p)
      else Some (None, h)) \<and>
   ngx_wasm_wasmtime_unload p (h + wasmtime_owns p) = Some h"
  using wasmtime_load [of L h p] wasmtime_vm.unload_own [of p h] by simp

section \<open>wasmedge\<close>

datatype wasmedge_object =
  WeStore | WeLoader | WeValidator | WeExecutor | WeAst | WeString | WeImport | WeFuncType | WeFunc |
  WeImportWasi | WeModule | WePlugin

text \<open>
  \<open>we_register_wasi\<close> answers also when the instance for WASI could not be created, which the code
  does not check: it passes NULL.
\<close>

record wasmedge_lib =
  we_store_create :: bool
  we_loader_create :: bool
  we_validator_create :: bool
  we_executor_create :: bool
  we_parse :: bool
  we_validate :: bool
  we_import_create :: bool
  we_functype_create :: "nat \<Rightarrow> bool"
  we_func_create :: "nat \<Rightarrow> bool"
  we_register_import :: bool
  we_wasi_create :: bool
  we_register_wasi :: bool
  we_instantiate :: bool
  we_find_memory :: bool
  we_alloc :: bool

record wasmedge_plugin =
  wep_imports :: "(string \<times> functype) list"
  wep_import_wasi :: bool

definition ngx_http_wasmedge_host_api_func ::
  "wasmedge_lib \<Rightarrow> nat \<Rightarrow> arg_shape \<Rightarrow> wasmedge_object multiset \<Rightarrow> functype option \<times> wasmedge_object multiset" where
  "ngx_http_wasmedge_host_api_func L i shape h =
     (if we_functype_create L i then (Some (param_type shape, [WASM_I32]), acquire WeFuncType h)
      else (None, h))"

text \<open>
  The loop over \<^verbatim>\<open>host_apis\<close>; \<open>False\<close> is \<^verbatim>\<open>goto free_import\<close>. The module instance takes a
  function that is added over.
\<close>

fun wasmedge_define_apis ::
  "wasmedge_lib \<Rightarrow> nat \<Rightarrow> (string \<times> arg_shape) list \<Rightarrow> (string \<times> functype) list \<Rightarrow> wasmedge_object multiset \<Rightarrow>
   (bool \<times> (string \<times> functype) list \<times> wasmedge_object multiset) option" where
  "wasmedge_define_apis L i [] ds h = Some (True, ds, h)"
| "wasmedge_define_apis L i ((name, shape) # apis) ds h =
     (case ngx_http_wasmedge_host_api_func L i shape h of
        (None, h) \<Rightarrow> Some (False, ds, h)
      | (Some ft, h) \<Rightarrow>
          if \<not> we_func_create L i then Some (False, ds, h)
          else do {
            h \<leftarrow> release WeFunc (acquire WeString (acquire WeFunc h));
            h \<leftarrow> release WeString h;
            h \<leftarrow> release WeFuncType h;
            wasmedge_define_apis L (Suc i) apis (ds @ [(name, ft)]) h })"

definition we_free_store :: "wasmedge_object multiset \<Rightarrow> wasmedge_object multiset option" where
  "we_free_store h = release WeStore h"
definition we_free_loader :: "wasmedge_object multiset \<Rightarrow> wasmedge_object multiset option" where
  "we_free_loader h = do { h \<leftarrow> release WeLoader h; we_free_store h }"
definition we_free_validator :: "wasmedge_object multiset \<Rightarrow> wasmedge_object multiset option" where
  "we_free_validator h = do { h \<leftarrow> release WeValidator h; we_free_loader h }"
definition we_free_executor :: "wasmedge_object multiset \<Rightarrow> wasmedge_object multiset option" where
  "we_free_executor h = do { h \<leftarrow> release WeExecutor h; we_free_validator h }"
definition we_free_ast :: "wasmedge_object multiset \<Rightarrow> wasmedge_object multiset option" where
  "we_free_ast h = do { h \<leftarrow> release WeAst h; we_free_executor h }"

text \<open>\<open>wasi\<close> is whether \<^verbatim>\<open>import_wasi\<close> is not NULL.\<close>

definition we_free_import :: "bool \<Rightarrow> wasmedge_object multiset \<Rightarrow> wasmedge_object multiset option" where
  "we_free_import wasi h =
     do { h \<leftarrow> release WeImport h;
          h \<leftarrow> (if wasi then release WeImportWasi h else Some h);
          we_free_ast h }"
definition we_free_module :: "bool \<Rightarrow> wasmedge_object multiset \<Rightarrow> wasmedge_object multiset option" where
  "we_free_module wasi h = do { h \<leftarrow> release WeModule h; we_free_import wasi h }"

text \<open>The end of \<^verbatim>\<open>ngx_wasm_wasmedge_load\<close>, from the registration of the imports.\<close>

definition wasmedge_instantiate ::
  "wasmedge_lib \<Rightarrow> (string \<times> functype) list \<Rightarrow> wasmedge_object multiset \<Rightarrow>
   (wasmedge_plugin option \<times> wasmedge_object multiset) option" where
  "wasmedge_instantiate L ds h =
     (if \<not> we_register_import L then load_failed (we_free_import False h)
      else let wasi = we_wasi_create L; h = (if wasi then acquire WeImportWasi h else h)
      in if \<not> we_register_wasi L then load_failed (we_free_import wasi h)
      else if \<not> we_instantiate L then load_failed (we_free_import wasi h)
      else let h = acquire WeString (acquire WeModule h)
      in do {
        h \<leftarrow> release WeString h;
        if \<not> we_find_memory L then load_failed (we_free_module wasi h)
        else if \<not> we_alloc L then load_failed (we_free_module wasi h)
        else do {
          h \<leftarrow> release WeAst (acquire WePlugin h);
          h \<leftarrow> release WeValidator h;
          h \<leftarrow> release WeLoader h;
          Some (Some \<lparr>wep_imports = ds, wep_import_wasi = wasi\<rparr>, h) } })"

definition ngx_wasm_wasmedge_load ::
  "wasmedge_lib \<Rightarrow> wasmedge_object multiset \<Rightarrow> (wasmedge_plugin option \<times> wasmedge_object multiset) option" where
  "ngx_wasm_wasmedge_load L h =
     (if \<not> we_store_create L then Some (None, h)
      else let h = acquire WeStore h
      in if \<not> we_loader_create L then load_failed (we_free_store h)
      else let h = acquire WeLoader h
      in if \<not> we_validator_create L then load_failed (we_free_loader h)
      else let h = acquire WeValidator h
      in if \<not> we_executor_create L then load_failed (we_free_validator h)
      else let h = acquire WeExecutor h
      in if \<not> we_parse L then load_failed (we_free_executor h)
      else let h = acquire WeAst h
      in if \<not> we_validate L then load_failed (we_free_ast h)
      else let h = acquire WeString h; import = we_import_create L; h = (if import then acquire WeImport h else h)
      in do {
        h \<leftarrow> release WeString h;
        if \<not> import then load_failed (we_free_ast h)
        else do {
          (ok, ds, h) \<leftarrow> wasmedge_define_apis L 0 wasmedge_host_apis [] h;
          if \<not> ok then load_failed (we_free_import False h) else wasmedge_instantiate L ds h } })"

text \<open>Deleting a NULL \<^verbatim>\<open>import_wasi\<close> does nothing.\<close>

definition ngx_wasm_wasmedge_unload ::
  "wasmedge_plugin \<Rightarrow> wasmedge_object multiset \<Rightarrow> wasmedge_object multiset option" where
  "ngx_wasm_wasmedge_unload p h =
     release_all ([WeModule, WeExecutor, WeStore, WeImport] @
       (if wep_import_wasi p then [WeImportWasi] else []) @ [WePlugin]) h"

definition wasmedge_owns :: "wasmedge_plugin \<Rightarrow> wasmedge_object multiset" where
  "wasmedge_owns p = {#WePlugin, WeModule, WeImport, WeExecutor, WeStore#} +
     (if wep_import_wasi p then {#WeImportWasi#} else {#})"

definition wasmedge_created :: "wasmedge_lib \<Rightarrow> bool" where
  "wasmedge_created L \<longleftrightarrow> we_store_create L \<and> we_loader_create L \<and> we_validator_create L \<and>
     we_executor_create L \<and> we_parse L \<and> we_validate L \<and> we_import_create L"

definition wasmedge_ready :: "wasmedge_lib \<Rightarrow> bool" where
  "wasmedge_ready L \<longleftrightarrow> wasmedge_created L \<and>
     (\<forall>i < length wasmedge_host_apis. we_functype_create L i \<and> we_func_create L i) \<and>
     we_register_import L \<and> we_register_wasi L \<and> we_instantiate L \<and> we_find_memory L \<and> we_alloc L"

text \<open>A function is the first that cannot be created, after its type.\<close>

fun functype_leaks :: "wasmedge_lib \<Rightarrow> nat \<Rightarrow> nat \<Rightarrow> bool" where
  "functype_leaks L i 0 = False"
| "functype_leaks L i (Suc n) =
     (we_functype_create L i \<and> (if we_func_create L i then functype_leaks L (Suc i) n else True))"

lemma wasmedge_define_apis_outcome:
  "\<exists>ds'. wasmedge_define_apis L i apis ds h =
      Some (\<forall>j < length apis. we_functype_create L (i + j) \<and> we_func_create L (i + j), ds',
        if functype_leaks L i (length apis) then acquire WeFuncType h else h) \<and>
    ((\<forall>j < length apis. we_functype_create L (i + j) \<and> we_func_create L (i + j)) \<longrightarrow>
       ds' = ds @ host_function_types apis \<and> \<not> functype_leaks L i (length apis))"
proof (induction apis arbitrary: i ds)
  case Nil
  then show ?case by (simp add: host_function_types_def)
next
  case (Cons a apis)
  obtain name shape where a: "a = (name, shape)" by (cases a)
  show ?case
    using Cons.IH [of "Suc i" "ds @ [(name, (param_type shape, [WASM_I32]))]"] a
    by (cases "we_functype_create L i"; cases "we_func_create L i")
      (auto simp: ngx_http_wasmedge_host_api_func_def host_function_types_def All_less_Suc2)
qed

lemmas we_free_defs = we_free_store_def we_free_loader_def we_free_validator_def we_free_executor_def
  we_free_ast_def we_free_import_def we_free_module_def

definition wasmedge_loaded :: "wasmedge_lib \<Rightarrow> wasmedge_plugin" where
  "wasmedge_loaded L = \<lparr>wep_imports = host_function_types wasmtime_host_apis, wep_import_wasi = we_wasi_create L\<rparr>"

lemma wasmedge_load:
  "ngx_wasm_wasmedge_load L h =
     Some (if wasmedge_ready L then (Some (wasmedge_loaded L), h + wasmedge_owns (wasmedge_loaded L))
           else (None, if wasmedge_created L \<and> functype_leaks L 0 (length wasmedge_host_apis)
                       then h + {#WeFuncType#} else h))"
proof -
  let ?h = "acquire WeImport (acquire WeAst (acquire WeExecutor (acquire WeValidator (acquire WeLoader (acquire WeStore h)))))"
  let ?apis = "\<forall>j < length wasmedge_host_apis. we_functype_create L j \<and> we_func_create L j"
  let ?leak = "functype_leaks L 0 (length wasmedge_host_apis)"
  obtain ds where d: "wasmedge_define_apis L 0 wasmedge_host_apis [] ?h =
      Some (?apis, ds, if ?leak then acquire WeFuncType ?h else ?h)"
    "?apis \<longrightarrow> ds = host_function_types wasmedge_host_apis \<and> \<not> ?leak"
    using wasmedge_define_apis_outcome [of L 0 wasmedge_host_apis "[]" ?h] by auto
  have same: "wasmedge_host_apis = wasmtime_host_apis"
    unfolding wasmedge_host_apis_def wasmtime_host_apis_def ..
  have leak: "h + {#WeFuncType#} = acquire WeFuncType h" by (simp add: acquire_def)
  have owns: "h + wasmedge_owns (wasmedge_loaded L) = acquire WePlugin (acquire WeModule
      (let h = acquire WeImport (acquire WeExecutor (acquire WeStore h)) in if we_wasi_create L then acquire WeImportWasi h else h))"
    by (simp add: wasmedge_owns_def acquire_def add_mset_commute wasmedge_loaded_def)
  show ?thesis
  proof -
    define ok where "ok = ?apis"
    show ?thesis
      unfolding owns leak wasmedge_ready_def ok_def [symmetric] using d [folded ok_def]
      by (cases ok; cases "we_wasi_create L"; cases ?leak)
        (simp_all add: ngx_wasm_wasmedge_load_def wasmedge_instantiate_def wasmedge_created_def
          we_free_defs Let_def same wasmedge_loaded_def)
  qed
qed

interpretation wasmedge_vm: vm_loader ngx_wasm_wasmedge_load ngx_wasm_wasmedge_unload wasmedge_owns
proof
  show "h' = h + wasmedge_owns p" if "ngx_wasm_wasmedge_load L h = Some (Some p, h')" for L h p h'
    using that by (auto simp: wasmedge_load split: if_splits)
  show "ngx_wasm_wasmedge_unload p h = Some (h - wasmedge_owns p)" if "wasmedge_owns p \<subseteq># h" for p h
  proof -
    have "mset ([WeModule, WeExecutor, WeStore, WeImport] @
        (if wep_import_wasi p then [WeImportWasi] else []) @ [WePlugin]) = wasmedge_owns p"
      by (simp add: wasmedge_owns_def add_mset_commute)
    then show ?thesis using that unfolding ngx_wasm_wasmedge_unload_def by (metis release_all_mset)
  qed
qed

text \<open>
  C24. Loading a plugin with wasmedge, in full: it succeeds exactly when every call does, with the
  same functions linked as with wasmtime; then exactly the objects of the plugin are held, and
  unloading frees them. When it fails nothing stays held but for one defect: when a host function
  cannot be created its type, created just before, is not freed.
\<close>

theorem wasmedge_load_outcome:
  "ngx_wasm_wasmedge_load L h =
     Some (if wasmedge_ready L then (Some (wasmedge_loaded L), h + wasmedge_owns (wasmedge_loaded L))
           else (None, if wasmedge_created L \<and> functype_leaks L 0 (length wasmedge_host_apis)
                       then h + {#WeFuncType#} else h)) \<and>
   ngx_wasm_wasmedge_unload p (h + wasmedge_owns p) = Some h"
  using wasmedge_load [of L h] wasmedge_vm.unload_own [of p h] by simp

section \<open>A library in which every call succeeds\<close>

definition good_wasmtime :: wasmtime_lib where
  "good_wasmtime = \<lparr>wt_engine_new = True, wt_module_new = True, wt_store_new = True, wt_wasi_config_new = True,
     wt_set_wasi = True, wt_linker_new = True, wt_define_wasi = True, wt_functype_new = \<lambda>_. True,
     wt_define_func = \<lambda>_. True, wt_alloc = True, wt_instantiate = InstantiateOk, wt_memory = Some ExternMemory\<rparr>"

definition good_wasmedge :: wasmedge_lib where
  "good_wasmedge = \<lparr>we_store_create = True, we_loader_create = True, we_validator_create = True,
     we_executor_create = True, we_parse = True, we_validate = True, we_import_create = True,
     we_functype_create = \<lambda>_. True, we_func_create = \<lambda>_. True, we_register_import = True,
     we_wasi_create = True, we_register_wasi = True, we_instantiate = True, we_find_memory = True, we_alloc = True\<rparr>"

end
