(* ===== verification/Runtimes.thy ===== *)
theory Runtimes
  imports VM_Load
begin

text \<open>
  The two runtimes are interchangeable: what the module and the guest see of wasmtime and of
  wasmedge is the same, on the domain where both are defined.
\<close>

lemma pointers_agree:
  assumes "wasmedge_pointer_documented E" "length m < 2 ^ 31" "0 \<le> sint addr" "0 \<le> sint sz"
  shows "wasmtime_pointer m addr sz = e_we_pointer E m addr sz"
proof -
  have "wasm32_mem m" using assms(2) by (simp add: wasm32_mem_def)
  then show ?thesis
    using assms by (auto simp: wasmtime_pointer_nonneg wasmedge_pointer_documented_def uint_eq_sint_i32 unat_eq_sint_i32)
qed

text \<open>
  C14. A plugin behaves the same under both runtimes: a function is found by one exactly when it
  is by the other, a call of an exported function with i32 results gives the same result and the
  same host state, an address and a size that are not negative give the same pointer into a
  memory below 2 GiB, and the plugin is linked with the same host functions, of the same types
  and with the same callbacks. (For another kind of export, or a negative address, they differ.)
\<close>

theorem runtimes_agree:
  assumes lib: "wasmedge_pointer_documented E" "\<And>x. e_we_get_i32 E (I32 x) = x"
    and export: "e_export E pl name = None \<or> e_export E pl name = Some ExternFunc"
    and typed: "\<And>args w v. fst (e_invoke E pl name args True w) = InvokeOk v \<Longrightarrow> \<exists>x. v = I32 x"
    and mem: "\<And>q. length (h_mem w q) < 2 ^ 31" "0 \<le> sint addr" "0 \<le> sint sz"
    and loaded: "ngx_wasm_wasmtime_load L h = Some (Some p, h1)" "ngx_wasm_wasmedge_load L' h' = Some (Some p', h1')"
  shows "let A = E\<lparr>e_vm := Wasmtime\<rparr>; B = E\<lparr>e_vm := Wasmedge\<rparr> in
    vm_has A pl name = vm_has B pl name \<and>
    vm_call A (Some pl) name hr pt args w = vm_call B (Some pl) name hr pt args w \<and>
    vm_get_memory A addr sz w = vm_get_memory B addr sz w \<and>
    wtp_imports p = wep_imports p' \<and> callbacks A = callbacks B"
proof -
  let ?A = "E\<lparr>e_vm := Wasmtime\<rparr>" and ?B = "E\<lparr>e_vm := Wasmedge\<rparr>"
  have "vm_has ?A pl name = vm_has ?B pl name"
    using export by (auto simp: vm_has_def ngx_wasm_wasmtime_has_def ngx_wasm_wasmedge_has_def)
  moreover have "vm_call ?A (Some pl) name hr pt args w = vm_call ?B (Some pl) name hr pt args w"
  proof (cases "e_export E pl name = Some ExternFunc")
    case True
    show ?thesis
    proof (cases hr)
      case hr: True
      let ?w = "w\<lparr>h_cur_plugin := Some pl\<rparr>"
      obtain res w' where i: "e_invoke E pl name (take (pt - 1) args) hr ?w = (res, w')" by (rule prod.exhaust)
      have "res = InvokeError \<or> (\<exists>x. res = InvokeOk (I32 x))"
        using typed [of "take (pt - 1) args" ?w] i hr by (cases res) auto
      then show ?thesis
        using True i lib(2) hr
        by (auto simp: vm_call_def ngx_wasm_wasmtime_call_def ngx_wasm_wasmedge_call_def select_plugin_def
            ngx_wasm_wasmedge_has_def param_num_def split: option.splits)
    qed (use True in \<open>auto simp: vm_call_def ngx_wasm_wasmtime_call_def ngx_wasm_wasmedge_call_def select_plugin_def
            ngx_wasm_wasmedge_has_def split: option.splits prod.splits invoke_result.splits\<close>)
  qed (use export in \<open>auto simp: vm_call_def ngx_wasm_wasmtime_call_def ngx_wasm_wasmedge_call_def select_plugin_def
            ngx_wasm_wasmedge_has_def\<close>)
  moreover have "vm_get_memory ?A addr sz w = vm_get_memory ?B addr sz w"
    using pointers_agree [OF lib(1) mem(1-3)]
    by (simp add: vm_get_memory_def ngx_wasm_wasmtime_get_memory_def ngx_wasm_wasmedge_get_memory_def)
  moreover have "wtp_imports p = wep_imports p'"
    using loaded by (auto simp: wasmtime_load [where p = p] wasmedge_load wasmedge_loaded_def split: if_splits)
  moreover have "callbacks ?A = callbacks ?B"
    by (simp add: callbacks_def wasmtime_callbacks_def wasmedge_callbacks_def)
  ultimately show ?thesis by (simp add: Let_def)
qed

lemma good_loads:
  "ngx_wasm_wasmtime_load good_wasmtime h =
     Some (Some \<lparr>wtp_imports = host_function_types wasmtime_host_apis\<rparr>, h + wasmtime_owns p)"
  "ngx_wasm_wasmedge_load good_wasmedge h' =
     Some (Some (wasmedge_loaded good_wasmedge), h' + wasmedge_owns (wasmedge_loaded good_wasmedge))"
  by (simp_all add: wasmtime_load [where p = p] wasmedge_load)
    (simp_all add: good_wasmtime_def wasmtime_ready_def good_wasmedge_def wasmedge_ready_def wasmedge_created_def)

theorem runtimes_agree_witness:
  "vm_call (sample_env\<lparr>e_vm := Wasmtime\<rparr>) (Some 0) ''f'' True 2 [5] running_host =
     vm_call (sample_env\<lparr>e_vm := Wasmedge\<rparr>) (Some 0) ''f'' True 2 [5] running_host"
proof -
  let ?p = "\<lparr>wtp_imports = []\<rparr>"
  have "wasmedge_pointer_documented sample_env" "\<And>x. e_we_get_i32 sample_env (I32 x) = x"
    "e_export sample_env 0 ''f'' = Some ExternFunc"
    "\<And>args w v. fst (e_invoke sample_env 0 ''f'' args True w) = InvokeOk v \<Longrightarrow> \<exists>x. v = I32 x"
    by (simp_all add: wasmedge_pointer_documented_def sample_env_def)
  from runtimes_agree [OF this(1,2) _ this(4) _ _ _ good_loads(1) [where p = ?p] good_loads(2), where w = running_host and
      addr = 0 and sz = 0 and hr = True and pt = 2 and args = "[5]"]
    this(3)
  show ?thesis by (simp add: running_host_simps Let_def)
qed

end
