(* ===== verification/Module_Steps.thy ===== *)
theory Module_Steps
  imports Contexts_Ops Sample_Env
begin

text \<open>
  The calls that nginx and the Lua library make into ngx_http_wasm_module.c as a step relation,
  and the properties of every reachable state.
\<close>

section \<open>The module as a state machine\<close>

text \<open>
  The calls lib/resty/proxy-wasm.lua and nginx make, with what they respect: a plugin is
  unloaded once and not configured afterwards, a plugin context is deleted once and not used
  for a request afterwards, and a request ends after the clean-up of its module context.
  Everything else that
  happens (requests arriving, host functions, guest code) only changes \<open>m_host\<close>.
\<close>

inductive mod_step :: "env \<Rightarrow> mstate \<Rightarrow> mstate \<Rightarrow> bool" for E where
 step_init: "mod_step E s (s\<lparr>m_vm_inited := True\<rparr>)"
| step_load: "ngx_http_wasm_load_plugin E load_ok name s = Some (res, s') \<Longrightarrow> mod_step E s s'"
| step_unload: "m_plugins s hw = Some p \<Longrightarrow> \<not> pl_done p \<Longrightarrow>
    ngx_http_wasm_unload_plugin hw s = Some s' \<Longrightarrow> mod_step E s s'"
| step_configure: "m_plugins s hw = Some p \<Longrightarrow> \<not> pl_done p \<Longrightarrow>
    ngx_http_wasm_on_configure E hw conf s = Some (cfg, s') \<Longrightarrow> mod_step E s s'"
| step_delete: "m_plugins s hw = Some p \<Longrightarrow> px \<in> set (pl_occupied p) \<Longrightarrow> m_pctxs s px = Some x \<Longrightarrow>
    \<not> px_done x \<Longrightarrow> ngx_http_wasm_delete_plugin_ctx E px s = Some s' \<Longrightarrow> mod_step E s s'"
| step_fetch: "m_plugins s hw = Some p \<Longrightarrow> px \<in> set (pl_occupied p) \<Longrightarrow> m_pctxs s px = Some x \<Longrightarrow>
    \<not> px_done x \<Longrightarrow> h_requests (m_host s) r = Some rq \<Longrightarrow>
    ngx_http_wasm_fetch_http_ctx E px r s = Some (ctx, s') \<Longrightarrow> mod_step E s s'"
| step_cleanup: "ngx_http_wasm_cleanup E ctx s = Some s' \<Longrightarrow> mod_step E s (end_request ctx s')"
| step_other: "mod_step E s (s\<lparr>m_host := w\<rparr>)"

inductive reachable :: "env \<Rightarrow> mstate \<Rightarrow> mstate \<Rightarrow> bool" for E where
  reach_refl: "reachable E s s"
| reach_step: "reachable E s s' \<Longrightarrow> mod_step E s' s'' \<Longrightarrow> reachable E s s''"

definition initial :: "host \<Rightarrow> mstate" where
  "initial w = \<lparr>m_vm_inited = False, m_live = (\<lambda>_. False), m_plugins = (\<lambda>_. None),
     m_pctxs = (\<lambda>_. None), m_hctxs = (\<lambda>_. None), m_req_ctxs = (\<lambda>_. None), m_next = 0, m_host = w\<rparr>"

text \<open>The environments considered: hooks are functions, guest code keeps its frame, and the
  one allocation the code does not check (\<^verbatim>\<open>ngx_array_push\<close> of a pointer) succeeds.\<close>

definition env_ok :: "env \<Rightarrow> bool" where
  "env_ok E \<longleftrightarrow> hook_exports E \<and> guest_frame E \<and> (\<forall>k. \<not> e_oom E k sizeof_pointer)"

definition module_ok :: "mstate \<Rightarrow> bool" where
  "module_ok s \<longleftrightarrow> wf_core {} {} (m_req_ctxs s) s \<and> quiet {} {} s"

lemma env_okD: "env_ok E \<Longrightarrow> hook_exports E" "env_ok E \<Longrightarrow> guest_frame E" "env_ok E \<Longrightarrow> \<not> e_oom E k sizeof_pointer"
  by (simp_all add: env_ok_def)

lemma module_okD: "module_ok s \<Longrightarrow> wf_core {} {} (m_req_ctxs s) s" "module_ok s \<Longrightarrow> quiet {} {} s"
  by (simp_all add: module_ok_def)

lemma module_ok_initial: "module_ok (initial w)"
  by (simp add: module_ok_def initial_def wf_defs quiet_def disjoint_reqs_def)

lemma mod_step_ok:
  assumes E: "env_ok E" and ok: "module_ok s" and step: "mod_step E s s'"
  shows "module_ok s'"
proof -
  note h = env_okD(1,2) [OF E] and wf = module_okD(1) [OF ok] and q = module_okD(2) [OF ok]
  from step show ?thesis
  proof (cases rule: mod_step.cases)
    case step_init
    have "wf_core {} {} (m_req_ctxs s) s'" by (rule wf_core_ext [OF wf]) (use step_init in simp_all)
    moreover have "quiet {} {} s'" by (rule quiet_ext [OF q]) (use step_init in simp_all)
    ultimately show ?thesis using step_init by (simp add: module_ok_def)
  next
    case (step_load load_ok name res)
    show ?thesis
      by (rule load_plugin_ok [OF h wf q, of load_ok name]) (use step_load in \<open>auto simp: module_ok_def\<close>)
  next
    case (step_unload hw p)
    show ?thesis
      by (rule unload_plugin_ok [OF wf q step_unload(1)]) (use step_unload in \<open>auto simp: module_ok_def\<close>)
  next
    case (step_configure hw p conf cfg)
    show ?thesis
      by (rule on_configure_ok [OF h wf q step_configure(1,2), of conf]) (use step_configure in \<open>auto simp: module_ok_def\<close>)
  next
    case (step_delete hw p px x)
    have "quiet {} {px} s" by (rule quiet_mono [OF q]) simp_all
    then show ?thesis
      by (rule delete_plugin_ctx_ok [OF h wf _ step_delete(3)]) (use step_delete in \<open>auto simp: module_ok_def\<close>)
  next
    case (step_fetch hw p px x r rq ctx)
    have "px_pool x" by (rule quietD(2) [OF q step_fetch(1,2)]) (use step_fetch in simp_all)
    then show ?thesis
      by (rule fetch_http_ctx_ok [OF h wf q step_fetch(3) _ step_fetch(5) env_okD(3) [OF E]])
        (use step_fetch in \<open>auto simp: module_ok_def\<close>)
  next
    case (step_cleanup ctx t)
    show ?thesis
      by (rule cleanup_ok [OF h wf q, of ctx]) (use step_cleanup in \<open>auto simp: module_ok_def\<close>)
  next
    case (step_other w)
    then show ?thesis using wf q by (simp add: module_ok_def)
  qed
qed

lemma reachable_ok:
  "reachable E s s' \<Longrightarrow> env_ok E \<Longrightarrow> module_ok s \<Longrightarrow> module_ok s'"
  by (induction rule: reachable.induct) (auto intro: mod_step_ok)

lemma find_http_ctx_unique:
  assumes "distinct (map (hctx_owner s) hcs)" "hc \<in> set hcs" "hctx_owner s hc = Some px"
    and "\<And>k. k \<in> set hcs \<Longrightarrow> occ_hctx s k"
  shows "find_http_ctx px hcs s = Some (Some hc)"
proof (rule find_http_ctx_ok [of hcs s px])
  fix k assume k: "find_http_ctx px hcs s = Some (Some k)" "k \<in> set hcs" "hctx_owner s k = Some px"
  have "k = hc" using assms(1) k(2,3) assms(2,3) by (metis distinct_map inj_onD)
  with k(1) show ?thesis by simp
next
  assume "Some px \<notin> hctx_owner s ` set hcs"
  with assms(2,3) show ?thesis by force
qed (use assms(4) in blast)

lemma load_plugin_result:
  assumes "ngx_http_wasm_load_plugin E load_ok name s = Some (Some hw, s')"
  shows "\<exists>p. m_plugins s' hw = Some p \<and> pl_name p = name \<and> pl_occupied p = [] \<and> pl_free p = [] \<and>
    pl_cur_ctx_id p = 0 \<and> m_live s' (pl_plugin p) \<and>
    pl_abi_version p = find_abi_version E (pl_plugin p) 0 abi_versions PROXY_WASM_ABI_VER_MAX"
proof -
  have created: "\<exists>p. m_plugins s2 hw = Some p \<and> pl_name p = name \<and> pl_occupied p = [] \<and> pl_free p = [] \<and>
      pl_cur_ctx_id p = 0 \<and> m_live s2 (pl_plugin p) \<and>
      pl_abi_version p = find_abi_version E (pl_plugin p) 0 abi_versions PROXY_WASM_ABI_VER_MAX"
    if "create_plugin E i name s1 = (Some hw, s2)" "m_live s1 i" for i s1 s2
    using that by (auto simp: create_plugin_def m_alloc_def Let_def split: prod.splits bool.splits)
  have started: "m_live s2 = m_live s1" if "start_plugin E i s1 = Some (rc, s2)" for i rc s1 s2
    using that by (auto simp: start_plugin_def m_call_def bind_eq_Some_conv split: if_splits)
  from assms show ?thesis
    by (auto simp: ngx_http_wasm_load_plugin_def Let_def bind_eq_Some_conv
        split: if_splits prod.splits option.splits intro!: created dest: started)
qed

section \<open>Properties\<close>

text \<open>
  C1. The invariant of ngx_http_wasm_module.c. In every state the calls of the Lua library and
  of nginx can reach, the occupied and free queues of a plugin are disjoint and hold exactly
  its contexts, those of a plugin context exactly its HTTP contexts, a context in a free queue
  has no pool, two plugins never share a VM instance, the array of a request's module context
  holds HTTP contexts in use, at most one of a plugin context and none of another array; and what
  is marked done is still in use.
\<close>

theorem module_invariant:
  assumes "env_ok E" "reachable E (initial w) s"
  shows "module_ok s"
  by (rule reachable_ok [OF assms(2,1) module_ok_initial])

text \<open>
  C2. The structs of plugins, plugin contexts and HTTP contexts are used safely: in every
  reachable state, loading, unloading, configuring, deleting a plugin context, fetching an HTTP
  context and the clean-up of a request are defined, that is, none of the six follows a freed
  plugin, plugin context or HTTP context struct, removes an element from a queue it is not in,
  or calls into an unloaded VM instance. The guest code is a total function here; what the host
  functions it calls do with a state record that is gone is not covered (C28 shows how one
  comes to dangle).
\<close>

theorem module_memory_safe:
  assumes "env_ok E" "reachable E (initial w) s"
  shows "ngx_http_wasm_load_plugin E load_ok name s \<noteq> None \<and>
    (\<forall>hw p. m_plugins s hw = Some p \<and> \<not> pl_done p \<longrightarrow>
       ngx_http_wasm_unload_plugin hw s \<noteq> None \<and> ngx_http_wasm_on_configure E hw conf s \<noteq> None) \<and>
    (\<forall>hw p px. m_plugins s hw = Some p \<and> px \<in> set (pl_occupied p) \<longrightarrow>
       ngx_http_wasm_delete_plugin_ctx E px s \<noteq> None \<and>
       (h_requests (m_host s) r \<noteq> None \<longrightarrow> ngx_http_wasm_fetch_http_ctx E px r s \<noteq> None)) \<and>
    ngx_http_wasm_cleanup E ctx s \<noteq> None"
proof -
  note h = env_okD(1,2) [OF assms(1)]
  have ok: "module_ok s" by (rule reachable_ok [OF assms(2,1) module_ok_initial])
  note wf = module_okD(1) [OF ok] and q = module_okD(2) [OF ok]
  have "ngx_http_wasm_load_plugin E load_ok name s \<noteq> None"
    by (rule load_plugin_ok [OF h wf q, of load_ok name]) simp
  moreover have "ngx_http_wasm_unload_plugin hw s \<noteq> None"
    "ngx_http_wasm_on_configure E hw conf s \<noteq> None" if "m_plugins s hw = Some p" "\<not> pl_done p" for hw p
    by (rule unload_plugin_ok [OF wf q that(1)], simp, rule on_configure_ok [OF h wf q that, of conf], simp)
  moreover have "ngx_http_wasm_delete_plugin_ctx E px s \<noteq> None \<and>
      (h_requests (m_host s) r \<noteq> None \<longrightarrow> ngx_http_wasm_fetch_http_ctx E px r s \<noteq> None)"
    if px: "m_plugins s hw = Some p" "px \<in> set (pl_occupied p)" for hw p px
  proof -
    have "px \<in> pctx_set {} s hw" using wf_pluginD(2) [OF wf px(1)] px(2) by blast
    then obtain x where x: "m_pctxs s px = Some x" by (auto simp: pctx_set_def)
    have pool: "px_pool x" by (rule quietD(2) [OF q px _ x]) simp
    have "quiet {} {px} s" by (rule quiet_mono [OF q]) simp_all
    then have "ngx_http_wasm_delete_plugin_ctx E px s \<noteq> None"
      by (rule delete_plugin_ctx_ok [OF h wf _ x]) simp
    moreover have "ngx_http_wasm_fetch_http_ctx E px r s \<noteq> None"
      if "h_requests (m_host s) r = Some rq" for rq
      by (rule fetch_http_ctx_ok [OF h wf q x pool that env_okD(3) [OF assms(1)]]) simp
    ultimately show ?thesis by auto
  qed
  moreover have "ngx_http_wasm_cleanup E ctx s \<noteq> None" by (rule cleanup_ok [OF h wf q, of ctx]) simp
  ultimately show ?thesis by blast
qed

text \<open>
  C37. \<^verbatim>\<open>ngx_http_wasm_unload_plugin\<close>: a plugin without a context in use is freed at once, with
  its VM instance and its state record; otherwise it is only marked done.
\<close>

theorem unload_plugin_outcome:
  assumes "env_ok E" "reachable E (initial w) s" "m_plugins s hw = Some p"
  shows "\<exists>s'. ngx_http_wasm_unload_plugin hw s = Some s' \<and>
    (if pl_occupied p = []
     then m_plugins s' hw = None \<and> \<not> m_live s' (pl_plugin p) \<and> h_states (m_host s') (pl_state p) = None
     else s' = set_plugin hw (p\<lparr>pl_done := True\<rparr>) s)"
proof -
  have ok: "module_ok s" by (rule reachable_ok [OF assms(2,1) module_ok_initial])
  show ?thesis
    by (rule unload_plugin_ok [OF module_okD(1) [OF ok] module_okD(2) [OF ok] assms(3)]) auto
qed

text \<open>
  C15. \<^verbatim>\<open>ngx_http_wasm_delete_plugin_ctx\<close>: a context some request still uses is only marked
  done. Otherwise its pool is destroyed and it goes to the head of the plugin's free queue;
  if it was the last context of a plugin that is done, the plugin and its VM instance are freed.
\<close>

theorem delete_plugin_ctx_outcome:
  assumes "env_ok E" "reachable E (initial w) s" "m_pctxs s px = Some x"
    "m_plugins s (px_hw_plugin x) = Some p" "px \<in> set (pl_occupied p)"
  shows "\<exists>s'. ngx_http_wasm_delete_plugin_ctx E px s = Some s' \<and>
    (if px_occupied x \<noteq> [] then s' = set_pctx px (x\<lparr>px_done := True\<rparr>) s
     else if pl_done p \<and> pl_occupied p = [px]
     then m_plugins s' (px_hw_plugin x) = None \<and> m_pctxs s' px = None \<and> \<not> m_live s' (pl_plugin p)
     else m_plugins s' (px_hw_plugin x) = Some (p\<lparr>pl_occupied := remove1 px (pl_occupied p),
            pl_free := px # pl_free p\<rparr>) \<and>
          m_pctxs s' px = Some (x\<lparr>px_pool := False, px_occupied := [], px_free := [], px_done := True\<rparr>) \<and>
          m_live s' (pl_plugin p))"
proof -
  have ok: "module_ok s" by (rule reachable_ok [OF assms(2,1) module_ok_initial])
  note wf = module_okD(1) [OF ok] and q = module_okD(2) [OF ok]
  have "quiet {} {px} s" by (rule quiet_mono [OF q]) simp_all
  then obtain s' where s': "ngx_http_wasm_delete_plugin_ctx E px s = Some s'"
    "px_occupied x \<noteq> [] \<longrightarrow> s' = set_pctx px (x\<lparr>px_done := True\<rparr>) s"
    "\<forall>p. m_plugins s (px_hw_plugin x) = Some p \<longrightarrow> px_occupied x = [] \<longrightarrow>
       pctx_ended s s' px (x\<lparr>px_done := True\<rparr>) p"
    by (rule delete_plugin_ctx_ok [OF env_okD(1,2) [OF assms(1)] wf _ assms(3)])
  note d = wf_pluginD(1) [OF wf assms(4)]
  have "px \<notin> set (pl_free p)" using d assms(5) by auto
  moreover have "remove1 px (pl_occupied p) = [] \<longleftrightarrow> pl_occupied p = [px]"
    using assms(5) by (cases "pl_occupied p") auto
  ultimately show ?thesis
    using s' assms(4) by (intro exI [of _ s']) (auto simp: pctx_ended_def remove1_idem)
qed

text \<open>
  C25. A plugin context has one HTTP context per request: once \<^verbatim>\<open>ngx_http_wasm_fetch_http_ctx\<close>
  has returned a context for a request, fetching again returns the same one, without a call
  into the guest, an allocation or any change of state, as long as the request has the module
  context it had (nothing in the module or the host functions replaces one).
\<close>

theorem fetch_http_ctx_idempotent:
  assumes "env_ok E" "reachable E (initial w) s" "m_plugins s hw = Some p" "px \<in> set (pl_occupied p)"
    and fetch: "ngx_http_wasm_fetch_http_ctx E px r s = Some (Some hc, s')"
    and r: "h_requests (m_host s) r = Some rq" "h_requests (m_host s') r = Some rq'" "rq_ctx rq' = Some c"
    and same: "m_get_module_ctx E r s = Some (Some (wc_addr c), s0)"
  shows "ngx_http_wasm_fetch_http_ctx E px r s' = Some (Some hc, s')"
proof -
  have ok: "module_ok s" by (rule reachable_ok [OF assms(2,1) module_ok_initial])
  note wf = module_okD(1) [OF ok] and q = module_okD(2) [OF ok]
  have "px \<in> pctx_set {} s hw" using wf_pluginD(2) [OF wf assms(3)] assms(4) by blast
  then obtain x where x: "m_pctxs s px = Some x" by (auto simp: pctx_set_def)
  have pool: "px_pool x" by (rule quietD(2) [OF q assms(3,4) _ x]) simp
  obtain hcs where wf': "wf_core {} {} (m_req_ctxs s') s'" and hc: "hctx_owner s' hc = Some px"
    "m_req_ctxs s' (wc_addr c) = Some hcs" "hc \<in> set hcs"
    by (rule fetch_http_ctx_ok [OF env_okD(1,2) [OF assms(1)] wf q x pool r(1) env_okD(3) [OF assms(1)]])
      (use fetch same in auto)
  have "distinct (map (hctx_owner s') hcs)"
    using wf_coreD(7) [OF wf'] hc(2) unfolding wf_reqs_def by blast
  then have "find_http_ctx px hcs s' = Some (Some hc)"
    using hc wf_reqD(1) [OF wf' hc(2)] by (intro find_http_ctx_unique) auto
  then show ?thesis
    using r(2,3) hc(2)
    by (simp add: ngx_http_wasm_fetch_http_ctx_def m_get_module_ctx_def ngx_http_wasm_get_module_ctx_def
        request_ctx_def Let_def)
qed

text \<open>
  C38. The ABI version of a loaded plugin is the last of the three known versions it exports,
  and \<^verbatim>\<open>PROXY_WASM_ABI_VER_MAX\<close> if it exports none; the new plugin has no contexts and its
  instance is live.
\<close>

theorem load_plugin_abi_version:
  assumes "ngx_http_wasm_load_plugin E load_ok name s = Some (Some hw, s')"
  shows "\<exists>p. m_plugins s' hw = Some p \<and> pl_name p = name \<and> pl_occupied p = [] \<and> pl_free p = [] \<and>
    pl_cur_ctx_id p = 0 \<and> m_live s' (pl_plugin p) \<and>
    pl_abi_version p =
      (if vm_has E (pl_plugin p) ''proxy_abi_version_0_2_1'' then 2
       else if vm_has E (pl_plugin p) ''proxy_abi_version_0_2_0'' then 1
       else if vm_has E (pl_plugin p) ''proxy_abi_version_0_1_0'' then PROXY_WASM_ABI_VER_010
       else PROXY_WASM_ABI_VER_MAX)"
proof -
  have "find_abi_version E i 0 abi_versions PROXY_WASM_ABI_VER_MAX =
      (if vm_has E i ''proxy_abi_version_0_2_1'' then 2
       else if vm_has E i ''proxy_abi_version_0_2_0'' then 1
       else if vm_has E i ''proxy_abi_version_0_1_0'' then PROXY_WASM_ABI_VER_010
       else PROXY_WASM_ABI_VER_MAX)" for i
    by (simp add: abi_versions_def)
  with load_plugin_result [OF assms] show ?thesis by auto
qed

text \<open>
  C28. A defect: when the guest refuses a new plugin context (\<^verbatim>\<open>proxy_on_context_create\<close> traps),
  \<^verbatim>\<open>ngx_http_wasm_on_configure\<close> returns without clearing the current state, which still points
  to the plugin's own record. After the plugin is unloaded the pointer dangles, and the next
  \<^verbatim>\<open>ngx_http_wasm_get_log\<close> (a \<^verbatim>\<open>proxy_log\<close> in the start function of another plugin) reads freed memory.
\<close>

theorem on_configure_stale_state:
  assumes "env_ok E" "reachable E (initial w) s" and inited: "m_vm_inited s"
    and p: "m_plugins s hw = Some p" "pl_occupied p = []" "\<not> pl_done p"
    and fn: "e_export E (pl_plugin p) ''proxy_on_context_create'' = Some ExternFunc"
    and trap: "\<And>args w. fst (e_invoke E (pl_plugin p) ''proxy_on_context_create'' args False w) = InvokeError"
    and mem: "\<And>n. \<not> e_oom E n sizeof_plugin_ctx"
  shows "\<exists>s1 s2. ngx_http_wasm_on_configure E hw conf s = Some (None, s1) \<and>
    h_cur_state (m_host s1) = Some (pl_state p) \<and>
    ngx_http_wasm_unload_plugin hw s1 = Some s2 \<and>
    h_states (m_host s2) (pl_state p) = None \<and> ngx_http_wasm_get_log (m_host s2) = None"
proof -
  note E = env_okD(1,2) [OF assms(1)]
  have ok: "module_ok s" by (rule reachable_ok [OF assms(2,1) module_ok_initial])
  note wf = module_okD(1) [OF ok] and q = module_okD(2) [OF ok]
  show ?thesis
  proof (rule take_plugin_ctx_ok [OF wf q p(1)])
    fix s1 assume "take_plugin_ctx E hw s = Some (None, s1)"
    then show ?thesis
      using p mem by (auto simp: take_plugin_ctx_def Let_def m_alloc_def try_alloc_def bind_eq_Some_conv
          split: if_splits)
  next
    fix px s1 assume t: "take_plugin_ctx E hw s = Some (Some px, s1)" "wf_core {px} {} (m_req_ctxs s) s1"
      "quiet {} {} s1" "m_req_ctxs s1 = m_req_ctxs s" "in_hand hw p px s1"
    then obtain x p1 where x: "m_pctxs s1 px = Some x" "px_hw_plugin x = hw" "\<not> px_pool x"
      and p1: "m_plugins s1 hw = Some p1" "pl_plugin p1 = pl_plugin p" "pl_occupied p1 = pl_occupied p"
        "pl_state p1 = pl_state p"
      unfolding in_hand_def by auto
    have live: "m_live s1 (pl_plugin p)" using wf_pluginD(3) [OF t(2) p1(1)] p1(2) by simp
    let ?s2 = "s1\<lparr>m_host := (m_host s1)\<lparr>h_cur_state := Some (pl_state p)\<rparr>\<rparr>"
    let ?call = "\<lambda>t. m_call E (pl_plugin p) ''proxy_on_context_create'' False NGX_WASM_PARAM_I32_I32 [px_id x, 0] t"
    obtain rc w3 where c: "?call ?s2 = Some (rc, s1\<lparr>m_host := w3\<rparr>)"
      and w3: "same_states ((m_host s1)\<lparr>h_cur_state := Some (pl_state p)\<rparr>) w3"
      using m_call_ex [OF E, of ?s2 "pl_plugin p" "''proxy_on_context_create''" 3 2 "[px_id x, 0]" False] live
      by (auto simp: hooks_def)
    have rc: "rc = NGX_ERROR"
    proof -
      let ?h = "(m_host ?s2)\<lparr>h_cur_plugin := Some (pl_plugin p)\<rparr>"
      obtain w' where i: "e_invoke E (pl_plugin p) ''proxy_on_context_create'' [px_id x, 0] False ?h =
          (InvokeError, w')"
        using trap [of "[px_id x, 0]" ?h] by (metis prod.collapse)
      have "?call ?s2 = Some (NGX_ERROR, s1\<lparr>m_host := w'\<rparr>)"
        using live by (simp add: m_call_def vm_call_func [OF fn param_num_simps(4)] vm_result_def i [simplified])
      with c show ?thesis by simp
    qed
    let ?p4 = "p1\<lparr>pl_free := px # pl_free p1\<rparr>"
    let ?s4 = "set_plugin hw ?p4 (s1\<lparr>m_host := w3\<rparr>)"
    have run: "ngx_http_wasm_on_configure E hw conf s = Some (None, ?s4)"
      using p inited t(1) x p1 c rc by (simp add: ngx_http_wasm_on_configure_def m_set_state_def)
    have "wf_core {px} {} (m_req_ctxs s) (s1\<lparr>m_host := w3\<rparr>)" using t(2) by simp
    then have W4: "wf_core {} {} (m_req_ctxs s) ?s4" by (rule wf_put_free) (use x p1 in simp_all)
    have q4: "quiet {} {} ?s4"
      by (rule quietI) (use quietD [OF t(3)] p1 in \<open>auto split: if_splits\<close>)
    have p4: "m_plugins ?s4 hw = Some ?p4" by simp
    obtain s5 where s5: "ngx_http_wasm_unload_plugin hw ?s4 = Some s5"
      "pl_occupied ?p4 = [] \<longrightarrow>
         m_host s5 = (m_host ?s4)\<lparr>h_states := (h_states (m_host ?s4))(pl_state ?p4 := None)\<rparr>"
      by (rule unload_plugin_ok [OF W4 q4 p4])
    then have h5: "m_host s5 = w3\<lparr>h_states := (h_states w3)(pl_state p := None)\<rparr>"
      using p1 p(2) by simp
    have "h_cur_state w3 = Some (pl_state p)" using w3 by (simp add: same_states_def)
    with run s5(1) h5 show ?thesis
      by (intro exI [of _ ?s4] exI [of _ s5])
        (simp add: ngx_http_wasm_get_log_def ngx_http_wasm_get_req_def cur_wasm_state_def)
  qed
qed

section \<open>A sample run\<close>

definition sample_loaded :: "env \<Rightarrow> mstate" where
  "sample_loaded E =
     (case ngx_http_wasm_load_plugin E True (ascii ''p'') ((initial sample_host)\<lparr>m_vm_inited := True\<rparr>) of
        Some (_, s) \<Rightarrow> s | None \<Rightarrow> initial sample_host)"

definition sample_configured :: mstate where
  "sample_configured =
     (case ngx_http_wasm_on_configure sample_env 1 (ascii ''c'') (sample_loaded sample_env) of
        Some (_, s) \<Rightarrow> s | None \<Rightarrow> initial sample_host)"

text \<open>A guest that traps when it is asked to create a context.\<close>

definition trapping_env :: env where
  "trapping_env = sample_env\<lparr>e_invoke := \<lambda>pl name args hr w.
     (if name = ''proxy_on_context_create'' then InvokeError else InvokeOk (I32 1), w)\<rparr>"

lemma sample_env_ok: "env_ok sample_env" "env_ok trapping_env"
  by (simp_all add: env_ok_def hook_exports_def guest_frame_def sample_env_def trapping_env_def hooks_def)

lemma sample_start: "reachable E (initial sample_host) ((initial sample_host)\<lparr>m_vm_inited := True\<rparr>)"
  by (rule reach_step [OF reach_refl step_init])

lemma sample_loaded:
  "map_option fst (ngx_http_wasm_load_plugin sample_env True (ascii ''p'') ((initial sample_host)\<lparr>m_vm_inited := True\<rparr>)) = Some (Some 1)"
  "map_option fst (ngx_http_wasm_load_plugin trapping_env True (ascii ''p'') ((initial sample_host)\<lparr>m_vm_inited := True\<rparr>)) = Some (Some 1)"
  by code_simp+

lemma sample_configured:
  "map_option fst (ngx_http_wasm_on_configure sample_env 1 (ascii ''c'') (sample_loaded sample_env)) = Some (Some 3)"
  by code_simp

lemma sample_plugin:
  "map_option (\<lambda>p. (pl_done p, pl_occupied p)) (m_plugins (sample_loaded sample_env) 1) = Some (False, [])"
  "map_option (\<lambda>p. (pl_done p, pl_occupied p, pl_plugin p)) (m_plugins (sample_loaded trapping_env) 1) = Some (False, [], 0)"
  "map_option (\<lambda>p. (pl_done p, pl_occupied p)) (m_plugins sample_configured 1) = Some (False, [3])"
  "map_option (\<lambda>x. (px_done x, px_occupied x, px_hw_plugin x)) (m_pctxs sample_configured 3) = Some (False, [], 1)"
  by code_simp+

lemma sample_load:
  "ngx_http_wasm_load_plugin sample_env True (ascii ''p'') ((initial sample_host)\<lparr>m_vm_inited := True\<rparr>) =
     Some (Some 1, sample_loaded sample_env)"
  "ngx_http_wasm_load_plugin trapping_env True (ascii ''p'') ((initial sample_host)\<lparr>m_vm_inited := True\<rparr>) =
     Some (Some 1, sample_loaded trapping_env)"
  using sample_loaded by (auto simp: sample_loaded_def)

lemma sample_configure:
  "ngx_http_wasm_on_configure sample_env 1 (ascii ''c'') (sample_loaded sample_env) =
     Some (Some 3, sample_configured)"
  using sample_configured by (auto simp: sample_configured_def)

lemma sample_loaded_reachable:
  "reachable sample_env (initial sample_host) (sample_loaded sample_env)"
  "reachable trapping_env (initial sample_host) (sample_loaded trapping_env)"
  by (rule reach_step [OF sample_start], rule step_load, rule sample_load)+

lemma sample_configured_reachable: "reachable sample_env (initial sample_host) sample_configured"
proof -
  obtain p where "m_plugins (sample_loaded sample_env) 1 = Some p" "\<not> pl_done p"
    using sample_plugin(1) by auto
  then show ?thesis
    by (intro reach_step [OF sample_loaded_reachable(1)]) (rule step_configure [OF _ _ sample_configure])
qed

lemma sample_vm_inited: "m_vm_inited (sample_loaded trapping_env)"
  by code_simp

theorem module_invariant_witness: "module_ok sample_configured"
  by (rule module_invariant [OF sample_env_ok(1) sample_configured_reachable])

theorem module_memory_safe_witness: "ngx_http_wasm_delete_plugin_ctx sample_env 3 sample_configured \<noteq> None"
proof -
  obtain p where p: "m_plugins sample_configured 1 = Some p" "pl_occupied p = [3]"
    using sample_plugin(3) by auto
  then show ?thesis
    using module_memory_safe [OF sample_env_ok(1) sample_configured_reachable, of True "[]" "[]" 7 0]
    by (metis list.set_intros(1))
qed

theorem unload_plugin_outcome_witness:
  "\<exists>s'. ngx_http_wasm_unload_plugin 1 (sample_loaded sample_env) = Some s' \<and> m_plugins s' 1 = None"
proof -
  obtain p where "m_plugins (sample_loaded sample_env) 1 = Some p" "pl_occupied p = []"
    using sample_plugin(1) by auto
  with unload_plugin_outcome [OF sample_env_ok(1) sample_loaded_reachable(1), of 1 p] show ?thesis by auto
qed

theorem delete_plugin_ctx_outcome_witness:
  "\<exists>s' p. ngx_http_wasm_delete_plugin_ctx sample_env 3 sample_configured = Some s' \<and>
     m_plugins s' 1 = Some p \<and> pl_occupied p = []"
proof -
  obtain p where p: "m_plugins sample_configured 1 = Some p" "pl_occupied p = [3]" "\<not> pl_done p"
    using sample_plugin(3) by auto
  obtain x where x: "m_pctxs sample_configured 3 = Some x" "px_occupied x = []" "px_hw_plugin x = 1"
    using sample_plugin(4) by auto
  show ?thesis
    using delete_plugin_ctx_outcome [OF sample_env_ok(1) sample_configured_reachable x(1), of p] p x(2,3)
    by auto
qed

lemma sample_fetch:
  "case ngx_http_wasm_fetch_http_ctx sample_env 3 7 sample_configured of
     Some (res, s') \<Rightarrow> res = Some 5 \<and>
       (case h_requests (m_host s') 7 of Some rq \<Rightarrow> rq_ctx rq = Some wasm_ctx_zero | None \<Rightarrow> False)
   | None \<Rightarrow> False"
  by code_simp

lemma sample_request_there: "h_requests (m_host sample_configured) 7 = Some sample_request"
  by code_simp

lemma sample_module_ctx: "m_get_module_ctx E 7 sample_configured = Some (Some (wc_addr wasm_ctx_zero), sample_configured)"
  using sample_request_there
  by (simp add: m_get_module_ctx_def ngx_http_wasm_get_module_ctx_def request_ctx_def sample_request_def)

theorem fetch_http_ctx_idempotent_witness:
  "\<exists>s'. ngx_http_wasm_fetch_http_ctx sample_env 3 7 sample_configured = Some (Some 5, s') \<and>
     ngx_http_wasm_fetch_http_ctx sample_env 3 7 s' = Some (Some 5, s')"
proof -
  obtain p where p: "m_plugins sample_configured 1 = Some p" "pl_occupied p = [3]"
    using sample_plugin(3) by auto
  obtain s' rq where s': "ngx_http_wasm_fetch_http_ctx sample_env 3 7 sample_configured = Some (Some 5, s')"
    "h_requests (m_host s') 7 = Some rq" "rq_ctx rq = Some wasm_ctx_zero"
    using sample_fetch by (auto split: option.splits)
  show ?thesis
    using fetch_http_ctx_idempotent [OF sample_env_ok(1) sample_configured_reachable p(1) _ s'(1)
        sample_request_there s'(2,3) sample_module_ctx] p(2) s'(1) by auto
qed

theorem load_plugin_abi_version_witness:
  "\<exists>p. m_plugins (sample_loaded sample_env) 1 = Some p \<and> pl_abi_version p = 2"
  using load_plugin_abi_version [OF sample_load(1)]
  by (auto simp: vm_has_def ngx_wasm_wasmtime_has_def sample_env_def)

theorem on_configure_stale_state_witness:
  "\<exists>s1 s2. ngx_http_wasm_on_configure trapping_env 1 [] (sample_loaded trapping_env) = Some (None, s1) \<and>
     ngx_http_wasm_unload_plugin 1 s1 = Some s2 \<and> ngx_http_wasm_get_log (m_host s2) = None"
proof -
  obtain p where p: "m_plugins (sample_loaded trapping_env) 1 = Some p" "pl_occupied p = []" "\<not> pl_done p"
    using sample_plugin(2) by auto
  show ?thesis
    using on_configure_stale_state [OF sample_env_ok(2) sample_loaded_reachable(2) sample_vm_inited p, of "[]"]
    by (auto simp: trapping_env_def sample_env_def)
qed

end
