(* ===== verification/Draining.thy ===== *)
theory Draining
  imports Module_Steps
begin

text \<open>
  The end of a plugin: what is unloaded is freed, once its contexts are deleted.
\<close>

text \<open>The Lua library deletes plugin contexts one after the other.\<close>

fun delete_plugin_ctxs :: "env \<Rightarrow> nat list \<Rightarrow> mstate \<Rightarrow> mstate option" where
  "delete_plugin_ctxs E [] s = Some s"
| "delete_plugin_ctxs E (px # pxs) s =
     do { s \<leftarrow> ngx_http_wasm_delete_plugin_ctx E px s; delete_plugin_ctxs E pxs s }"

text \<open>Deleting an idle context changes no other plugin context, unless it is the last.\<close>

lemma m_call_pctxs:
  assumes "m_call E plugin name hr pt args s = Some (rc, s')"
  shows "m_pctxs s' = m_pctxs s \<and> m_plugins s' = m_plugins s"
  using assms by (auto simp: m_call_def bind_eq_Some_conv split: if_splits)

lemma delete_pctx_others:
  assumes "ngx_http_wasm_delete_plugin_ctx E px s = Some s'" "m_pctxs s px = Some x"
    and "m_plugins s (px_hw_plugin x) = Some p" "px_occupied x = []" "remove1 px (pl_occupied p) \<noteq> []"
    and "q \<noteq> px"
  shows "m_pctxs s' q = m_pctxs s q"
proof -
  let ?s = "set_pctx px (x\<lparr>px_done := True\<rparr>) s"
  from assms(1-5) obtain oc fr rc s1 rc2 s2 where
    q: "queue_remove px (pl_occupied p, pl_free p) = Some (oc, fr)" and
    c: "m_call E (pl_plugin p) ''proxy_on_done'' True NGX_WASM_PARAM_I32 [px_id x]
        (set_plugin (px_hw_plugin x) (p\<lparr>pl_occupied := oc, pl_free := px # fr\<rparr>) ?s) = Some (rc, s1)"
      "m_call E (pl_plugin p) ''proxy_on_delete'' False NGX_WASM_PARAM_I32 [px_id x] s1 = Some (rc2, s2)"
    by (auto simp: ngx_http_wasm_delete_plugin_ctx_def ngx_http_wasm_free_plugin_ctx_def Let_def
        bind_eq_Some_conv split: if_splits prod.splits)
  have oc: "oc \<noteq> []" using q assms(5) by (auto simp: queue_remove_def split: if_splits)
  have s2: "m_pctxs s2 = m_pctxs ?s"
    "m_plugins s2 (px_hw_plugin x) = Some (p\<lparr>pl_occupied := oc, pl_free := px # fr\<rparr>)"
    using m_call_pctxs [OF c(1)] m_call_pctxs [OF c(2)] by simp_all
  from assms(1-4) q c s2 oc have "m_pctxs s' q = m_pctxs s2 q"
    using assms(6) by (auto simp: ngx_http_wasm_delete_plugin_ctx_def ngx_http_wasm_free_plugin_ctx_def
        Let_def destroy_pctx_pool_def ngx_http_wasm_free_plugin_def split: if_splits)
  with s2(1) assms(6) show ?thesis by simp
qed

lemma drain_plugin:
  assumes E: "env_ok E" and "module_ok s" "m_plugins s hw = Some p" "pl_done p" "distinct pxs" "pxs \<noteq> []"
    and "set pxs = set (pl_occupied p)"
    and "\<And>px x. px \<in> set pxs \<Longrightarrow> m_pctxs s px = Some x \<Longrightarrow> px_occupied x = []"
  shows "\<exists>s'. delete_plugin_ctxs E pxs s = Some s' \<and> m_plugins s' hw = None \<and> \<not> m_live s' (pl_plugin p)"
  using assms(2-)
proof (induction pxs arbitrary: s p)
  case Nil
  then show ?case by simp
next
  case (Cons px pxs)
  note wf = module_okD(1) [OF Cons.prems(1)] and q = module_okD(2) [OF Cons.prems(1)]
  note p = Cons.prems(2)
  have occ: "set (pl_occupied p) = insert px (set pxs)" using Cons.prems(6) by auto
  have dis: "distinct (pl_occupied p)" using wf_pluginD(1) [OF wf p] by simp
  have "px \<in> pctx_set {} s hw" using wf_pluginD(2) [OF wf p] occ by blast
  then obtain x where x: "m_pctxs s px = Some x" "px_hw_plugin x = hw" by (auto simp: pctx_set_def)
  have idle: "px_occupied x = []" by (rule Cons.prems(7) [OF _ x(1)]) simp
  have rest: "set (remove1 px (pl_occupied p)) = set pxs" using occ dis Cons.prems(4) by auto
  have "quiet {} {px} s" by (rule quiet_mono [OF q]) simp_all
  then obtain s1 where s1: "ngx_http_wasm_delete_plugin_ctx E px s = Some s1"
    "wf_core {} {} (m_req_ctxs s) s1" "quiet {} {} s1" "m_req_ctxs s1 = m_req_ctxs s"
    "\<forall>p. m_plugins s (px_hw_plugin x) = Some p \<longrightarrow> px_occupied x = [] \<longrightarrow>
       pctx_ended s s1 px (x\<lparr>px_done := True\<rparr>) p"
    by (rule delete_plugin_ctx_ok [OF env_okD(1,2) [OF E] wf _ x(1)])
  have ended: "pctx_ended s s1 px (x\<lparr>px_done := True\<rparr>) p" using s1(5) p x(2) idle by simp
  show ?case
  proof (cases "pxs = []")
    case True
    then have "remove1 px (pl_occupied p) = []" using rest by simp
    then show ?thesis using ended Cons.prems(3) s1(1) x(2) True by (simp add: pctx_ended_def)
  next
    case False
    then have ne: "remove1 px (pl_occupied p) \<noteq> []" using rest by force
    let ?p = "p\<lparr>pl_occupied := remove1 px (pl_occupied p), pl_free := px # remove1 px (pl_free p)\<rparr>"
    have p1: "m_plugins s1 hw = Some ?p" using ended ne x(2) by (simp add: pctx_ended_def)
    have ok1: "module_ok s1" using s1(2-4) by (simp add: module_ok_def)
    have "m_pctxs s1 y = m_pctxs s y" if "y \<in> set pxs" for y
      using delete_pctx_others [OF s1(1) x(1) _ idle ne, of y] p x(2) Cons.prems(4) that by auto
    then have "\<And>y b. y \<in> set pxs \<Longrightarrow> m_pctxs s1 y = Some b \<Longrightarrow> px_occupied b = []"
      using Cons.prems(7) by (metis list.set_intros(2))
    from Cons.IH [OF ok1 p1 _ _ False _ this] show ?thesis
      using Cons.prems(3,4) rest s1(1) by simp
  qed
qed

text \<open>
  C12. No plugin stays behind: after \<^verbatim>\<open>ngx_http_wasm_unload_plugin\<close>, when no request is using its
  contexts, deleting all of them, in whatever order, ends by freeing the plugin and its VM
  instance.
\<close>

theorem unloaded_plugin_is_freed:
  assumes "env_ok E" "reachable E (initial w) s" "m_plugins s hw = Some p" "\<not> pl_done p"
    and "distinct pxs" "set pxs = set (pl_occupied p)"
    and "\<And>px x. px \<in> set pxs \<Longrightarrow> m_pctxs s px = Some x \<Longrightarrow> px_occupied x = []"
  shows "\<exists>s1 s2. ngx_http_wasm_unload_plugin hw s = Some s1 \<and> delete_plugin_ctxs E pxs s1 = Some s2 \<and>
    m_plugins s2 hw = None \<and> \<not> m_live s2 (pl_plugin p)"
proof -
  have ok: "module_ok s" by (rule reachable_ok [OF assms(2,1) module_ok_initial])
  let ?p = "p\<lparr>pl_done := True\<rparr>"
  obtain s1 where s1: "ngx_http_wasm_unload_plugin hw s = Some s1"
    "m_plugins s1 hw = (if pl_occupied p = [] then None else Some ?p)"
    "pl_occupied p = [] \<longrightarrow> \<not> m_live s1 (pl_plugin p)"
    "pl_occupied p \<noteq> [] \<longrightarrow> s1 = set_plugin hw ?p s"
    by (rule unload_plugin_ok [OF module_okD [OF ok] assms(3)])
  show ?thesis
  proof (cases "pxs = []")
    case True
    then show ?thesis using s1 assms(6) by simp
  next
    case False
    then have ne: "pl_occupied p \<noteq> []" using assms(6) by force
    have "module_ok s1" by (rule mod_step_ok [OF assms(1) ok step_unload [OF assms(3,4) s1(1)]])
    from drain_plugin [OF assms(1) this, of hw ?p pxs] s1 ne False assms(5-7) show ?thesis by auto
  qed
qed

theorem unloaded_plugin_is_freed_witness:
  "\<exists>s1 s2. ngx_http_wasm_unload_plugin 1 sample_configured = Some s1 \<and>
     delete_plugin_ctxs sample_env [3] s1 = Some s2 \<and> m_plugins s2 1 = None"
proof -
  obtain p where p: "m_plugins sample_configured 1 = Some p" "pl_occupied p = [3]" "\<not> pl_done p"
    using sample_plugin(3) by auto
  obtain x where x: "m_pctxs sample_configured 3 = Some x" "px_occupied x = []"
    using sample_plugin(4) by auto
  from unloaded_plugin_is_freed [OF sample_env_ok(1) sample_configured_reachable p(1,3), of "[3]"] p(2) x
  show ?thesis by auto
qed

end
