(* ===== verification/Guest_Copy.thy ===== *)
theory Guest_Copy
  imports Api_Headers
begin

text \<open>
  What arrives at the plugin when \<^verbatim>\<open>ngx_http_wasm_copy_to_wasm\<close> and
  \<^verbatim>\<open>ngx_http_wasm_get_buf_to_write\<close> succeed, and which plugins can take a value: the words for
  the address and the size lie in the linear memory, and the plugin's allocator returns a
  piece of it apart from them.
\<close>

section \<open>Pieces of the linear memory\<close>

definition guest_slot :: "host \<Rightarrow> i32 \<Rightarrow> nat \<Rightarrow> bool" where
  "guest_slot w a n \<longleftrightarrow> 0 \<le> sint a \<and> sint a + int n < 2 ^ 31 \<and>
     (\<exists>m. guest_mem w = Some m \<and> in_obj m (sint a) n)"

definition apart :: "i32 \<Rightarrow> nat \<Rightarrow> i32 \<Rightarrow> nat \<Rightarrow> bool" where
  "apart a n b k \<longleftrightarrow> sint a + int n \<le> sint b \<or> sint b + int k \<le> sint a"

lemma get_memory_slot:
  assumes "vm_documented E" "guest_slot w a n" "sint sz = int n"
  shows "vm_get_memory E a sz w = Some (Some (sint a))"
proof -
  obtain pl where pl: "h_cur_plugin w = Some pl" "in_obj (h_mem w pl) (sint a) n"
    using assms(2) by (auto simp: guest_slot_def guest_mem_def)
  then have "vm_pointer E (h_mem w pl) a sz = Some (sint a)"
    using assms(2,3)
    by (intro vm_memory.get_complete [OF vm_memory_documented [OF assms(1)]])
      (auto simp: guest_slot_def in_obj_def)
  with pl show ?thesis by (simp add: vm_get_memory_eq)
qed

lemma guest_slot_wr:
  assumes "guest_slot w a n" "length bs \<le> n"
  shows "\<exists>w'. guest_wr w (sint a) bs = Some w'"
proof -
  have "guest_wr w (sint a) bs \<noteq> None"
    using assms by (auto simp: guest_wr_None guest_slot_def guest_mem_def in_obj_def)
  then show ?thesis by auto
qed

lemma guest_wr_slot: "guest_wr w p bs = Some w' \<Longrightarrow> guest_slot w' a n = guest_slot w a n"
  by (auto simp: guest_wr_Some guest_slot_def guest_mem_def in_obj_def wr_length)

lemma guest_slot_4: "sint (4 :: i32) = int 4"
  by simp

section \<open>Allocators\<close>

text \<open>The plugin's allocator answers the request for \<open>n\<close> bytes with the address \<open>a\<close>.\<close>

definition gives_buffer :: "env \<Rightarrow> nat \<Rightarrow> host \<Rightarrow> i32 \<Rightarrow> host \<Rightarrow> bool" where
  "gives_buffer E n w a w' \<longleftrightarrow>
     n < 2 ^ 31 \<and> proxy_wasm_memory_alloc E (of_nat n) w = Some (a, w') \<and> a \<noteq> 0 \<and> guest_slot w' a n"

text \<open>
  The plugin can take \<open>n\<close> bytes from \<^verbatim>\<open>get_buf_to_write\<close>, which leaves the state \<open>w2\<close> behind
  the allocation, or from \<^verbatim>\<open>copy_to_wasm\<close>, which writes the size first.
\<close>

definition takes_buffer :: "env \<Rightarrow> nat \<Rightarrow> i32 \<Rightarrow> i32 \<Rightarrow> host \<Rightarrow> i32 \<Rightarrow> host \<Rightarrow> bool" where
  "takes_buffer E n addr size_addr w a w2 \<longleftrightarrow>
     gives_buffer E n w a w2 \<and> guest_slot w2 addr 4 \<and> guest_slot w2 size_addr 4 \<and>
     apart a n addr 4 \<and> apart a n size_addr 4 \<and> apart addr 4 size_addr 4"

definition takes_copy :: "env \<Rightarrow> nat \<Rightarrow> i32 \<Rightarrow> i32 \<Rightarrow> host \<Rightarrow> bool" where
  "takes_copy E n addr size_addr w \<longleftrightarrow>
     guest_slot w size_addr 4 \<and>
     (\<exists>w1 a w2. guest_wr w (sint size_addr) (le32 (of_nat n)) = Some w1 \<and>
        takes_buffer E n addr size_addr w1 a w2 \<and>
        guest_rd w2 (sint size_addr) 4 = Some (le32 (of_nat n)))"

text \<open>The value \<open>bs\<close> is where the two words of the plugin say it is.\<close>

definition delivered :: "host \<Rightarrow> i32 \<Rightarrow> i32 \<Rightarrow> bytes \<Rightarrow> bool" where
  "delivered w addr size_addr bs \<longleftrightarrow>
     (\<exists>a. guest_rd w (sint addr) 4 = Some (le32 a) \<and>
        guest_rd w (sint size_addr) 4 = Some (le32 (of_nat (length bs))) \<and>
        guest_rd w (sint a) (length bs) = Some bs)"

lemma copy_delivers:
  assumes vm: "vm_documented E" and tk: "takes_copy E (length bs) addr size_addr w" and bs: "bs \<noteq> []"
  shows "\<exists>w'. ngx_http_wasm_copy_to_wasm E (Some (bs @ rest)) (of_nat (length bs)) addr size_addr w =
      Some (PROXY_RESULT_OK, w') \<and> delivered w' addr size_addr bs"
proof -
  let ?n = "length bs"
  from tk obtain w1 a w2 where s: "guest_slot w size_addr 4"
    and w1: "guest_wr w (sint size_addr) (le32 (of_nat ?n)) = Some w1"
    and gb: "gives_buffer E ?n w1 a w2" and sl: "guest_slot w2 addr 4" "guest_slot w2 size_addr 4"
    and ap: "apart a ?n addr 4" "apart a ?n size_addr 4" "apart addr 4 size_addr 4"
    and keep: "guest_rd w2 (sint size_addr) 4 = Some (le32 (of_nat ?n))"
    by (auto simp: takes_copy_def takes_buffer_def)
  have n: "?n < 2 ^ 31" and al: "proxy_wasm_memory_alloc E (of_nat ?n) w1 = Some (a, w2)" "a \<noteq> 0"
    and sa: "guest_slot w2 a ?n"
    using gb by (auto simp: gives_buffer_def)
  have nz: "(of_nat ?n :: i32) \<noteq> 0" using n bs of_nat_i32_inj [of ?n 0] by auto
  have sn: "sint (of_nat ?n :: i32) = int ?n" using n by (rule sint_of_nat_i32)
  have data: "rd (bs @ rest) 0 ?n = Some bs" by (simp add: rd_def in_obj_def)
  obtain w3 where w3: "guest_wr w2 (sint a) bs = Some w3" using guest_slot_wr [OF sa] by auto
  note sl3 = sl [folded guest_wr_slot [OF w3]]
  obtain w4 where w4: "guest_wr w3 (sint addr) (le32 a) = Some w4"
    using guest_slot_wr [OF sl3(1), of "le32 a"] by auto
  have "ngx_http_wasm_copy_to_wasm E (Some (bs @ rest)) (of_nat ?n) addr size_addr w = Some (PROXY_RESULT_OK, w4)"
    using nz al data w1 w3 w4 size_of_nat_i32 [OF n]
      get_memory_slot [OF vm s guest_slot_4] get_memory_slot [OF vm sa sn]
      get_memory_slot [OF vm sl3(1) guest_slot_4]
    by (simp add: ngx_http_wasm_copy_to_wasm_def)
  moreover have "guest_rd w4 (sint addr) 4 = Some (le32 a)" using guest_rd_wr_same [OF w4] by simp
  moreover have "guest_rd w4 (sint size_addr) 4 = Some (le32 (of_nat ?n))"
    using guest_rd_wr_other [OF w4, of "sint size_addr" 4] guest_rd_wr_other [OF w3, of "sint size_addr" 4]
      keep ap by (auto simp: apart_def)
  moreover have "guest_rd w4 (sint a) ?n = Some bs"
    using guest_rd_wr_other [OF w4, of "sint a" ?n] guest_rd_wr_same [OF w3] ap by (auto simp: apart_def)
  ultimately show ?thesis by (auto simp: delivered_def)
qed

text \<open>The state after \<^verbatim>\<open>ngx_http_wasm_get_buf_to_write\<close>: the buffer is still to be filled.\<close>

lemma get_buf_ready:
  assumes vm: "vm_documented E" and tk: "takes_buffer E n addr size_addr w a w2"
  shows "\<exists>w'. ngx_http_wasm_get_buf_to_write E (of_nat n) addr size_addr w = Some (Some (sint a), w') \<and>
    guest_slot w' a n \<and> guest_rd w' (sint addr) 4 = Some (le32 a) \<and>
    guest_rd w' (sint size_addr) 4 = Some (le32 (of_nat n)) \<and> h_requests w' = h_requests w2 \<and>
    (\<forall>q k. q + int k \<le> sint a + int n \<longrightarrow> sint a \<le> q \<longrightarrow> guest_rd w' q k = guest_rd w2 q k)"
proof -
  have sl: "guest_slot w2 addr 4" "guest_slot w2 size_addr 4" and sa: "guest_slot w2 a n"
    and ap: "apart a n addr 4" "apart a n size_addr 4" "apart addr 4 size_addr 4"
    and n: "n < 2 ^ 31" and al: "proxy_wasm_memory_alloc E (of_nat n) w = Some (a, w2)" "a \<noteq> 0"
    using tk by (auto simp: takes_buffer_def gives_buffer_def)
  have sn: "sint (of_nat n :: i32) = int n" using n by (rule sint_of_nat_i32)
  obtain w3 where w3: "guest_wr w2 (sint addr) (le32 a) = Some w3"
    using guest_slot_wr [OF sl(1), of "le32 a"] by auto
  have s3: "guest_slot w3 size_addr 4" using sl(2) guest_wr_slot [OF w3] by simp
  then obtain w4 where w4: "guest_wr w3 (sint size_addr) (le32 (of_nat n)) = Some w4"
    using guest_slot_wr [OF s3, of "le32 (of_nat n)"] by auto
  have "ngx_http_wasm_get_buf_to_write E (of_nat n) addr size_addr w = Some (Some (sint a), w4)"
    using al w3 w4 get_memory_slot [OF vm sa sn] get_memory_slot [OF vm sl(1) guest_slot_4]
      get_memory_slot [OF vm s3 guest_slot_4]
    by (simp add: ngx_http_wasm_get_buf_to_write_def)
  moreover have "guest_slot w4 a n" using sa guest_wr_slot [OF w3] guest_wr_slot [OF w4] by simp
  moreover have "guest_rd w4 (sint addr) 4 = Some (le32 a)"
    using guest_rd_wr_other [OF w4, of "sint addr" 4] guest_rd_wr_same [OF w3] ap(3) by (auto simp: apart_def)
  moreover have "guest_rd w4 (sint size_addr) 4 = Some (le32 (of_nat n))"
    using guest_rd_wr_same [OF w4] by simp
  moreover have "guest_rd w4 q k = guest_rd w2 q k" if "q + int k \<le> sint a + int n" "sint a \<le> q" for q k
    using guest_rd_wr_other [OF w4, of q k] guest_rd_wr_other [OF w3, of q k] ap(1,2) that
    by (auto simp: apart_def)
  ultimately show ?thesis using guest_wr_frame(4) [OF w3] guest_wr_frame(4) [OF w4] by auto
qed

section \<open>Header maps\<close>

text \<open>
  A map with the entries \<open>kvs\<close> lies where the two words of the plugin say, in a buffer of
  \<open>sz\<close> bytes.
\<close>

definition map_delivered :: "host \<Rightarrow> i32 \<Rightarrow> i32 \<Rightarrow> nat \<Rightarrow> (bytes \<times> bytes) list \<Rightarrow> bool" where
  "map_delivered w addr size_addr sz kvs \<longleftrightarrow>
     (\<exists>a m. guest_rd w (sint addr) 4 = Some (le32 a) \<and>
        guest_rd w (sint size_addr) 4 = Some (le32 (of_nat sz)) \<and>
        guest_mem w = Some m \<and> map_at m (sint a) kvs)"

text \<open>The state between the writes, with \<open>dn\<close> written of \<open>n\<close> entries.\<close>

lemma start_map_progress:
  assumes "guest_slot w a S" "4 + 8 * n \<le> S"
  shows "\<exists>m0 m. guest_mem w = Some m0 \<and>
    start_map (sint a) (of_nat n) w = Some (m, iter_at (sint a) n []) \<and>
    map_progress m0 (sint a) n S [] m"
proof -
  from assms obtain m0 where m0: "guest_mem w = Some m0" "in_obj m0 (sint a) S" "S < 2 ^ 31"
    by (auto simp: guest_slot_def)
  from map_progress_start [OF m0(2) assms(2) m0(3)] obtain m where
    "proxy_wasm_map_init_map m0 (sint a) (of_nat n) = Some m"
    "proxy_wasm_map_init_iter m (sint a) = Some (iter_at (sint a) n [])"
    "map_progress m0 (sint a) n S [] m" by blast
  with m0(1) show ?thesis by (simp add: start_map_def)
qed

text \<open>The words of the plugin survive, as they lie outside the buffer.\<close>

lemma finish_map:
  assumes P: "map_progress m0 (sint a) n S dn m" and w: "guest_mem w = Some m0"
    and wd: "guest_rd w (sint addr) 4 = Some x" "guest_rd w (sint size_addr) 4 = Some y"
    and ap: "apart a S addr 4" "apart a S size_addr 4"
  shows "\<exists>w'. set_guest_mem m w = Some w' \<and> guest_mem w' = Some m \<and>
    guest_rd w' (sint addr) 4 = Some x \<and> guest_rd w' (sint size_addr) 4 = Some y"
proof -
  obtain pl where pl: "h_cur_plugin w = Some pl" using w by (auto simp: guest_mem_def)
  let ?w' = "w\<lparr>h_mem := (h_mem w)(pl := m)\<rparr>"
  have g: "guest_rd ?w' q k = rd m q k" "guest_rd w q k = rd m0 q k" for q k
    using w pl by (auto simp: guest_rd_def guest_mem_def)
  have fr: "rd m q k = rd m0 q k" if "outside (sint a) S q k" for q k
    using P that by (simp add: map_progress_def)
  have "rd m (sint addr) 4 = Some x" "rd m (sint size_addr) 4 = Some y"
    using wd ap fr [of "sint addr" 4] fr [of "sint size_addr" 4]
    by (auto simp: g apart_def outside_def)
  then show ?thesis using pl by (simp add: set_guest_mem_def guest_mem_def g)
qed

text \<open>The sizes are those of the format.\<close>

lemma pairs_size_eq: "pairs_size kvs = of_nat (length (enc_data kvs))"
  by (induction kvs) (simp_all add: pairs_size_def pair_size_def length_entry_data)

lemma map_size_append: "map_size (xs @ ys) = 4 + 8 * (length xs + length ys) + length (enc_data xs) + length (enc_data ys)"
  by (simp add: map_size_def)

section \<open>String arguments\<close>

text \<open>A string argument: its bytes lie in the linear memory where the guest says.\<close>

definition guest_str :: "host \<Rightarrow> i32 \<Rightarrow> i32 \<Rightarrow> bytes \<Rightarrow> bool" where
  "guest_str w a sz bs \<longleftrightarrow>
     guest_slot w a (length bs) \<and> sint sz = int (length bs) \<and> guest_rd w (sint a) (length bs) = Some bs"

lemma guest_strD:
  assumes "guest_str w a sz bs"
  shows "size_of_i32 sz = length bs" "guest_rd w (sint a) (length bs) = Some bs" "length bs < 2 ^ 31"
    "sz = of_nat (length bs)"
proof -
  have s: "sint sz = int (length bs)" using assms by (simp add: guest_str_def)
  show "size_of_i32 sz = length bs" "length bs < 2 ^ 31"
    using s sint_i32_bounds [of sz] by (simp_all add: size_of_i32_nonneg)
  then show "sz = of_nat (length bs)"
    using s by (metis sint_of_nat_i32 signed_word_eqI)
  show "guest_rd w (sint a) (length bs) = Some bs" using assms by (simp add: guest_str_def)
qed

lemma guest_rd_mem: "guest_mem w = Some m \<Longrightarrow> guest_rd w p n = rd m p n"
  by (auto simp: guest_rd_def guest_mem_def)

lemma guest_str_mem:
  assumes "guest_str w a sz bs"
  shows "\<exists>m. guest_mem w = Some m \<and> rd m (sint a) (length bs) = Some bs"
  using assms by (auto simp: guest_str_def guest_slot_def guest_rd_mem)

lemma copy_whole:
  assumes "vm_documented E" "takes_copy E (length bs) addr size_addr w" "bs \<noteq> []"
  shows "\<exists>w'. ngx_http_wasm_copy_to_wasm E (Some bs) (of_nat (length bs)) addr size_addr w =
      Some (PROXY_RESULT_OK, w') \<and> delivered w' addr size_addr bs"
  using copy_delivers [OF assms, of "[]"] by simp

section \<open>A sample\<close>

text \<open>A plugin that serves request 7, with 512 bytes of memory; its allocator answers 1.\<close>

definition serving_host :: host where
  "serving_host = sample_host\<lparr>h_cur_plugin := Some 0, h_mem := \<lambda>_. replicate 512 0,
     h_states := [4 \<mapsto> sample_state], h_cur_state := Some 4\<rparr>"

lemma serving_host_simps:
  "h_cur_plugin serving_host = Some 0" "h_mem serving_host pl = replicate 512 0"
  "ngx_http_wasm_get_req serving_host = Some (Some 7)" "h_requests serving_host 7 = Some sample_request"
  "length (h_mem serving_host pl) = 512"
  by (simp_all add: serving_host_def ngx_http_wasm_get_req_def cur_wasm_state_def sample_state_def sample_host_def)

lemma sample_vm_documented: "vm_documented sample_env"
  by (simp add: vm_documented_def sample_env_def)

lemma sample_alloc:
  assumes "h_cur_plugin w = Some 0"
  shows "proxy_wasm_memory_alloc sample_env sz w = Some (1, w)"
  using assms vm_call_cur_func [of w 0 sample_env "''proxy_on_memory_allocate''" 2 1 "[sz]" True]
  by (simp add: proxy_wasm_memory_alloc_def sample_env_def vm_result_def)

lemma serving_takes:
  assumes "h_cur_plugin w = Some 0" "length (h_mem w 0) = 512" "n \<le> 390"
  shows "takes_buffer sample_env n 400 404 w 1 w"
  using assms
  by (simp add: takes_buffer_def gives_buffer_def guest_slot_def apart_def guest_mem_def in_obj_def sample_alloc)

lemma serving_takes_copy:
  assumes "h_cur_plugin w = Some 0" "length (h_mem w 0) = 512" "n \<le> 390"
  shows "takes_copy sample_env n 400 404 w"
proof -
  have s: "guest_slot w 404 4"
    using assms(1,2) by (simp add: guest_slot_def guest_mem_def in_obj_def)
  then obtain w1 where w1: "guest_wr w (sint (404 :: i32)) (le32 (of_nat n)) = Some w1"
    using guest_slot_wr [OF s, of "le32 (of_nat n)"] by auto
  then have "h_cur_plugin w1 = Some 0" "length (h_mem w1 0) = 512"
    using assms by (auto simp: guest_wr_Some wr_length)
  note tk = serving_takes [OF this assms(3)]
  moreover have "guest_rd w1 (sint (404 :: i32)) 4 = Some (le32 (of_nat n))"
    using guest_rd_wr_same [OF w1] by simp
  ultimately show ?thesis using s w1 by (auto simp: takes_copy_def)
qed

text \<open>The same plugin with a string at 408.\<close>

definition serving_with :: "bytes \<Rightarrow> host" where
  "serving_with bs = serving_host\<lparr>h_mem := \<lambda>_. replicate 408 0 @ bs @ replicate (104 - length bs) 0\<rparr>"

lemma serving_with_simps:
  "h_cur_plugin (serving_with bs) = Some 0"
  "length bs \<le> 104 \<Longrightarrow> length (h_mem (serving_with bs) pl) = 512"
  "ngx_http_wasm_get_req (serving_with bs) = Some (Some 7)"
  "h_requests (serving_with bs) 7 = Some sample_request"
  "ngx_http_wasm_get_log (serving_with bs) = Some ()"
  "ngx_http_wasm_get_plugin_name (serving_with bs) = Some (Some (ascii ''p''))"
  by (simp_all add: serving_with_def serving_host_def ngx_http_wasm_get_req_def cur_wasm_state_def
      sample_state_def sample_host_def ngx_http_wasm_get_log_def ngx_http_wasm_get_plugin_name_def)

lemma serving_with_str:
  assumes "length bs \<le> 104"
  shows "guest_str (serving_with bs) 408 (of_nat (length bs)) bs"
  using assms sint_of_nat_i32 [of "length bs"]
  by (simp add: guest_str_def guest_slot_def guest_mem_def guest_rd_def in_obj_def rd_def serving_with_def
      serving_host_def)

end
