(* ===== verification/Api_Values.thy ===== *)
theory Api_Values
  imports Guest_Copy Api_Calls
begin

text \<open>
  What the exported functions that read deliver to the plugin: properties, buffers, the
  configuration and single headers.
\<close>

lemma get_req_there:
  "ngx_http_wasm_get_req w = Some (Some r) \<Longrightarrow> must_get_req w go = go r"
  by (simp add: must_get_req_def)

lemma must_get_str:
  assumes "vm_documented E" "guest_str w a sz bs"
  shows "must_get_memory E a sz w go = go (sint a)"
  using get_memory_slot [OF assms(1), of w a "length bs" sz] assms(2)
  by (simp add: must_get_memory_def guest_str_def)

section \<open>Buffers\<close>

text \<open>The lengths the code computes with, for a body shorter than 2 GiB.\<close>

lemma buffer_lengths:
  assumes "length body < 2 ^ 31"
  shows "(ucast (of_nat (length body) :: u64) :: i32) = of_nat (length body)"
    "sint (ucast (of_nat (length body) :: u64) :: i32) = int (length body)"
proof -
  show e: "(ucast (of_nat (length body) :: u64) :: i32) = of_nat (length body)"
    by transfer (simp add: min_def)
  show "sint (ucast (of_nat (length body) :: u64) :: i32) = int (length body)"
    unfolding e using assms by (rule sint_of_nat_i32)
qed

lemma copy_buffer_part:
  assumes len: "length body < 2 ^ 31" "body \<noteq> []"
    and st: "0 \<le> sint start" "0 < sint sz" "sint start < int (length body)"
      "sint start + sint sz < 2 ^ 31"
  shows "copy_buffer E False (Some (str_of body)) start sz addr size_addr w =
    ngx_http_wasm_copy_to_wasm E (Some (drop (nat (sint start)) body))
      (of_nat (length (take (nat (sint sz)) (drop (nat (sint start)) body)))) addr size_addr w"
proof -
  note L = buffer_lengths [OF len(1)]
  have nz: "(of_nat (length body) :: i32) \<noteq> 0"
    using len of_nat_i32_inj [of "length body" 0] by auto
  have sum: "sint (start + sz) = sint start + sint sz"
    using st sint_i32_bounds [of start] sint_i32_bounds [of sz] by (intro sint_add_i32) simp_all
  let ?s = "nat (sint start)" and ?z = "nat (sint sz)"
  have ns: "start = of_nat ?s" "sz = of_nat ?z"
    using st by (simp_all add: of_nat_nat)
  have "(if int (length body) < sint (start + sz) then of_nat (length body) - start else sz) =
      of_nat (length (take ?z (drop ?s body)))"
  proof (cases "int (length body) < sint (start + sz)")
    case True
    then have "length (take ?z (drop ?s body)) = length body - ?s" using st sum by simp
    moreover have "(of_nat (length body - ?s) :: i32) = of_nat (length body) - of_nat ?s"
      using st by (intro of_nat_diff) simp
    ultimately show ?thesis using True ns(1) by simp
  next
    case False
    then have "length (take ?z (drop ?s body)) = ?z" using st sum by simp
    then show ?thesis using False ns(2) by simp
  qed
  then show ?thesis
    using L nz st by (simp add: copy_buffer_def str_of_def Let_def)
qed

lemma buffer_case:
  "copy_buffer E False (Some (str_of [])) start sz addr size_addr w = Some (PROXY_RESULT_NOT_FOUND, w)"
  "length body < 2 ^ 31 \<Longrightarrow> body \<noteq> [] \<Longrightarrow>
     sint start < 0 \<or> sint sz \<le> 0 \<or> int (length body) \<le> sint start \<Longrightarrow>
     copy_buffer E False (Some (str_of body)) start sz addr size_addr w = Some (PROXY_RESULT_BAD_ARGUMENT, w)"
proof -
  show "copy_buffer E False (Some (str_of [])) start sz addr size_addr w = Some (PROXY_RESULT_NOT_FOUND, w)"
    by (simp add: copy_buffer_def str_of_def)
next
  assume a: "length body < 2 ^ 31" "body \<noteq> []"
    "sint start < 0 \<or> sint sz \<le> 0 \<or> int (length body) \<le> sint start"
  have "(of_nat (length body) :: i32) \<noteq> 0" using a(1,2) of_nat_i32_inj [of "length body" 0] by auto
  with a(3) buffer_lengths [OF a(1)]
  show "copy_buffer E False (Some (str_of body)) start sz addr size_addr w = Some (PROXY_RESULT_BAD_ARGUMENT, w)"
    by (auto simp: copy_buffer_def str_of_def Let_def)
qed

lemma get_body_log: "ngx_http_wasm_get_log w = Some () \<Longrightarrow> ngx_http_wasm_get_body w = Some b \<Longrightarrow>
    proxy_get_buffer_bytes E 0 start sz addr size_addr w = copy_buffer E False b start sz addr size_addr w"
  by (simp add: proxy_get_buffer_bytes_def)

section \<open>Properties\<close>

text \<open>
  C19. \<^verbatim>\<open>proxy_get_buffer_bytes\<close> of a body below 2 GiB: an empty body is not found; a negative
  start, a size that is not positive or a start behind the body is a bad argument and changes
  nothing; otherwise the plugin receives the piece of the body from \<open>start\<close> on, \<open>sz\<close> bytes or
  what is left, as long as \<open>start + sz\<close> is below 2 GiB too.
\<close>

theorem buffer_bytes_slice:
  assumes "vm_documented E" "ngx_http_wasm_get_log w = Some ()"
    "ngx_http_wasm_get_body w = Some (Some (str_of body))" "length body < 2 ^ 31"
    "sint start + sint sz < 2 ^ 31"
    "takes_copy E (length (take (nat (sint sz)) (drop (nat (sint start)) body))) addr size_addr w"
  shows "if body = [] then proxy_get_buffer_bytes E 0 start sz addr size_addr w = Some (PROXY_RESULT_NOT_FOUND, w)
    else if sint start < 0 \<or> sint sz \<le> 0 \<or> int (length body) \<le> sint start
    then proxy_get_buffer_bytes E 0 start sz addr size_addr w = Some (PROXY_RESULT_BAD_ARGUMENT, w)
    else \<exists>w'. proxy_get_buffer_bytes E 0 start sz addr size_addr w = Some (PROXY_RESULT_OK, w') \<and>
      delivered w' addr size_addr (take (nat (sint sz)) (drop (nat (sint start)) body))"
proof -
  let ?part = "take (nat (sint sz)) (drop (nat (sint start)) body)"
  note eq = get_body_log [OF assms(2,3)]
  consider "body = []" | "body \<noteq> []" "sint start < 0 \<or> sint sz \<le> 0 \<or> int (length body) \<le> sint start"
    | "body \<noteq> []" "0 \<le> sint start" "0 < sint sz" "sint start < int (length body)" by linarith
  then show ?thesis
  proof cases
    case 1
    then show ?thesis using buffer_case(1) by (simp add: eq)
  next
    case 2
    then show ?thesis using buffer_case(2) [OF assms(4)] by (simp add: eq)
  next
    case 3
    then have "?part \<noteq> []" by (cases "drop (nat (sint start)) body") auto
    from copy_delivers [OF assms(1,6) this, of "drop (nat (sint sz)) (drop (nat (sint start)) body)"]
    have "\<exists>w'. ngx_http_wasm_copy_to_wasm E (Some (drop (nat (sint start)) body)) (of_nat (length ?part)) addr
        size_addr w = Some (PROXY_RESULT_OK, w') \<and> delivered w' addr size_addr ?part"
      by (simp only: append_take_drop_id)
    with 3 show ?thesis by (simp add: eq copy_buffer_part [OF assms(4) 3 assms(5)] del: drop_drop length_take)
  qed
qed

text \<open>
  C35. A defect: the sum \<^verbatim>\<open>start + size\<close> of \<^verbatim>\<open>proxy_get_buffer_bytes\<close> wraps for a start and a size
  that are both valid, so the size is not cut to the body, and the copy reads behind the end
  of the body: host memory would go to the plugin.
\<close>

theorem buffer_bytes_overflow_undefined:
  assumes "vm_documented E" "ngx_http_wasm_get_log w = Some ()"
    "ngx_http_wasm_get_body w = Some (Some (str_of body))" "length body < 2 ^ 31"
    "0 \<le> sint start" "sint start < int (length body)" "0 < sint sz" "2 ^ 31 \<le> sint start + sint sz"
    "takes_copy E (nat (sint sz)) addr size_addr w"
  shows "proxy_get_buffer_bytes E 0 start sz addr size_addr w = None"
proof -
  note L = buffer_lengths [OF assms(4)]
  let ?z = "nat (sint sz)" and ?d = "drop (nat (sint start)) body"
  have nz: "(of_nat (length body) :: i32) \<noteq> 0"
    using assms(4,5,6) of_nat_i32_inj [of "length body" 0] by auto
  have "sint (start + sz) < 0"
    using sint_add_i32_over [OF assms(8)] sint_i32_bounds [of start] sint_i32_bounds [of sz] by simp
  then have run: "proxy_get_buffer_bytes E 0 start sz addr size_addr w =
      ngx_http_wasm_copy_to_wasm E (Some ?d) sz addr size_addr w"
    using get_body_log [OF assms(2,3), of E start sz addr size_addr] L nz assms(5-7)
    by (simp add: copy_buffer_def str_of_def Let_def)
  have z: "sz = of_nat ?z" "size_of_i32 sz = ?z" "sz \<noteq> 0" "sint sz = int ?z"
    using assms(7) by (auto simp: size_of_i32_nonneg)
  from assms(9) obtain w1 a w2 where s: "guest_slot w size_addr 4"
    and w1: "guest_wr w (sint size_addr) (le32 sz) = Some w1"
    and al: "proxy_wasm_memory_alloc E sz w1 = Some (a, w2)" "a \<noteq> 0" and sa: "guest_slot w2 a ?z"
    using z(1) by (auto simp: takes_copy_def takes_buffer_def gives_buffer_def)
  have "rd ?d 0 ?z = None"
    using assms(5,6,8) sint_i32_bounds [of start] assms(4) by (simp add: rd_None_iff in_obj_def)
  then show ?thesis
    unfolding run using w1 al z get_memory_slot [OF assms(1) s guest_slot_4] get_memory_slot [OF assms(1) sa z(4)]
    by (simp add: ngx_http_wasm_copy_to_wasm_def)
qed

text \<open>
  C26. \<^verbatim>\<open>proxy_get_property\<close>: \<^verbatim>\<open>plugin_root_id\<close> is the name of the plugin whose state is current;
  any other name is looked up, in lower case, as a variable of nginx for the current request,
  and its value is delivered or it is not found. Without a request it is a bad argument.
\<close>

theorem get_property_outcome:
  assumes vm: "vm_documented E" and log: "ngx_http_wasm_get_log w = Some ()"
    and path: "guest_str w path_data path_size name" "length name \<le> 4096"
    and pn: "ngx_http_wasm_get_plugin_name w = Some (Some plugin_name)" "plugin_name \<noteq> []"
      "takes_copy E (length plugin_name) addr size_addr w"
    and r: "ngx_http_wasm_get_req w = Some req"
    and var: "\<forall>r. req = Some r \<longrightarrow> (\<exists>rq. h_requests w r = Some rq \<and>
        e_get_variable E (strlow E name) (e_hash_strlow E name) rq = (vv, rq) \<and> vv \<noteq> VarNull)"
    and tk: "\<forall>v. vv = VarValue v \<longrightarrow> v \<noteq> [] \<and> takes_copy E (length v) addr size_addr w"
  shows "case (name = ascii ''plugin_root_id'', req, vv) of
      (True, _) \<Rightarrow> \<exists>w'. proxy_get_property E path_data path_size addr size_addr w = Some (PROXY_RESULT_OK, w') \<and>
        delivered w' addr size_addr plugin_name
    | (False, None, _) \<Rightarrow>
        proxy_get_property E path_data path_size addr size_addr w = Some (PROXY_RESULT_BAD_ARGUMENT, w)
    | (False, Some r, VarValue v) \<Rightarrow>
        \<exists>w'. proxy_get_property E path_data path_size addr size_addr w = Some (PROXY_RESULT_OK, w') \<and>
          delivered w' addr size_addr v
    | (False, Some r, _) \<Rightarrow>
        proxy_get_property E path_data path_size addr size_addr w = Some (PROXY_RESULT_NOT_FOUND, w)"
proof -
  note P = guest_strD [OF path(1)]
  have root: "(if path_size = 14 then do { bs \<leftarrow> guest_rd w (sint path_data) 14; Some (bs = ascii ''plugin_root_id'') }
      else Some False) = Some (name = ascii ''plugin_root_id'')"
  proof (cases "path_size = 14")
    case True
    then have "length name = 14" using P(1) by (simp add: size_of_i32_nonneg)
    then show ?thesis using True P(2) by simp
  next
    case False
    then have "name \<noteq> ascii ''plugin_root_id''" using P(4) by auto
    then show ?thesis using False by simp
  qed
  show ?thesis
  proof (cases "name = ascii ''plugin_root_id''")
    case True
    then show ?thesis
      using copy_whole [OF vm pn(3,2)] pn(1) log root
      by (simp add: proxy_get_property_def must_get_str [OF vm path(1)])
  next
    case False
    show ?thesis
    proof (cases req)
      case None
      then show ?thesis using False r log root
        by (simp add: proxy_get_property_def must_get_str [OF vm path(1)] must_get_req_def)
    next
      case (Some rr)
      then obtain rq where rq: "h_requests w rr = Some rq"
        "e_get_variable E (strlow E name) (e_hash_strlow E name) rq = (vv, rq)" "vv \<noteq> VarNull" using var by auto
      have same: "upd_request rr (\<lambda>_. rq) w = Some w" using rq(1) by (simp add: upd_request_def fun_upd_idem)
      have "proxy_get_property E path_data path_size addr size_addr w =
          (case vv of VarNull \<Rightarrow> None | VarNotFound \<Rightarrow> Some (PROXY_RESULT_NOT_FOUND, w)
             | VarValue v \<Rightarrow> ngx_http_wasm_copy_to_wasm E (Some v) (of_nat (length v)) addr size_addr w)"
        using False r log root Some rq path(2) P(1,2)
        by (simp add: proxy_get_property_def must_get_str [OF vm path(1)] must_get_req_def
            ngx_http_wasm_get_string_buf_def same)
      then show ?thesis
        using False Some rq(3) tk copy_whole [OF vm] by (cases vv) auto
    qed
  qed
qed

text \<open>
  C36. A defect: \<^verbatim>\<open>proxy_set_property\<close> checks the key a second time instead of the value. A value
  outside the linear memory is not refused; the variable is set with a NULL value (which
  clears it) and the plugin is told that all went well.
\<close>

theorem set_property_null_value:
  assumes "vm_documented E" "ngx_http_wasm_get_log w = Some ()" "ngx_http_wasm_get_req w = Some (Some r)"
    "h_requests w r = Some rq" "guest_str w path_data path_size name" "length name + 256 \<le> 4096"
    "vm_get_memory E data sz w = Some None" "e_set_variable E name None sz rq = (NGX_OK, msg, rq')"
  shows "proxy_set_property E path_data path_size data sz w =
    Some (PROXY_RESULT_OK, w\<lparr>h_requests := (h_requests w)(r \<mapsto> rq')\<rparr>)"
proof -
  note P = guest_strD [OF assms(5)]
  obtain m where "guest_mem w = Some m" using guest_str_mem [OF assms(5)] by auto
  then show ?thesis
    using assms(2-4,6-8) P(1,2)
    by (simp add: proxy_set_property_def get_req_there [OF assms(3)] must_get_str [OF assms(1,5)]
        ngx_http_wasm_get_string_buf_def str_arg_def upd_request_def)
qed

text \<open>
  What a request header is for a plugin: the pseudo header, or the first header of that name
  that is not deleted.
\<close>

definition find_header :: "env \<Rightarrow> bytes \<Rightarrow> table_elt list \<Rightarrow> bytes option" where
  "find_header E k hs =
     (case filter (\<lambda>h. te_hash h \<noteq> 0 \<and> same_name E k (te_key h)) hs of [] \<Rightarrow> None | h # _ \<Rightarrow> Some (te_value h))"

definition nul_free :: "header_list \<Rightarrow> bool" where
  "nul_free parts \<longleftrightarrow> (\<forall>part \<in> set parts. \<forall>h \<in> set part. 0 \<notin> set (te_key h))"

lemma find_header_simps:
  "find_header E k [] = None"
  "find_header E k (h # hs) =
     (if te_hash h \<noteq> 0 \<and> same_name E k (te_key h) then Some (te_value h) else find_header E k hs)"
  by (auto simp: find_header_def)

lemma find_elt_part:
  assumes "strncasecmp_documented E" "rd m key (length k) = Some k" "\<forall>h \<in> set hs. 0 \<notin> set (te_key h)"
  shows "find_elt E m key (length k) (hs # parts) =
    (case find_header E k hs of Some v \<Rightarrow> Some (Some v) | None \<Rightarrow> find_elt E m key (length k) ([] # parts))"
  using assms(3)
proof (induction hs)
  case (Cons h hs)
  then have "name_is E m key (length k) (te_key h) = Some (same_name E k (te_key h))"
    by (intro name_is_bytes [OF assms(1) _ assms(2)]) simp
  with Cons show ?case by (simp add: find_header_simps)
qed (simp add: find_header_simps)

lemma find_header_append:
  "find_header E k (xs @ ys) = (case find_header E k xs of Some v \<Rightarrow> Some v | None \<Rightarrow> find_header E k ys)"
  by (induction xs) (simp_all add: find_header_simps)

lemma find_elt_header:
  assumes "strncasecmp_documented E" "rd m key (length k) = Some k" "nul_free parts"
    "\<forall>part \<in> set (tl parts). part \<noteq> []"
  shows "find_elt E m key (length k) parts = Some (find_header E k (concat parts))"
  using assms(3,4)
proof (induction parts)
  case Nil
  then show ?case by (simp add: find_header_simps)
next
  case (Cons part parts)
  then have part: "\<forall>h \<in> set part. 0 \<notin> set (te_key h)" and "nul_free parts" by (simp_all add: nul_free_def)
  with Cons have IH: "find_elt E m key (length k) parts = Some (find_header E k (concat parts))"
    by (cases parts) auto
  have "find_elt E m key (length k) ([] # parts) = Some (find_header E k (concat parts))"
    using Cons.prems IH by (cases parts) (auto simp: find_header_simps)
  then show ?case
    by (simp add: find_elt_part [OF assms(1,2) part] find_header_append split: option.split)
qed

text \<open>
  C21. \<^verbatim>\<open>proxy_get_header_map_value\<close> of a request header: names are compared without case. The
  pseudo headers answer from the request line and the Host header; any other name gives the
  value of the first header of the list with this name that is not deleted, or it is not
  found.
\<close>

theorem request_header_outcome:
  assumes vm: "vm_documented E" and cmp: "strncasecmp_documented E"
    and r: "ngx_http_wasm_get_req w = Some (Some r)" "h_requests w r = Some rq" "rq_host rq = Some host"
    and hs: "nul_free (rq_headers_in rq)" "\<forall>part \<in> set (tl (rq_headers_in rq)). part \<noteq> []"
    and key: "guest_str w key_data key_size k"
    and v: "v = (case pseudo_of E wasm_pseudo_req_header_static_table k of
        Some ty \<Rightarrow> pseudo_getter E ty rq | None \<Rightarrow> find_header E k (concat (rq_headers_in rq)))"
    and tk: "\<forall>x. v = Some x \<longrightarrow> x \<noteq> [] \<and> takes_copy E (length x) addr size_addr w"
  shows "case v of
      None \<Rightarrow> proxy_get_header_map_value E 0 key_data key_size addr size_addr w = Some (PROXY_RESULT_NOT_FOUND, w)
    | Some x \<Rightarrow> \<exists>w'. proxy_get_header_map_value E 0 key_data key_size addr size_addr w =
          Some (PROXY_RESULT_OK, w') \<and> delivered w' addr size_addr x"
proof -
  note P = guest_strD [OF key]
  obtain m where m: "guest_mem w = Some m" "rd m (sint key_data) (length k) = Some k"
    using guest_str_mem [OF key] by auto
  let ?table = "wasm_pseudo_req_header_static_table"
  have getter: "\<exists>x. pseudo_getter E ty rq = Some x" for ty
    using r(3) by (auto simp: pseudo_getter_def ngx_http_wasm_get_scheme_def ngx_http_wasm_get_path_def
        ngx_http_wasm_get_method_def ngx_http_wasm_get_authority_def ngx_http_wasm_get_status_def
        split: pseudo_header.split)
  have "ngx_http_wasm_get_pseudo_req_header E rq m (sint key_data) (length k) =
      Some (case pseudo_of E ?table k of Some ty \<Rightarrow> pseudo_getter E ty rq | None \<Rightarrow> None)"
    using starts_with_colon_bytes [OF m(2)] find_pseudo_bytes [OF cmp pseudo_tables_nul_free(2) m(2)] getter
    by (auto simp: ngx_http_wasm_get_pseudo_req_header_def ngx_http_wasm_get_pseudo_header_def pseudo_of_def
        split: list.splits option.splits) (metis bind.bind_lunit getter)+
  moreover have "find_elt E m (sint key_data) (length k) (rq_headers_in rq) =
      Some (find_header E k (concat (rq_headers_in rq)))"
    using find_elt_header [OF cmp m(2) hs] .
  ultimately have "proxy_get_header_map_value E 0 key_data key_size addr size_addr w = copy_value E v addr size_addr w"
    using r m P(1) v getter
    by (auto simp: proxy_get_header_map_value_def get_req_there [OF r(1)] must_get_str [OF vm key]
        ngx_http_wasm_req_get_header_def split: option.split)
      (metis option.distinct(1) getter)+
  then show ?thesis using tk copy_whole [OF vm] by (auto simp: copy_value_def split: option.split)
qed

section \<open>Witnesses\<close>

theorem buffer_bytes_slice_witness:
  "\<exists>w'. proxy_get_buffer_bytes sample_env 0 1 9 400 404
     (serving_host\<lparr>h_states := [4 \<mapsto> sample_state\<lparr>ws_body := Some (str_of [5, 6, 7])\<rparr>]\<rparr>) =
       Some (PROXY_RESULT_OK, w') \<and> delivered w' 400 404 [6, 7]"
proof -
  let ?w = "serving_host\<lparr>h_states := [4 \<mapsto> sample_state\<lparr>ws_body := Some (str_of [5, 6, 7])\<rparr>]\<rparr>"
  have "ngx_http_wasm_get_log ?w = Some ()" "ngx_http_wasm_get_body ?w = Some (Some (str_of [5, 6, 7]))"
    by (simp_all add: serving_host_def ngx_http_wasm_get_log_def ngx_http_wasm_get_req_def cur_wasm_state_def
        ngx_http_wasm_get_body_def sample_state_def sample_host_def)
  note b = this
  have "takes_copy sample_env (length (take (nat (sint (9 :: i32))) (drop (nat (sint (1 :: i32))) [5, 6, 7 :: byte])))
      400 404 ?w"
    by (rule serving_takes_copy) (simp_all add: serving_host_simps)
  from buffer_bytes_slice [OF sample_vm_documented b _ _ this]
  show ?thesis by simp
qed

theorem get_property_outcome_witness:
  "\<exists>w'. proxy_get_property sample_env 408 14 400 404 (serving_with (ascii ''plugin_root_id'')) =
     Some (PROXY_RESULT_OK, w') \<and> delivered w' 400 404 (ascii ''p'')"
proof -
  let ?n = "ascii ''plugin_root_id''"
  have l: "length ?n \<le> 104" by simp
  note S = serving_with_simps [of ?n]
  have tk: "takes_copy sample_env (length (ascii ''p'')) 400 404 (serving_with ?n)"
    by (rule serving_takes_copy [OF S(1) S(2) [OF l]]) simp
  have "guest_str (serving_with ?n) 408 14 ?n"
    using serving_with_str [OF l] by (simp add: ascii_def)
  note out = get_property_outcome [OF sample_vm_documented S(5) this _ S(6) _ tk S(3), of VarNotFound]
  have "e_get_variable sample_env k h rq = (VarNotFound, rq)" for k h rq by (simp add: sample_env_def)
  moreover have "ascii ''p'' \<noteq> []" by (simp add: ascii_def)
  ultimately show ?thesis using S(4) out by simp
qed

theorem set_property_null_value_witness:
  "\<exists>w'. proxy_set_property sample_env 408 1 510 9 (serving_with (ascii ''a'')) = Some (PROXY_RESULT_OK, w')"
proof -
  let ?w = "serving_with (ascii ''a'')"
  note S = serving_with_simps [of "ascii ''a''"]
  have str: "guest_str ?w 408 1 (ascii ''a'')" using serving_with_str [of "ascii ''a''"] by simp
  have "vm_get_memory sample_env 510 9 ?w = Some None"
    using S(1) S(2) [of 0]
    by (simp add: vm_get_memory_eq vm_pointer_def sample_env_def wasmtime_pointer_def size_of_i32_nonneg)
  moreover have "e_set_variable sample_env (ascii ''a'') None 9 sample_request = (NGX_OK, [], sample_request)"
    by (simp add: sample_env_def)
  ultimately show ?thesis
    using set_property_null_value [OF sample_vm_documented S(5,3,4) str] by (simp add: ascii_def)
qed

theorem request_header_outcome_witness:
  "\<exists>w'. proxy_get_header_map_value sample_env 0 408 4 400 404 (serving_with (ascii ''hOST'')) =
     Some (PROXY_RESULT_OK, w') \<and> delivered w' 400 404 (ascii ''h'')"
proof -
  let ?n = "ascii ''hOST''"
  note S = serving_with_simps [of ?n]
  have str: "guest_str (serving_with ?n) 408 4 ?n" using serving_with_str [of ?n] by (simp add: ascii_def)
  have tk: "takes_copy sample_env (length (ascii ''h'')) 400 404 (serving_with ?n)"
    by (rule serving_takes_copy [OF S(1) S(2)]) simp_all
  have v: "Some (ascii ''h'') = (case pseudo_of sample_env wasm_pseudo_req_header_static_table ?n of
        Some ty \<Rightarrow> pseudo_getter sample_env ty sample_request
      | None \<Rightarrow> find_header sample_env ?n (concat (rq_headers_in sample_request)))" by code_simp
  have "nul_free (rq_headers_in sample_request)" by (simp add: nul_free_def sample_request_def ascii_def)
  from request_header_outcome [OF sample_vm_documented sample_strncasecmp S(3,4) _ this _ str v, of "ascii ''h''" 400 404]
  show ?thesis using tk by (simp add: sample_request_def ascii_def)
qed

text \<open>A plugin with 2 GiB of memory whose allocator answers 16, and a body of 32 bytes.\<close>

definition wide_env :: env where
  "wide_env = sample_env\<lparr>e_invoke := \<lambda>pl name args hr w. (InvokeOk (I32 16), w)\<rparr>"

definition wide_host :: host where
  "wide_host = serving_host\<lparr>h_mem := \<lambda>_. replicate (2 ^ 31) 0,
     h_states := [4 \<mapsto> sample_state\<lparr>ws_body := Some (str_of (replicate 32 0))\<rparr>]\<rparr>"

lemma wide_takes:
  "takes_copy wide_env (2 ^ 31 - 20) 4 8 wide_host"
proof -
  have h: "h_cur_plugin wide_host = Some 0" "length (h_mem wide_host 0) = 2 ^ 31"
    by (simp_all add: wide_host_def serving_host_simps del: power_numeral)
  have s: "guest_slot wide_host 8 4" using h by (simp add: guest_slot_def guest_mem_def in_obj_def)
  then obtain w1 where w1: "guest_wr wide_host (sint (8 :: i32)) (le32 (of_nat (2 ^ 31 - 20))) = Some w1"
    using guest_slot_wr [OF s, of "le32 (of_nat (2 ^ 31 - 20))"] by auto
  then have h1: "h_cur_plugin w1 = Some 0" "length (h_mem w1 0) = 2 ^ 31"
    using h by (auto simp: guest_wr_Some wr_length)
  have "proxy_wasm_memory_alloc wide_env sz w1 = Some (16, w1)" for sz
    using h1 vm_call_cur_func [of w1 0 wide_env "''proxy_on_memory_allocate''" 2 1 "[sz]" True]
    by (simp add: proxy_wasm_memory_alloc_def wide_env_def sample_env_def vm_result_def)
  then have "takes_buffer wide_env (2 ^ 31 - 20) 4 8 w1 16 w1"
    using h1 by (simp add: takes_buffer_def gives_buffer_def guest_slot_def apart_def guest_mem_def in_obj_def)
  moreover have "guest_rd w1 (sint (8 :: i32)) 4 = Some (le32 (of_nat (2 ^ 31 - 20)))"
    using guest_rd_wr_same [OF w1] by simp
  ultimately show ?thesis using s w1 unfolding takes_copy_def by blast
qed

theorem buffer_bytes_overflow_undefined_witness:
  "proxy_get_buffer_bytes wide_env 0 20 (2 ^ 31 - 20) 4 8 wide_host = None"
proof -
  have "ngx_http_wasm_get_log wide_host = Some ()"
    "ngx_http_wasm_get_body wide_host = Some (Some (str_of (replicate 32 0)))"
    by (simp_all add: wide_host_def serving_host_def ngx_http_wasm_get_log_def ngx_http_wasm_get_req_def
        cur_wasm_state_def ngx_http_wasm_get_body_def sample_state_def sample_host_def)
  moreover have "vm_documented wide_env" by (simp add: vm_documented_def wide_env_def sample_env_def)
  moreover have "nat (sint (2 ^ 31 - 20 :: i32)) = 2 ^ 31 - 20" by simp
  with wide_takes have "takes_copy wide_env (nat (sint (2 ^ 31 - 20 :: i32))) 4 8 wide_host" by simp
  ultimately show ?thesis
    using buffer_bytes_overflow_undefined [of wide_env wide_host "replicate 32 0" 20 "2 ^ 31 - 20" 4 8] by simp
qed

end
