(* ===== verification/Api_Changes.thy ===== *)
theory Api_Changes
  imports Api_Values
begin

text \<open>
  What the exported functions that change something do to the request: headers and
  pseudo headers.
\<close>

section \<open>Checks of bytes\<close>

text \<open>The bytes that may not be part of a path: control characters except TAB, and DEL.\<close>

definition control_byte :: "byte \<Rightarrow> bool" where
  "control_byte c \<longleftrightarrow> (c < 0x20 \<and> c \<noteq> 9) \<or> c = 0x7f"

lemma unsafe_uri_byte_control: "unsafe_uri_byte c = control_byte c"
proof -
  have "\<forall>n \<in> set [0..<256]. unsafe_uri_byte (of_nat n) = control_byte (of_nat n)"
    by code_simp
  moreover have "unat c < 2 ^ LENGTH(8)" by (rule unsigned_less)
  then have "unat c < 256" by simp
  ultimately have "unsafe_uri_byte (of_nat (unat c)) = control_byte (of_nat (unat c))" by (auto simp: Ball_def)
  then show ?thesis by simp
qed

lemma rd_Suc:
  assumes "rd m p (Suc n) = Some bs"
  shows "\<exists>b cs. bs = b # cs \<and> rd m p 1 = Some [b] \<and> rd m (p + 1) n = Some cs"
proof -
  from assms have "rd m p (1 + n) = Some bs" by simp
  then obtain x y where xy: "rd m p 1 = Some x" "rd m (p + 1) n = Some y" "bs = x @ y"
    unfolding rd_split by (auto simp: bind_eq_Some_conv)
  then obtain b where "x = [b]" using rd_SomeD [OF xy(1)] by (auto simp: length_Suc_conv)
  with xy show ?thesis by auto
qed

lemma check_uri_bytes:
  "rd m p (length bs) = Some bs \<Longrightarrow>
     ngx_http_wasm_check_unsafe_uri_bytes m p (length bs) =
       Some (if \<exists>c \<in> set bs. control_byte c then NGX_ERROR else NGX_OK)"
proof (induction bs arbitrary: p)
  case (Cons b bs)
  then have "rd m p 1 = Some [b]" "rd m (p + 1) (length bs) = Some bs"
    using rd_Suc [of m p "length bs" "b # bs"] by auto
  with Cons.IH [OF this(2)] show ?case by (auto simp: unsafe_uri_byte_control)
qed simp

lemma check_method_bytes:
  "rd m p (length bs) = Some bs \<Longrightarrow>
     ngx_http_wasm_check_unsafe_method m p (length bs) =
       Some (if \<forall>c \<in> set bs. is_alpha c then NGX_OK else NGX_ERROR)"
proof (induction bs arbitrary: p)
  case (Cons b bs)
  then have "rd m p 1 = Some [b]" "rd m (p + 1) (length bs) = Some bs"
    using rd_Suc [of m p "length bs" "b # bs"] by auto
  with Cons.IH [OF this(2)] show ?case by auto
qed simp

section \<open>Request headers\<close>

lemma guest_str_part:
  assumes "guest_str w a sz bs" "sint b = sint a + int i" "i + n \<le> length bs" "cs = take n (drop i bs)"
    "sint z = int n"
  shows "guest_str w b z cs"
proof -
  from assms(1) obtain m where m: "guest_mem w = Some m" "in_obj m (sint a) (length bs)" "0 \<le> sint a"
    "sint a + int (length bs) < 2 ^ 31" and r: "rd m (sint a) (length bs) = Some bs"
    by (auto simp: guest_str_def guest_slot_def guest_rd_mem)
  have l: "length cs = n" using assms(3,4) by simp
  have "take (length bs) (drop (nat (sint a)) m) = bs" using r by (simp add: rd_def split: if_splits)
  then have "take n (drop i (take (length bs) (drop (nat (sint a)) m))) = cs" using assms(4) by simp
  moreover have "nat (sint b) = i + nat (sint a)" using m(3) assms(2) by simp
  moreover have "min n (length bs - i) = n" using assms(3) by simp
  ultimately have "take n (drop (nat (sint b)) m) = cs" by (simp add: drop_take)
  moreover have "in_obj m (sint b) n" using m(2,3) assms(2,3) by (simp add: in_obj_def)
  ultimately show ?thesis
    using m assms(2,3,5) l by (auto simp: guest_str_def guest_slot_def guest_rd_mem rd_def)
qed

definition no_oom :: "env \<Rightarrow> bool" where
  "no_oom E \<longleftrightarrow> (\<forall>n sz. \<not> e_oom E n sz)"

lemma no_oom_alloc: "no_oom E \<Longrightarrow> try_alloc E sz w = (True, w\<lparr>h_allocs := Suc (h_allocs w)\<rparr>)"
  by (simp add: no_oom_def try_alloc_def)

text \<open>
  The specification: what setting a request header does to the request, on byte strings, and
  whether it is accepted. A pseudo header cannot be removed; a path is any string without
  control characters, a method any string of letters; all other names are up to
  \<^verbatim>\<open>ngx_http_lua_ffi_req_set_header\<close>.
\<close>

definition is_pseudo_name :: "bytes \<Rightarrow> bool" where
  "is_pseudo_name k \<longleftrightarrow> (case k of [] \<Rightarrow> False | c # _ \<Rightarrow> [c] = ascii '':'')"

definition change_request_header ::
  "env \<Rightarrow> bytes \<Rightarrow> bytes option \<Rightarrow> bool \<Rightarrow> request \<Rightarrow> bool \<times> request" where
  "change_request_header E k v override rq =
     (if is_pseudo_name k \<and> (v = None \<or> v = Some []) then (False, rq)
      else case (pseudo_of E (tl wasm_pseudo_req_header_static_table) k, v) of
        (Some PseudoPath, Some v) \<Rightarrow>
          if \<exists>c \<in> set v. control_byte c then (False, rq) else (True, set_path E v rq)
      | (Some _, Some v) \<Rightarrow>
          if \<forall>c \<in> set v. is_alpha c then (True, rq\<lparr>rq_method_name := v\<rparr>) else (False, rq)
      | _ \<Rightarrow> (case e_set_req_header E k v override rq of
                (rc, rq') \<Rightarrow> (rc = NGX_OK \<or> rc = NGX_DECLINED, rq')))"

text \<open>A change of one request that may have allocated.\<close>

definition only_request :: "host \<Rightarrow> nat \<Rightarrow> request \<Rightarrow> host \<Rightarrow> bool" where
  "only_request w r rq w' \<longleftrightarrow> (\<exists>n. w' = w\<lparr>h_requests := (h_requests w)(r \<mapsto> rq), h_allocs := n\<rparr>)"

lemma only_request_same: "h_requests w r = Some rq \<Longrightarrow> only_request w r rq w"
  unfolding only_request_def by (rule exI [of _ "h_allocs w"]) (simp add: fun_upd_idem)

lemma only_request_upd: "h_requests w r = Some rq \<Longrightarrow>
    \<exists>w'. upd_request r f w = Some w' \<and> only_request w r (f rq) w'"
  by (auto simp: upd_request_def only_request_def intro!: exI [of _ "h_allocs w"])

lemma only_request_alloc:
  "only_request (w\<lparr>h_allocs := n\<rparr>) r rq w' \<Longrightarrow> only_request w r rq w'"
  by (auto simp: only_request_def)

lemma pseudo_tl_nul_free: "\<forall>(name, ty) \<in> set (tl wasm_pseudo_req_header_static_table). 0 \<notin> set name"
  by (simp add: wasm_pseudo_req_header_static_table_def ascii_def)

text \<open>The string of an argument, or that there is none.\<close>

definition arg_bytes :: "bytes \<Rightarrow> (int \<times> nat) option \<Rightarrow> bytes option \<Rightarrow> bool" where
  "arg_bytes m a v = (case (a, v) of
     (None, None) \<Rightarrow> True | (Some (p, n), Some v) \<Rightarrow> n = length v \<and> rd m p n = Some v | _ \<Rightarrow> False)"

lemma arg_bytesD: "arg_bytes m a v \<Longrightarrow> str_arg m a = Some v"
  "arg_bytes m a v \<Longrightarrow> str_arg_len a = 0 \<longleftrightarrow> v = None \<or> v = Some []"
  by (auto simp: arg_bytes_def str_arg_def str_arg_len_def split: option.splits)

lemma set_pseudo_change:
  assumes "no_oom E" "h_requests w r = Some rq" "rd m p (length v) = Some v"
  shows "\<exists>rc w'. set_pseudo_req_header E r m ty (p, length v) w = Some (rc, w') \<and>
    (case (if ty = PseudoPath
           then if \<exists>c \<in> set v. control_byte c then (False, rq) else (True, set_path E v rq)
           else if \<forall>c \<in> set v. is_alpha c then (True, rq\<lparr>rq_method_name := v\<rparr>) else (False, rq))
     of (ok, rq') \<Rightarrow> (rc = NGX_OK \<longleftrightarrow> ok) \<and> only_request w r rq' w')"
proof -
  let ?w = "w\<lparr>h_allocs := Suc (h_allocs w)\<rparr>"
  have rq: "h_requests ?w r = Some rq" using assms(2) by simp
  have upd: "\<exists>w'. upd_request r f ?w = Some w' \<and> only_request w r (f rq) w'" for f
    using only_request_upd [OF rq, of f] by (auto dest: only_request_alloc)
  show ?thesis
    using upd [of "set_path E v"] upd [of "\<lambda>rq. rq\<lparr>rq_method_name := v\<rparr>"] only_request_same [OF assms(2)]
    by (auto simp: set_pseudo_req_header_def check_uri_bytes [OF assms(3)] check_method_bytes [OF assms(3)]
        no_oom_alloc [OF assms(1)] assms(3))
qed

lemma pseudo_of_name: "pseudo_of E table k = (if is_pseudo_name k then lookup_pseudo E k table else None)"
  by (auto simp: pseudo_of_def is_pseudo_name_def split: list.split)

lemma set_req_header_change:
  assumes "strncasecmp_documented E" "no_oom E" "h_requests w r = Some rq"
    and k: "rd m key (length k) = Some k" and v: "arg_bytes m a v"
  shows "\<exists>rc w'. ngx_http_wasm_set_req_header E r m key (length k) a override w = Some (rc, w') \<and>
    (case change_request_header E k v override rq of
       (ok, rq') \<Rightarrow> (rc = NGX_OK \<longleftrightarrow> ok) \<and> only_request w r rq' w')"
proof -
  note V = arg_bytesD [OF v]
  have colon: "starts_with_colon m key (length k) = Some (is_pseudo_name k)"
    using starts_with_colon_bytes [OF k] by (simp add: is_pseudo_name_def)
  let ?found = "pseudo_of E (tl wasm_pseudo_req_header_static_table) k"
  have found: "(if is_pseudo_name k then find_pseudo E m key (length k) (tl wasm_pseudo_req_header_static_table)
      else Some None) = Some ?found"
    using find_pseudo_bytes [OF assms(1) pseudo_tl_nul_free k] by (simp add: pseudo_of_name)
  show ?thesis
  proof (cases "is_pseudo_name k \<and> (v = None \<or> v = Some [])")
    case True
    then show ?thesis
      using only_request_same [OF assms(3)] colon V(2)
      by (simp add: ngx_http_wasm_set_req_header_def change_request_header_def)
  next
    case False
    show ?thesis
    proof (cases ?found)
      case None
      obtain rc rq' where ffi: "e_set_req_header E k v override rq = (rc, rq')" by (cases "e_set_req_header E k v override rq")
      obtain w' where "upd_request r (\<lambda>_. rq') w = Some w'" "only_request w r rq' w'"
        using only_request_upd [OF assms(3), of "\<lambda>_. rq'"] by auto
      then show ?thesis
        using False None colon found k V ffi assms(3)
        by (auto simp: ngx_http_wasm_set_req_header_def change_request_header_def ffi_rc_def)
    next
      case (Some ty)
      with False obtain p u where u: "v = Some u" "a = Some (p, length u)" "rd m p (length u) = Some u"
        using v by (auto simp: arg_bytes_def pseudo_of_name split: option.splits if_splits)
      have "ngx_http_wasm_set_req_header E r m key (length k) a override w =
          set_pseudo_req_header E r m ty (p, length u) w"
        using False Some colon found V(2) u
        by (cases "is_pseudo_name k") (simp_all add: ngx_http_wasm_set_req_header_def pseudo_of_name)
      moreover have "change_request_header E k v override rq = (if ty = PseudoPath
           then if \<exists>c \<in> set u. control_byte c then (False, rq) else (True, set_path E u rq)
           else if \<forall>c \<in> set u. is_alpha c then (True, rq\<lparr>rq_method_name := u\<rparr>) else (False, rq))"
        using False Some u(1) by (cases ty) (auto simp: change_request_header_def)
      ultimately show ?thesis using set_pseudo_change [OF assms(2,3) u(3), of ty] by simp
    qed
  qed
qed

lemma header_result_change:
  assumes "\<exists>rc w'. res = Some (rc, w') \<and> (case ch of (ok, rq') \<Rightarrow> (rc = NGX_OK \<longleftrightarrow> ok) \<and> P rq' w')"
  shows "case ch of (ok, rq') \<Rightarrow>
    \<exists>w'. header_result res = Some (if ok then PROXY_RESULT_OK else PROXY_RESULT_BAD_ARGUMENT, w') \<and> P rq' w'"
  using assms by (auto simp: header_result_def split: prod.splits)

text \<open>The three exported functions, up to the setter.\<close>

lemma request_header_calls:
  assumes vm: "vm_documented E" and r: "ngx_http_wasm_get_req w = Some (Some r)" "h_requests w r = Some rq"
    and k: "guest_str w key_data key_size k" and v: "guest_str w data sz v" and m: "guest_mem w = Some m"
  shows "set_header_map_value E ov 0 key_data key_size data sz w =
      header_result (ngx_http_wasm_set_req_header E r m (sint key_data) (length k)
        (Some (sint data, length v)) ov w)"
    "proxy_remove_header_map_value E 0 key_data key_size w =
      header_result (ngx_http_wasm_set_req_header E r m (sint key_data) (length k) None True w)"
proof -
  have log: "ngx_http_wasm_get_log w = Some ()" using r by (simp add: ngx_http_wasm_get_log_def)
  show "set_header_map_value E ov 0 key_data key_size data sz w =
      header_result (ngx_http_wasm_set_req_header E r m (sint key_data) (length k)
        (Some (sint data, length v)) ov w)"
    using m by (simp add: set_header_map_value_def log get_req_there [OF r(1)]
        must_get_str [OF vm k] must_get_str [OF vm v] guest_strD(1) [OF k] guest_strD(1) [OF v])
  show "proxy_remove_header_map_value E 0 key_data key_size w =
      header_result (ngx_http_wasm_set_req_header E r m (sint key_data) (length k) None True w)"
    using m by (simp add: proxy_remove_header_map_value_def log get_req_there [OF r(1)]
        must_get_str [OF vm k] guest_strD(1) [OF k])
qed

lemma set_header_change:
  assumes vm: "vm_documented E" and cmp: "strncasecmp_documented E" and oom: "no_oom E"
    and r: "ngx_http_wasm_get_req w = Some (Some r)" "h_requests w r = Some rq"
    and k: "guest_str w key_data key_size k" and v: "guest_str w data sz v"
  shows "case change_request_header E k (Some v) ov rq of (ok, rq') \<Rightarrow>
    \<exists>w'. set_header_map_value E ov 0 key_data key_size data sz w =
      Some (if ok then PROXY_RESULT_OK else PROXY_RESULT_BAD_ARGUMENT, w') \<and> only_request w r rq' w'"
proof -
  obtain m where m: "guest_mem w = Some m" "rd m (sint key_data) (length k) = Some k"
    using guest_str_mem [OF k] by auto
  have "rd m (sint data) (length v) = Some v" using guest_str_mem [OF v] m(1) by auto
  then have "arg_bytes m (Some (sint data, length v)) (Some v)" by (simp add: arg_bytes_def)
  from set_req_header_change [OF cmp oom r(2) m(2) this, THEN header_result_change]
  show ?thesis by (simp add: request_header_calls(1) [OF vm r k v m(1)])
qed

lemma remove_header_change:
  assumes vm: "vm_documented E" and cmp: "strncasecmp_documented E" and oom: "no_oom E"
    and r: "ngx_http_wasm_get_req w = Some (Some r)" "h_requests w r = Some rq"
    and k: "guest_str w key_data key_size k"
  shows "case change_request_header E k None True rq of (ok, rq') \<Rightarrow>
    \<exists>w'. proxy_remove_header_map_value E 0 key_data key_size w =
      Some (if ok then PROXY_RESULT_OK else PROXY_RESULT_BAD_ARGUMENT, w') \<and> only_request w r rq' w'"
proof -
  obtain m where m: "guest_mem w = Some m" "rd m (sint key_data) (length k) = Some k"
    using guest_str_mem [OF k] by auto
  have "arg_bytes m None None" by (simp add: arg_bytes_def)
  from set_req_header_change [OF cmp oom r(2) m(2) this, of True, THEN header_result_change]
  show ?thesis by (simp add: request_header_calls(2) [OF vm r k k m(1)])
qed

text \<open>
  C8. The three functions that change a request header do to the request what the
  specification \<open>change_request_header\<close> says of the byte strings the guest passed, answer OK
  or BAD_ARGUMENT as it accepts the change, and touch nothing else. The bitmap of the C code
  rejects exactly the control characters.
\<close>

theorem request_header_change:
  assumes vm: "vm_documented E" and cmp: "strncasecmp_documented E" and oom: "no_oom E"
    and r: "ngx_http_wasm_get_req w = Some (Some r)" "h_requests w r = Some rq"
    and k: "guest_str w key_data key_size k" and v: "guest_str w data sz v"
  shows "(case change_request_header E k (Some v) True rq of (ok, rq') \<Rightarrow>
      \<exists>w'. proxy_replace_header_map_value E 0 key_data key_size data sz w =
        Some (if ok then PROXY_RESULT_OK else PROXY_RESULT_BAD_ARGUMENT, w') \<and> only_request w r rq' w') \<and>
    (case change_request_header E k (Some v) False rq of (ok, rq') \<Rightarrow>
      \<exists>w'. proxy_add_header_map_value E 0 key_data key_size data sz w =
        Some (if ok then PROXY_RESULT_OK else PROXY_RESULT_BAD_ARGUMENT, w') \<and> only_request w r rq' w') \<and>
    (case change_request_header E k None True rq of (ok, rq') \<Rightarrow>
      \<exists>w'. proxy_remove_header_map_value E 0 key_data key_size w =
        Some (if ok then PROXY_RESULT_OK else PROXY_RESULT_BAD_ARGUMENT, w') \<and> only_request w r rq' w')"
  using set_header_change [OF assms, of True] set_header_change [OF assms, of False]
    remove_header_change [OF vm cmp oom r k]
  by (simp add: proxy_replace_header_map_value_def proxy_add_header_map_value_def)

theorem request_header_change_witness:
  "\<exists>w'. proxy_replace_header_map_value sample_env 0 408 5 409 4 (serving_with (ascii '':path'')) =
     Some (PROXY_RESULT_OK, w') \<and>
     only_request (serving_with (ascii '':path'')) 7 (set_path sample_env (ascii ''path'') sample_request) w'"
proof -
  let ?w = "serving_with (ascii '':path'')"
  note S = serving_with_simps [of "ascii '':path''"]
  have k: "guest_str ?w 408 5 (ascii '':path'')" using serving_with_str [of "ascii '':path''"] by simp
  have v: "guest_str ?w 409 4 (ascii ''path'')"
    by (rule guest_str_part [OF k, where i = 1 and n = 4]) (simp_all add: ascii_def)
  have "no_oom sample_env" by (simp add: no_oom_def sample_env_def)
  moreover have "change_request_header sample_env (ascii '':path'') (Some (ascii ''path'')) True sample_request =
      (True, set_path sample_env (ascii ''path'') sample_request)" by code_simp
  ultimately show ?thesis
    using request_header_change [OF sample_vm_documented sample_strncasecmp _ S(3,4) k v] by simp
qed

text \<open>
  C29. Defects of the pseudo headers of a request: \<^verbatim>\<open>:authority\<close> is in the table of names that may
  be set, but whatever is not the path is stored as the method. Setting it to a string of
  letters overwrites the request method and answers OK, the host is as before; any host name
  with a dot, a digit or a hyphen is refused. \<^verbatim>\<open>:scheme\<close>, which a comment calls readonly, is
  not refused either: it is set as an ordinary header of this name.
\<close>

theorem pseudo_headers_confused:
  assumes vm: "vm_documented E" and cmp: "strncasecmp_documented E" and oom: "no_oom E"
    and r: "ngx_http_wasm_get_req w = Some (Some r)" "h_requests w r = Some rq"
    and k: "guest_str w a asz (ascii '':authority'')" "guest_str w s ssz (ascii '':scheme'')"
    and v: "guest_str w data sz v" "v \<noteq> []"
    and low: "strlow E (ascii '':scheme'') \<noteq> strlow E (ascii '':method'')"
  shows "((\<forall>c \<in> set v. is_alpha c) \<longrightarrow>
      (\<exists>w'. proxy_replace_header_map_value E 0 a asz data sz w = Some (PROXY_RESULT_OK, w') \<and>
         only_request w r (rq\<lparr>rq_method_name := v\<rparr>) w')) \<and>
    ((\<exists>c \<in> set v. \<not> is_alpha c) \<longrightarrow>
      (\<exists>w'. proxy_replace_header_map_value E 0 a asz data sz w = Some (PROXY_RESULT_BAD_ARGUMENT, w') \<and>
         only_request w r rq w')) \<and>
    (\<forall>rq'. e_set_req_header E (ascii '':scheme'') (Some v) True rq = (NGX_OK, rq') \<longrightarrow>
      (\<exists>w'. proxy_replace_header_map_value E 0 s ssz data sz w = Some (PROXY_RESULT_OK, w') \<and>
         only_request w r rq' w'))"
proof -
  let ?table = "tl wasm_pseudo_req_header_static_table"
  have neq: "\<not> same_name E x y" if "length x \<noteq> length y" for x y
    using that same_name_length by blast
  have n: "is_pseudo_name (ascii '':authority'')" "is_pseudo_name (ascii '':scheme'')" by code_simp+
  have "pseudo_of E ?table (ascii '':authority'') = Some PseudoAuthority"
    using n(1) by (simp add: pseudo_of_name wasm_pseudo_req_header_static_table_def neq)
      (simp add: same_name_def)
  then have auth: "change_request_header E (ascii '':authority'') (Some v) True rq =
      (if \<forall>c \<in> set v. is_alpha c then (True, rq\<lparr>rq_method_name := v\<rparr>) else (False, rq))"
    using v(2) by (simp add: change_request_header_def)
  have "pseudo_of E ?table (ascii '':scheme'') = None"
    using n(2) low by (simp add: pseudo_of_name wasm_pseudo_req_header_static_table_def neq)
      (simp add: same_name_def)
  then have "change_request_header E (ascii '':scheme'') (Some v) True rq =
      (case e_set_req_header E (ascii '':scheme'') (Some v) True rq of
         (rc, rq') \<Rightarrow> (rc = NGX_OK \<or> rc = NGX_DECLINED, rq'))"
    using v(2) by (simp add: change_request_header_def)
  then show ?thesis
    using set_header_change [OF vm cmp oom r k(1) v(1), of True]
      set_header_change [OF vm cmp oom r k(2) v(1), of True] auth
    by (auto simp: proxy_replace_header_map_value_def split: if_splits)
qed

theorem pseudo_headers_confused_witness:
  "\<exists>w'. proxy_replace_header_map_value sample_env 0 408 10 425 4
       (serving_with (ascii '':authority:schemePOST'')) = Some (PROXY_RESULT_OK, w') \<and>
     only_request (serving_with (ascii '':authority:schemePOST'')) 7
       (sample_request\<lparr>rq_method_name := ascii ''POST''\<rparr>) w'"
proof -
  let ?s = "ascii '':authority:schemePOST''"
  note S = serving_with_simps [of ?s]
  have "guest_str (serving_with ?s) 408 21 ?s" using serving_with_str [of ?s] by simp
  note part = guest_str_part [OF this]
  have k: "guest_str (serving_with ?s) 408 10 (ascii '':authority'')"
    by (rule part [where i = 0 and n = 10]) (simp_all add: ascii_def)
  have s: "guest_str (serving_with ?s) 418 7 (ascii '':scheme'')"
    by (rule part [where i = 10 and n = 7]) (simp_all add: ascii_def)
  have v: "guest_str (serving_with ?s) 425 4 (ascii ''POST'')"
    by (rule part [where i = 17 and n = 4]) (simp_all add: ascii_def)
  have "no_oom sample_env" by (simp add: no_oom_def sample_env_def)
  moreover have "strlow sample_env (ascii '':scheme'') \<noteq> strlow sample_env (ascii '':method'')"
    "\<forall>c \<in> set (ascii ''POST''). is_alpha c" "ascii ''POST'' \<noteq> []" by code_simp+
  ultimately show ?thesis
    using pseudo_headers_confused [OF sample_vm_documented sample_strncasecmp _ S(3,4) k s v] by blast
qed

end
