(* ===== verification/Api_Actions.thy ===== *)
theory Api_Actions
  imports Api_Changes
begin

text \<open>
  What the exported functions that answer a request or start an HTTP call do: the local
  response is left in the main configuration and the response headers, the call with the
  module context of the request.
\<close>

section \<open>What depends on the linear memory only\<close>

lemma guest_str_mem_eq:
  assumes "guest_mem w' = guest_mem w"
  shows "guest_str w' a sz bs = guest_str w a sz bs"
proof -
  have "guest_rd w' p n = guest_rd w p n" for p n
    using assms by (cases "guest_mem w") (auto simp: guest_rd_def guest_mem_def bind_eq_None_conv)
  then show ?thesis using assms by (simp add: guest_str_def guest_slot_def)
qed

lemma guest_slot_mem_eq: "guest_mem w' = guest_mem w \<Longrightarrow> guest_slot w' a n = guest_slot w a n"
  by (simp add: guest_slot_def)

lemma get_memory_mem_eq:
  "h_cur_plugin w' = h_cur_plugin w \<Longrightarrow> h_mem w' = h_mem w \<Longrightarrow> vm_get_memory E a sz w' = vm_get_memory E a sz w"
  by (simp add: vm_get_memory_eq)

lemma guest_mem_upd [simp]:
  "guest_mem (w\<lparr>h_requests := x\<rparr>) = guest_mem w" "guest_mem (w\<lparr>h_allocs := n\<rparr>) = guest_mem w"
  "guest_mem (w\<lparr>h_code := c\<rparr>) = guest_mem w" "guest_mem (w\<lparr>h_body := b\<rparr>) = guest_mem w"
  "guest_mem (w\<lparr>h_cur_callout_id := i\<rparr>) = guest_mem w" "guest_mem (w\<lparr>h_body_pool := q\<rparr>) = guest_mem w"
  by (simp_all add: guest_mem_def)

text \<open>A header map that the guest passes: its bytes are an encoding of the entries.\<close>

lemma guest_map:
  assumes "guest_str w a sz (enc_map kvs)"
  shows "\<exists>m. guest_mem w = Some m \<and> map_at m (sint a) kvs" "map_size kvs < 2 ^ 31" "0 < sint sz"
proof -
  obtain m where "guest_mem w = Some m" "rd m (sint a) (length (enc_map kvs)) = Some (enc_map kvs)"
    using guest_str_mem [OF assms] by auto
  then show "\<exists>m. guest_mem w = Some m \<and> map_at m (sint a) kvs" by (auto simp: map_at_def length_enc_map)
  show "map_size kvs < 2 ^ 31" using guest_strD(3) [OF assms] by (simp add: length_enc_map)
  have "sint sz = int (map_size kvs)" using assms by (simp add: guest_str_def length_enc_map)
  then show "0 < sint sz" by (simp add: map_size_def)
qed

lemma enc_map_at: "map_at (enc_map kvs) 0 kvs"
  by (simp add: map_at_def rd_def in_obj_def length_enc_map [symmetric])

section \<open>Response headers\<close>

text \<open>What setting a response header does to the request, and whether it is accepted.\<close>

definition set_response_header :: "env \<Rightarrow> bytes \<Rightarrow> bytes \<Rightarrow> request \<Rightarrow> bool \<times> request" where
  "set_response_header E k v rq =
     (if same_name E k (ascii '':status'')
      then if e_atoi E v = NGX_ERROR then (False, rq)
           else (case e_set_resp_status E (e_atoi E v) rq of
                   (rc, rq') \<Rightarrow> (rc = NGX_OK \<or> rc = NGX_DECLINED, rq'))
      else (case e_set_resp_header E k False (Some v) False rq of
              (rc, rq') \<Rightarrow> (rc = NGX_OK \<or> rc = NGX_DECLINED, rq')))"

fun set_response_headers :: "env \<Rightarrow> (bytes \<times> bytes) list \<Rightarrow> request \<Rightarrow> bool \<times> request" where
  "set_response_headers E [] rq = (True, rq)"
| "set_response_headers E ((k, v) # kvs) rq =
     (case set_response_header E k v rq of
        (ok, rq') \<Rightarrow> if ok then set_response_headers E kvs rq' else (False, rq'))"

text \<open>One round of the loop, on bytes.\<close>

definition respond_entry :: "env \<Rightarrow> nat \<Rightarrow> bytes \<Rightarrow> bytes \<Rightarrow> host \<Rightarrow> (proxy_result \<times> host + host) option" where
  "respond_entry E r k v w =
     (if same_name E k (ascii '':status'') \<and> e_atoi E v = NGX_ERROR then Some (Inl (PROXY_RESULT_BAD_ARGUMENT, w))
      else do {
        rq \<leftarrow> h_requests w r;
        let (ok, rq') = set_response_header E k v rq;
        w \<leftarrow> upd_request r (\<lambda>_. rq') w;
        Some (if ok then Inr w else Inl (PROXY_RESULT_BAD_ARGUMENT, w)) })"

lemma local_resp_header_bytes:
  assumes "strncasecmp_documented E" "length k < 2 ^ 31" "length v < 2 ^ 31"
    and k: "rd m kp (length k) = Some k" and v: "rd m vp (length v) = Some v"
  shows "local_resp_header E r m kp (of_nat (length k)) vp (of_nat (length v)) w = respond_entry E r k v w"
proof -
  have st: "name_is E m kp (length k) (ascii '':status'') = Some (same_name E k (ascii '':status''))"
    by (rule name_is_bytes [OF assms(1) _ k]) (simp add: ascii_def)
  show ?thesis
  proof (cases "h_requests w r")
    case None
    then show ?thesis
      using st k v by (simp add: local_resp_header_def respond_entry_def ngx_http_wasm_set_resp_header_def
          size_of_nat_i32 [OF assms(2)] size_of_nat_i32 [OF assms(3)] str_arg_def)
  next
    case (Some rq)
    then show ?thesis
      using st k v
      by (auto simp: local_resp_header_def respond_entry_def ngx_http_wasm_set_resp_header_def
          set_response_header_def size_of_nat_i32 [OF assms(2)] size_of_nat_i32 [OF assms(3)] str_arg_def
          ffi_rc_def upd_request_def Let_def split: prod.split)
  qed
qed

lemma respond_entries:
  assumes "h_requests w r = Some rq"
  shows "fold_entries (respond_entry E r) kvs w = Some (case set_response_headers E kvs rq of
    (ok, rq') \<Rightarrow> if ok then Inr (w\<lparr>h_requests := (h_requests w)(r \<mapsto> rq')\<rparr>)
                 else Inl (PROXY_RESULT_BAD_ARGUMENT, w\<lparr>h_requests := (h_requests w)(r \<mapsto> rq')\<rparr>))"
  using assms
proof (induction kvs arbitrary: w rq)
  case Nil
  then show ?case by (simp add: fun_upd_idem)
next
  case (Cons e kvs)
  obtain k v where e: "e = (k, v)" by (cases e)
  obtain ok rq' where s: "set_response_header E k v rq = (ok, rq')" by (cases "set_response_header E k v rq")
  let ?w = "w\<lparr>h_requests := (h_requests w)(r \<mapsto> rq')\<rparr>"
  have "respond_entry E r k v w = Some (if ok then Inr ?w else Inl (PROXY_RESULT_BAD_ARGUMENT, ?w))"
  proof (cases "same_name E k (ascii '':status'') \<and> e_atoi E v = NGX_ERROR")
    case True
    then show ?thesis using s Cons.prems by (auto simp: respond_entry_def set_response_header_def fun_upd_idem)
  next
    case False
    have "upd_request r (\<lambda>_. rq') w = Some ?w" using Cons.prems by (simp add: upd_request_def)
    then show ?thesis using False s Cons.prems by (auto simp: respond_entry_def)
  qed
  then show ?case using Cons.IH [of ?w rq'] s e
    by (cases ok; cases "set_response_headers E kvs rq'") auto
qed

section \<open>The local response\<close>

lemma local_resp_headers_outcome:
  assumes vm: "vm_documented E" and cmp: "strncasecmp_documented E"
    and r: "h_requests w r = Some rq" and hs: "guest_str w headers headers_size (enc_map kvs)"
  shows "local_resp_headers E r headers headers_size w = Some (case set_response_headers E kvs rq of
    (ok, rq') \<Rightarrow> if ok then Inr (w\<lparr>h_requests := (h_requests w)(r \<mapsto> rq')\<rparr>)
                 else Inl (PROXY_RESULT_BAD_ARGUMENT, w\<lparr>h_requests := (h_requests w)(r \<mapsto> rq')\<rparr>))"
proof -
  note G = guest_map [OF hs]
  from G(1) obtain m where m: "guest_mem w = Some m" "map_at m (sint headers) kvs" by auto
  have p: "vm_get_memory E headers headers_size w = Some (Some (sint headers))"
    using hs get_memory_slot [OF vm] by (auto simp: guest_str_def)
  have "map_loop m (local_resp_header E r m) (iter_at (sint headers) (length kvs) []) w =
      fold_entries (respond_entry E r) kvs w"
    by (rule map_loop_whole [OF m(2) G(2) map_at_init_iter [OF m(2) G(2)]])
      (use entry_bound [OF G(2)] in \<open>auto intro!: local_resp_header_bytes [OF cmp]\<close>)
  then show ?thesis
    using G(3) p m(1) map_at_init_iter [OF m(2) G(2)] respond_entries [OF r]
    by (simp add: local_resp_headers_def)
qed

lemma local_resp_body_outcome:
  assumes vm: "vm_documented E" and oom: "no_oom E" and b: "guest_str w body body_size bs" "bs \<noteq> []"
  shows "local_resp_body E r body body_size w = Some (PROXY_RESULT_OK,
    w\<lparr>h_allocs := Suc (h_allocs w), h_body := (h_body w)\<lparr>str_data := Some bs\<rparr>, h_body_pool := Some r\<rparr>)"
proof -
  note B = guest_strD [OF b(1)]
  have pos: "0 < sint body_size" using b by (simp add: guest_str_def)
  have "guest_rd (w\<lparr>h_allocs := Suc (h_allocs w)\<rparr>) (sint body) (length bs) = Some bs"
    using B(2) by (simp add: guest_rd_def)
  then show ?thesis
    using pos B(1) by (simp add: local_resp_body_def must_get_str [OF vm b(1)] no_oom_alloc [OF oom])
qed

lemma send_local_response:
  assumes vm: "vm_documented E" and cmp: "strncasecmp_documented E" and oom: "no_oom E"
    and r: "ngx_http_wasm_get_req w = Some (Some r)" "h_requests w r = Some rq"
    and hs: "guest_str w headers headers_size (enc_map kvs)"
    and b: "guest_str w body body_size bs" "bs \<noteq> []"
    and out: "set_response_headers E kvs rq = (ok, rq')"
  shows "\<exists>w'. proxy_send_local_response E code details details_size body body_size headers headers_size grpc w =
      Some (if ok then PROXY_RESULT_OK else PROXY_RESULT_BAD_ARGUMENT, w') \<and>
    h_code w' = code \<and> h_requests w' = (h_requests w)(r \<mapsto> rq') \<and> h_mem w' = h_mem w \<and>
    h_states w' = h_states w \<and> h_cur_state w' = h_cur_state w \<and>
    h_body w' = \<lparr>str_len = of_nat (length bs), str_data = (if ok then Some bs else str_data (h_body w))\<rparr> \<and>
    h_body_pool w' = (if ok then Some r else h_body_pool w) \<and>
    (local_body_dangles w' \<longleftrightarrow> \<not> ok \<and> local_body_dangles w)"
proof -
  let ?w = "w\<lparr>h_code := code, h_body := (h_body w)\<lparr>str_len := scast body_size\<rparr>\<rparr>"
  have len: "(scast body_size :: u64) = of_nat (length bs)"
    using guest_strD(3,4) [OF b(1)] by (simp add: scast_eq sint_of_nat_i32)
  have "guest_str ?w headers headers_size (enc_map kvs)" using hs by (simp add: guest_str_mem_eq [of ?w w])
  from local_resp_headers_outcome [OF vm cmp _ this, of r rq] r(2) out
  have H: "local_resp_headers E r headers headers_size ?w =
      Some (if ok then Inr (?w\<lparr>h_requests := (h_requests w)(r \<mapsto> rq')\<rparr>)
            else Inl (PROXY_RESULT_BAD_ARGUMENT, ?w\<lparr>h_requests := (h_requests w)(r \<mapsto> rq')\<rparr>))" by simp
  let ?w1 = "?w\<lparr>h_requests := (h_requests w)(r \<mapsto> rq')\<rparr>"
  have "guest_str ?w1 body body_size bs" using b(1) by (simp add: guest_str_mem_eq [of ?w1 w])
  note B = local_resp_body_outcome [OF vm oom this b(2), of r]
  show ?thesis
    using r(2) H B
    by (cases ok) (auto simp: proxy_send_local_response_def get_req_there [OF r(1)] len local_body_dangles_def
        split: option.splits)
qed

text \<open>
  C17. A local response: \<^verbatim>\<open>proxy_send_local_response\<close> with a header map and a body leaves the
  status code, the body and, header by header, the response headers for the module. A header
  that is refused ends it with BAD_ARGUMENT, but then too the code and the length of the body
  are set, and the headers up to there; the pointer to the body is that of an earlier response,
  which dangles once the request of that response is gone.
\<close>

theorem local_response_outcome:
  assumes vm: "vm_documented E" and cmp: "strncasecmp_documented E" and oom: "no_oom E"
    and r: "ngx_http_wasm_get_req w = Some (Some r)" "h_requests w r = Some rq"
    and hs: "guest_str w headers headers_size (enc_map kvs)"
    and b: "guest_str w body body_size bs" "bs \<noteq> []"
    and out: "set_response_headers E kvs rq = (ok, rq')"
  shows "\<exists>w'. proxy_send_local_response E code details details_size body body_size headers headers_size grpc w =
      Some (if ok then PROXY_RESULT_OK else PROXY_RESULT_BAD_ARGUMENT, w') \<and>
    h_code w' = code \<and> h_requests w' = (h_requests w)(r \<mapsto> rq') \<and> h_mem w' = h_mem w \<and>
    h_body w' = \<lparr>str_len = of_nat (length bs), str_data = (if ok then Some bs else str_data (h_body w))\<rparr> \<and>
    h_body_pool w' = (if ok then Some r else h_body_pool w) \<and>
    (local_body_dangles w' \<longleftrightarrow> \<not> ok \<and> local_body_dangles w)"
  using send_local_response [OF assms] by blast

section \<open>HTTP calls\<close>

text \<open>A guest may start a call: the phase allows it and the arguments are readable.\<close>

definition call_ready ::
  "env \<Rightarrow> nat \<Rightarrow> request \<Rightarrow> wasm_ctx \<Rightarrow> i32 \<times> i32 \<times> bytes \<Rightarrow> i32 \<times> i32 \<times> (bytes \<times> bytes) list \<Rightarrow>
   i32 \<times> i32 \<times> bytes \<Rightarrow> host \<Rightarrow> bool" where
  "call_ready E r rq ctx up hdrs body w \<longleftrightarrow>
     ngx_http_wasm_get_req w = Some (Some r) \<and> h_requests w r = Some rq \<and>
     rq_ctx rq = Some ctx \<and> wc_callout ctx = None \<and> ngx_http_wasm_is_yieldable E rq \<and>
     (case up of (a, sz, bs) \<Rightarrow> guest_str w a sz bs \<and> e_parse_url E bs = NGX_OK) \<and>
     (case hdrs of (a, sz, kvs) \<Rightarrow> guest_str w a sz (enc_map kvs)) \<and>
     (case body of (a, sz, bs) \<Rightarrow> guest_str w a sz bs \<and> bs \<noteq> [])"

lemma copy_as_str:
  assumes "no_oom E" "guest_str w a sz bs"
  shows "ngx_http_wasm_copy_as_str E (sint a) (size_of_i32 sz) w = Some (Some bs, w\<lparr>h_allocs := Suc (h_allocs w)\<rparr>)"
proof -
  have "guest_rd (w\<lparr>h_allocs := n\<rparr>) (sint a) (length bs) = Some bs" for n
    using guest_strD(2) [OF assms(2)] by (simp add: guest_rd_def)
  then show ?thesis
    by (simp add: ngx_http_wasm_copy_as_str_def no_oom_alloc [OF assms(1)] guest_strD(1) [OF assms(2)])
qed

lemma call_copies:
  assumes vm: "vm_documented E" and oom: "no_oom E"
  shows "guest_str w a sz bs \<Longrightarrow> 0 < sint sz \<Longrightarrow>
      call_copy_headers E a sz w = Some (Inr (Some bs, w\<lparr>h_allocs := Suc (h_allocs w)\<rparr>))"
    "guest_str w a sz bs \<Longrightarrow> bs \<noteq> [] \<Longrightarrow>
      call_copy_body E a sz w = Some (Inr (Some bs, w\<lparr>h_allocs := Suc (h_allocs w)\<rparr>))"
proof -
  assume s: "guest_str w a sz bs"
  have p: "vm_get_memory E a sz w = Some (Some (sint a))"
    using s get_memory_slot [OF vm] by (auto simp: guest_str_def)
  have g: "guest_rd (w\<lparr>h_allocs := n\<rparr>) (sint a) (length bs) = Some bs" for n
    using guest_strD(2) [OF s] by (simp add: guest_rd_def)
  { assume "0 < sint sz"
    then show "call_copy_headers E a sz w = Some (Inr (Some bs, w\<lparr>h_allocs := Suc (h_allocs w)\<rparr>))"
      using p g by (simp add: call_copy_headers_def no_oom_alloc [OF oom] guest_strD(1) [OF s]) }
  { assume "bs \<noteq> []"
    then have "0 < sint sz" using s by (simp add: guest_str_def)
    then show "call_copy_body E a sz w = Some (Inr (Some bs, w\<lparr>h_allocs := Suc (h_allocs w)\<rparr>))"
      using p copy_as_str [OF oom s] by (simp add: call_copy_body_def) }
qed

text \<open>The call up to the registration, and the registration.\<close>

definition pending_call :: "wasm_ctx \<Rightarrow> bytes \<Rightarrow> bytes \<Rightarrow> bytes \<Rightarrow> i32 \<Rightarrow> i32 \<Rightarrow> wasm_ctx" where
  "pending_call ctx up hdrs body timeout cid =
     ctx\<lparr>wc_callout := Some \<lparr>co_timeout_ms = timeout, co_up = up, co_map_data = Some hdrs, co_body = Some body\<rparr>,
         wc_callout_id := cid\<rparr>"

lemma http_call_registers:
  assumes vm: "vm_documented E" and oom: "no_oom E" and t: "0 \<le> sint timeout"
    and ready: "call_ready E r rq ctx (ua, usz, up) (ha, hsz, kvs) (ba, bsz, body) w"
  defines "w1 \<equiv> w\<lparr>h_requests := (h_requests w)(r \<mapsto> rq\<lparr>rq_ctx :=
      Some (pending_call ctx up (enc_map kvs) body timeout (h_cur_callout_id w))\<rparr>),
      h_allocs := h_allocs w + 4, h_cur_callout_id := h_cur_callout_id w + 1\<rparr>"
  shows "proxy_http_call E ua usz ha hsz ba bsz td tsz timeout callout_addr w =
    must_get_memory E callout_addr 4 w1 (\<lambda>p.
      do { w \<leftarrow> guest_wr w1 p (le32 (h_cur_callout_id w)); Some (PROXY_RESULT_OK, w) })"
proof -
  from ready have r: "ngx_http_wasm_get_req w = Some (Some r)" "h_requests w r = Some rq"
    and c: "rq_ctx rq = Some ctx" "wc_callout ctx = None" and y: "ngx_http_wasm_is_yieldable E rq"
    and up: "guest_str w ua usz up" "e_parse_url E up = NGX_OK" and hs: "guest_str w ha hsz (enc_map kvs)"
    and b: "guest_str w ba bsz body" "body \<noteq> []" by (simp_all add: call_ready_def)
  let ?w = "\<lambda>n. w\<lparr>h_allocs := n\<rparr>"
  have H: "call_copy_headers E ha hsz (?w n) = Some (Inr (Some (enc_map kvs), ?w (Suc n)))" for n
    using call_copies(1) [OF vm oom _ guest_map(3) [OF hs], of "?w n"] hs guest_str_mem_eq [of "?w n" w] by simp
  have B: "call_copy_body E ba bsz (?w n) = Some (Inr (Some body, ?w (Suc n)))" for n
    using call_copies(2) [OF vm oom _ b(2), of "?w n"] b(1) guest_str_mem_eq [of "?w n" w] by simp
  have R: "ngx_http_wasm_call_register E r up (Some (enc_map kvs)) (Some body) timeout (?w n) =
      Some (NGX_OK, Some (h_cur_callout_id w), w\<lparr>h_requests := (h_requests w)(r \<mapsto> rq\<lparr>rq_ctx :=
        Some (pending_call ctx up (enc_map kvs) body timeout (h_cur_callout_id w))\<rparr>),
        h_allocs := Suc n, h_cur_callout_id := h_cur_callout_id w + 1\<rparr>)" for n
    using r(2) c t
    by (simp add: ngx_http_wasm_call_register_def get_module_ctx_there [of _ r rq ctx] no_oom_alloc [OF oom]
        set_wasm_ctx_def upd_request_def pending_call_def Let_def)
  show ?thesis
    using r(2) y up(2) copy_as_str [OF oom up(1)] H [of "Suc (h_allocs w)"] B [of "Suc (Suc (h_allocs w))"]
      R [of "Suc (Suc (Suc (h_allocs w)))"]
    by (simp add: proxy_http_call_def get_req_there [OF r(1)] must_get_str [OF vm up(1)] w1_def
        call_register_and_store_def numeral_eq_Suc)
qed

lemma http_call_done:
  assumes vm: "vm_documented E" and cmp: "strncasecmp_documented E" and oom: "no_oom E"
    and t: "0 \<le> sint timeout" and slot: "guest_slot w callout_addr 4"
    and ready: "call_ready E r rq ctx (ua, usz, up) (ha, hsz, kvs) (ba, bsz, body) w"
  shows "\<exists>w1 a w2. proxy_http_call E ua usz ha hsz ba bsz td tsz timeout callout_addr w = Some (PROXY_RESULT_OK, w1) \<and>
    guest_rd w1 (sint callout_addr) 4 = Some (le32 (h_cur_callout_id w)) \<and>
    h_cur_callout_id w1 = h_cur_callout_id w + 1 \<and>
    h_states w1 = h_states w \<and> h_cur_state w1 = h_cur_state w \<and>
    (\<exists>rq1. h_requests w1 r = Some rq1 \<and>
       rq_ctx rq1 = Some (pending_call ctx up (enc_map kvs) body timeout (h_cur_callout_id w))) \<and>
    ngx_http_wasm_call_get E r w1 = Some (a, w2) \<and>
    cg_host a = up \<and> cg_timeout a = timeout \<and> cg_body a = Some body \<and> call_means E (enc_map kvs) kvs a"
proof -
  let ?ctx = "pending_call ctx up (enc_map kvs) body timeout (h_cur_callout_id w)"
  let ?w1 = "w\<lparr>h_requests := (h_requests w)(r \<mapsto> rq\<lparr>rq_ctx := Some ?ctx\<rparr>),
      h_allocs := h_allocs w + 4, h_cur_callout_id := h_cur_callout_id w + 1\<rparr>"
  have s1: "guest_slot ?w1 callout_addr 4" using slot by (simp add: guest_slot_mem_eq [of ?w1 w])
  obtain w2 where w2: "guest_wr ?w1 (sint callout_addr) (le32 (h_cur_callout_id w)) = Some w2"
    using guest_slot_wr [OF s1, of "le32 (h_cur_callout_id w)"] by auto
  have call: "proxy_http_call E ua usz ha hsz ba bsz td tsz timeout callout_addr w = Some (PROXY_RESULT_OK, w2)"
    using get_memory_slot [OF vm s1 guest_slot_4] w2
    by (simp add: http_call_registers [OF vm oom t ready] must_get_memory_def)
  note fr = guest_wr_frame [OF w2]
  have sz: "map_size kvs < 2 ^ 31" using ready guest_map(2) by (auto simp: call_ready_def)
  have "h_requests w2 r = Some (rq\<lparr>rq_ctx := Some ?ctx\<rparr>)" using fr(4) by simp
  from call_get_at [OF cmp this, of ?ctx _ "enc_map kvs", OF _ _ _ enc_map_at sz] obtain a w3 where
    "ngx_http_wasm_call_get E r w2 = Some (a, w3)" "cg_host a = up" "cg_timeout a = timeout"
    "cg_body a = Some body" "call_means E (enc_map kvs) kvs a"
    by (auto simp: pending_call_def)
  then show ?thesis using call guest_rd_wr_same [OF w2] fr(4-7) by auto
qed

text \<open>
  C18. An HTTP call from the guest to the Lua library: \<^verbatim>\<open>proxy_http_call\<close> in a phase that can
  yield answers OK, stores the next call id where the guest asked and takes the id after it
  for the next call; what \<^verbatim>\<open>ngx_http_wasm_call_get\<close> then returns is the upstream, timeout, body
  and headers the guest passed, copied out of its memory.
\<close>

theorem http_call_delivered:
  assumes vm: "vm_documented E" and cmp: "strncasecmp_documented E" and oom: "no_oom E"
    and t: "0 \<le> sint timeout" and slot: "guest_slot w callout_addr 4"
    and ready: "call_ready E r rq ctx (ua, usz, up) (ha, hsz, kvs) (ba, bsz, body) w"
  shows "\<exists>w1 a w2. proxy_http_call E ua usz ha hsz ba bsz td tsz timeout callout_addr w = Some (PROXY_RESULT_OK, w1) \<and>
    guest_rd w1 (sint callout_addr) 4 = Some (le32 (h_cur_callout_id w)) \<and>
    h_cur_callout_id w1 = h_cur_callout_id w + 1 \<and>
    ngx_http_wasm_call_get E r w1 = Some (a, w2) \<and>
    cg_host a = up \<and> cg_timeout a = timeout \<and> cg_body a = Some body \<and> call_means E (enc_map kvs) kvs a"
  using http_call_done [OF assms] by blast

text \<open>
  C30. A defect: \<^verbatim>\<open>proxy_http_call\<close> registers the call before it looks at the address for the
  call id. With an address outside the linear memory the guest is told
  INVALID_MEMORY_ACCESS, but the call is pending and the module will run it.
\<close>

theorem http_call_failed_but_pending:
  assumes vm: "vm_documented E" and oom: "no_oom E" and t: "0 \<le> sint timeout"
    and bad: "vm_get_memory E callout_addr 4 w = Some None"
    and ready: "call_ready E r rq ctx (ua, usz, up) (ha, hsz, kvs) (ba, bsz, body) w"
  shows "\<exists>w1 rq1 ctx1. proxy_http_call E ua usz ha hsz ba bsz td tsz timeout callout_addr w =
      Some (PROXY_RESULT_INVALID_MEMORY_ACCESS, w1) \<and>
    h_requests w1 r = Some rq1 \<and> rq_ctx rq1 = Some ctx1 \<and> wc_callout ctx1 \<noteq> None"
proof -
  let ?w1 = "w\<lparr>h_requests := (h_requests w)(r \<mapsto> rq\<lparr>rq_ctx :=
      Some (pending_call ctx up (enc_map kvs) body timeout (h_cur_callout_id w))\<rparr>),
      h_allocs := h_allocs w + 4, h_cur_callout_id := h_cur_callout_id w + 1\<rparr>"
  have "vm_get_memory E callout_addr 4 ?w1 = Some None"
    using bad get_memory_mem_eq [of ?w1 w E callout_addr 4] by simp
  then have "proxy_http_call E ua usz ha hsz ba bsz td tsz timeout callout_addr w =
      Some (PROXY_RESULT_INVALID_MEMORY_ACCESS, ?w1)"
    by (simp add: http_call_registers [OF vm oom t ready] must_get_memory_def)
  then show ?thesis by (auto simp: pending_call_def)
qed

section \<open>Witnesses\<close>

text \<open>A guest memory with a header map, a body and an upstream, and a phase that can yield.\<close>

definition action_bytes :: bytes where
  "action_bytes = enc_map [(ascii ''a'', ascii ''b'')] @ ascii ''oku''"

definition action_env :: env where
  "action_env = sample_env\<lparr>e_get_phase := \<lambda>_. 4\<rparr>"

lemma action_facts:
  "vm_documented action_env" "strncasecmp_documented action_env" "no_oom action_env"
  "guest_str (serving_with action_bytes) 408 16 (enc_map [(ascii ''a'', ascii ''b'')])"
  "guest_str (serving_with action_bytes) 424 2 (ascii ''ok'')"
  "guest_str (serving_with action_bytes) 426 1 (ascii ''u'')" "length action_bytes \<le> 104"
proof -
  show "vm_documented action_env" "no_oom action_env"
    by (simp_all add: vm_documented_def no_oom_def action_env_def sample_env_def)
  show "strncasecmp_documented action_env"
    by (auto simp: strncasecmp_documented_def action_env_def sample_env_def strlow_def)
  have e: "length (enc_map [(ascii ''a'', ascii ''b'')]) = 16"
    by (simp add: length_enc_map map_size_def length_entry_data)
  then have l: "length action_bytes = 19" by (simp add: action_bytes_def)
  then show "length action_bytes \<le> 104" by simp
  have "guest_str (serving_with action_bytes) 408 19 action_bytes"
    using serving_with_str [of action_bytes] l by simp
  note part = guest_str_part [OF this]
  show "guest_str (serving_with action_bytes) 408 16 (enc_map [(ascii ''a'', ascii ''b'')])"
    by (rule part [where i = 0 and n = 16]) (simp_all add: e l action_bytes_def)
  show "guest_str (serving_with action_bytes) 424 2 (ascii ''ok'')"
    by (rule part [where i = 16 and n = 2]) (use l e in \<open>simp_all add: action_bytes_def ascii_def\<close>)
  show "guest_str (serving_with action_bytes) 426 1 (ascii ''u'')"
    by (rule part [where i = 18 and n = 1]) (use l e in \<open>simp_all add: action_bytes_def ascii_def\<close>)
qed

lemma action_ready:
  "call_ready action_env 7 sample_request wasm_ctx_zero (426, 1, ascii ''u'')
     (408, 16, [(ascii ''a'', ascii ''b'')]) (424, 2, ascii ''ok'') (serving_with action_bytes)"
  using action_facts serving_with_simps(3,4) [of action_bytes]
  by (simp add: call_ready_def sample_request_def wasm_ctx_zero_def ngx_http_wasm_is_yieldable_def
      yieldable_phases_def action_env_def sample_env_def ascii_def)

theorem local_response_outcome_witness:
  "\<exists>w'. proxy_send_local_response action_env 403 0 0 424 2 408 16 0 (serving_with action_bytes) =
      Some (PROXY_RESULT_OK, w') \<and> h_code w' = 403 \<and> h_body w' = str_of (ascii ''ok'')"
proof -
  have "set_response_headers action_env [(ascii ''a'', ascii ''b'')] sample_request = (True, sample_request)"
  proof -
    have "\<not> same_name action_env (ascii ''a'') (ascii '':status'')"
      using same_name_length [of action_env "ascii ''a''" "ascii '':status''"] by auto
    moreover have "e_set_resp_header action_env k is_nil v ov rq = (NGX_OK, rq)" for k is_nil v ov rq
      by (simp add: action_env_def sample_env_def)
    ultimately show ?thesis by (simp add: set_response_header_def)
  qed
  from local_response_outcome [OF action_facts(1-3) serving_with_simps(3,4) action_facts(4,5) _ this,
      of 403 0 0 0]
  show ?thesis by (auto simp: str_of_def ascii_def)
qed

theorem http_call_delivered_witness:
  "\<exists>w1 a w2. proxy_http_call action_env 426 1 408 16 424 2 0 0 500 0 (serving_with action_bytes) =
      Some (PROXY_RESULT_OK, w1) \<and>
    ngx_http_wasm_call_get action_env 7 w1 = Some (a, w2) \<and> cg_host a = ascii ''u''"
proof -
  have "guest_slot (serving_with action_bytes) 0 4"
    using serving_with_simps(1,2) [of action_bytes] action_facts(7)
    by (simp add: guest_slot_def guest_mem_def in_obj_def)
  from http_call_delivered [OF action_facts(1-3) _ this action_ready, of 500 0 0] show ?thesis by auto
qed

theorem http_call_failed_but_pending_witness:
  "\<exists>w1. proxy_http_call action_env 426 1 408 16 424 2 0 0 500 510 (serving_with action_bytes) =
      Some (PROXY_RESULT_INVALID_MEMORY_ACCESS, w1)"
proof -
  have "vm_get_memory action_env 510 4 (serving_with action_bytes) = Some None"
    using serving_with_simps(1,2) [of action_bytes] action_facts(7)
    by (simp add: vm_get_memory_eq vm_pointer_def action_env_def sample_env_def wasmtime_pointer_def
        size_of_i32_nonneg)
  from http_call_failed_but_pending [OF action_facts(1,3) _ this action_ready, of 500 0 0] show ?thesis by auto
qed

end
