(* ===== verification/Dispatch.thy ===== *)
theory Dispatch
  imports Module_Steps Api_Actions
begin

text \<open>
  The entry points of src/http/ngx_http_wasm_module.c for a request: the hooks of the four
  phases and of the response of an HTTP call, what their result tells the Lua library, the
  local response it fetches afterwards; and the module's configuration.
\<close>

section \<open>Configuration\<close>

text \<open>\<^verbatim>\<open>ngx_http_wasm_main_conf_t\<close>, as it is created for a configuration.\<close>

record main_conf =
  wm_vm :: bytes
  wm_code :: i32
  wm_body :: ngx_str

abbreviation (input) sizeof_main_conf :: nat where "sizeof_main_conf \<equiv> 40"

definition ngx_http_wasm_create_main_conf :: "env \<Rightarrow> host \<Rightarrow> main_conf option \<times> host" where
  "ngx_http_wasm_create_main_conf E w =
     (case try_alloc E sizeof_main_conf w of
        (False, w) \<Rightarrow> (None, w)
      | (True, w) \<Rightarrow> (Some \<lparr>wm_vm = [], wm_code = 0, wm_body = str_null\<rparr>, w))"

text \<open>The directive \<^verbatim>\<open>wasm_vm\<close>; \<open>Inl\<close> is the message of a failed one.\<close>

definition ngx_http_wasm_vm :: "bytes \<Rightarrow> main_conf \<Rightarrow> string + main_conf" where
  "ngx_http_wasm_vm value c = (if wm_vm c \<noteq> [] then Inl ''is duplicate'' else Inr (c\<lparr>wm_vm := value\<rparr>))"

text \<open>
  \<^verbatim>\<open>ngx_http_wasm_init\<close>: \<open>no_workers\<close> is whether nginx only signals or tests, \<open>vm\<close> the pointer
  \<^verbatim>\<open>ngx_wasm_vm\<close>, \<open>dlsym\<close> and \<open>have_wasmedge\<close> are those of the functions it calls.
\<close>

definition ngx_http_wasm_init ::
  "env \<Rightarrow> (string \<Rightarrow> bool) \<Rightarrow> bool \<Rightarrow> bool \<Rightarrow> main_conf \<Rightarrow> vm_kind option \<Rightarrow> mstate \<Rightarrow> int \<times> vm_kind option \<times> mstate" where
  "ngx_http_wasm_init E dlsym have_wasmedge no_workers wmcf vm s =
     (if no_workers \<or> m_vm_inited s then (NGX_OK, vm, s)
      else case ngx_http_wasm_resolve_symbol dlsym of
        (rc, _) \<Rightarrow>
          if rc \<noteq> NGX_OK then (rc, vm, s)
          else if wm_vm wmcf = [] then (NGX_OK, vm, s)
          else case m_alloc E sizeof_pool_cleanup s of
            (False, s) \<Rightarrow> (NGX_ERROR, vm, s)
          | (True, s) \<Rightarrow>
              (case ngx_wasm_vm_init have_wasmedge (wm_vm wmcf) vm of
                 (rc, vm) \<Rightarrow>
                   if rc \<noteq> NGX_OK then (rc, vm, s) else (NGX_OK, vm, s\<lparr>m_vm_inited := True\<rparr>)))"

section \<open>The hooks\<close>

abbreviation (input) RC_NEED_HTTP_CALL :: int where "RC_NEED_HTTP_CALL \<equiv> 1"
abbreviation (input) HTTP_REQUEST_HEADERS :: nat where "HTTP_REQUEST_HEADERS \<equiv> 1"
abbreviation (input) HTTP_REQUEST_BODY :: nat where "HTTP_REQUEST_BODY \<equiv> 2"
abbreviation (input) HTTP_RESPONSE_HEADERS :: nat where "HTTP_RESPONSE_HEADERS \<equiv> 4"

text \<open>\<^verbatim>\<open>code\<close> is read as \<^verbatim>\<open>int32_t\<close>.\<close>

definition ngx_http_wasm_handle_rc_before_proxy :: "wasm_ctx \<Rightarrow> int \<Rightarrow> host \<Rightarrow> int \<times> host" where
  "ngx_http_wasm_handle_rc_before_proxy ctx rc w =
     (let code = h_code w; w = w\<lparr>h_code := 0\<rparr>
      in if wc_callout ctx \<noteq> None then (RC_NEED_HTTP_CALL, w)
         else if rc < 0 then (rc, w)
         else if 100 \<le> sint code then (sint code, w)
         else (rc, w))"

definition finish_hook :: "nat \<Rightarrow> int \<Rightarrow> mstate \<Rightarrow> (int \<times> mstate) option" where
  "finish_hook r rc s =
     do { s \<leftarrow> m_set_state None s;
          ctx \<leftarrow> request_ctx r (m_host s);
          (case ngx_http_wasm_handle_rc_before_proxy ctx rc (m_host s) of
             (rc, w) \<Rightarrow> Some (rc, s\<lparr>m_host := w\<rparr>)) }"

text \<open>The writes to \<^verbatim>\<open>hwp_ctx->state\<close> and its selection; a NULL body leaves that of the record.\<close>

definition enter_state :: "nat \<Rightarrow> nat \<Rightarrow> ngx_str option \<Rightarrow> mstate \<Rightarrow> mstate option" where
  "enter_state st r body s =
     do { ws \<leftarrow> h_states (m_host s) st;
          let ws = ws\<lparr>ws_r := Some r, ws_body := (case body of None \<Rightarrow> ws_body ws | Some b \<Rightarrow> Some b)\<rparr>;
          let w = m_host s;
          m_set_state (Some st) (s\<lparr>m_host := w\<lparr>h_states := (h_states w)(st \<mapsto> ws)\<rparr>\<rparr>) }"

definition hook_name :: "nat \<Rightarrow> string" where
  "hook_name ty =
     (if ty = HTTP_REQUEST_HEADERS then ''proxy_on_request_headers''
      else if ty = HTTP_REQUEST_BODY then ''proxy_on_request_body''
      else if ty = HTTP_RESPONSE_HEADERS then ''proxy_on_response_headers''
      else ''proxy_on_response_body'')"

text \<open>The call of the hook; the size of the body is passed as \<^verbatim>\<open>size_t\<close> and read as \<^verbatim>\<open>int32_t\<close>.\<close>

definition call_hook :: "env \<Rightarrow> wasm_plugin \<Rightarrow> nat \<Rightarrow> i32 \<Rightarrow> u64 \<Rightarrow> i32 \<Rightarrow> mstate \<Rightarrow> (int \<times> mstate) option" where
  "call_hook E p ty ctx_id sz end_of_body s =
     (if ty = HTTP_REQUEST_HEADERS \<or> ty = HTTP_RESPONSE_HEADERS
      then if pl_abi_version p = PROXY_WASM_ABI_VER_010
           then m_call E (pl_plugin p) (hook_name ty) True NGX_WASM_PARAM_I32_I32 [ctx_id, 0] s
           else m_call E (pl_plugin p) (hook_name ty) True NGX_WASM_PARAM_I32_I32_I32 [ctx_id, 0, 1] s
      else m_call E (pl_plugin p) (hook_name ty) True NGX_WASM_PARAM_I32_I32_I32
             [ctx_id, ucast sz, end_of_body] s)"

definition ngx_http_wasm_on_http ::
  "env \<Rightarrow> nat \<Rightarrow> nat \<Rightarrow> nat \<Rightarrow> bytes option \<Rightarrow> u64 \<Rightarrow> i32 \<Rightarrow> mstate \<Rightarrow> (int \<times> mstate) option" where
  "ngx_http_wasm_on_http E hwp_ctx r ty body sz end_of_body s =
     do { _ \<leftarrow> h_requests (m_host s) r;
          if \<not> m_vm_inited s then Some (NGX_DECLINED, s)
          else do {
            x \<leftarrow> m_pctxs s hwp_ctx;
            st \<leftarrow> px_state x;
            s \<leftarrow> enter_state st r (map_option (\<lambda>b. \<lparr>str_len = sz, str_data = Some b\<rparr>) body) s;
            (http_ctx, s) \<leftarrow> ngx_http_wasm_fetch_http_ctx E hwp_ctx r s;
            (case http_ctx of
               None \<Rightarrow> do { s \<leftarrow> m_set_state None s; Some (NGX_DECLINED, s) }
             | Some hc \<Rightarrow>
                 do { (_, w) \<leftarrow> ngx_http_wasm_get_module_ctx E r (m_host s);
                      let s = s\<lparr>m_host := w\<rparr>;
                      h \<leftarrow> m_hctxs s hc;
                      x \<leftarrow> m_pctxs s hwp_ctx;
                      p \<leftarrow> m_plugins s (px_hw_plugin x);
                      (rc, s) \<leftarrow> call_hook E p ty (hx_id h) sz end_of_body s;
                      finish_hook r rc s }) } }"

text \<open>The local response; the address of the body is returned when its length is not 0.\<close>

definition ngx_http_wasm_fetch_local_body :: "host \<Rightarrow> ngx_str option" where
  "ngx_http_wasm_fetch_local_body w = (if str_len (h_body w) \<noteq> 0 then Some (h_body w) else None)"

text \<open>
  \<^verbatim>\<open>ngx_http_wasm_on_http_call_resp\<close>. The headers and the body stay those of the Lua library;
  the number of headers and the length of the body are passed as \<^verbatim>\<open>int32_t\<close>.
\<close>

definition set_call_resp ::
  "nat \<Rightarrow> (bytes \<times> bytes) list \<Rightarrow> nat \<Rightarrow> bytes option \<Rightarrow> host \<Rightarrow> (wasm_ctx \<times> host) option" where
  "set_call_resp r headers n_header body w =
     do { ctx \<leftarrow> request_ctx r w;
          let ctx = ctx\<lparr>wc_call_resp_headers := headers, wc_call_resp_n_header := n_header,
                        wc_call_resp_body := body\<rparr>;
          w \<leftarrow> set_wasm_ctx r ctx w;
          Some (ctx, w) }"

definition ngx_http_wasm_on_http_call_resp ::
  "env \<Rightarrow> nat \<Rightarrow> nat \<Rightarrow> (bytes \<times> bytes) list \<Rightarrow> nat \<Rightarrow> bytes option \<Rightarrow> mstate \<Rightarrow> (int \<times> mstate) option" where
  "ngx_http_wasm_on_http_call_resp E hwp_ctx r headers n_header body s =
     do { _ \<leftarrow> h_requests (m_host s) r;
          if \<not> m_vm_inited s then Some (NGX_DECLINED, s)
          else do {
            x \<leftarrow> m_pctxs s hwp_ctx;
            st \<leftarrow> px_state x;
            s \<leftarrow> enter_state st r None s;
            (http_ctx, s) \<leftarrow> ngx_http_wasm_fetch_http_ctx E hwp_ctx r s;
            (case http_ctx of
               None \<Rightarrow> do { s \<leftarrow> m_set_state None s; Some (NGX_DECLINED, s) }
             | Some hc \<Rightarrow>
                 do { (_, w) \<leftarrow> ngx_http_wasm_get_module_ctx E r (m_host s);
                      (ctx, w) \<leftarrow> set_call_resp r headers n_header body w;
                      let s = s\<lparr>m_host := w\<rparr>;
                      x \<leftarrow> m_pctxs s hwp_ctx;
                      p \<leftarrow> m_plugins s (px_hw_plugin x);
                      (rc, s) \<leftarrow> m_call E (pl_plugin p) ''proxy_on_http_call_response'' False
                        NGX_WASM_PARAM_I32_I32_I32_I32_I32
                        [px_id x, wc_callout_id ctx, of_nat n_header,
                         (case body of None \<Rightarrow> 0 | Some b \<Rightarrow> of_nat (length b)), 0] s;
                      finish_hook r rc s }) } }"

section \<open>Frames\<close>

lemma request_ctx_simps [simp]:
  "request_ctx r (w\<lparr>h_cur_plugin := p\<rparr>) = request_ctx r w" "request_ctx r (w\<lparr>h_states := st\<rparr>) = request_ctx r w"
  "request_ctx r (w\<lparr>h_cur_state := c\<rparr>) = request_ctx r w" "request_ctx r (w\<lparr>h_allocs := n\<rparr>) = request_ctx r w"
  "request_ctx r (w\<lparr>h_code := k\<rparr>) = request_ctx r w"
  by (simp_all add: request_ctx_def)

lemma same_states_trans: "same_states w w1 \<Longrightarrow> same_states w1 w2 \<Longrightarrow> same_states w w2"
  by (simp add: same_states_def)

lemma m_call_frame:
  assumes "m_call E plugin name hr pt args s = Some (rc, s')" "guest_frame E" "ctx_frame E"
  shows "\<exists>w. s' = s\<lparr>m_host := w\<rparr> \<and> same_states (m_host s) w \<and> keeps_ctxs (m_host s) w"
proof -
  from assms(1) obtain w where w: "vm_call E (Some plugin) name hr pt args (m_host s) = Some (rc, w)"
    "s' = s\<lparr>m_host := w\<rparr>" by (auto simp: m_call_def bind_eq_Some_conv split: if_splits)
  let ?w0 = "(m_host s)\<lparr>h_cur_plugin := Some plugin\<rparr>"
  have "w = ?w0 \<or> (\<exists>args' r. e_invoke E plugin name args' hr ?w0 = (r, w))"
    using w(1) by (auto simp: vm_call_def ngx_wasm_wasmtime_call_def ngx_wasm_wasmedge_call_def select_plugin_def
        split: vm_kind.splits option.splits if_splits prod.splits invoke_result.splits wasm_val.splits)
  then have "same_states (m_host s) w \<and> keeps_ctxs (m_host s) w"
  proof
    assume "w = ?w0"
    then show ?thesis by (simp add: same_states_def keeps_ctxs_refl)
  next
    assume "\<exists>args' r. e_invoke E plugin name args' hr ?w0 = (r, w)"
    then obtain args' r where i: "e_invoke E plugin name args' hr ?w0 = (r, w)" by blast
    have "same_states ?w0 w"
      using assms(2) [unfolded guest_frame_def, rule_format, where plugin = plugin and name = name and args = args' and hr = hr and w = ?w0] i
      by (simp add: same_states_def)
    moreover have "keeps_ctxs ?w0 w"
      using assms(3) [unfolded ctx_frame_def, rule_format, where plugin = plugin and name = name and args = args' and hr = hr and w = ?w0] i by simp
    ultimately show ?thesis by (simp add: same_states_def keeps_ctxs_def)
  qed
  with w(2) show ?thesis by blast
qed

lemma m_alloc_frame:
  assumes "m_alloc E sz s = (ok, s')"
  shows "\<exists>n. s' = s\<lparr>m_host := (m_host s)\<lparr>h_allocs := n\<rparr>\<rparr>"
  using assms by (auto simp: m_alloc_def try_alloc_def)

text \<open>What every step inside a hook keeps of the host.\<close>

definition in_hook :: "mstate \<Rightarrow> mstate \<Rightarrow> bool" where
  "in_hook s s' \<longleftrightarrow> same_states (m_host s) (m_host s') \<and> keeps_ctxs (m_host s) (m_host s') \<and>
     m_vm_inited s' = m_vm_inited s"

lemma in_hook_trans: "in_hook s s1 \<Longrightarrow> in_hook s1 s2 \<Longrightarrow> in_hook s s2"
  by (auto simp: in_hook_def intro: same_states_trans keeps_ctxs_trans)

lemma in_hook_refl [simp]: "in_hook s s"
  by (simp add: in_hook_def same_states_def keeps_ctxs_refl)

lemma in_hook_host: "in_hook s s' \<Longrightarrow> m_host s'' = m_host s' \<Longrightarrow> m_vm_inited s'' = m_vm_inited s' \<Longrightarrow> in_hook s s''"
  by (simp add: in_hook_def)

lemma in_hook_call:
  "m_call E plugin name hr pt args s = Some (rc, s') \<Longrightarrow> guest_frame E \<Longrightarrow> ctx_frame E \<Longrightarrow> in_hook s s'"
  by (drule (2) m_call_frame) (auto simp: in_hook_def)

lemma in_hook_alloc: "m_alloc E sz s = (ok, s') \<Longrightarrow> in_hook s s'"
  by (drule m_alloc_frame) (auto simp: in_hook_def same_states_def keeps_ctxs_refl)

lemma in_hook_module_ctx:
  assumes "ngx_http_wasm_get_module_ctx E r (m_host s) = Some (ctx, w)"
  shows "in_hook s (s\<lparr>m_host := w\<rparr>)" "ctx \<noteq> None \<Longrightarrow> request_ctx r w = ctx"
  using assms
  by (auto simp: ngx_http_wasm_get_module_ctx_def bind_eq_Some_conv try_alloc_def upd_request_def in_hook_def Let_def
      same_states_def keeps_ctxs_def request_ctx_def split: option.splits bool.splits if_splits)

lemma in_hook_take:
  assumes "take_http_ctx E px s = Some (res, s')"
  shows "in_hook s s'"
proof -
  obtain x p where xp: "m_pctxs s px = Some x" "m_plugins s (px_hw_plugin x) = Some p"
    using assms by (auto simp: take_http_ctx_def bind_eq_Some_conv)
  show ?thesis
  proof (cases "px_free x = []")
    case False
    then show ?thesis using assms xp by (auto simp: take_http_ctx_def Let_def bind_eq_Some_conv
        intro: in_hook_host [OF in_hook_refl])
  next
    case True
    obtain ok s1 where a: "m_alloc E sizeof_http_ctx s = (ok, s1)" by (cases "m_alloc E sizeof_http_ctx s")
    show ?thesis
      using assms xp True a in_hook_alloc [OF a]
      by (auto simp: take_http_ctx_def Let_def split: if_splits bool.splits intro: in_hook_host)
  qed
qed

lemma in_hook_create:
  assumes "ngx_http_wasm_create_http_ctx E px r s = Some (res, s')" "guest_frame E" "ctx_frame E"
  shows "in_hook s s'"
proof -
  from assms(1) obtain taken s1 where t: "take_http_ctx E px s = Some (taken, s1)"
    by (auto simp: ngx_http_wasm_create_http_ctx_def bind_eq_Some_conv)
  show ?thesis
  proof (cases taken)
    case None
    then show ?thesis
      using assms(1) t in_hook_take [OF t] by (auto simp: ngx_http_wasm_create_http_ctx_def bind_eq_Some_conv)
  next
    case (Some hc)
    then obtain p :: wasm_plugin and h :: wasm_http_ctx and x :: wasm_plugin_ctx and rc s2
      where c: "m_call E (pl_plugin p) ''proxy_on_context_create'' False
        NGX_WASM_PARAM_I32_I32 [hx_id h, px_id x] s1 = Some (rc, s2)" and s': "m_host s' = m_host s2"
        "m_vm_inited s' = m_vm_inited s2"
      using assms(1) t by (auto simp: ngx_http_wasm_create_http_ctx_def bind_eq_Some_conv split: if_splits)
    from in_hook_trans [OF in_hook_take [OF t] in_hook_call [OF c assms(2,3)]] show ?thesis
      by (rule in_hook_host) (use s' in simp_all)
  qed
qed

text \<open>The second half of the fetch, behind the array of the request.\<close>

lemma in_hook_search:
  assumes "do { hcs \<leftarrow> m_req_ctxs s a; found \<leftarrow> find_http_ctx px hcs s;
      (case found of
         Some hc \<Rightarrow> Some (Some hc, s)
       | None \<Rightarrow> do { (created, s) \<leftarrow> ngx_http_wasm_create_http_ctx E px r s;
           (case created of
              None \<Rightarrow> Some (None, s)
            | Some http_ctx \<Rightarrow>
                (case m_alloc E sizeof_pointer s of
                   (False, s) \<Rightarrow> None
                 | (True, s) \<Rightarrow> Some (Some http_ctx, s\<lparr>m_req_ctxs := (m_req_ctxs s)(a \<mapsto> hcs @ [http_ctx])\<rparr>))) }) }
    = Some (res, s')" "guest_frame E" "ctx_frame E"
  shows "in_hook s s'"
proof -
  from assms(1) obtain hcs found where f: "m_req_ctxs s a = Some hcs" "find_http_ctx px hcs s = Some found"
    by (auto simp: bind_eq_Some_conv)
  show ?thesis
  proof (cases found)
    case Some
    then show ?thesis using assms(1) f by simp
  next
    case None
    then obtain created s3 where c: "ngx_http_wasm_create_http_ctx E px r s = Some (created, s3)"
      using assms(1) f by (auto simp: bind_eq_Some_conv)
    note c3 = in_hook_create [OF c assms(2,3)]
    show ?thesis
    proof (cases created)
      case None
      then show ?thesis using assms(1) f \<open>found = None\<close> c c3 by simp
    next
      case (Some hc)
      obtain ok s4 where a: "m_alloc E sizeof_pointer s3 = (ok, s4)" by (cases "m_alloc E sizeof_pointer s3")
      then have "m_host s' = m_host s4" "m_vm_inited s' = m_vm_inited s4"
        using assms(1) f \<open>found = None\<close> c Some by (auto split: bool.splits)
      then show ?thesis by (rule in_hook_host [OF in_hook_trans [OF c3 in_hook_alloc [OF a]]])
    qed
  qed
qed

lemma in_hook_get_ctx:
  assumes "m_get_module_ctx E r s = Some (a, s1)"
  shows "in_hook s s1" "a \<noteq> None \<Longrightarrow> request_ctx r (m_host s1) \<noteq> None"
proof -
  from assms obtain c w where g: "ngx_http_wasm_get_module_ctx E r (m_host s) = Some (c, w)"
    by (auto simp: m_get_module_ctx_def bind_eq_Some_conv)
  have s1: "m_host s1 = w" "m_vm_inited s1 = m_vm_inited s" "a \<noteq> None \<Longrightarrow> c \<noteq> None"
    using assms g by (auto simp: m_get_module_ctx_def Let_def split: option.splits)
  show "in_hook s s1" by (rule in_hook_host [OF in_hook_module_ctx(1) [OF g]]) (use s1 in simp_all)
  show "request_ctx r (m_host s1) \<noteq> None" if "a \<noteq> None"
    using in_hook_module_ctx(2) [OF g] s1(1) s1(3) [OF that] by auto
qed

lemma in_hook_fetch:
  assumes "ngx_http_wasm_fetch_http_ctx E px r s = Some (res, s')" "guest_frame E" "ctx_frame E"
  shows "in_hook s s'" "res \<noteq> None \<Longrightarrow> request_ctx r (m_host s') \<noteq> None"
proof -
  from assms(1) obtain ctx s1 where g: "m_get_module_ctx E r s = Some (ctx, s1)"
    by (auto simp: ngx_http_wasm_fetch_http_ctx_def bind_eq_Some_conv)
  note G = in_hook_get_ctx [OF g]
  have "in_hook s s' \<and> (res \<noteq> None \<longrightarrow> request_ctx r (m_host s') \<noteq> None)"
  proof (cases ctx)
    case None
    then show ?thesis using assms(1) g G(1) by (auto simp: ngx_http_wasm_fetch_http_ctx_def)
  next
    case (Some a)
    have "in_hook s1 s'"
    proof (cases "m_req_ctxs s1 a")
      case None
      obtain ok s2 where al: "m_alloc E (sizeof_array + sizeof_pointer) s1 = (ok, s2)"
        by (cases "m_alloc E (sizeof_array + sizeof_pointer) s1")
      show ?thesis
      proof (cases ok)
        case False
        then show ?thesis
          using assms(1) g Some None al in_hook_alloc [OF al] by (simp add: ngx_http_wasm_fetch_http_ctx_def Let_def)
      next
        case True
        let ?s2 = "s2\<lparr>m_req_ctxs := (m_req_ctxs s2)(a \<mapsto> [])\<rparr>"
        have "in_hook s1 ?s2" using in_hook_alloc [OF al] by (auto intro: in_hook_host)
        moreover have "in_hook ?s2 s'"
          by (rule in_hook_search [where a = a and r = r and px = px and res = res, OF _ assms(2,3)])
            (use assms(1) g Some None al True in \<open>simp add: ngx_http_wasm_fetch_http_ctx_def Let_def\<close>)
        ultimately show ?thesis by (rule in_hook_trans)
      qed
    next
      case old: (Some b)
      show ?thesis
        by (rule in_hook_search [where a = a and r = r and px = px and res = res, OF _ assms(2,3)])
          (use assms(1) g Some old in \<open>simp add: ngx_http_wasm_fetch_http_ctx_def Let_def\<close>)
    qed
    moreover have "request_ctx r (m_host s1) \<noteq> None" using G(2) Some by simp
    ultimately show ?thesis using G(1)
      by (auto simp: in_hook_def dest: keeps_ctxsD intro: same_states_trans keeps_ctxs_trans)
  qed
  then show "in_hook s s'" "res \<noteq> None \<Longrightarrow> request_ctx r (m_host s') \<noteq> None" by simp_all
qed

section \<open>A hook runs\<close>

text \<open>What the Lua library is told: a pending call first, then an error, then a local response.\<close>

definition hook_result :: "wasm_ctx \<Rightarrow> i32 \<Rightarrow> int \<Rightarrow> int" where
  "hook_result ctx code rc =
     (if wc_callout ctx \<noteq> None then RC_NEED_HTTP_CALL
      else if 0 \<le> rc \<and> 100 \<le> sint code then sint code else rc)"

lemma handle_rc: "ngx_http_wasm_handle_rc_before_proxy ctx rc w = (hook_result ctx (h_code w) rc, w\<lparr>h_code := 0\<rparr>)"
  by (auto simp: ngx_http_wasm_handle_rc_before_proxy_def hook_result_def Let_def)

lemma finish_hook_eq:
  assumes "h_cur_state (m_host s) = Some st" "h_states (m_host s) st = Some ws" "request_ctx r (m_host s) = Some ctx"
  shows "finish_hook r rc s = Some (hook_result ctx (h_code (m_host s)) rc, s\<lparr>m_host := (m_host s)
    \<lparr>h_states := (h_states (m_host s))(st \<mapsto> ws\<lparr>ws_body := Some str_null\<rparr>), h_cur_state := None, h_code := 0\<rparr>\<rparr>)"
  using assms by (simp add: finish_hook_def m_set_state_def ngx_http_wasm_set_state_def handle_rc)

text \<open>A hook that is open: its record is current.\<close>

definition open_hook :: "mstate \<Rightarrow> nat \<Rightarrow> nat \<Rightarrow> bool" where
  "open_hook s st r \<longleftrightarrow> h_cur_state (m_host s) = Some st \<and>
     (\<exists>ws. h_states (m_host s) st = Some ws \<and> ws_r ws = Some r) \<and> h_requests (m_host s) r \<noteq> None"

definition closed_hook :: "mstate \<Rightarrow> nat \<Rightarrow> nat \<Rightarrow> bool" where
  "closed_hook s st r \<longleftrightarrow> h_cur_state (m_host s) = None \<and>
     (\<exists>ws. h_states (m_host s) st = Some ws \<and> ws_r ws = Some r \<and> ws_body ws = Some str_null)"

lemma enter_state_open:
  assumes "h_states (m_host s) st = Some ws" "h_requests (m_host s) r = Some rq"
  shows "\<exists>w. enter_state st r body s = Some (s\<lparr>m_host := w\<rparr>) \<and> open_hook (s\<lparr>m_host := w\<rparr>) st r \<and>
    h_requests w = h_requests (m_host s)"
  using assms by (auto simp: enter_state_def m_set_state_def Let_def open_hook_def)

lemma open_hook_kept: "open_hook s st r \<Longrightarrow> in_hook s s' \<Longrightarrow> open_hook s' st r"
  by (auto simp: open_hook_def in_hook_def same_states_def dom_def)

lemma close_state:
  assumes "open_hook s st r"
  shows "\<exists>w. m_set_state None s = Some (s\<lparr>m_host := w\<rparr>) \<and> closed_hook (s\<lparr>m_host := w\<rparr>) st r"
  using assms by (auto simp: open_hook_def closed_hook_def m_set_state_def ngx_http_wasm_set_state_def)

lemma close_hook:
  assumes "open_hook s st r" "request_ctx r (m_host s) \<noteq> None"
  shows "\<exists>rc' w. finish_hook r rc s = Some (rc', s\<lparr>m_host := w\<rparr>) \<and> closed_hook (s\<lparr>m_host := w\<rparr>) st r \<and> h_code w = 0"
proof -
  from assms obtain ws ctx where "h_cur_state (m_host s) = Some st" "h_states (m_host s) st = Some ws"
    "request_ctx r (m_host s) = Some ctx" "ws_r ws = Some r" by (auto simp: open_hook_def)
  then show ?thesis
    by (intro exI [of _ "hook_result ctx (h_code (m_host s)) rc"] exI [of _ "(m_host s)
        \<lparr>h_states := (h_states (m_host s))(st \<mapsto> ws\<lparr>ws_body := Some str_null\<rparr>), h_cur_state := None, h_code := 0\<rparr>"])
      (simp add: finish_hook_eq closed_hook_def)
qed

text \<open>
  The common part of the two entry points: the fetch of the HTTP context, and the end of a
  hook whose body is one call into the guest.
\<close>

definition run_hook ::
  "env \<Rightarrow> nat \<Rightarrow> nat \<Rightarrow> nat \<Rightarrow> ngx_str option \<Rightarrow> (nat \<Rightarrow> mstate \<Rightarrow> (int \<times> mstate) option) \<Rightarrow> mstate \<Rightarrow> (int \<times> mstate) option" where
  "run_hook E hwp_ctx r st body call s =
     do { s \<leftarrow> enter_state st r body s;
          (http_ctx, s) \<leftarrow> ngx_http_wasm_fetch_http_ctx E hwp_ctx r s;
          (case http_ctx of
             None \<Rightarrow> do { s \<leftarrow> m_set_state None s; Some (NGX_DECLINED, s) }
           | Some hc \<Rightarrow> do { (rc, s) \<leftarrow> call hc s; finish_hook r rc s }) }"

lemma run_hook_runs:
  assumes E: "env_ok E" "ctx_frame E" and ok: "module_ok s"
    and px: "m_plugins s hw = Some p" "px \<in> set (pl_occupied p)" "m_pctxs s px = Some x" "\<not> px_done x"
    and st: "h_states (m_host s) st = Some ws" and r: "h_requests (m_host s) r = Some rq"
    and call: "\<And>hc t. module_ok t \<Longrightarrow> hctx_owner t hc = Some px \<Longrightarrow> request_ctx r (m_host t) \<noteq> None \<Longrightarrow>
      \<exists>rc w. call hc t = Some (rc, t\<lparr>m_host := w\<rparr>) \<and> in_hook t (t\<lparr>m_host := w\<rparr>)"
  shows "\<exists>rc s'. run_hook E px r st body call s = Some (rc, s') \<and> reachable E s s' \<and> closed_hook s' st r \<and>
    (rc = NGX_DECLINED \<or> h_code (m_host s') = 0)"
proof -
  note h = env_okD(1,2) [OF E(1)]
  obtain w1 where e: "enter_state st r body s = Some (s\<lparr>m_host := w1\<rparr>)" and o1: "open_hook (s\<lparr>m_host := w1\<rparr>) st r"
    and req: "h_requests w1 = h_requests (m_host s)" using enter_state_open [OF st r] by blast
  let ?s1 = "s\<lparr>m_host := w1\<rparr>"
  have r1: "h_requests (m_host ?s1) r = Some rq" using r req by simp
  have ok1: "module_ok ?s1" using ok by (simp add: module_ok_def)
  have pool: "px_pool x" by (rule quietD(2) [OF module_okD(2) [OF ok] px(1,2) _ px(3)]) simp
  obtain res s2 where f: "ngx_http_wasm_fetch_http_ctx E px r ?s1 = Some (res, s2)"
    "wf_core {} {} (m_req_ctxs s2) s2" "quiet {} {} s2"
    "\<forall>hc. res = Some hc \<longrightarrow> hctx_owner s2 hc = Some px \<and> (\<exists>a s0 hcs. m_get_module_ctx E r ?s1 = Some (Some a, s0) \<and> m_req_ctxs s2 a = Some hcs \<and> hc \<in> set hcs)"
    by (rule fetch_http_ctx_ok [OF h module_okD [OF ok1] _ pool r1 env_okD(3) [OF E(1)]]) (use px in auto)
  note F = in_hook_fetch [OF f(1) h(2) E(2)]
  have o2: "open_hook s2 st r" by (rule open_hook_kept [OF o1 F(1)])
  have ok2: "module_ok s2" using f(2,3) by (simp add: module_ok_def)
  have "mod_step E ?s1 s2" by (rule step_fetch [OF _ px(2) _ px(4) r1 f(1)]) (use px in simp_all)
  then have "reachable E s s2"
    using reach_step [OF reach_step [OF reach_refl step_other]] by blast
  then have reach: "reachable E s (s2\<lparr>m_host := w\<rparr>)" for w by (rule reach_step [OF _ step_other])
  show ?thesis
  proof (cases res)
    case None
    obtain w where "m_set_state None s2 = Some (s2\<lparr>m_host := w\<rparr>)" "closed_hook (s2\<lparr>m_host := w\<rparr>) st r"
      using close_state [OF o2] by blast
    then show ?thesis using e f(1) None reach [of w] by (simp add: run_hook_def)
  next
    case (Some hc)
    obtain rc w where c: "call hc s2 = Some (rc, s2\<lparr>m_host := w\<rparr>)" "in_hook s2 (s2\<lparr>m_host := w\<rparr>)"
      using call [OF ok2, of hc] f(4) F(2) Some by blast
    have "request_ctx r w \<noteq> None" using c(2) F(2) Some keeps_ctxsD by (auto simp: in_hook_def)
    then obtain rc' w' where "finish_hook r rc (s2\<lparr>m_host := w\<rparr>) = Some (rc', s2\<lparr>m_host := w'\<rparr>)"
      "closed_hook (s2\<lparr>m_host := w'\<rparr>) st r" "h_code w' = 0"
      using close_hook [OF open_hook_kept [OF o2 c(2)], of rc] by auto
    then show ?thesis using e f(1) Some c(1) reach [of w'] by (simp add: run_hook_def)
  qed
qed

definition phase_call ::
  "env \<Rightarrow> nat \<Rightarrow> nat \<Rightarrow> nat \<Rightarrow> u64 \<Rightarrow> i32 \<Rightarrow> nat \<Rightarrow> mstate \<Rightarrow> (int \<times> mstate) option" where
  "phase_call E hwp_ctx r ty sz end_of_body hc s =
     do { (_, w) \<leftarrow> ngx_http_wasm_get_module_ctx E r (m_host s);
          let s = s\<lparr>m_host := w\<rparr>;
          h \<leftarrow> m_hctxs s hc;
          x \<leftarrow> m_pctxs s hwp_ctx;
          p \<leftarrow> m_plugins s (px_hw_plugin x);
          call_hook E p ty (hx_id h) sz end_of_body s }"

definition response_call ::
  "env \<Rightarrow> nat \<Rightarrow> nat \<Rightarrow> (bytes \<times> bytes) list \<Rightarrow> nat \<Rightarrow> bytes option \<Rightarrow> nat \<Rightarrow> mstate \<Rightarrow> (int \<times> mstate) option" where
  "response_call E hwp_ctx r headers n_header body hc s =
     do { (_, w) \<leftarrow> ngx_http_wasm_get_module_ctx E r (m_host s);
          (ctx, w) \<leftarrow> set_call_resp r headers n_header body w;
          let s = s\<lparr>m_host := w\<rparr>;
          x \<leftarrow> m_pctxs s hwp_ctx;
          p \<leftarrow> m_plugins s (px_hw_plugin x);
          m_call E (pl_plugin p) ''proxy_on_http_call_response'' False NGX_WASM_PARAM_I32_I32_I32_I32_I32
            [px_id x, wc_callout_id ctx, of_nat n_header,
             (case body of None \<Rightarrow> 0 | Some b \<Rightarrow> of_nat (length b)), 0] s }"

lemma option_case_cong2:
  "(\<And>x. f x = g x) \<Longrightarrow> (case v of None \<Rightarrow> a | Some x \<Rightarrow> f x) = (case v of None \<Rightarrow> a | Some x \<Rightarrow> g x)"
  by (cases v) simp_all

lemma bind_fun_cong: "(\<And>x. f x = g x) \<Longrightarrow> Option.bind m f = Option.bind m g"
  by (cases m) simp_all

lemma on_http_run:
  assumes "m_vm_inited s" "h_requests (m_host s) r = Some rq" "m_pctxs s px = Some x" "px_state x = Some st"
  shows "ngx_http_wasm_on_http E px r ty body sz eob s =
      run_hook E px r st (map_option (\<lambda>b. \<lparr>str_len = sz, str_data = Some b\<rparr>) body) (phase_call E px r ty sz eob) s"
    "ngx_http_wasm_on_http_call_resp E px r hs n body s =
      run_hook E px r st None (response_call E px r hs n body) s"
proof -
  show "ngx_http_wasm_on_http E px r ty body sz eob s =
      run_hook E px r st (map_option (\<lambda>b. \<lparr>str_len = sz, str_data = Some b\<rparr>) body) (phase_call E px r ty sz eob) s"
    using assms
    by (auto simp: ngx_http_wasm_on_http_def run_hook_def phase_call_def Let_def split_def
        intro!: bind_fun_cong option_case_cong2)
  show "ngx_http_wasm_on_http_call_resp E px r hs n body s =
      run_hook E px r st None (response_call E px r hs n body) s"
    using assms
    by (auto simp: ngx_http_wasm_on_http_call_resp_def run_hook_def response_call_def Let_def split_def
        intro!: bind_fun_cong option_case_cong2)
qed

lemma hook_names: "hook_name ty \<in> set hooks" "''proxy_on_http_call_response'' \<in> set hooks"
  by (simp_all add: hook_name_def hooks_def)

lemma calls_defined:
  assumes E: "env_ok E" "ctx_frame E" and ok: "module_ok t" and own: "hctx_owner t hc = Some px"
    and ctx: "request_ctx r (m_host t) \<noteq> None"
  shows "\<exists>rc w. phase_call E px r ty sz eob hc t = Some (rc, t\<lparr>m_host := w\<rparr>) \<and> in_hook t (t\<lparr>m_host := w\<rparr>)"
    "\<exists>rc w. response_call E px r hs n body hc t = Some (rc, t\<lparr>m_host := w\<rparr>) \<and> in_hook t (t\<lparr>m_host := w\<rparr>)"
proof -
  note h = env_okD(1,2) [OF E(1)] and wf = module_okD(1) [OF ok]
  obtain hh where hh: "m_hctxs t hc = Some hh" "hx_hwp_ctx hh = px" using own by (auto simp: hctx_owner_def)
  obtain x where x: "m_pctxs t px = Some x"
    using wf_coreD(3) [OF wf] hh unfolding wf_hctxs_def by blast
  obtain p where p: "m_plugins t (px_hw_plugin x) = Some p" using wf_pctxD(1) [OF wf x] by blast
  have live: "m_live t (pl_plugin p)" by (rule wf_pluginD(3) [OF wf p])
  obtain rq c where c: "h_requests (m_host t) r = Some rq" "rq_ctx rq = Some c"
    using ctx by (auto simp: request_ctx_def bind_eq_Some_conv)
  have g: "ngx_http_wasm_get_module_ctx E r (m_host t) = Some (Some c, m_host t)"
    using c by (rule get_module_ctx_there)
  have run: "\<exists>rc w. m_call E (pl_plugin p) name hr pt args u = Some (rc, t\<lparr>m_host := w\<rparr>) \<and> in_hook u (t\<lparr>m_host := w\<rparr>)"
    if a: "name \<in> set hooks" "param_num pt = Some k" "k \<le> length args" "u = t\<lparr>m_host := w0\<rparr>" for name hr pt k args u w0
  proof -
    have "m_live u (pl_plugin p)" using live a(4) by simp
    from m_call_ex [OF h this a(1-3), of hr] obtain rc w where
      m: "m_call E (pl_plugin p) name hr pt args u = Some (rc, u\<lparr>m_host := w\<rparr>)" by blast
    with in_hook_call [OF m h(2) E(2)] a(4) show ?thesis by auto
  qed
  have same: "t = t\<lparr>m_host := m_host t\<rparr>" by simp
  show "\<exists>rc w. phase_call E px r ty sz eob hc t = Some (rc, t\<lparr>m_host := w\<rparr>) \<and> in_hook t (t\<lparr>m_host := w\<rparr>)"
    using g hh(1) x p run [OF hook_names(1) _ _ same, of NGX_WASM_PARAM_I32_I32 2 "[hx_id hh, 0]" ty True]
      run [OF hook_names(1) _ _ same, of NGX_WASM_PARAM_I32_I32_I32 3 "[hx_id hh, 0, 1]" ty True]
      run [OF hook_names(1) _ _ same, of NGX_WASM_PARAM_I32_I32_I32 3 "[hx_id hh, ucast sz, eob]" ty True]
    by (auto simp: phase_call_def call_hook_def)
  let ?c = "c\<lparr>wc_call_resp_headers := hs, wc_call_resp_n_header := n, wc_call_resp_body := body\<rparr>"
  let ?w = "(m_host t)\<lparr>h_requests := (h_requests (m_host t))(r \<mapsto> rq\<lparr>rq_ctx := Some ?c\<rparr>)\<rparr>"
  have set: "set_call_resp r hs n body (m_host t) = Some (?c, ?w)"
    using c by (simp add: set_call_resp_def request_ctx_def set_wasm_ctx_def upd_request_def Let_def)
  have "in_hook t (t\<lparr>m_host := ?w\<rparr>)"
    using c by (auto simp: in_hook_def same_states_def keeps_ctxs_def request_ctx_def)
  then show "\<exists>rc w. response_call E px r hs n body hc t = Some (rc, t\<lparr>m_host := w\<rparr>) \<and> in_hook t (t\<lparr>m_host := w\<rparr>)"
    using g x p set run [OF hook_names(2) _ _ refl, of NGX_WASM_PARAM_I32_I32_I32_I32_I32 5
        "[px_id x, wc_callout_id c, of_nat n, case body of None \<Rightarrow> 0 | Some b \<Rightarrow> of_nat (length b), 0]" False ?w]
    by (auto simp: response_call_def intro: in_hook_trans)
qed

section \<open>Which call a hook is\<close>

text \<open>
  A plugin context that has served the request before: its HTTP context is in the array of the
  request's module context, so that the hook is one call into the guest. \<open>hook_host\<close> is what the guest sees.
\<close>

definition hook_opens :: "mstate \<Rightarrow> nat \<Rightarrow> nat \<Rightarrow> wasm_plugin \<Rightarrow> i32 \<Rightarrow> nat \<Rightarrow> wasm_state \<Rightarrow> bool" where
  "hook_opens s px r p ctx_id st ws \<longleftrightarrow> m_vm_inited s \<and>
     h_states (m_host s) st = Some ws \<and>
     (\<exists>c x hc h hcs. request_ctx r (m_host s) = Some c \<and> m_pctxs s px = Some x \<and> px_state x = Some st \<and> m_plugins s (px_hw_plugin x) = Some p \<and>
        m_live s (pl_plugin p) \<and> m_req_ctxs s (wc_addr c) = Some hcs \<and> find_http_ctx px hcs s = Some (Some hc) \<and>
        m_hctxs s hc = Some h \<and> hx_id h = ctx_id)"

definition hook_host :: "mstate \<Rightarrow> nat \<Rightarrow> wasm_state \<Rightarrow> nat \<Rightarrow> ngx_str option \<Rightarrow> nat \<Rightarrow> host" where
  "hook_host s st ws r body plugin = (m_host s)
     \<lparr>h_states := (h_states (m_host s))(st \<mapsto> ws\<lparr>ws_r := Some r,
        ws_body := (case body of None \<Rightarrow> ws_body ws | Some b \<Rightarrow> Some b)\<rparr>),
      h_cur_state := Some st, h_cur_plugin := Some plugin\<rparr>"

definition hook_args :: "wasm_plugin \<Rightarrow> nat \<Rightarrow> i32 \<Rightarrow> u64 \<Rightarrow> i32 \<Rightarrow> i32 list" where
  "hook_args p ty ctx_id sz end_of_body =
     (if ty = HTTP_REQUEST_HEADERS \<or> ty = HTTP_RESPONSE_HEADERS
      then if pl_abi_version p = PROXY_WASM_ABI_VER_010 then [ctx_id, 0] else [ctx_id, 0, 1]
      else [ctx_id, ucast sz, end_of_body])"

lemma find_http_ctx_host: "find_http_ctx px hcs (s\<lparr>m_host := w\<rparr>) = find_http_ctx px hcs s"
  by (induction hcs) (auto intro!: bind_fun_cong)

lemma call_hook_eq:
  "\<exists>pt. param_num pt = Some (length (hook_args p ty ctx_id sz eob)) \<and>
     call_hook E p ty ctx_id sz eob s =
       m_call E (pl_plugin p) (hook_name ty) True pt (hook_args p ty ctx_id sz eob) s"
  by (rule exI [of _ "length (hook_args p ty ctx_id sz eob) + 1"])
    (simp add: call_hook_def hook_args_def param_num_def eval_nat_numeral)

lemma on_http_invokes:
  assumes op: "hook_opens s px r p ctx_id st ws"
    and fn: "e_export E (pl_plugin p) (hook_name ty) = Some ExternFunc"
    and inv: "e_invoke E (pl_plugin p) (hook_name ty) (hook_args p ty ctx_id sz eob) True
      (hook_host s st ws r (map_option (\<lambda>b. \<lparr>str_len = sz, str_data = Some b\<rparr>) body) (pl_plugin p)) = (res, w1)"
    and w1: "h_cur_state w1 = Some st" "h_states w1 st = Some ws1" "request_ctx r w1 = Some ctx"
  shows "ngx_http_wasm_on_http E px r ty body sz eob s =
    Some (hook_result ctx (h_code w1) (vm_result E True res), s\<lparr>m_host := w1
      \<lparr>h_states := (h_states w1)(st \<mapsto> ws1\<lparr>ws_body := Some str_null\<rparr>), h_cur_state := None, h_code := 0\<rparr>\<rparr>)"
proof -
  from op obtain c x hc h hcs where d: "m_vm_inited s" "m_pctxs s px = Some x" "px_state x = Some st"
    "m_plugins s (px_hw_plugin x) = Some p" "m_live s (pl_plugin p)" "m_req_ctxs s (wc_addr c) = Some hcs"
    "find_http_ctx px hcs s = Some (Some hc)" "m_hctxs s hc = Some h" "hx_id h = ctx_id"
    "h_states (m_host s) st = Some ws" "request_ctx r (m_host s) = Some c" by (auto simp: hook_opens_def)
  obtain rq where rq: "h_requests (m_host s) r = Some rq" "rq_ctx rq = Some c"
    using d(11) by (auto simp: request_ctx_def bind_eq_Some_conv)
  let ?body = "map_option (\<lambda>b. \<lparr>str_len = sz, str_data = Some b\<rparr>) body"
  let ?w = "(m_host s)\<lparr>h_states := (h_states (m_host s))(st \<mapsto> ws\<lparr>ws_r := Some r,
        ws_body := (case ?body of None \<Rightarrow> ws_body ws | Some b \<Rightarrow> Some b)\<rparr>), h_cur_state := Some st\<rparr>"
  let ?s = "s\<lparr>m_host := ?w\<rparr>"
  have e: "enter_state st r ?body s = Some ?s" using d(10) by (simp add: enter_state_def m_set_state_def Let_def)
  have find: "find_http_ctx px hcs ?s = find_http_ctx px hcs s" by (rule find_http_ctx_host)
  have g: "ngx_http_wasm_get_module_ctx E r ?w = Some (Some c, ?w)" by (rule get_module_ctx_there) (use rq in simp_all)
  have f: "ngx_http_wasm_fetch_http_ctx E px r ?s = Some (Some hc, ?s)"
    using g d(6,7) find rq
    by (simp add: ngx_http_wasm_fetch_http_ctx_def m_get_module_ctx_def request_ctx_def Let_def)
  have hw: "?w\<lparr>h_cur_plugin := Some (pl_plugin p)\<rparr> = hook_host s st ws r ?body (pl_plugin p)"
    by (simp add: hook_host_def)
  obtain pt where pt: "param_num pt = Some (length (hook_args p ty ctx_id sz eob))"
    "call_hook E p ty ctx_id sz eob ?s = m_call E (pl_plugin p) (hook_name ty) True pt (hook_args p ty ctx_id sz eob) ?s"
    using call_hook_eq by blast
  have c3: "call_hook E p ty ctx_id sz eob ?s = Some (vm_result E True res, s\<lparr>m_host := w1\<rparr>)"
    using d(5) inv unfolding pt(2) hw [symmetric]
    by (simp add: m_call_def vm_call_func [OF fn pt(1) le_refl])
  have "phase_call E px r ty sz eob hc ?s = Some (vm_result E True res, s\<lparr>m_host := w1\<rparr>)"
    using g d(2,4,8,9) c3 by (simp add: phase_call_def)
  then show ?thesis
    using e f finish_hook_eq [of "s\<lparr>m_host := w1\<rparr>" st ws1 r ctx "vm_result E True res"] w1
    by (simp add: on_http_run(1) [OF d(1) rq(1) d(2,3)] run_hook_def)
qed

end
