(* ===== verification/Hook_Outcomes.thy ===== *)
theory Hook_Outcomes
  imports Dispatch
begin

text \<open>
  The properties of the entry points of ngx_http_wasm_module.c, alone and together with the
  host functions the guest calls in a hook.
\<close>

section \<open>Configuration\<close>

lemma resolve_symbols_ok:
  "fst (resolve_symbols dlsym ss) = (if \<forall>s \<in> set ss. dlsym s then NGX_OK else NGX_ERROR)"
  by (induction ss) (auto split: prod.splits)

text \<open>The symbols of lua-nginx-module the module needs.\<close>

definition lua_symbols :: "string list" where
  "lua_symbols = [''ngx_http_lua_ffi_get_phase'', ''ngx_http_lua_ffi_set_resp_header'',
     ''ngx_http_lua_ffi_set_resp_status'', ''ngx_http_lua_ffi_get_resp_header'',
     ''ngx_http_lua_ffi_req_get_headers_count'', ''ngx_http_lua_ffi_req_get_headers'',
     ''ngx_http_lua_ffi_req_set_header'', ''ngx_http_lua_ffi_var_set'']"

text \<open>
  C27. Starting the module: with the directive \<^verbatim>\<open>wasm_vm\<close> naming a runtime of the build and all
  symbols of lua-nginx-module present, \<^verbatim>\<open>ngx_http_wasm_init\<close> selects this runtime and the
  module is on; when a symbol is missing or the name is unknown nginx does not start and the
  module stays off; without the directive it stays off without an error. Once on, a reload
  changes nothing.
\<close>

theorem module_init_outcome:
  assumes "ngx_http_wasm_vm value c0 = Inr c" "wm_vm c0 = []" "\<not> m_vm_inited s"
    "\<not> e_oom E (h_allocs (m_host s)) sizeof_pool_cleanup"
  shows "let kind = (if value = ascii ''wasmtime'' then Some Wasmtime
                     else if wasmedge \<and> value = ascii ''wasmedge'' then Some Wasmedge else None);
             (rc, vm, s') = ngx_http_wasm_init E dlsym wasmedge False c None s
         in (rc = NGX_OK \<longleftrightarrow> (\<forall>f \<in> set lua_symbols. dlsym f) \<and> (value = [] \<or> kind \<noteq> None)) \<and>
            (m_vm_inited s' \<longleftrightarrow> (\<forall>f \<in> set lua_symbols. dlsym f) \<and> kind \<noteq> None) \<and>
            (m_vm_inited s' \<longrightarrow> vm = kind \<and>
               ngx_http_wasm_init E dlsym' wasmedge' no_workers c' vm s' = (NGX_OK, vm, s'))"
proof -
  have c: "wm_vm c = value" using assms(1,2) by (auto simp: ngx_http_wasm_vm_def)
  have sym: "fst (ngx_http_wasm_resolve_symbol dlsym) = (if \<forall>f \<in> set lua_symbols. dlsym f then NGX_OK else NGX_ERROR)"
    unfolding ngx_http_wasm_resolve_symbol_def lua_symbols_def [symmetric] by (rule resolve_symbols_ok)
  have names: "ascii ''wasmtime'' \<noteq> []" "ascii ''wasmedge'' \<noteq> []" "ascii ''wasmedge'' \<noteq> ascii ''wasmtime''" by code_simp+
  obtain fs rc where r: "ngx_http_wasm_resolve_symbol dlsym = (rc, fs)" by (cases "ngx_http_wasm_resolve_symbol dlsym")
  then have rc: "rc = (if \<forall>f \<in> set lua_symbols. dlsym f then NGX_OK else NGX_ERROR)" using sym by simp
  show ?thesis
    using assms(3,4) c r rc names
    by (cases "\<forall>f \<in> set lua_symbols. dlsym f")
      (auto simp: ngx_http_wasm_init_def m_alloc_def try_alloc_def ngx_wasm_vm_init_def
        ngx_wasm_wasmtime_init_def ngx_wasm_wasmedge_init_def Let_def)
qed

section \<open>Hooks\<close>

text \<open>
  C3. The hooks, for a plugin context in use whose state record is there, a request that is
  there, and guest code that returns (the hypotheses take it as a total function that keeps the
  state records and the module contexts; a guest call of a host function that is undefined, as
  in C32 and C35, is outside): in every reachable state \<^verbatim>\<open>ngx_http_wasm_on_http\<close> and
  \<^verbatim>\<open>ngx_http_wasm_on_http_call_resp\<close> return, in a reachable state; afterwards no record is
  current, the body in the record is cleared, and the response code is reset, except when the
  result is \<^verbatim>\<open>NGX_DECLINED\<close>: when there is no HTTP context the code in the main configuration is
  left as it was (module.c:691).
\<close>

theorem hooks_safe:
  assumes E: "env_ok E" "ctx_frame E" and reach: "reachable E (initial w) s"
    and px: "m_plugins s hw = Some p" "px \<in> set (pl_occupied p)" "m_pctxs s px = Some x" "\<not> px_done x"
    and st: "px_state x = Some st" "h_states (m_host s) st = Some ws"
    and r: "h_requests (m_host s) r = Some rq" and inited: "m_vm_inited s"
  shows "\<forall>f \<in> {ngx_http_wasm_on_http E px r ty body sz eob, ngx_http_wasm_on_http_call_resp E px r hs n cbody}.
    \<exists>rc s'. f s = Some (rc, s') \<and> reachable E (initial w) s' \<and> closed_hook s' st r \<and>
      (rc = NGX_DECLINED \<or> h_code (m_host s') = 0)"
proof -
  have ok: "module_ok s" by (rule reachable_ok [OF reach E(1) module_ok_initial])
  have trans: "reachable E (initial w) s'" if "reachable E s s'" for s'
    using that reach by (induction rule: reachable.induct) (auto intro: reach_step)
  note run = run_hook_runs [OF E ok px st(2) r]
  have "\<exists>rc s'. run_hook E px r st (map_option (\<lambda>b. \<lparr>str_len = sz, str_data = Some b\<rparr>) body)
      (phase_call E px r ty sz eob) s = Some (rc, s') \<and> reachable E s s' \<and> closed_hook s' st r \<and>
      (rc = NGX_DECLINED \<or> h_code (m_host s') = 0)"
    by (rule run) (rule calls_defined(1) [OF E])
  moreover have "\<exists>rc s'. run_hook E px r st None (response_call E px r hs n cbody) s = Some (rc, s') \<and>
      reachable E s s' \<and> closed_hook s' st r \<and> (rc = NGX_DECLINED \<or> h_code (m_host s') = 0)"
    by (rule run) (rule calls_defined(2) [OF E])
  ultimately show ?thesis
    using trans by (simp add: on_http_run [OF inited r px(3) st(1)]) blast
qed

text \<open>
  C6. A local response reaches the Lua library: when the guest, in a hook of a phase, calls
  \<^verbatim>\<open>proxy_send_local_response\<close> and returns without an error, \<^verbatim>\<open>ngx_http_wasm_on_http\<close> returns
  the status code and \<^verbatim>\<open>ngx_http_wasm_fetch_local_body\<close> the body. The defect is in the other
  case: when a header is refused and the guest is told BAD_ARGUMENT, the code is returned all
  the same, with a body that has the new length and the pointer of an earlier response, or NULL;
  that pointer leads to freed memory when the request of that response is gone. The body of
  an accepted response is in the pool of the request that is served.
\<close>

theorem local_response_sent:
  assumes lib: "vm_documented E" "strncasecmp_documented E" "no_oom E"
    and op: "hook_opens s px r p ctx_id st ws" "h_requests (m_host s) r = Some rq"
    and fn: "e_export E (pl_plugin p) (hook_name ty) = Some ExternFunc"
    and w0: "w0 = hook_host s st ws r (map_option (\<lambda>b. \<lparr>str_len = sz, str_data = Some b\<rparr>) body) (pl_plugin p)"
    and strs: "guest_str w0 ha hsz (enc_map kvs)" "guest_str w0 b bsz bs" "bs \<noteq> []"
    and guest: "proxy_send_local_response E code d dsz b bsz ha hsz grpc w0 = Some (rc, w1)"
      "e_invoke E (pl_plugin p) (hook_name ty) (hook_args p ty ctx_id sz eob) True w0 = (InvokeOk (I32 act), w1)"
      "0 \<le> vm_result E True (InvokeOk (I32 act))"
    and out: "set_response_headers E kvs rq = (ok, rq')" "rq_ctx rq' = rq_ctx rq"
    and idle: "\<And>ctx. rq_ctx rq = Some ctx \<Longrightarrow> wc_callout ctx = None" and code: "100 \<le> sint code"
  shows "rc = (if ok then PROXY_RESULT_OK else PROXY_RESULT_BAD_ARGUMENT) \<and>
    (\<exists>s'. ngx_http_wasm_on_http E px r ty body sz eob s = Some (sint code, s') \<and> h_code (m_host s') = 0 \<and>
       ngx_http_wasm_fetch_local_body (m_host s') = Some \<lparr>str_len = of_nat (length bs),
         str_data = (if ok then Some bs else str_data (h_body (m_host s)))\<rparr> \<and>
       h_body_pool (m_host s') = (if ok then Some r else h_body_pool (m_host s)) \<and>
       (local_body_dangles (m_host s') \<longleftrightarrow> \<not> ok \<and> local_body_dangles (m_host s)))"
proof -
  have h: "h_requests w0 r = Some rq" "h_cur_state w0 = Some st" "h_body w0 = h_body (m_host s)"
    "h_body_pool w0 = h_body_pool (m_host s)" "local_body_dangles w0 = local_body_dangles (m_host s)"
    "ngx_http_wasm_get_req w0 = Some (Some r)" "\<exists>ws'. h_states w0 st = Some ws'"
    using op(2)
    by (simp_all add: w0 hook_host_def ngx_http_wasm_get_req_def cur_wasm_state_def local_body_dangles_def
        split: option.split)
  from send_local_response [OF lib h(6,1) strs out(1), of code d dsz grpc] guest(1)
  have W: "rc = (if ok then PROXY_RESULT_OK else PROXY_RESULT_BAD_ARGUMENT)" "h_code w1 = code"
    "h_requests w1 = (h_requests w0)(r \<mapsto> rq')" "h_states w1 = h_states w0" "h_cur_state w1 = h_cur_state w0"
    "h_body w1 = \<lparr>str_len = of_nat (length bs), str_data = (if ok then Some bs else str_data (h_body w0))\<rparr>"
    "h_body_pool w1 = (if ok then Some r else h_body_pool w0)"
    "local_body_dangles w1 = (\<not> ok \<and> local_body_dangles w0)"
    by auto
  obtain ws' where ws': "h_states w1 st = Some ws'" using h(7) W(4) by auto
  obtain ctx where ctx: "rq_ctx rq = Some ctx" using op by (auto simp: hook_opens_def request_ctx_def)
  have "length bs < 2 ^ 31" by (rule guest_strD(3) [OF strs(2)])
  then have nz: "(of_nat (length bs) :: u64) \<noteq> 0"
    using strs(3) by (auto simp: word_of_nat_eq_0_iff dest!: dvd_imp_le)
  have "ngx_http_wasm_on_http E px r ty body sz eob s =
      Some (hook_result ctx code (vm_result E True (InvokeOk (I32 act))), s\<lparr>m_host := w1
        \<lparr>h_states := (h_states w1)(st \<mapsto> ws'\<lparr>ws_body := Some str_null\<rparr>), h_cur_state := None, h_code := 0\<rparr>\<rparr>)"
    using on_http_invokes [OF op(1) fn guest(2) [unfolded w0] _ ws', of ctx] W(2,3,5) h(2) ctx out(2)
    by (simp add: request_ctx_def)
  moreover have "hook_result ctx code (vm_result E True (InvokeOk (I32 act))) = sint code"
    using idle [OF ctx] guest(3) code by (simp add: hook_result_def)
  moreover have "local_body_dangles (w1\<lparr>h_states := hs, h_cur_state := None, h_code := 0\<rparr>) = local_body_dangles w1" for hs
    by (simp add: local_body_dangles_def split: option.split)
  ultimately show ?thesis using W(1,6-8) nz h(3-5) by (simp add: ngx_http_wasm_fetch_local_body_def)
qed

text \<open>
  C7. An HTTP call of the guest in a hook comes first: \<^verbatim>\<open>ngx_http_wasm_on_http\<close> returns
  \<^verbatim>\<open>RC_NEED_HTTP_CALL\<close> whatever the hook returns, and the Lua library fetches the call the
  guest asked for, with the headers of the guest's map; then no call is pending.
\<close>

theorem http_call_dispatched:
  assumes lib: "vm_documented E" "strncasecmp_documented E" "no_oom E"
    and op: "hook_opens s px r p ctx_id st ws"
    and fn: "e_export E (pl_plugin p) (hook_name ty) = Some ExternFunc"
    and w0: "w0 = hook_host s st ws r (map_option (\<lambda>b. \<lparr>str_len = sz, str_data = Some b\<rparr>) body) (pl_plugin p)"
    and ready: "call_ready E r rq ctx (ua, usz, up) (ha, hsz, kvs) (ba, bsz, cbody) w0"
    and slot: "guest_slot w0 callout_addr 4" and t: "0 \<le> sint timeout"
    and guest: "proxy_http_call E ua usz ha hsz ba bsz td tsz timeout callout_addr w0 = Some (rc, w1)"
      "e_invoke E (pl_plugin p) (hook_name ty) (hook_args p ty ctx_id sz eob) True w0 = (res, w1)"
  shows "\<exists>s' a w2. ngx_http_wasm_on_http E px r ty body sz eob s = Some (RC_NEED_HTTP_CALL, s') \<and>
    ngx_http_wasm_call_get E r (m_host s') = Some (a, w2) \<and>
    cg_host a = up \<and> cg_timeout a = timeout \<and> cg_body a = Some cbody \<and> call_means E (enc_map kvs) kvs a \<and>
    (\<exists>ctx'. request_ctx r w2 = Some ctx' \<and> wc_callout ctx' = None)"
proof -
  let ?ctx = "pending_call ctx up (enc_map kvs) cbody timeout (h_cur_callout_id w0)"
  have h: "h_cur_state w0 = Some st" "\<exists>ws'. h_states w0 st = Some ws'" by (simp_all add: w0 hook_host_def)
  from http_call_done [OF lib t slot ready, of td tsz] guest(1) obtain rq1 where
    W: "h_states w1 = h_states w0" "h_cur_state w1 = h_cur_state w0" and rq1: "h_requests w1 r = Some rq1" "rq_ctx rq1 = Some ?ctx"
    by auto
  obtain ws' where ws': "h_states w1 st = Some ws'" using h(2) W(1) by auto
  let ?w = "w1\<lparr>h_states := (h_states w1)(st \<mapsto> ws'\<lparr>ws_body := Some str_null\<rparr>), h_cur_state := None, h_code := 0\<rparr>"
  have "ngx_http_wasm_on_http E px r ty body sz eob s =
      Some (hook_result ?ctx (h_code w1) (vm_result E True res), s\<lparr>m_host := ?w\<rparr>)"
    using on_http_invokes [OF op fn guest(2) [unfolded w0] _ ws', of ?ctx] W(2) h(1) rq1
    by (simp add: request_ctx_def)
  moreover have "hook_result ?ctx c v = RC_NEED_HTTP_CALL" for c v by (simp add: hook_result_def pending_call_def)
  moreover have sz: "map_size kvs < 2 ^ 31" using ready guest_map(2) by (auto simp: call_ready_def)
  have "h_requests ?w r = Some rq1" using rq1(1) by simp
  from call_get_at [OF lib(2) this rq1(2), of _ "enc_map kvs", OF _ _ enc_map_at sz] obtain a where
    "ngx_http_wasm_call_get E r ?w = Some (a, ?w\<lparr>h_requests := (h_requests ?w)(r \<mapsto>
       rq1\<lparr>rq_ctx := Some (?ctx\<lparr>wc_callout := None\<rparr>)\<rparr>)\<rparr>)"
    "cg_host a = up" "cg_timeout a = timeout" "cg_body a = Some cbody" "call_means E (enc_map kvs) kvs a"
    by (auto simp: pending_call_def)
  ultimately show ?thesis by (auto simp: request_ctx_def)
qed

section \<open>Witnesses\<close>

theorem module_init_outcome_witness:
  "\<exists>s'. ngx_http_wasm_init sample_env (\<lambda>_. True) False False
     \<lparr>wm_vm = ascii ''wasmtime'', wm_code = 0, wm_body = str_null\<rparr> None (initial sample_host) =
     (NGX_OK, Some Wasmtime, s') \<and> m_vm_inited s'"
proof -
  let ?c = "\<lparr>wm_vm = [], wm_code = 0, wm_body = str_null\<rparr>"
  have "ngx_http_wasm_vm (ascii ''wasmtime'') ?c = Inr (?c\<lparr>wm_vm := ascii ''wasmtime''\<rparr>)"
    by (simp add: ngx_http_wasm_vm_def)
  note out = module_init_outcome [OF this, where s = "initial sample_host" and E = sample_env and
      dlsym = "\<lambda>_. True" and wasmedge = False]
  have oom: "\<not> e_oom sample_env n k" for n k by (simp add: sample_env_def)
  obtain rc vm s' where r: "ngx_http_wasm_init sample_env (\<lambda>_. True) False False
      \<lparr>wm_vm = ascii ''wasmtime'', wm_code = 0, wm_body = str_null\<rparr> None (initial sample_host) = (rc, vm, s')"
    by (rule prod_cases3)
  moreover have "ascii ''wasmtime'' \<noteq> []" by (simp add: ascii_def)
  ultimately have "m_vm_inited s'" "rc = NGX_OK" "vm = Some Wasmtime"
    using out oom by (simp_all add: initial_def Let_def)
  with r show ?thesis by simp
qed

lemma sample_ctx_frame: "ctx_frame sample_env"
  by (simp add: ctx_frame_def sample_env_def keeps_ctxs_def)

lemma sample_configured_state:
  "case m_pctxs sample_configured 3 of
     Some x \<Rightarrow> \<not> px_done x \<and> (case px_state x of Some st \<Rightarrow> h_states (m_host sample_configured) st \<noteq> None | None \<Rightarrow> False)
   | None \<Rightarrow> False"
  "m_vm_inited sample_configured"
  by code_simp+

theorem hooks_safe_witness:
  "\<exists>rc s'. ngx_http_wasm_on_http sample_env 3 7 1 None 0 1 sample_configured = Some (rc, s') \<and> m_vm_inited sample_configured"
proof -
  obtain p where p: "m_plugins sample_configured 1 = Some p" "pl_occupied p = [3]"
    using sample_plugin(3) by auto
  obtain x st ws where x: "m_pctxs sample_configured 3 = Some x" "\<not> px_done x" "px_state x = Some st"
    "h_states (m_host sample_configured) st = Some ws"
    using sample_configured_state(1) by (auto split: option.splits)
  have "3 \<in> set (pl_occupied p)" using p(2) by simp
  from hooks_safe [OF sample_env_ok(1) sample_ctx_frame sample_configured_reachable p(1) this x
      sample_request_there sample_configured_state(2), of 1 None 0 1 "[]" 0 None]
  show ?thesis using sample_configured_state(2) by blast
qed

text \<open>A request that the plugin at 1 has served, with the guest memory of \<open>action_bytes\<close>.\<close>

definition served_plugin :: wasm_plugin where
  "served_plugin = \<lparr>pl_plugin = 0, pl_cur_ctx_id = 2, pl_abi_version = 2, pl_name = ascii ''p'',
     pl_state = 2, pl_occupied = [3], pl_free = [], pl_done = False\<rparr>"

definition served_hook :: mstate where
  "served_hook = (initial (serving_with action_bytes))\<lparr>m_vm_inited := True, m_live := \<lambda>n. n = 0,
     m_plugins := [1 \<mapsto> served_plugin],
     m_pctxs := [3 \<mapsto> \<lparr>px_id = 1, px_state = Some 4, px_hw_plugin = 1, px_pool = True,
       px_occupied = [5], px_free = [], px_done = False\<rparr>],
     m_hctxs := [5 \<mapsto> \<lparr>hx_id = 2, hx_hwp_ctx = 3\<rparr>], m_req_ctxs := [0 \<mapsto> [5]], m_next := 6\<rparr>"

lemma served_states: "h_states (serving_with bs) 4 = Some sample_state" "h_cur_state (serving_with bs) = Some 4"
  by (simp_all add: serving_with_def serving_host_def)

lemma served_opens: "hook_opens served_hook 3 7 served_plugin 2 4 sample_state"
  using serving_with_simps(4) [of action_bytes] served_states [of action_bytes]
  by (simp add: hook_opens_def served_hook_def initial_def served_plugin_def request_ctx_def sample_request_def wasm_ctx_zero_def)

lemma served_host: "hook_host served_hook 4 sample_state 7 None 0 = serving_with action_bytes"
  using served_states [of action_bytes] serving_with_simps(1) [of action_bytes]
  by (cases "serving_with action_bytes") (simp add: hook_host_def served_hook_def initial_def sample_state_def fun_upd_idem)

text \<open>The host functions do not look at the guest code.\<close>

lemmas branch_congs = if_cong option.case_cong vm_kind.case_cong bool.case_cong prod.case_cong sum.case_cong

lemma invoke_alloc: "try_alloc (E\<lparr>e_invoke := f\<rparr>) = try_alloc E"
  by (intro ext) (simp add: try_alloc_def)

lemma invoke_base:
  "vm_get_memory (E\<lparr>e_invoke := f\<rparr>) = vm_get_memory E"
  "must_get_memory (E\<lparr>e_invoke := f\<rparr>) = must_get_memory E" "name_is (E\<lparr>e_invoke := f\<rparr>) = name_is E"
  "ngx_http_wasm_get_module_ctx (E\<lparr>e_invoke := f\<rparr>) = ngx_http_wasm_get_module_ctx E"
  "ngx_http_wasm_is_yieldable (E\<lparr>e_invoke := f\<rparr>) = ngx_http_wasm_is_yieldable E"
  "ngx_http_wasm_set_resp_header (E\<lparr>e_invoke := f\<rparr>) = ngx_http_wasm_set_resp_header E"
  by (intro ext, simp add: invoke_alloc vm_get_memory_eq vm_pointer_def
    must_get_memory_def name_is_def ngx_http_wasm_get_module_ctx_def ngx_http_wasm_is_yieldable_def
    ngx_http_wasm_set_resp_header_def
    cong: branch_congs)+

lemma invoke_parts:
  "local_resp_header (E\<lparr>e_invoke := f\<rparr>) = local_resp_header E"
  "local_resp_body (E\<lparr>e_invoke := f\<rparr>) = local_resp_body E"
  "ngx_http_wasm_copy_as_str (E\<lparr>e_invoke := f\<rparr>) = ngx_http_wasm_copy_as_str E"
  "ngx_http_wasm_call_register (E\<lparr>e_invoke := f\<rparr>) = ngx_http_wasm_call_register E"
  "call_copy_headers (E\<lparr>e_invoke := f\<rparr>) = call_copy_headers E"
  by (intro ext, simp add: local_resp_header_def local_resp_body_def ngx_http_wasm_copy_as_str_def
    ngx_http_wasm_call_register_def call_copy_headers_def invoke_base
    invoke_alloc cong: branch_congs)+

lemma host_fn_invoke:
  "proxy_send_local_response (E\<lparr>e_invoke := f\<rparr>) = proxy_send_local_response E"
  "proxy_http_call (E\<lparr>e_invoke := f\<rparr>) = proxy_http_call E"
  by (intro ext, simp add: proxy_send_local_response_def local_resp_headers_def proxy_http_call_def
    call_copy_body_def call_register_and_store_def invoke_base invoke_parts cong: branch_congs)+

text \<open>A guest that calls a host function in its hook and returns 0.\<close>

definition calling_env :: "(host \<Rightarrow> (proxy_result \<times> host) option) \<Rightarrow> env" where
  "calling_env f = action_env\<lparr>e_invoke := \<lambda>pl name args hr w.
     (InvokeOk (I32 0), case f w of Some (_, w') \<Rightarrow> w' | None \<Rightarrow> w)\<rparr>"

lemma calling_env:
  "proxy_send_local_response (calling_env f) = proxy_send_local_response action_env"
  "proxy_http_call (calling_env f) = proxy_http_call action_env"
  "e_export (calling_env f) pl name = (if name = ''memory'' then Some ExternMemory else Some ExternFunc)"
  "f w = Some (rc, w') \<Longrightarrow> e_invoke (calling_env f) pl name args hr w = (InvokeOk (I32 0), w')"
  "0 \<le> vm_result (calling_env f) hr (InvokeOk (I32 0))"
  "vm_documented (calling_env f)" "strncasecmp_documented (calling_env f)" "no_oom (calling_env f)"
proof -
  show "vm_documented (calling_env f)" "strncasecmp_documented (calling_env f)" "no_oom (calling_env f)"
    using action_facts(1-3)
    by (simp_all add: calling_env_def vm_documented_def strncasecmp_documented_def strlow_def no_oom_def
      wasmedge_pointer_documented_def vm_pointer_def)
  show "proxy_send_local_response (calling_env f) = proxy_send_local_response action_env"
    "proxy_http_call (calling_env f) = proxy_http_call action_env"
    unfolding calling_env_def by (rule host_fn_invoke)+
  show "e_invoke (calling_env f) pl name args hr w = (InvokeOk (I32 0), w')" if "f w = Some (rc, w')"
    using that by (simp add: calling_env_def)
qed (simp_all add: calling_env_def action_env_def sample_env_def vm_result_def)

lemma served_call:
  "e_export (calling_env f) (pl_plugin served_plugin) (hook_name 1) = Some ExternFunc"
  "hook_host served_hook 4 sample_state 7 (map_option (\<lambda>b. \<lparr>str_len = 0, str_data = Some b\<rparr>) None)
     (pl_plugin served_plugin) = serving_with action_bytes"
  "h_requests (m_host served_hook) 7 = Some sample_request"
  using served_host serving_with_simps(4) [of action_bytes]
  by (simp_all add: calling_env(3) hook_name_def served_plugin_def served_hook_def initial_def)

lemma sample_set_headers:
  "set_response_headers E [(ascii ''a'', ascii ''b'')] sample_request = (True, sample_request)"
  if "e_set_resp_header E = e_set_resp_header sample_env"
proof -
  have "\<not> same_name E (ascii ''a'') (ascii '':status'')"
    using same_name_length [of E "ascii ''a''" "ascii '':status''"] by auto
  moreover have "e_set_resp_header E k is_nil v ov rq = (NGX_OK, rq)" for k is_nil v ov rq
    using that by (simp add: sample_env_def)
  ultimately show ?thesis by (simp add: set_response_header_def)
qed

theorem local_response_sent_witness:
  "\<exists>E s'. ngx_http_wasm_on_http E 3 7 1 None 0 1 served_hook = Some (403, s') \<and>
     ngx_http_wasm_fetch_local_body (m_host s') = Some (str_of (ascii ''ok''))"
proof -
  let ?w = "serving_with action_bytes"
  let ?f = "proxy_send_local_response action_env 403 0 0 424 2 408 16 0"
  let ?E = "calling_env ?f"
  obtain w1 where w1: "?f ?w = Some (PROXY_RESULT_OK, w1)"
    using send_local_response [OF action_facts(1-3) serving_with_simps(3,4) action_facts(4,5) _
        sample_set_headers [of action_env], of 403 0 0 0] by (auto simp: action_env_def ascii_def)
  have set: "set_response_headers ?E [(ascii ''a'', ascii ''b'')] sample_request = (True, sample_request)"
    by (rule sample_set_headers) (simp add: calling_env_def action_env_def)
  have send: "proxy_send_local_response ?E 403 0 0 424 2 408 16 0 ?w = Some (PROXY_RESULT_OK, w1)"
    using w1 by (simp add: calling_env(1))
  have "PROXY_RESULT_OK = (if True then PROXY_RESULT_OK else PROXY_RESULT_BAD_ARGUMENT) \<and>
    (\<exists>s'. ngx_http_wasm_on_http ?E 3 7 1 None 0 1 served_hook = Some (sint (403 :: i32), s') \<and> h_code (m_host s') = 0 \<and>
       ngx_http_wasm_fetch_local_body (m_host s') = Some \<lparr>str_len = of_nat (length (ascii ''ok'')),
         str_data = (if True then Some (ascii ''ok'') else str_data (h_body (m_host served_hook)))\<rparr> \<and>
       h_body_pool (m_host s') = (if True then Some 7 else h_body_pool (m_host served_hook)) \<and>
       (local_body_dangles (m_host s') \<longleftrightarrow> \<not> True \<and> local_body_dangles (m_host served_hook)))"
    by (rule local_response_sent [OF calling_env(6-8) served_opens served_call(3,1) served_call(2) [symmetric]
      action_facts(4,5) _ send calling_env(4) [where f = ?f, OF w1] calling_env(5) set])
      (simp_all add: ascii_def sample_request_def wasm_ctx_zero_def)
  then show ?thesis by (auto simp: str_of_def ascii_def)
qed

theorem http_call_dispatched_witness:
  "\<exists>E s' a w2. ngx_http_wasm_on_http E 3 7 1 None 0 1 served_hook = Some (RC_NEED_HTTP_CALL, s') \<and>
     ngx_http_wasm_call_get E 7 (m_host s') = Some (a, w2) \<and> cg_host a = ascii ''u''"
proof -
  let ?w = "serving_with action_bytes"
  let ?f = "proxy_http_call action_env 426 1 408 16 424 2 0 0 500 0"
  let ?E = "calling_env ?f"
  have slot: "guest_slot ?w 0 4"
    using serving_with_simps(1,2) [of action_bytes] action_facts(7)
    by (simp add: guest_slot_def guest_mem_def in_obj_def)
  from http_call_done [OF action_facts(1-3) _ this action_ready, of 500 0 0] obtain w1 where
    w1: "?f ?w = Some (PROXY_RESULT_OK, w1)" by auto
  have "call_ready ?E 7 sample_request wasm_ctx_zero (426, 1, ascii ''u'')
     (408, 16, [(ascii ''a'', ascii ''b'')]) (424, 2, ascii ''ok'') ?w"
    using action_ready by (simp add: call_ready_def ngx_http_wasm_is_yieldable_def calling_env_def)
  moreover have "proxy_http_call ?E 426 1 408 16 424 2 0 0 500 0 ?w = Some (PROXY_RESULT_OK, w1)"
    using w1 by (simp add: calling_env(2))
  ultimately have "\<exists>s' a w2. ngx_http_wasm_on_http ?E 3 7 1 None 0 1 served_hook = Some (RC_NEED_HTTP_CALL, s') \<and>
    ngx_http_wasm_call_get ?E 7 (m_host s') = Some (a, w2) \<and>
    cg_host a = ascii ''u'' \<and> cg_timeout a = 500 \<and> cg_body a = Some (ascii ''ok'') \<and>
    call_means ?E (enc_map [(ascii ''a'', ascii ''b'')]) [(ascii ''a'', ascii ''b'')] a \<and>
    (\<exists>ctx'. request_ctx 7 w2 = Some ctx' \<and> wc_callout ctx' = None)"
    by (intro http_call_dispatched [OF calling_env(6-8) served_opens served_call(1) served_call(2) [symmetric]
      _ slot _ _ calling_env(4) [where f = ?f, OF w1]]) simp_all
  then show ?thesis by blast
qed

end
