(* ===== verification/Header_Maps.thy ===== *)
theory Header_Maps
  imports Guest_Copy Api_Calls
begin

text \<open>
  The header maps a plugin gets from \<^verbatim>\<open>proxy_get_header_map_pairs\<close>: what it reads back from
  its memory.
\<close>

lemma must_get_req_there:
  "ngx_http_wasm_get_req w = Some (Some r) \<Longrightarrow> must_get_req w go = go r"
  by (simp add: must_get_req_def)

section \<open>Request headers\<close>

definition request_pseudo :: "request \<Rightarrow> bytes \<Rightarrow> (bytes \<times> bytes) list" where
  "request_pseudo rq host =
     [(ascii '':scheme'', if rq_ssl rq then ascii ''https'' else ascii ''http''),
      (ascii '':path'', rq_unparsed_uri rq), (ascii '':method'', rq_method_name rq),
      (ascii '':authority'', host)]"

lemma pseudo_req_headers_eq:
  "rq_host rq = Some host \<Longrightarrow>
     pseudo_req_headers E rq wasm_pseudo_req_header_static_table = Some (request_pseudo rq host)"
  by (simp add: wasm_pseudo_req_header_static_table_def pseudo_getter_def request_pseudo_def
      ngx_http_wasm_get_scheme_def ngx_http_wasm_get_path_def ngx_http_wasm_get_method_def
      ngx_http_wasm_get_authority_def)

lemma req_get_headers_run:
  assumes vm: "vm_documented E" and rq: "h_requests w r = Some rq" "rq_host rq = Some host"
    and ffi: "e_req_headers_count E rq = int (length hs)"
      "e_req_headers E (int (length hs)) rq = (NGX_OK, hs)" "length hs \<le> 128"
    and kvs: "kvs = hs @ request_pseudo rq host"
    and tk: "takes_buffer E (map_size kvs) addr size_addr w a w2" and w2: "h_requests w2 r = Some rq"
  shows "\<exists>w'. ngx_http_wasm_req_get_headers E r addr size_addr w = Some (PROXY_RESULT_OK, w') \<and>
    map_delivered w' addr size_addr (map_size kvs) kvs"
proof -
  let ?S = "map_size kvs" and ?n = "length kvs"
  have n: "?n = length hs + 4" by (simp add: kvs request_pseudo_def)
  from get_buf_ready [OF vm tk] obtain w3 where
    buf: "ngx_http_wasm_get_buf_to_write E (of_nat ?S) addr size_addr w = Some (Some (sint a), w3)"
    and s3: "guest_slot w3 a ?S" and wd: "guest_rd w3 (sint addr) 4 = Some (le32 a)"
      "guest_rd w3 (sint size_addr) 4 = Some (le32 (of_nat ?S))" and r3: "h_requests w3 = h_requests w2"
    by blast
  have S: "?S < 2 ^ 31" and ap: "apart a ?S addr 4" "apart a ?S size_addr 4"
    using tk by (auto simp: takes_buffer_def gives_buffer_def)
  have "4 + 8 * ?n \<le> ?S" by (simp add: map_size_def)
  from start_map_progress [OF s3 this] obtain m0 m where m0: "guest_mem w3 = Some m0"
    and st: "start_map (sint a) (of_nat ?n) w3 = Some (m, iter_at (sint a) ?n [])"
    and P: "map_progress m0 (sint a) ?n ?S [] m" by blast
  from pair_writer.put_list_progress [OF P S, of hs] obtain m1 where
    m1: "put_list put_pair m (iter_at (sint a) ?n []) hs = Some (m1, iter_at (sint a) ?n hs)"
    and P1: "map_progress m0 (sint a) ?n ?S hs m1" by (auto simp: map_size_def kvs)
  from pair_writer.put_list_progress [OF P1 S, of "request_pseudo rq host"] obtain m2 where
    m2: "put_list put_pair m1 (iter_at (sint a) ?n hs) (request_pseudo rq host) = Some (m2, iter_at (sint a) ?n kvs)"
    and P2: "map_progress m0 (sint a) ?n ?S kvs m2" by (auto simp: map_size_def kvs)
  from finish_map [OF P2 m0 wd ap] obtain w' where w': "set_guest_mem m2 w3 = Some w'"
    "guest_mem w' = Some m2" "guest_rd w' (sint addr) 4 = Some (le32 a)"
    "guest_rd w' (sint size_addr) 4 = Some (le32 (of_nat ?S))" by blast
  have cnt: "(of_nat ?n :: i32) = of_nat (length hs) + 4" by (simp add: n)
  have len4: "length wasm_pseudo_req_header_static_table = 4"
    by (simp add: wasm_pseudo_req_header_static_table_def)
  have sz: "pairs_size hs + pairs_size (request_pseudo rq host) + (4 + (of_nat (length hs) + of_nat 4) * 2 * 4) =
      (of_nat ?S :: i32)"
    by (simp add: pairs_size_eq map_size_append kvs request_pseudo_def algebra_simps)
  have buf_ok: "(if 0 < int (length hs)
      then ngx_http_wasm_get_string_buf E (nat (int (length hs)) * sizeof_table_elt) w else (True, w)) = (True, w)"
    using ffi(3) by (simp add: ngx_http_wasm_get_string_buf_def)
  have got: "(if 0 < int (length hs) then e_req_headers E (int (length hs)) rq else (NGX_OK, [])) = (NGX_OK, hs)"
    using ffi(2) by (cases hs) auto
  have st': "start_map (sint a) (of_int (int (length hs)) + of_nat 4) w3 = Some (m, iter_at (sint a) ?n [])"
    using st unfolding cnt by simp
  have "int (length hs) \<noteq> FFI_BAD_CONTEXT" by simp
  then have "ngx_http_wasm_req_get_headers E r addr size_addr w = Some (PROXY_RESULT_OK, w')"
    unfolding ngx_http_wasm_req_get_headers_def rq(1) bind.bind_lunit Let_def ffi(1) buf_ok got len4
    using m1 m2 w'(1) w2 r3 pseudo_req_headers_eq [OF rq(2), of E] buf [folded sz] st'
    by simp
  moreover have "map_at m2 (sint a) kvs" using P2 by (rule map_progress_finish)
  ultimately show ?thesis using w' by (auto simp: map_delivered_def)
qed

section \<open>Response headers\<close>

definition lower_pair :: "env \<Rightarrow> table_elt \<Rightarrow> bytes \<times> bytes" where
  "lower_pair E h = (strlow E (te_key h), te_value h)"

definition special_pairs :: "env \<Rightarrow> request \<Rightarrow> (bytes \<times> bytes) list" where
  "special_pairs E rq =
     special_type rq @ special_length E rq @ special_connection rq @ special_status E rq"

lemma list_from_parts:
  "\<forall>p \<in> set (tl (ps @ [lp])). p \<noteq> [] \<Longrightarrow> list_from (ps @ [lp]) = Some (concat (ps @ [lp]))"
proof (induction ps)
  case (Cons p ps)
  then have "list_from (ps @ [lp]) = Some (concat (ps @ [lp]))"
    by (cases ps) auto
  with Cons.prems show ?case by (cases ps) auto
qed simp

lemma length_enc_data: "length (enc_data kvs) = sum_list (map (\<lambda>e. length (fst e) + length (snd e) + 2) kvs)"
  by (induction kvs) (simp_all add: length_entry_data)

lemma length_enc_lower: "length (enc_data (map (lower_pair E) hs)) = length (enc_data (map elt_pair hs))"
  by (induction hs) (simp_all add: length_entry_data lower_pair_def elt_pair_def strlow_def)

lemma used_append: "used_headers (xs @ ys) = used_headers xs @ used_headers ys"
  by (simp add: used_headers_def)

text \<open>
  The buffer of the response headers: the size word is 4 more than the map needs. Of \<open>n\<close>
  announced entries those of the last part and the special ones are written.
\<close>

definition resp_buffer :: "env \<Rightarrow> request \<Rightarrow> nat" where
  "resp_buffer E rq =
     map_size (map elt_pair (used_headers (concat (rq_headers_out rq))) @ special_pairs E rq) + 4"

definition resp_count :: "env \<Rightarrow> request \<Rightarrow> nat" where
  "resp_count E rq = length (used_headers (concat (rq_headers_out rq))) + length (special_pairs E rq)"

definition resp_written :: "env \<Rightarrow> request \<Rightarrow> (bytes \<times> bytes) list" where
  "resp_written E rq =
     map (lower_pair E) (used_headers (last (rq_headers_out rq))) @ special_pairs E rq"

lemma resp_written_fits:
  assumes "rq_headers_out rq \<noteq> []"
  shows "4 + 8 * resp_count E rq + length (enc_data (resp_written E rq)) \<le> resp_buffer E rq"
    "length (resp_written E rq) \<le> resp_count E rq"
proof -
  obtain ps lp where "rq_headers_out rq = ps @ [lp]" using assms by (metis append_butlast_last_id)
  then show "4 + 8 * resp_count E rq + length (enc_data (resp_written E rq)) \<le> resp_buffer E rq"
    "length (resp_written E rq) \<le> resp_count E rq"
    by (simp_all add: resp_buffer_def resp_count_def resp_written_def map_size_append used_append
        length_enc_lower)
qed

lemma resp_headers_size_eq:
  "resp_headers_size E rq (used_headers (concat (rq_headers_out rq))) =
     (of_nat (resp_count E rq), of_nat (resp_buffer E rq))"
  by (simp add: resp_headers_size_def Let_def resp_count_def resp_buffer_def pairs_size_eq
      map_size_append special_pairs_def literal_slack_def algebra_simps)

lemma resp_get_headers_run:
  assumes vm: "vm_documented E" and rq: "h_requests w r = Some rq" "rq_headers_out rq \<noteq> []"
    "\<forall>p \<in> set (tl (rq_headers_out rq)). p \<noteq> []"
    and al: "resp_headers_alloc E rq w = (True, w0)"
    and tk: "takes_buffer E (resp_buffer E rq) addr size_addr w0 a w2" and w2: "h_requests w2 r = Some rq"
  shows "\<exists>w' m0 m. ngx_http_wasm_resp_get_headers E r addr size_addr w = Some (PROXY_RESULT_OK, w') \<and>
    guest_rd w' (sint addr) 4 = Some (le32 a) \<and>
    guest_rd w' (sint size_addr) 4 = Some (le32 (of_nat (resp_buffer E rq))) \<and> guest_mem w' = Some m \<and>
    map_progress m0 (sint a) (resp_count E rq) (resp_buffer E rq) (resp_written E rq) m \<and>
    (\<forall>q k. q + int k \<le> sint a + int (resp_buffer E rq) \<longrightarrow> sint a \<le> q \<longrightarrow> rd m0 q k = guest_rd w2 q k)"
proof -
  let ?S = "resp_buffer E rq" and ?n = "resp_count E rq"
  obtain ps lp where parts: "rq_headers_out rq = ps @ [lp]" using rq(2) by (metis append_butlast_last_id)
  let ?lp = "map (\<lambda>h. (strlow E (te_key h), te_value h)) (used_headers lp)"
  have low: "?lp = map (lower_pair E) (used_headers lp)" by (simp add: lower_pair_def)
  have all: "list_from (rq_headers_out rq) = Some (concat (rq_headers_out rq))"
    using list_from_parts [of ps lp] rq(3) parts by simp
  have last: "list_from (drop (length (rq_headers_out rq) - 1) (rq_headers_out rq)) = Some lp"
    by (simp add: parts)
  have wr: "resp_written E rq = ?lp @ special_type rq @ special_length E rq @ special_connection rq @ special_status E rq"
    by (simp add: resp_written_def special_pairs_def parts low)
  note fits = resp_written_fits [OF rq(2), of E]
  from get_buf_ready [OF vm tk] obtain w3 where
    buf: "ngx_http_wasm_get_buf_to_write E (of_nat ?S) addr size_addr w0 = Some (Some (sint a), w3)"
    and s3: "guest_slot w3 a ?S" and wd: "guest_rd w3 (sint addr) 4 = Some (le32 a)"
      "guest_rd w3 (sint size_addr) 4 = Some (le32 (of_nat ?S))" and r3: "h_requests w3 = h_requests w2"
    and old: "\<forall>q k. q + int k \<le> sint a + int ?S \<longrightarrow> sint a \<le> q \<longrightarrow> guest_rd w3 q k = guest_rd w2 q k"
    by blast
  have S: "?S < 2 ^ 31" and ap: "apart a ?S addr 4" "apart a ?S size_addr 4"
    using tk by (auto simp: takes_buffer_def gives_buffer_def)
  from start_map_progress [OF s3, of ?n] fits obtain m0 m where m0: "guest_mem w3 = Some m0"
    and st: "start_map (sint a) (of_nat ?n) w3 = Some (m, iter_at (sint a) ?n [])"
    and P: "map_progress m0 (sint a) ?n ?S [] m" by auto
  note sz = fits [unfolded wr, simplified]
  from pair_writer.put_list_progress [OF P S, of ?lp] sz obtain m1 where
    m1: "put_list put_pair m (iter_at (sint a) ?n []) ?lp = Some (m1, iter_at (sint a) ?n ?lp)"
    and P1: "map_progress m0 (sint a) ?n ?S ?lp m1" by auto
  from pair_writer.put_list_progress [OF P1 S, of "special_type rq"] sz obtain m2 where
    m2: "put_list put_pair m1 (iter_at (sint a) ?n ?lp) (special_type rq) =
      Some (m2, iter_at (sint a) ?n (?lp @ special_type rq))"
    and P2: "map_progress m0 (sint a) ?n ?S (?lp @ special_type rq) m2" by auto
  from pair_writer.put_list_progress [OF P2 S, of "special_length E rq"] sz obtain m3 where
    m3: "put_list put_pair m2 (iter_at (sint a) ?n (?lp @ special_type rq)) (special_length E rq) =
      Some (m3, iter_at (sint a) ?n ((?lp @ special_type rq) @ special_length E rq))"
    and P3: "map_progress m0 (sint a) ?n ?S ((?lp @ special_type rq) @ special_length E rq) m3" by auto
  from literal_writer.put_list_progress [OF P3 S, of "special_connection rq"] sz obtain m4 where
    m4: "put_literals m3 (iter_at (sint a) ?n ((?lp @ special_type rq) @ special_length E rq)) (special_connection rq) =
      Some (m4, iter_at (sint a) ?n (((?lp @ special_type rq) @ special_length E rq) @ special_connection rq))"
    and P4: "map_progress m0 (sint a) ?n ?S (((?lp @ special_type rq) @ special_length E rq) @ special_connection rq) m4"
    by (auto simp: put_literals_def)
  from pair_writer.put_list_progress [OF P4 S, of "special_status E rq"] sz obtain m5 where
    m5: "put_list put_pair m4 (iter_at (sint a) ?n (((?lp @ special_type rq) @ special_length E rq) @ special_connection rq))
      (special_status E rq) = Some (m5, iter_at (sint a) ?n (resp_written E rq))"
    and P5: "map_progress m0 (sint a) ?n ?S (resp_written E rq) m5" by (auto simp: wr)
  from finish_map [OF P5 m0 wd ap] obtain w' where w': "set_guest_mem m5 w3 = Some w'"
    "guest_mem w' = Some m5" "guest_rd w' (sint addr) 4 = Some (le32 a)"
    "guest_rd w' (sint size_addr) 4 = Some (le32 (of_nat ?S))" by blast
  have "ngx_http_wasm_resp_get_headers E r addr size_addr w = Some (PROXY_RESULT_OK, w')"
    using rq(1) all last al buf st m1 m2 m3 m4 m5 w'(1) w2 r3
    by (simp add: ngx_http_wasm_resp_get_headers_def resp_headers_size_eq)
  moreover have "rd m0 q k = guest_rd w3 q k" for q k
    using m0 by (auto simp: guest_rd_def guest_mem_def)
  ultimately show ?thesis using w' P5 old by metis
qed

section \<open>Properties\<close>

text \<open>
  C9. The request headers a plugin gets: \<^verbatim>\<open>proxy_get_header_map_pairs\<close> of type 0 succeeds and
  the map that lies at the returned address, with the returned size, holds the headers of the
  request in their order and then \<^verbatim>\<open>:scheme\<close>, \<^verbatim>\<open>:path\<close>, \<^verbatim>\<open>:method\<close> and \<^verbatim>\<open>:authority\<close>. The plugin can
  take a buffer of that size, and its allocator leaves the request as it is.
\<close>

theorem request_headers_delivered:
  assumes "vm_documented E" "ngx_http_wasm_get_req w = Some (Some r)"
    "h_requests w r = Some rq" "rq_host rq = Some host"
    "e_req_headers_count E rq = int (length hs)" "length hs \<le> 128"
    "e_req_headers E (int (length hs)) rq = (NGX_OK, hs)"
    "takes_buffer E (map_size (hs @ request_pseudo rq host)) addr size_addr w a w2"
    "h_requests w2 r = Some rq"
  shows "\<exists>w'. proxy_get_header_map_pairs E 0 addr size_addr w = Some (PROXY_RESULT_OK, w') \<and>
    map_delivered w' addr size_addr (map_size (hs @ request_pseudo rq host)) (hs @ request_pseudo rq host)"
  using req_get_headers_run [OF assms(1,3,4,5,7,6) refl assms(8,9)] assms(2)
  by (simp add: proxy_get_header_map_pairs_def must_get_req_there)

text \<open>
  C32. A defect the code marks as \<^verbatim>\<open>TODO: need bugfix\<close>: a request without a Host header
  (HTTP/1.0) has no \<^verbatim>\<open>headers_in.host\<close>, and \<^verbatim>\<open>ngx_http_wasm_get_authority\<close> follows it. Reading
  all request headers of such a request, or the pseudo header \<^verbatim>\<open>:authority\<close>, is undefined.
\<close>

theorem request_without_host_undefined:
  assumes "ngx_http_wasm_get_req w = Some (Some r)" "h_requests w r = Some rq" "rq_host rq = None"
    "e_req_headers_count E rq = int (length hs)" "length hs \<le> 128"
    "e_req_headers E (int (length hs)) rq = (NGX_OK, hs)" "strncasecmp_documented E"
    "rd m key 10 = Some (ascii '':authority'')"
  shows "proxy_get_header_map_pairs E 0 addr size_addr w = None \<and>
    ngx_http_wasm_get_pseudo_req_header E rq m key 10 = None"
proof
  have no: "pseudo_req_headers E rq wasm_pseudo_req_header_static_table = None"
    using assms(3) by (simp add: wasm_pseudo_req_header_static_table_def pseudo_getter_def
        ngx_http_wasm_get_scheme_def ngx_http_wasm_get_path_def ngx_http_wasm_get_method_def
        ngx_http_wasm_get_authority_def)
  have buf_ok: "(if 0 < int (length hs)
      then ngx_http_wasm_get_string_buf E (nat (int (length hs)) * sizeof_table_elt) w else (True, w)) = (True, w)"
    using assms(5) by (simp add: ngx_http_wasm_get_string_buf_def)
  have got: "(if 0 < int (length hs) then e_req_headers E (int (length hs)) rq else (NGX_OK, [])) = (NGX_OK, hs)"
    using assms(6) by (cases hs) auto
  have "ngx_http_wasm_req_get_headers E r addr size_addr w = None"
    unfolding ngx_http_wasm_req_get_headers_def assms(2) bind.bind_lunit Let_def assms(4) buf_ok got
    using no by simp
  then show "proxy_get_header_map_pairs E 0 addr size_addr w = None"
    using assms(1) by (simp add: proxy_get_header_map_pairs_def must_get_req_there)
  let ?k = "ascii '':authority''"
  have l: "length ?k = 10" by (simp add: eval_nat_numeral)
  have k: "rd m key (length ?k) = Some ?k" unfolding l by (rule assms(8))
  have "starts_with_colon m key (length ?k) = Some True"
    using starts_with_colon_bytes [OF k] by (simp add: ascii_def)
  moreover have "find_pseudo E m key (length ?k) wasm_pseudo_req_header_static_table = Some (Some PseudoAuthority)"
    using find_pseudo_bytes [OF assms(7) pseudo_tables_nul_free(2) k]
      same_name_length [of E ?k "ascii '':scheme''"] same_name_length [of E ?k "ascii '':path''"]
      same_name_length [of E ?k "ascii '':method''"]
    by (auto simp: wasm_pseudo_req_header_static_table_def same_name_def)
  ultimately show "ngx_http_wasm_get_pseudo_req_header E rq m key 10 = None"
    using assms(3) unfolding l by (simp add: ngx_http_wasm_get_pseudo_req_header_def ngx_http_wasm_get_pseudo_header_def
        pseudo_getter_def ngx_http_wasm_get_authority_def)
qed

text \<open>
  C20. The response headers a plugin gets, when nginx keeps them in one part of its list (up
  to 20 headers): the map at the returned address holds the headers with their names in lower
  case, without the deleted ones (hash 0), and then content type, content length, connection,
  transfer encoding and \<^verbatim>\<open>:status\<close> as they apply. The size that is reported is 4 bytes more.
\<close>

theorem response_headers_delivered:
  assumes "vm_documented E" "ngx_http_wasm_get_req w = Some (Some r)"
    "h_requests w r = Some rq" "rq_headers_out rq = [part]"
    "resp_headers_alloc E rq w = (True, w0)"
    "takes_buffer E (resp_buffer E rq) addr size_addr w0 a w2" "h_requests w2 r = Some rq"
  shows "\<exists>w'. proxy_get_header_map_pairs E 2 addr size_addr w = Some (PROXY_RESULT_OK, w') \<and>
    map_delivered w' addr size_addr
      (map_size (map (lower_pair E) (used_headers part) @ special_pairs E rq) + 4)
      (map (lower_pair E) (used_headers part) @ special_pairs E rq)"
proof -
  let ?kvs = "map (lower_pair E) (used_headers part) @ special_pairs E rq"
  have W: "resp_written E rq = ?kvs" "resp_count E rq = length ?kvs" "resp_buffer E rq = map_size ?kvs + 4"
    using assms(4) by (simp_all add: resp_written_def resp_count_def resp_buffer_def map_size_append length_enc_lower)
  from resp_get_headers_run [OF assms(1,3) _ _ assms(5-7)] assms(4) obtain w' m0 m where
    "ngx_http_wasm_resp_get_headers E r addr size_addr w = Some (PROXY_RESULT_OK, w')"
    "guest_rd w' (sint addr) 4 = Some (le32 a)"
    "guest_rd w' (sint size_addr) 4 = Some (le32 (of_nat (map_size ?kvs + 4)))" "guest_mem w' = Some m"
    and P: "map_progress m0 (sint a) (length ?kvs) (resp_buffer E rq) ?kvs m" by (auto simp: W)
  moreover have "map_at m (sint a) ?kvs" using P by (rule map_progress_finish)
  ultimately show ?thesis
    using assms(2) by (auto simp: proxy_get_header_map_pairs_def must_get_req_there map_delivered_def)
qed

text \<open>
  C31. A defect: with response headers in several parts, \<^verbatim>\<open>ngx_http_wasm_resp_get_headers\<close>
  counts all of them but its second loop starts from the last part, where the first one ended.
  The call reports success, the map announces more entries than are written, and the lengths
  of the missing entries are whatever was in the plugin's buffer before.
\<close>

theorem response_header_parts_lost:
  assumes "vm_documented E" "ngx_http_wasm_get_req w = Some (Some r)"
    "h_requests w r = Some rq" "rq_headers_out rq = parts @ [part]" "part \<noteq> []"
    "\<forall>p \<in> set parts. p \<noteq> []" "used_headers (concat parts) \<noteq> []"
    "resp_headers_alloc E rq w = (True, w0)"
    "takes_buffer E (resp_buffer E rq) addr size_addr w0 a w2" "h_requests w2 r = Some rq"
  shows "\<exists>w'. proxy_get_header_map_pairs E 2 addr size_addr w = Some (PROXY_RESULT_OK, w') \<and>
    length (resp_written E rq) < resp_count E rq \<and>
    guest_rd w' (sint addr) 4 = Some (le32 a) \<and>
    guest_rd w' (sint a) 4 = Some (le32 (of_nat (resp_count E rq))) \<and>
    guest_rd w' (sint a + 4) (8 * length (resp_written E rq)) = Some (enc_sizes (resp_written E rq)) \<and>
    (\<forall>i < resp_count E rq. length (resp_written E rq) \<le> i \<longrightarrow>
       guest_rd w' (sint a + 4 + 8 * int i) 8 = guest_rd w2 (sint a + 4 + 8 * int i) 8)"
proof -
  let ?n = "resp_count E rq" and ?dn = "resp_written E rq" and ?S = "resp_buffer E rq"
  have ne: "rq_headers_out rq \<noteq> []" "\<forall>p \<in> set (tl (rq_headers_out rq)). p \<noteq> []"
    using assms(4-6) by (cases parts; auto)+
  from resp_get_headers_run [OF assms(1,3) ne assms(8-10)] obtain w' m0 m where
    run: "ngx_http_wasm_resp_get_headers E r addr size_addr w = Some (PROXY_RESULT_OK, w')"
    "guest_rd w' (sint addr) 4 = Some (le32 a)" and m: "guest_mem w' = Some m"
    and P: "map_progress m0 (sint a) ?n ?S ?dn m"
    and old: "\<forall>q k. q + int k \<le> sint a + int ?S \<longrightarrow> sint a \<le> q \<longrightarrow> rd m0 q k = guest_rd w2 q k" by blast
  have g: "guest_rd w' q k = rd m q k" for q k using m by (auto simp: guest_rd_def guest_mem_def)
  have lt: "length ?dn < ?n"
    using assms(4,7) by (simp add: resp_written_def resp_count_def used_append)
  have "guest_rd w' (sint a + 4 + 8 * int i) 8 = guest_rd w2 (sint a + 4 + 8 * int i) 8"
    if i: "i < ?n" "length ?dn \<le> i" for i
  proof -
    have S: "4 + 8 * ?n \<le> ?S" using P by (simp add: map_progress_def)
    have "rd m (sint a + 4 + 8 * int i) 8 = rd m0 (sint a + 4 + 8 * int i) 8"
      using P i by (simp add: map_progress_def)
    with old i S show ?thesis by (simp add: g)
  qed
  moreover have "guest_rd w' (sint a) 4 = Some (le32 (of_nat ?n))"
    "guest_rd w' (sint a + 4) (8 * length ?dn) = Some (enc_sizes ?dn)"
    using P by (simp_all add: g map_progress_def)
  ultimately show ?thesis
    using run lt assms(2) by (auto simp: proxy_get_header_map_pairs_def must_get_req_there)
qed

section \<open>Witnesses\<close>

text \<open>A request with its headers in two parts.\<close>

definition two_parts :: request where
  "two_parts = sample_request\<lparr>rq_headers_out :=
     [[\<lparr>te_hash = 1, te_key = ascii ''A'', te_value = ascii ''1''\<rparr>],
      [\<lparr>te_hash = 1, te_key = ascii ''B'', te_value = ascii ''2''\<rparr>]]\<rparr>"

lemma sample_alloc_ok: "\<exists>w0. resp_headers_alloc sample_env rq w = (True, w0) \<and> h_mem w0 = h_mem w \<and>
    h_cur_plugin w0 = h_cur_plugin w \<and> h_requests w0 = h_requests w"
  by (auto simp: resp_headers_alloc_def try_alloc_def sample_env_def Let_def)

theorem request_headers_delivered_witness:
  "\<exists>w'. proxy_get_header_map_pairs sample_env 0 400 404 serving_host = Some (PROXY_RESULT_OK, w') \<and>
     map_delivered w' 400 404 (map_size ((ascii ''Host'', ascii ''h'') # request_pseudo sample_request (ascii ''h'')))
       ((ascii ''Host'', ascii ''h'') # request_pseudo sample_request (ascii ''h''))"
proof -
  have "map_size ([(ascii ''Host'', ascii ''h'')] @ request_pseudo sample_request (ascii ''h'')) \<le> 390"
    by (simp add: map_size_def length_entry_data request_pseudo_def sample_request_def)
  note tk = serving_takes [OF serving_host_simps(1,5) this]
  have "rq_host sample_request = Some (ascii ''h'')"
    "e_req_headers_count sample_env sample_request = int (length [(ascii ''Host'', ascii ''h'')])"
    "e_req_headers sample_env (int (length [(ascii ''Host'', ascii ''h'')])) sample_request =
       (NGX_OK, [(ascii ''Host'', ascii ''h'')])"
    by (simp_all add: sample_env_def sample_request_def)
  from request_headers_delivered [OF sample_vm_documented serving_host_simps(3,4) this(1,2) _ this(3) tk
      serving_host_simps(4)]
  show ?thesis by simp
qed

theorem request_without_host_undefined_witness:
  "proxy_get_header_map_pairs sample_env 0 400 404
     (serving_host\<lparr>h_requests := [7 \<mapsto> sample_request\<lparr>rq_host := None, rq_headers_in := []\<rparr>]\<rparr>) = None"
proof -
  let ?rq = "sample_request\<lparr>rq_host := None, rq_headers_in := []\<rparr>"
  let ?w = "serving_host\<lparr>h_requests := [7 \<mapsto> ?rq]\<rparr>"
  have "ngx_http_wasm_get_req ?w = Some (Some 7)"
    by (simp add: ngx_http_wasm_get_req_def cur_wasm_state_def serving_host_def sample_state_def)
  moreover have "rd (ascii '':authority'') 0 10 = Some (ascii '':authority'')"
    by (simp add: rd_def in_obj_def)
  ultimately show ?thesis
    using request_without_host_undefined [of ?w 7 ?rq sample_env "[]" "ascii '':authority''" 0 400 404]
      sample_strncasecmp by (simp add: sample_env_def)
qed

theorem response_headers_delivered_witness:
  "\<exists>w'. proxy_get_header_map_pairs sample_env 2 400 404 serving_host = Some (PROXY_RESULT_OK, w') \<and>
     map_delivered w' 400 404 (map_size (special_pairs sample_env sample_request) + 4)
       (special_pairs sample_env sample_request)"
proof -
  obtain w0 where w0: "resp_headers_alloc sample_env sample_request serving_host = (True, w0)"
    "h_mem w0 = h_mem serving_host" "h_cur_plugin w0 = h_cur_plugin serving_host"
    "h_requests w0 = h_requests serving_host"
    using sample_alloc_ok by blast
  have "resp_buffer sample_env sample_request \<le> 390" by code_simp
  note tk = serving_takes [OF _ _ this, of w0] 
  show ?thesis
    using response_headers_delivered [OF sample_vm_documented serving_host_simps(3,4) _ w0(1) tk] w0(2-4)
      serving_host_simps
    by (simp add: sample_request_def used_headers_def)
qed

theorem response_header_parts_lost_witness:
  "\<exists>w'. proxy_get_header_map_pairs sample_env 2 400 404 (serving_host\<lparr>h_requests := [7 \<mapsto> two_parts]\<rparr>) =
      Some (PROXY_RESULT_OK, w') \<and> length (resp_written sample_env two_parts) < resp_count sample_env two_parts"
proof -
  let ?w = "serving_host\<lparr>h_requests := [7 \<mapsto> two_parts]\<rparr>"
  obtain w0 where w0: "resp_headers_alloc sample_env two_parts ?w = (True, w0)"
    "h_mem w0 = h_mem ?w" "h_cur_plugin w0 = h_cur_plugin ?w" "h_requests w0 = h_requests ?w"
    using sample_alloc_ok by blast
  have "resp_buffer sample_env two_parts \<le> 390" by code_simp
  note tk = serving_takes [OF _ _ this, of w0]
  have "ngx_http_wasm_get_req ?w = Some (Some 7)"
    by (simp add: ngx_http_wasm_get_req_def cur_wasm_state_def serving_host_def sample_state_def)
  then show ?thesis
    using response_header_parts_lost [OF sample_vm_documented _ _ _ _ _ _ w0(1) tk, of 7
        "[[\<lparr>te_hash = 1, te_key = ascii ''A'', te_value = ascii ''1''\<rparr>]]"
        "[\<lparr>te_hash = 1, te_key = ascii ''B'', te_value = ascii ''2''\<rparr>]"] w0(2-4)
      serving_host_simps
    by (auto simp: two_parts_def used_headers_def)
qed

end
