(* ===== verification/Host_Frame.thy ===== *)
theory Host_Frame
  imports Host_Apis Api_Values
begin

text \<open>
  What no host function does: write a state record or the pointer to the current one, end a
  request, take a module context away or replace it. Both frames are instances of one
  contract, the locale \<open>host_frame\<close>: a relation that every change the host functions make
  respects is kept by every host function.
\<close>

section \<open>The contract\<close>

text \<open>
  The functions of nginx and lua-nginx-module that are given a request leave the slots of
  other modules in it alone: documented for modules of nginx (\<^verbatim>\<open>r->ctx\<close> is indexed by module).
\<close>

definition ffi_frame :: "env \<Rightarrow> bool" where
  "ffi_frame E \<longleftrightarrow>
     (\<forall>rq. rq_ctx (e_set_exten E rq) = rq_ctx rq) \<and>
     (\<forall>name hash rq. rq_ctx (snd (e_get_variable E name hash rq)) = rq_ctx rq) \<and>
     (\<forall>k is_nil v ov rq. rq_ctx (snd (e_set_resp_header E k is_nil v ov rq)) = rq_ctx rq) \<and>
     (\<forall>st rq. rq_ctx (snd (e_set_resp_status E st rq)) = rq_ctx rq) \<and>
     (\<forall>k v ov rq. rq_ctx (snd (e_set_req_header E k v ov rq)) = rq_ctx rq) \<and>
     (\<forall>k v len rq. rq_ctx (snd (snd (e_set_variable E k v len rq))) = rq_ctx rq)"

text \<open>
  \<open>rel w w'\<close> is what is kept from \<open>w\<close> to \<open>w'\<close>, \<open>admits rq rq'\<close> which changes of a request keep it.
\<close>

locale host_frame =
  fixes E :: env
    and rel :: "host \<Rightarrow> host \<Rightarrow> bool"
    and admits :: "request \<Rightarrow> request \<Rightarrow> bool"
  assumes rel_trans: "rel w w1 \<Longrightarrow> rel w1 w2 \<Longrightarrow> rel w w2"
    and rel_same: "h_states w' = h_states w \<Longrightarrow> h_cur_state w' = h_cur_state w \<Longrightarrow>
      h_requests w' = h_requests w \<Longrightarrow> rel w w'"
    and rel_request: "h_requests w r = Some rq \<Longrightarrow> admits rq rq' \<Longrightarrow>
      rel w (w\<lparr>h_requests := (h_requests w)(r \<mapsto> rq')\<rparr>)"
    and rel_invoke: "e_invoke E plugin name args hr w = (res, w') \<Longrightarrow> rel w w'"
    and ok_ctx: "keeps_ctx rq rq' \<Longrightarrow> admits rq rq'"
    and ok_path: "admits rq (set_path E v rq)"
    and ok_variable: "admits rq (snd (e_get_variable E k hash rq))"
      "admits rq (snd (snd (e_set_variable E k val len rq)))"
    and ok_headers: "admits rq (snd (e_set_req_header E k val ov rq))"
      "admits rq (snd (e_set_resp_header E k is_nil val ov rq))"
      "admits rq (snd (e_set_resp_status E code rq))"

text \<open>Computations whose result keeps the relation; the second kind is the body of a loop.\<close>

definition keeps_by :: "(host \<Rightarrow> host \<Rightarrow> bool) \<Rightarrow> host \<Rightarrow> ('a \<times> host) option \<Rightarrow> bool" where
  "keeps_by rel w res \<longleftrightarrow> (\<forall>x w'. res = Some (x, w') \<longrightarrow> rel w w')"

definition keeps_sum_by ::
  "(host \<Rightarrow> host \<Rightarrow> bool) \<Rightarrow> host \<Rightarrow> ('a \<times> host + 'b) option \<Rightarrow> ('b \<Rightarrow> host) \<Rightarrow> bool" where
  "keeps_sum_by rel w res h \<longleftrightarrow> (\<forall>r. res = Some r \<longrightarrow>
     (case r of Inl (x, w') \<Rightarrow> rel w w' | Inr y \<Rightarrow> rel w (h y)))"

lemmas constant_answers =
  proxy_set_effective_context_def proxy_get_current_time_nanoseconds_def
  proxy_set_tick_period_milliseconds_def proxy_continue_request_def proxy_continue_response_def
  proxy_clear_route_cache_def proxy_continue_stream_def proxy_close_stream_def proxy_done_def
  proxy_get_status_def proxy_set_buffer_bytes_def proxy_set_header_map_pairs_def
  proxy_get_shared_data_def proxy_set_shared_data_def proxy_register_shared_queue_def
  proxy_resolve_shared_queue_def proxy_dequeue_shared_queue_def proxy_enqueue_shared_queue_def
  proxy_grpc_call_def proxy_grpc_stream_def proxy_grpc_send_def proxy_grpc_cancel_def
  proxy_grpc_close_def proxy_call_foreign_function_def proxy_define_metric_def
  proxy_increment_metric_def proxy_record_metric_def proxy_get_metric_def

context host_frame
begin

abbreviation keeps where "keeps \<equiv> keeps_by rel"
abbreviation keeps_sum where "keeps_sum \<equiv> keeps_sum_by rel"

lemma rel_refl [simp]: "rel w w"
  by (rule rel_same) simp_all

lemma rel_upd [simp]:
  "rel w (w\<lparr>h_log := l\<rparr>)" "rel w (w\<lparr>h_body := b\<rparr>)" "rel w (w\<lparr>h_code := c\<rparr>)"
  "rel w (w\<lparr>h_code := c, h_body := b\<rparr>)" "rel w (w\<lparr>h_body := b, h_body_pool := q\<rparr>)"
  "rel w (w\<lparr>h_cur_callout_id := k\<rparr>)" "rel w (w\<lparr>h_allocs := n\<rparr>)"
  by (rule rel_same; simp)+

lemma guest_wr_same: "guest_wr w p bs = Some w' \<Longrightarrow> rel w w'"
  by (rule rel_same) (auto dest: guest_wr_frame)

lemma set_guest_mem_same: "set_guest_mem m w = Some w' \<Longrightarrow> rel w w'"
  by (rule rel_same) (auto simp: set_guest_mem_def bind_eq_Some_conv)

lemma upd_request_same:
  "upd_request r f w = Some w' \<Longrightarrow> (\<And>rq. admits rq (f rq)) \<Longrightarrow> rel w w'"
  by (auto simp: upd_request_def bind_eq_Some_conv intro: rel_request)

lemma upd_request_const:
  "upd_request r (\<lambda>_. rq') w = Some w' \<Longrightarrow> h_requests w r = Some rq \<Longrightarrow> admits rq rq' \<Longrightarrow> rel w w'"
  by (auto simp: upd_request_def bind_eq_Some_conv intro: rel_request)

lemma try_alloc_same: "try_alloc E sz w = (ok, w') \<Longrightarrow> rel w w'"
  by (auto simp: try_alloc_def)

lemma string_buf_same: "ngx_http_wasm_get_string_buf E sz w = (ok, w') \<Longrightarrow> rel w w'"
  by (auto simp: ngx_http_wasm_get_string_buf_def dest: try_alloc_same split: if_splits)

section \<open>Computations that keep the records\<close>

lemma keeps_base [simp]: "keeps w None" "keeps w (Some (x, w')) \<longleftrightarrow> rel w w'"
  by (simp_all add: keeps_by_def)

lemma keeps_from: "rel w w1 \<Longrightarrow> keeps w1 res \<Longrightarrow> keeps w res"
  by (auto simp: keeps_by_def intro: rel_trans)

lemma keeps_bind:
  assumes "keeps w res" "\<And>x w1. keeps w1 (f (x, w1))"
  shows "keeps w (res \<bind> f)"
  using assms by (cases res) (auto intro: keeps_from)

lemma keeps_bind_host:
  assumes "\<And>w1. res = Some w1 \<Longrightarrow> rel w w1" "\<And>w1. keeps w1 (f w1)"
  shows "keeps w (res \<bind> f)"
  using assms by (cases res) (auto intro: keeps_from)

lemma keeps_bind_pure:
  assumes "\<And>x. res = Some x \<Longrightarrow> keeps w (f x)"
  shows "keeps w (res \<bind> f)"
  using assms by (cases res) auto

lemma keeps_case:
  "keeps w a \<Longrightarrow> (\<And>x. keeps w (g x)) \<Longrightarrow> keeps w (case v of None \<Rightarrow> a | Some x \<Rightarrow> g x)"
  "keeps w a \<Longrightarrow> keeps w b \<Longrightarrow> keeps w (if c then a else b)"
  "(\<And>b w1. rel w w1 \<Longrightarrow> keeps w1 (h b w1)) \<Longrightarrow> keeps w (case try_alloc E sz w of (b, w1) \<Rightarrow> h b w1)"
  "(\<And>b w1. rel w w1 \<Longrightarrow> keeps w1 (h b w1)) \<Longrightarrow>
     keeps w (case ngx_http_wasm_get_string_buf E sz w of (b, w1) \<Rightarrow> h b w1)"
  "keeps w a \<Longrightarrow> keeps w b \<Longrightarrow> keeps w (case c of True \<Rightarrow> a | False \<Rightarrow> b)"
  "(\<And>x. keeps w (k x)) \<Longrightarrow> keeps w (Let y k)"
proof -
  show "keeps w (case v of None \<Rightarrow> a | Some x \<Rightarrow> g x)" if "keeps w a" "\<And>x. keeps w (g x)"
    using that by (cases v) auto
  show "keeps w (case try_alloc E sz w of (b, w1) \<Rightarrow> h b w1)" if "\<And>b w1. rel w w1 \<Longrightarrow> keeps w1 (h b w1)"
    by (cases "try_alloc E sz w") (use that try_alloc_same [of sz w] in \<open>force intro: keeps_from\<close>)
  show "keeps w (case ngx_http_wasm_get_string_buf E sz w of (b, w1) \<Rightarrow> h b w1)"
    if "\<And>b w1. rel w w1 \<Longrightarrow> keeps w1 (h b w1)"
    by (cases "ngx_http_wasm_get_string_buf E sz w") (use that string_buf_same [of sz w] in \<open>force intro: keeps_from\<close>)
  show "keeps w (case c of True \<Rightarrow> a | False \<Rightarrow> b)" if "keeps w a" "keeps w b"
    using that by (cases c) auto
qed auto

lemma keeps_pair:
  "(\<And>a b. keeps w (f a b)) \<Longrightarrow> keeps w (case p of (a, b) \<Rightarrow> f a b)"
  "(\<And>ok w'. p' = (ok, w') \<Longrightarrow> rel w w') \<Longrightarrow> (\<And>ok w'. keeps w' (g ok w')) \<Longrightarrow>
     keeps w (case p' of (ok, w') \<Rightarrow> g ok w')"
  by (cases p, simp, cases p', auto intro: keeps_from)

lemmas same_host = guest_wr_same set_guest_mem_same

lemmas keeps_steps = keeps_case keeps_bind_host keeps_bind keeps_bind_pure

section \<open>The functions\<close>

lemma vm_call_keeps: "keeps w (vm_call E pl name hr pt args w)"
proof -
  have sel: "rel w w'" if "select_plugin pl w = (p, w')" for p w'
    using that by (auto simp: select_plugin_def split: option.splits intro: rel_same)
  show ?thesis
    by (auto simp: vm_call_def ngx_wasm_wasmtime_call_def ngx_wasm_wasmedge_call_def keeps_by_def
        split: vm_kind.splits prod.splits option.splits if_splits invoke_result.splits wasm_val.splits
        dest!: rel_invoke sel intro: rel_trans)
qed

lemma alloc_keeps: "keeps w (proxy_wasm_memory_alloc E sz w)"
  unfolding proxy_wasm_memory_alloc_def
  by (auto intro!: keeps_bind vm_call_keeps simp: Let_def)

lemma copy_keeps: "keeps w (ngx_http_wasm_copy_to_wasm E d len addr size_addr w)"
  unfolding ngx_http_wasm_copy_to_wasm_def
  by (rule keeps_steps alloc_keeps same_host | assumption | simp split del: if_split)+

lemma get_buf_keeps: "keeps w (ngx_http_wasm_get_buf_to_write E len addr size_addr w)"
  unfolding ngx_http_wasm_get_buf_to_write_def
  by (rule keeps_steps alloc_keeps same_host | assumption | simp split del: if_split)+

lemma module_ctx_keeps: "keeps w (ngx_http_wasm_get_module_ctx E r w)"
proof (cases "h_requests w r")
  case (Some rq)
  show ?thesis
  proof (cases "rq_ctx rq")
    case None
    have "rel w (w\<lparr>h_allocs := n, h_requests := (h_requests w)(r \<mapsto> rq\<lparr>rq_ctx := Some c\<rparr>)\<rparr>)" for n c
      by (rule rel_trans [OF rel_upd(7)])
        (use Some None rel_request [of "w\<lparr>h_allocs := n\<rparr>" r rq "rq\<lparr>rq_ctx := Some c\<rparr>"] ok_ctx
          in \<open>simp add: keeps_ctx_def\<close>)
    then show ?thesis
      using Some None
      by (auto simp: ngx_http_wasm_get_module_ctx_def try_alloc_def upd_request_def Let_def split: bool.split)
  qed (use Some in \<open>simp add: ngx_http_wasm_get_module_ctx_def\<close>)
qed (simp add: ngx_http_wasm_get_module_ctx_def)


lemmas keeps_core = alloc_keeps copy_keeps get_buf_keeps

lemma must_get_keeps:
  "(\<And>r. keeps w (go r)) \<Longrightarrow> keeps w (must_get_req w go)"
  "(\<And>p. keeps w (mem p)) \<Longrightarrow> keeps w (must_get_memory E addr sz w mem)"
  unfolding must_get_req_def must_get_memory_def
  by (rule keeps_steps | assumption | simp split del: if_split)+

lemma ffi_keeps:
  "h_requests w r = Some rq0 \<Longrightarrow> admits rq0 (snd res) \<Longrightarrow>
     keeps w (case res of (rc, rq) \<Rightarrow> upd_request r (\<lambda>_. rq) w \<bind> (\<lambda>w. Some (ffi_rc rc, w)))"
  by (cases res) (auto intro!: keeps_bind_host dest: upd_request_const)

lemma set_header_keeps:
  "keeps w (ngx_http_wasm_set_req_header E r m key key_len val override w)"
  "keeps w (ngx_http_wasm_set_resp_header E r m key key_len is_nil val override w)"
proof -
  have name: "admits rq (rq\<lparr>rq_method_name := v\<rparr>)" for rq v by (rule ok_ctx) (simp add: keeps_ctx_def)
  have upd: "rel w w'"
    if "upd_request r (if ty = PseudoPath then set_path E v else (\<lambda>rq. rq\<lparr>rq_method_name := v\<rparr>)) w = Some w'"
    for w w' ty v
    by (rule upd_request_same [OF that]) (simp add: ok_path name)
  have pseudo: "keeps w (set_pseudo_req_header E r m ty v w)" for ty v w
    unfolding set_pseudo_req_header_def
    by (cases v) (rule keeps_steps upd | assumption | simp split del: if_split)+
  show "keeps w (ngx_http_wasm_set_req_header E r m key key_len val override w)"
    unfolding ngx_http_wasm_set_req_header_def
    by (rule keeps_steps pseudo ffi_keeps ok_headers | assumption | simp split del: if_split)+
  show "keeps w (ngx_http_wasm_set_resp_header E r m key key_len is_nil val override w)"
    unfolding ngx_http_wasm_set_resp_header_def Let_def
    by (rule keeps_steps ffi_keeps ok_headers | assumption | simp split del: if_split)+
qed

lemma proxy_values_keep:
  shows "keeps w (proxy_get_property E a b c d w)" "keeps w (proxy_set_property E a b c d w)"
    "keeps w (proxy_log E a b c w)" "keeps w (proxy_get_buffer_bytes E a b c d e w)"
    "keeps w (proxy_get_configuration E a b w)"
proof -
  note core = keeps_core module_ctx_keeps
  show "keeps w (proxy_get_configuration E a b w)"
    unfolding proxy_get_configuration_def
    by (rule keeps_steps core | assumption | simp split del: if_split)+
  show "keeps w (proxy_log E a b c w)"
    unfolding proxy_log_def
    by (rule must_get_keeps keeps_steps | assumption | simp split del: if_split)+
  have buf: "keeps w (copy_buffer E whole buffer a b c d w)" for whole buffer a b c d w
    unfolding copy_buffer_def
    by (rule keeps_steps core | assumption | simp split del: if_split)+
  show "keeps w (proxy_get_buffer_bytes E a b c d e w)"
    unfolding proxy_get_buffer_bytes_def
    by (rule must_get_keeps keeps_steps buf core | assumption | simp split del: if_split)+
  have var: "keeps w (case res of (vv, rq) \<Rightarrow> upd_request r (\<lambda>_. rq) w \<bind> (\<lambda>w. case vv of VarNull \<Rightarrow> None
      | VarNotFound \<Rightarrow> Some (PROXY_RESULT_NOT_FOUND, w)
      | VarValue v \<Rightarrow> ngx_http_wasm_copy_to_wasm E (Some v) (of_nat (length v)) c d w))"
    if "h_requests w r = Some rq0" "admits rq0 (snd res)" for res r w rq0
    using that by (cases res, cases "fst res") (auto intro!: keeps_bind_host core dest: upd_request_const)
  show "keeps w (proxy_get_property E a b c d w)"
    unfolding proxy_get_property_def Let_def
    by (rule must_get_keeps keeps_steps var ok_variable core | assumption | simp split del: if_split)+
  have set: "keeps w (case res of (result, errmsg, rq) \<Rightarrow> upd_request r (\<lambda>_. rq) w \<bind> (\<lambda>w.
      if result \<noteq> NGX_OK then if contains errmsg (ascii ''not found for writing'')
        then Some (PROXY_RESULT_NOT_FOUND, w) else Some (PROXY_RESULT_INTERNAL_FAILURE, w)
      else Some (PROXY_RESULT_OK, w)))"
    if "h_requests w r = Some rq0" "admits rq0 (snd (snd res))" for res r w rq0
    using that by (cases res) (auto intro!: keeps_bind_host dest: upd_request_const)
  show "keeps w (proxy_set_property E a b c d w)"
    unfolding proxy_set_property_def Let_def
    by (rule must_get_keeps keeps_steps set ok_variable | assumption | simp split del: if_split)+
qed

lemma header_maps_keep:
  shows "keeps w (proxy_get_header_map_pairs E a b c w)" "keeps w (proxy_get_header_map_value E a b c d e w)"
proof -
  note core = keeps_core module_ctx_keeps
  have al: "keeps w (case (if b then ngx_http_wasm_get_string_buf E n w else (True, w)) of (ok, w') \<Rightarrow> g ok w')"
    if "\<And>ok w'. keeps w' (g ok w')" for b n w and g :: "bool \<Rightarrow> host \<Rightarrow> (proxy_result \<times> host) option"
    by (rule keeps_pair(2) [OF _ that]) (auto dest: string_buf_same split: if_splits)
  have al2: "rel w w'" if "resp_headers_alloc E rq w = (ok, w')" for rq w ok w'
    using that by (auto simp: resp_headers_alloc_def Let_def dest!: try_alloc_same intro: rel_trans
        split: prod.splits if_splits)
  have "keeps w (ngx_http_wasm_req_get_headers E r b c w)" for r w
    unfolding ngx_http_wasm_req_get_headers_def Let_def
    by (simp only: prod.case | rule al keeps_steps core same_host keeps_pair(1) | assumption
        | simp split del: if_split)+
  moreover have "keeps w (ngx_http_wasm_resp_get_headers E r b c w)" for r w
    unfolding ngx_http_wasm_resp_get_headers_def Let_def
    by (simp only: prod.case | rule keeps_steps core same_host keeps_pair(2) [OF al2] keeps_pair(1) | assumption
        | simp split del: if_split)+
  moreover have "keeps w (ngx_http_wasm_http_call_resp_get_headers E r b c w)" for r w
    unfolding ngx_http_wasm_http_call_resp_get_headers_def Let_def
    by (simp only: prod.case | rule keeps_steps core same_host keeps_pair(1) | assumption | simp split del: if_split)+
  ultimately show "keeps w (proxy_get_header_map_pairs E a b c w)"
    unfolding proxy_get_header_map_pairs_def
    by (intro must_get_keeps keeps_case(2)) simp_all
  have val: "keeps w (copy_value E v d e w)" for v w
    unfolding copy_value_def
    by (rule keeps_steps core | assumption | simp split del: if_split)+
  have "keeps w (ngx_http_wasm_req_get_header E r k c d e w)" for r k w
    unfolding ngx_http_wasm_req_get_header_def
    by (rule keeps_steps val | assumption | simp split del: if_split)+
  moreover have "keeps w (ngx_http_wasm_resp_get_header E r k c d e w)" for r k w
    unfolding ngx_http_wasm_resp_get_header_def
    by (rule keeps_steps val keeps_pair(1) | assumption | simp split del: if_split)+
  moreover have "keeps w (ngx_http_wasm_http_call_resp_get_header E r k c d e w)" for r k w
    unfolding ngx_http_wasm_http_call_resp_get_header_def Let_def
    by (simp only: prod.case | rule keeps_steps val core keeps_pair(1) | assumption | simp split del: if_split)+
  ultimately show "keeps w (proxy_get_header_map_value E a b c d e w)"
    unfolding proxy_get_header_map_value_def
    by (intro must_get_keeps keeps_bind_pure keeps_case(2)) simp_all
qed

lemma header_changes_keep:
  "keeps w (proxy_remove_header_map_value E a b c w)" "keeps w (set_header_map_value E ov a b c d e w)"
proof -
  have res: "keeps w (header_result r)" if "keeps w r" for w r
    using that unfolding header_result_def by (cases r) auto
  show "keeps w (proxy_remove_header_map_value E a b c w)"
    unfolding proxy_remove_header_map_value_def
    by (rule must_get_keeps keeps_steps res set_header_keeps | assumption | simp split del: if_split)+
  show "keeps w (set_header_map_value E ov a b c d e w)"
    unfolding set_header_map_value_def
    by (rule must_get_keeps keeps_steps res set_header_keeps | assumption | simp split del: if_split)+
qed

text \<open>The loop over the headers of a local response: the host is the state of the loop.\<close>

lemma keeps_sum_bind:
  assumes "keeps_sum w res h" "\<And>y. keeps (h y) (f y)"
  shows "keeps w (res \<bind> (\<lambda>r. case r of Inl (x, w') \<Rightarrow> Some (x, w') | Inr y \<Rightarrow> f y))"
proof (cases res)
  case (Some r)
  with assms show ?thesis by (cases r) (auto simp: keeps_sum_by_def intro: keeps_from)
qed simp

lemma map_loop_keeps:
  assumes "\<And>k kl v vl w. keeps_sum w (body k kl v vl w) (\<lambda>w. w)"
  shows "keeps_sum w (map_loop m body it w) (\<lambda>w. w)"
  using assms
proof (induction m body it w rule: map_loop.induct)
  case (1 m body it w)
  show ?case
  proof (cases "proxy_wasm_map_next m it")
    case None
    then show ?thesis by (simp add: map_loop.simps keeps_sum_by_def)
  next
    case (Some nx)
    show ?thesis
    proof (cases nx)
      case None
      with Some show ?thesis by (simp add: map_loop.simps keeps_sum_by_def)
    next
      case next_there: (Some e)
      obtain k kl v vl it' where e: "e = (k, kl, v, vl, it')" by (cases e)
      have b: "keeps_sum w (body k kl v vl w) (\<lambda>w. w)" by (rule "1.prems")
      show ?thesis
      proof (cases "body k kl v vl w")
        case None
        with Some next_there e show ?thesis by (simp add: map_loop.simps keeps_sum_by_def)
      next
        case body: (Some r)
        show ?thesis
        proof (cases r)
          case (Inl x)
          with Some next_there e body b show ?thesis by (simp add: map_loop.simps keeps_sum_by_def)
        next
          case (Inr w1)
          then have "rel w w1" using b body by (simp add: keeps_sum_by_def)
          moreover have "keeps_sum w1 (map_loop m body it' w1) (\<lambda>w. w)"
            using 1 Some next_there e body Inr by blast
          ultimately show ?thesis
            using Some next_there e body Inr
            by (auto simp: map_loop.simps keeps_sum_by_def split: sum.splits intro: rel_trans)
        qed
      qed
    qed
  qed
qed

lemma local_response_keeps: "keeps w (proxy_send_local_response E a b c d e f g h w)"
proof -
  have one: "keeps_sum w (local_resp_header E r m k kl v vl w) (\<lambda>w. w)" for r m k kl v vl w
    using set_header_keeps(2) [of w r m k "size_of_i32 kl" False "Some (v, size_of_i32 vl)" False]
    by (auto simp: local_resp_header_def keeps_sum_by_def keeps_by_def bind_eq_Some_conv split: if_splits)
  have hs: "keeps_sum w (local_resp_headers E r f g w) (\<lambda>w. w)" for r w
    using map_loop_keeps [OF one]
    by (auto simp: local_resp_headers_def keeps_sum_by_def bind_eq_Some_conv split: if_splits option.splits)
  have body: "keeps w (local_resp_body E r d e w)" for r w
    unfolding local_resp_body_def
    by (rule must_get_keeps keeps_steps | assumption | simp split del: if_split)+
  have all: "keeps w (local_resp_headers E r f g w1 \<bind>
      (\<lambda>res. case res of Inl (rc, w) \<Rightarrow> Some (rc, w) | Inr w \<Rightarrow> local_resp_body E r d e w))"
    if "rel w w1" for r w1
    by (rule keeps_from [OF that], rule keeps_sum_bind [OF hs], rule body)
  show ?thesis
    unfolding proxy_send_local_response_def Let_def
    by (intro must_get_keeps(1) keeps_bind_pure [where res = "h_requests _ _"]) (rule all [OF rel_upd(4)])
qed

lemma http_call_keeps: "keeps w (proxy_http_call E a b c d e f g h i j w)"
proof -
  have str: "keeps w (ngx_http_wasm_copy_as_str E p n w)" for p n w
    unfolding ngx_http_wasm_copy_as_str_def
    by (rule keeps_steps | assumption | simp split del: if_split)+
  have hs: "keeps_sum w (call_copy_headers E c d w) snd" for w
    by (auto simp: call_copy_headers_def keeps_sum_by_def bind_eq_Some_conv try_alloc_def
        split: if_splits option.splits bool.splits)
  have body: "keeps_sum w (call_copy_body E e f w) snd" for w
    using str by (fastforce simp: call_copy_body_def keeps_sum_by_def keeps_by_def bind_eq_Some_conv
        split: if_splits option.splits)
  have reg: "rel w w'" if reg: "ngx_http_wasm_call_register E r up m bo t w = Some (rc, cid, w')"
    for r up m bo t w rc cid w'
  proof -
    obtain ctx w1 where g: "ngx_http_wasm_get_module_ctx E r w = Some (Some ctx, w1)"
      using reg by (auto simp: ngx_http_wasm_call_register_def bind_eq_Some_conv)
    obtain rq where rq: "h_requests w1 r = Some rq" "rq_ctx rq = Some ctx" using get_module_ctx_result [OF g] by auto
    have W: "rel w w1" using module_ctx_keeps g by (auto simp: keeps_by_def)
    have set: "rel w1 (w1\<lparr>h_requests := (h_requests w1)(r \<mapsto> rq\<lparr>rq_ctx := Some c\<rparr>)\<rparr>)"
      if "wc_addr c = wc_addr ctx" for c
      using rq that by (intro rel_request ok_ctx) (auto simp: keeps_ctx_def)
    have same: "rel w1 (w1\<lparr>h_allocs := n, h_requests := rs, h_cur_callout_id := i\<rparr>)"
      if "rel w1 (w1\<lparr>h_requests := rs\<rparr>)" for rs n i
      by (rule rel_trans [OF that], rule rel_same) simp_all
    have "rel w1 w'"
      using reg g rq
      by (auto simp: ngx_http_wasm_call_register_def try_alloc_def Let_def set_wasm_ctx_def upd_request_def
          split: if_splits bool.splits intro!: same set)
    with W show ?thesis by (rule rel_trans)
  qed
  have bind3: "keeps w (res \<bind> f)" if "\<And>rc cid w'. res = Some (rc, cid, w') \<Longrightarrow> rel w w'"
    "\<And>rc cid w'. keeps w' (f (rc, cid, w'))"
    for w and res :: "(int \<times> i32 option \<times> host) option" and f :: "_ \<Rightarrow> (proxy_result \<times> host) option"
    using that by (cases res) (auto intro: keeps_from)
  have store: "keeps w (call_register_and_store E r up m bo i j w)" for r up m bo w
    unfolding call_register_and_store_def
    by (simp only: prod.case | rule bind3 [OF reg] must_get_keeps keeps_steps same_host | assumption | simp split del: if_split)+
  have tail: "keeps w (call_copy_body E e f w \<bind> (\<lambda>res. case res of Inl (rc, w) \<Rightarrow> Some (rc, w)
      | Inr y \<Rightarrow> (case y of (body, w) \<Rightarrow> call_register_and_store E r up m body i j w)))" for r up m w
    by (rule keeps_sum_bind [OF body]) (simp add: split_beta store)
  have all: "keeps w (call_copy_headers E c d w \<bind> (\<lambda>res. case res of Inl (rc, w) \<Rightarrow> Some (rc, w)
      | Inr y \<Rightarrow> (case y of (hs, w) \<Rightarrow> call_copy_body E e f w \<bind> (\<lambda>res. case res of Inl (rc, w) \<Rightarrow> Some (rc, w)
          | Inr y \<Rightarrow> (case y of (body, w) \<Rightarrow> call_register_and_store E r up hs body i j w)))))" for r up w
    by (rule keeps_sum_bind [OF hs]) (simp only: split_beta tail [unfolded split_beta])
  show ?thesis
    unfolding proxy_http_call_def
    by (simp only: prod.case | rule must_get_keeps keeps_case all keeps_bind [OF str] keeps_bind_pure | assumption
        | simp split del: if_split)+
qed

section \<open>Every host function\<close>

lemma header_change_fns_keep:
  "keeps w (proxy_replace_header_map_value E a b c d e w)" "keeps w (proxy_add_header_map_value E a b c d e w)"
  "keeps w (proxy_send_http_response E a b c d e f g h w)"
  by (simp_all add: proxy_replace_header_map_value_def proxy_add_header_map_value_def header_changes_keep
      proxy_send_http_response_def local_response_keeps)

lemma host_fn_keeps:
  shows "keeps w (host_fn E name ps w)"
proof (cases ps)
  case (Word_Long a b)
  then show ?thesis by (simp add: host_fn_def constant_answers)
next
  case (Words as)
  have list: "keeps w (case xs of [] \<Rightarrow> n | x # ys \<Rightarrow> c x ys)" if "keeps w n" "\<And>x ys. keeps w (c x ys)"
    for xs :: "i32 list" and n :: "(proxy_result \<times> host) option" and c
    using that by (cases xs) auto
  show ?thesis
    unfolding host_fn_def Words host_args.case constant_answers
    by (rule list keeps_case(2) keeps_base(1) proxy_values_keep header_maps_keep
        header_changes_keep(1) header_change_fns_keep local_response_keeps http_call_keeps
        keeps_base(2) [THEN iffD2] rel_refl)+
qed

end

interpretation states: host_frame E "\<lambda>w w'. guest_frame E \<longrightarrow> same_states w w'" "\<lambda>_ _. True" for E
proof unfold_locales
  fix plugin name args hr w res w'
  assume "e_invoke E plugin name args hr w = (res, w')"
  then show "guest_frame E \<longrightarrow> same_states w w'"
    unfolding guest_frame_def same_states_def by (metis (mono_tags, lifting) case_prod_conv)
qed (auto simp: same_states_def)

interpretation ctxs: host_frame E "\<lambda>w w'. ctx_frame E \<and> ffi_frame E \<longrightarrow> keeps_ctxs w w'"
  "\<lambda>rq rq'. ffi_frame E \<longrightarrow> keeps_ctx rq rq'" for E
proof unfold_locales
  fix plugin name args hr w res w'
  assume "e_invoke E plugin name args hr w = (res, w')"
  then show "ctx_frame E \<and> ffi_frame E \<longrightarrow> keeps_ctxs w w'"
    unfolding ctx_frame_def by (metis snd_conv)
next
  fix w :: host and r rq rq'
  assume "h_requests w r = Some rq" "ffi_frame E \<longrightarrow> keeps_ctx rq rq'"
  then show "ctx_frame E \<and> ffi_frame E \<longrightarrow> keeps_ctxs w (w\<lparr>h_requests := (h_requests w)(r \<mapsto> rq')\<rparr>)"
    by (auto intro: keeps_ctxs_request)
qed (auto simp: ffi_frame_def keeps_ctx_def set_path_def request_ctx_def intro: keeps_ctxs_trans keeps_ctxs_refl)

section \<open>The tables\<close>

lemma api_tables:
  "wasmtime_callbacks = api_prototypes" "wasmtime_host_apis = api_prototypes"
  "wasmedge_callbacks = api_prototypes" "wasmedge_host_apis = api_prototypes"
  unfolding wasmtime_callbacks_def wasmtime_host_apis_def wasmedge_callbacks_def wasmedge_host_apis_def
    api_prototypes_def by (rule refl)+

lemma tables_of: "host_apis E = api_prototypes" "callbacks E = api_prototypes"
  by (simp_all add: host_apis_def callbacks_def api_tables split: vm_kind.split)

lemma distinct_prototypes: "distinct (map fst api_prototypes)"
  by code_simp

lemma prototype_bound: "\<forall>(name, shape) \<in> set api_prototypes. length (param_type shape) \<le> MAX_WASM_API_ARG"
  by code_simp

lemma host_call_shape:
  assumes "(name, shape) \<in> set api_prototypes"
  shows "host_call E name args w = api_callback E name shape args w"
proof -
  have "map_of api_prototypes name = Some shape"
    using assms distinct_prototypes by (simp add: map_of_eq_Some_iff)
  then show ?thesis by (simp add: host_call_def tables_of)
qed

lemma get_i32s_typed:
  assumes "list_all2 has_type args (replicate n WASM_I32)"
  shows "k \<le> n \<Longrightarrow> \<exists>ps. get_i32s args k = Some ps \<and> length ps = k \<and> map I32 ps = take k args"
proof (induction k)
  case (Suc k)
  then obtain ps where ps: "get_i32s args k = Some ps" "length ps = k" "map I32 ps = take k args" by auto
  have k: "k < length args" "has_type (args ! k) WASM_I32"
    using assms Suc.prems by (auto simp: list_all2_conv_all_nth)
  then obtain x where x: "args ! k = I32 x" by (cases "args ! k") auto
  with k ps show ?case by (simp add: get_i32_def take_Suc_conv_app_nth)
qed simp

text \<open>The parameters that a callback reads from well-typed values are all of them, in order.\<close>

fun args_of :: "host_args \<Rightarrow> wasm_val list" where
  "args_of (Words ps) = map I32 ps"
| "args_of (Word_Long a b) = [I32 a, I64 b]"

lemma arg_check_typed:
  assumes "list_all2 has_type args (param_type shape)"
  shows "\<exists>ps. arg_check shape args = Some ps \<and> args_of ps = args"
proof (cases shape)
  case ARG_VOID
  then show ?thesis using assms by simp
next
  case (ARG_I32 n)
  with get_i32s_typed [of args n n] assms show ?thesis by (auto simp: list_all2_lengthD)
next
  case ARG_I32_I64
  then obtain x y where "args = [x, y]" "has_type x WASM_I32" "has_type y WASM_I64"
    using assms by (auto simp: list_all2_Cons2)
  then show ?thesis using ARG_I32_I64
    by (cases x; cases y) (auto simp: get_i32_def get_i64_def)
qed

section \<open>Properties\<close>

text \<open>
  C13. The tables of ngx_http_wasm_api_wasmtime.h and ngx_http_wasm_api_wasmedge.h: both
  runtimes register the same 41 names, all different, with the parameter types of their C
  prototypes and at most \<^verbatim>\<open>MAX_WASM_API_ARG\<close> of them. A call with values of the registered types
  reaches the function of that name with exactly these values: no callback reads a value that
  is missing or of another type.
\<close>

theorem host_call_typed:
  assumes "(name, shape) \<in> set (host_apis E)" "list_all2 has_type args (param_type shape)"
  shows "length (host_apis E) = 41 \<and> distinct (map fst (host_apis E)) \<and>
    (name, shape) \<in> set api_prototypes \<and> length (param_type shape) \<le> MAX_WASM_API_ARG \<and>
    (\<exists>ps. args_of ps = args \<and>
       host_call E name args w = do { (rc, w) \<leftarrow> host_fn E name ps w; Some ([I32 (result_code rc)], w) })"
proof -
  have p: "(name, shape) \<in> set api_prototypes" using assms(1) by (simp add: tables_of)
  from arg_check_typed [OF assms(2)] obtain ps where ps: "arg_check shape args = Some ps" "args_of ps = args" by blast
  have "host_call E name args w = do { (rc, w) \<leftarrow> host_fn E name ps w; Some ([I32 (result_code rc)], w) }"
    using ps(1) by (simp add: host_call_shape [OF p] api_callback_def)
  moreover have "length api_prototypes = 41" by code_simp
  ultimately show ?thesis
    using p ps(2) distinct_prototypes prototype_bound by (auto simp: tables_of)
qed

text \<open>
  C22. No host function writes a state record, moves the pointer to the current one or ends a
  request: whatever a guest calls, with whatever values, the frame that the module relies on
  while guest code runs is kept, given that it is kept by the guest code a host function calls
  back (the allocator of the plugin).
\<close>

theorem host_call_keeps_frame:
  assumes "guest_frame E" "host_call E name args w = Some (res, w')"
  shows "h_states w' = h_states w \<and> h_cur_state w' = h_cur_state w \<and>
    dom (h_requests w') = dom (h_requests w)"
proof -
  from assms(2) obtain ps rc where "host_fn E name ps w = Some (rc, w')"
    by (auto simp: host_call_def api_callback_def bind_eq_Some_conv)
  with states.host_fn_keeps [where E = E and w = w] assms(1) show ?thesis by (simp add: keeps_by_def same_states_def)
qed

text \<open>
  C23. No host function takes the module context of a request away or puts another in its
  place, so a hook finds after a guest call the context (and its array of HTTP contexts) it had
  before. Assumed is the same of the guest code a host function calls back, and that the
  functions of nginx and lua-nginx-module leave the slots of other modules in a request alone.
\<close>

theorem host_call_keeps_module_ctx:
  assumes "ctx_frame E" "ffi_frame E" "host_call E name args w = Some (res, w')"
    and "request_ctx r w = Some c"
  shows "\<exists>c'. request_ctx r w' = Some c' \<and> wc_addr c' = wc_addr c"
proof -
  from assms(3) obtain ps rc where "host_fn E name ps w = Some (rc, w')"
    by (auto simp: host_call_def api_callback_def bind_eq_Some_conv)
  with ctxs.host_fn_keeps [where E = E and w = w] assms(1,2) have "keeps_ctxs w w'" by (simp add: keeps_by_def)
  with assms(4) show ?thesis by (simp add: keeps_ctxs_def)
qed

section \<open>Witnesses\<close>

theorem host_call_typed_witness:
  "\<exists>ps. args_of ps = [I32 2, I32 0, I32 4] \<and>
     host_call sample_env ''proxy_log'' [I32 2, I32 0, I32 4] serving_host =
       do { (rc, w) \<leftarrow> host_fn sample_env ''proxy_log'' ps serving_host; Some ([I32 (result_code rc)], w) }"
proof -
  have "(''proxy_log'', ARG_I32 3) \<in> set (host_apis sample_env)" by code_simp
  from host_call_typed [OF this, of "[I32 2, I32 0, I32 4]"] show ?thesis by (simp add: eval_nat_numeral)
qed

text \<open>The plugin logs one byte, the first of its string at 408.\<close>

lemma sample_log_call:
  "\<exists>res w'. host_call sample_env ''proxy_log'' [I32 2, I32 408, I32 1] (serving_with [65]) = Some (res, w')"
proof -
  let ?w = "serving_with [65]"
  have str: "guest_str ?w 408 1 [65]" using serving_with_str [of "[65]"] by simp
  have "(''proxy_log'', ARG_I32 3) \<in> set api_prototypes" by code_simp
  from host_call_shape [OF this] show ?thesis
    using guest_strD(1,2) [OF str] serving_with_simps(5) [of "[65]"]
    by (simp add: api_callback_def numeral_eq_Suc get_i32_def host_fn_def proxy_log_def
        must_get_str [OF sample_vm_documented str, simplified])
qed

theorem host_call_keeps_frame_witness:
  "\<exists>res w'. host_call sample_env ''proxy_log'' [I32 2, I32 408, I32 1] (serving_with [65]) = Some (res, w') \<and>
     h_cur_state w' = Some 4"
proof -
  obtain res w' where r: "host_call sample_env ''proxy_log'' [I32 2, I32 408, I32 1] (serving_with [65]) = Some (res, w')"
    using sample_log_call by blast
  have "guest_frame sample_env" by (simp add: guest_frame_def sample_env_def)
  from host_call_keeps_frame [OF this r] have "h_cur_state w' = Some 4"
    by (simp add: serving_with_def serving_host_def)
  with r show ?thesis by blast
qed

theorem host_call_keeps_module_ctx_witness:
  "\<exists>res w' c. host_call sample_env ''proxy_log'' [I32 2, I32 408, I32 1] (serving_with [65]) = Some (res, w') \<and>
     request_ctx 7 w' = Some c \<and> wc_addr c = 0"
proof -
  obtain res w' where r: "host_call sample_env ''proxy_log'' [I32 2, I32 408, I32 1] (serving_with [65]) = Some (res, w')"
    using sample_log_call by blast
  have E: "ctx_frame sample_env" "ffi_frame sample_env"
    by (simp_all add: ctx_frame_def ffi_frame_def sample_env_def keeps_ctxs_def)
  have "request_ctx 7 (serving_with [65]) = Some wasm_ctx_zero"
    using serving_with_simps(4) [of "[65]"] by (simp add: request_ctx_def sample_request_def)
  from host_call_keeps_module_ctx [OF E r this] r show ?thesis by (auto simp: wasm_ctx_zero_def)
qed

end
