(* ===== verification/Spec2Isabelle.thy ===== *)
theory Spec2Isabelle
  imports Runtimes Draining Hook_Outcomes Header_Maps Host_Frame
begin

text \<open>
  A model of wasm-nginx-module, the C code under src/ that runs proxy-wasm plugins in nginx,
  and the theorems that make it correct.

  \<^bold>\<open>The program.\<close> The Lua library lib/resty/proxy-wasm.lua calls the entry points of
  src/http/ngx_http_wasm_module.c: it loads a plugin (a VM instance with guest code), configures
  plugin contexts on it, and runs the hooks of a request in a plugin context, which creates an
  HTTP context for the pair. The module calls the guest through the VM interface of src/vm/vm.h,
  which wasmtime.c and wasmedge.c implement. The guest calls back into the functions of
  src/http/ngx_http_wasm_api.c, which find the request through the current state record
  (ngx_http_wasm_state.c), read and write the linear memory of the guest through
  \<^verbatim>\<open>get_memory\<close>, pass header lists in the map format of src/proxy_wasm/proxy_wasm_map.c, leave a
  local response in the main configuration, and register an HTTP call with the request
  (ngx_http_wasm_call.c). What a hook returns tells the Lua library what to do next.

  \<^bold>\<open>Theories and code.\<close>
  \<^item> Wasm_Prelude: C objects as byte lists with checked reads and writes, 32-bit little-endian
    words, the conversions of \<^verbatim>\<open>int32_t\<close> to \<^verbatim>\<open>size_t\<close>, result codes.
  \<^item> Host_State: the records of the host (request, module context, state record, the static
    variables and the main configuration) and \<open>env\<close>, the parameters of the model: guest code,
    the functions of nginx, lua-nginx-module and wasmedge, and which allocations fail.
    Sample_Env: a concrete one, for the witnesses.
  \<^item> VM: vm.c and \<^verbatim>\<open>call\<close>, \<^verbatim>\<open>has\<close>, \<^verbatim>\<open>get_memory\<close> of both runtimes; the contract of \<^verbatim>\<open>get_memory\<close>
    as the locale \<open>vm_memory\<close>; proxy_wasm_memory.c. VM_Load: \<^verbatim>\<open>load\<close> and \<^verbatim>\<open>unload\<close> of both
    runtimes, on the multiset of held objects, with the contract \<open>vm_loader\<close>. Runtimes: that
    the runtimes agree.
  \<^item> Proxy_Map: proxy_wasm_map.c, with the locale \<open>map_writer\<close> for its two writers.
  \<^item> Wasm_State: ngx_http_wasm_state.c and \<^verbatim>\<open>ngx_http_wasm_get_module_ctx\<close>, with the locale
    \<open>state_cell\<close>; the frame of the module contexts (\<open>ctx_frame\<close>).
  \<^item> Contexts, Contexts_Inv, Contexts_Ops, Module_Steps, Draining: the plugins, plugin contexts
    and HTTP contexts of ngx_http_wasm_module.c as heaps and queues; the invariant; that every
    operation is defined and keeps it; the step relation of all calls, its reachable states, and
    what holds in them; the end of a plugin.
  \<^item> Pseudo_Headers, Api_Base, Api_Headers, Api, Api_Calls: ngx_http_wasm_api.c, function by
    function. Guest_Copy, Header_Maps, Api_Values, Api_Changes, Api_Actions: what these
    functions do, stated on byte strings and lists of headers. Callout: ngx_http_wasm_call.c.
  \<^item> Host_Apis, Host_Frame: the generated headers ngx_http_wasm_api_def.h,
    ngx_http_wasm_api_wasmtime.h and ngx_http_wasm_api_wasmedge.h (argument checks, callbacks,
    tables); typing of a call of the guest, and what no host function changes, proved once in the
    locale \<open>host_frame\<close> for the state records and for the module contexts.
  \<^item> Dispatch, Hook_Outcomes: the configuration of the module, the hooks of a request and of the
    response of an HTTP call (\<^verbatim>\<open>ngx_http_wasm_on_http\<close>, \<^verbatim>\<open>ngx_http_wasm_on_http_call_resp\<close>), and
    the module, the host functions and the guest together.

  \<^bold>\<open>What the theorems show.\<close> Memory: in every reachable state loading, unloading,
  configuring and deleting, and the fetch and the clean-up of HTTP contexts are defined (no freed
  plugin, plugin context or HTTP context struct is followed, no element is removed from a queue it is
  not in, no unloaded instance is called) and the invariant of the heaps holds; hooks of a context whose
  state record is there return, with no current record, and with the response code reset unless they are
  declined; an unloaded plugin is freed with its instance. State records are not part of this: one
  theorem shows how the current one comes to dangle. Data: header maps are read back as they were
  written, and the guest gets the headers of the request or response; buffers, properties, header
  changes, local responses and HTTP calls do what their byte-level specification says. Runtimes: load
  frees what it acquired on every failure path but one of wasmedge, both runtimes link the same
  functions with the same types, and agree on calls, lookups and addresses. Defects: where the code does
  not keep such a promise, a theorem says exactly when and what happens instead.

  \<^bold>\<open>Conventions.\<close> A function of the code is a HOL function on explicit state; the
  outer \<open>None\<close> is undefined behaviour (a NULL or freed pointer, a range outside its object,
  an uninitialised field), so a theorem that a result is \<open>Some\<close> shows that there is none.
  NULL results are an inner \<open>option\<close>, error codes are values. The build is a 64-bit
  little-endian one: \<^verbatim>\<open>int32_t\<close> is a 32-bit word whose sums wrap, converted to
  \<^verbatim>\<open>size_t\<close> by sign extension. Structs live in heaps, maps from addresses;
  queues are lists from the head; the array \<^verbatim>\<open>http_ctxs\<close> of a module context is
  kept in \<open>m_req_ctxs\<close> under the address of the context, which the clean-up handler of the
  request's pool is registered with. The body of a local response is in the pool of a request
  (\<open>h_body_pool\<close>) and dangles when that is gone. A pointer into the linear memory is its
  offset (an integer, negative before the memory). Recursion is structural or, for the loop over a map,
  ends because every round reads behind the one before in a finite memory (Proxy_Map shows how many
  rounds there are); there is no fuel.

  \<^bold>\<open>Parameters and hypotheses.\<close> Guest code is an arbitrary function on the host
  state; the hypotheses about it are that hooks are exported as functions (\<open>hook_exports\<close>),
  that it leaves the state records and the module contexts of requests in place
  (\<open>guest_frame\<close>, \<open>ctx_frame\<close>), and that the one unchecked
  \<^verbatim>\<open>ngx_array_push\<close> succeeds (\<open>env_ok\<close>). Host_Frame proves both
  frames of every host function the guest can call, given the same of the plugin's allocator and, for
  \<open>ctx_frame\<close>, that nginx and lua-nginx-module leave the slots of other modules in a
  request alone (\<open>ffi_frame\<close>). Guest code is total: what happens when it calls a host
  function in one of the cases shown to be undefined is outside the theorems about hooks. A third-party
  function that is given a pointer and a length outside the object counts as undefined.
  \<open>vm_documented\<close> and \<open>strncasecmp_documented\<close> state what the documentation of
  wasmedge and nginx promises.

  \<^bold>\<open>Not modelled.\<close> Logging, except the messages of \<^verbatim>\<open>proxy_log\<close>; the nginx module structures and
  the clean-up handlers of the runtimes, which only log; trailers and gRPC, which the code does
  not implement (their functions are modelled as the constant answers they are). A nested use of
  the static string buffer of ngx_http_wasm_api.c is not modelled: its contents are taken as
  those of the last use. The Lua library, the generator of the headers, the tests with their
  guest programs, and the build scripts are in other languages or glue; the order of calls the
  Lua library respects is the step relation of Module_Steps.
\<close>

end
